(* ===== verification/Prelude.thy ===== *)
theory Prelude
  imports Complex_Main "HOL-Library.Word" "HOL-Library.Product_Lexorder" "HOL-Library.Countable"
begin

text \<open>
  Shared vocabulary of the CarFlow model: Python exceptions as values of a sum type with a
  sequencing combinator, JSON values and the dictionary accesses the services make on them,
  relational tables as lists of rows with lookup and update by primary key, the Postgres
  column ranges, and what an operation reads from its environment (the values its successive
  \<^verbatim>\<open>uuid.uuid4()\<close> calls return, the clock, the current trace context).
  The lemmas are the generic facts the component theories share; those about successful
  sequencing are collected in \<open>result_simps\<close>, those about tables in \<open>table_simps\<close>.
\<close>

named_theorems result_simps
named_theorems table_simps

section \<open>Exceptions as values\<close>

text \<open>
  The built-in and library exceptions the modelled code can raise.  Each service adds its own
  exception classes in a datatype of its own that embeds these.
\<close>

datatype py_exn =
    KeyError string
  | TypeError
  | ValueError
  | AttributeError
  | IndexError
  | IntegrityError
  | DataError
  | NoResultFound
  | HTTPException int string

definition bindE :: "'e + 'a \<Rightarrow> ('a \<Rightarrow> 'e + 'b) \<Rightarrow> 'e + 'b" where
  "bindE m f = (case m of Inl e \<Rightarrow> Inl e | Inr x \<Rightarrow> f x)"

definition requireE :: "bool \<Rightarrow> 'e \<Rightarrow> 'e + unit" where
  "requireE p e = (if p then Inr () else Inl e)"

definition mapErr :: "('e \<Rightarrow> 'f) \<Rightarrow> 'e + 'a \<Rightarrow> 'f + 'a" where
  "mapErr h m = (case m of Inl e \<Rightarrow> Inl (h e) | Inr x \<Rightarrow> Inr x)"

lemma bindE_simps [simp]:
  "bindE (Inl e) f = Inl e" "bindE (Inr x) f = f x"
  by (simp_all add: bindE_def)

lemma requireE_simps [simp]:
  "requireE True e = Inr ()" "requireE False e = Inl e"
  by (simp_all add: requireE_def)

lemma mapErr_simps [simp]:
  "mapErr h (Inl e) = Inl (h e)" "mapErr h (Inr x) = Inr x"
  by (simp_all add: mapErr_def)

lemma bindE_eq_Inr [result_simps]:
  "bindE m f = Inr y \<longleftrightarrow> (\<exists>x. m = Inr x \<and> f x = Inr y)"
  by (cases m) auto

lemma bindE_eq_Inl [result_simps]:
  "bindE m f = Inl e \<longleftrightarrow> m = Inl e \<or> (\<exists>x. m = Inr x \<and> f x = Inl e)"
  by (cases m) auto

lemma requireE_eq_Inr [result_simps]: "requireE p e = Inr u \<longleftrightarrow> p"
  by (cases p) auto

lemma requireE_eq_Inl [result_simps]: "requireE p e = Inl e' \<longleftrightarrow> \<not> p \<and> e' = e"
  by (cases p) auto

lemma mapErr_eq_Inr [result_simps]: "mapErr h m = Inr x \<longleftrightarrow> m = Inr x"
  by (cases m) auto

lemma mapErr_eq_Inl [result_simps]: "mapErr h m = Inl f \<longleftrightarrow> (\<exists>e. m = Inl e \<and> f = h e)"
  by (cases m) auto

section \<open>JSON values and dictionaries\<close>

text \<open>
  A Python float is a dyadic rational, an infinity or a NaN.  The modelled code copies floats
  and compares them with constants; it does no arithmetic on them.
\<close>

datatype pyfloat = Finite rat | PosInf | NegInf | NaN

fun float_le :: "pyfloat \<Rightarrow> pyfloat \<Rightarrow> bool" where
  "float_le (Finite a) (Finite b) = (a \<le> b)"
| "float_le NaN _ = False"
| "float_le _ NaN = False"
| "float_le NegInf _ = True"
| "float_le _ PosInf = True"
| "float_le _ _ = False"

datatype json =
    JNull
  | JBool bool
  | JInt int
  | JFloat pyfloat
  | JStr string
  | JArr "json list"
  | JObj "(string \<times> json) list"

instance pyfloat :: countable
  by countable_datatype

instance json :: countable
  by countable_datatype

type_synonym dict = "(string \<times> json) list"

text \<open>\<^verbatim>\<open>d.get(k)\<close> and \<^verbatim>\<open>d[k]\<close>.\<close>

definition dict_get :: "dict \<Rightarrow> string \<Rightarrow> json option" where
  "dict_get d k = map_of d k"

definition dict_item :: "dict \<Rightarrow> string \<Rightarrow> py_exn + json" where
  "dict_item d k = (case map_of d k of None \<Rightarrow> Inl (KeyError k) | Some v \<Rightarrow> Inr v)"

fun json_str :: "json \<Rightarrow> py_exn + string" where
  "json_str (JStr s) = Inr s"
| "json_str _ = Inl TypeError"

fun json_int :: "json \<Rightarrow> py_exn + int" where
  "json_int (JInt i) = Inr i"
| "json_int _ = Inl TypeError"

fun json_float :: "json \<Rightarrow> py_exn + pyfloat" where
  "json_float (JFloat f) = Inr f"
| "json_float (JInt i) = Inr (Finite (of_int i))"
| "json_float _ = Inl TypeError"

definition str_item :: "dict \<Rightarrow> string \<Rightarrow> py_exn + string" where
  "str_item d k = bindE (dict_item d k) json_str"

definition int_item :: "dict \<Rightarrow> string \<Rightarrow> py_exn + int" where
  "int_item d k = bindE (dict_item d k) json_int"

definition float_item :: "dict \<Rightarrow> string \<Rightarrow> py_exn + pyfloat" where
  "float_item d k = bindE (dict_item d k) json_float"

lemma dict_item_Cons [simp]:
  "dict_item ((k, v) # d) k' = (if k = k' then Inr v else dict_item d k')"
  by (auto simp: dict_item_def)

lemma dict_item_Nil [simp]: "dict_item [] k = Inl (KeyError k)"
  by (simp add: dict_item_def)

lemma dict_get_Cons [simp]:
  "dict_get ((k, v) # d) k' = (if k = k' then Some v else dict_get d k')"
  by (auto simp: dict_get_def)

lemma dict_get_Nil [simp]: "dict_get [] k = None"
  by (simp add: dict_get_def)

section \<open>The environment of one operation\<close>

record env =
  env_uuid4 :: "nat \<Rightarrow> 128 word"
  env_now :: int
  env_trace :: dict

text \<open>
  \<open>env_uuid4 e i\<close> is the value of the \<open>i\<close>-th call of \<^verbatim>\<open>uuid.uuid4()\<close> the operation makes,
  \<open>env_now e\<close> the time in seconds, \<open>env_trace e\<close> the carrier OpenTelemetry injects.
\<close>

section \<open>Tables\<close>

text \<open>
  A table is the list of its rows in insertion order; \<open>key\<close> reads the primary key of a row.
  \<open>find_row\<close> is \<^verbatim>\<open>SELECT ... WHERE key = k\<close> on a unique column, \<open>update_row\<close> the
  \<^verbatim>\<open>UPDATE\<close> that a flush of a changed ORM object issues.
\<close>

definition find_row :: "('r \<Rightarrow> 'k) \<Rightarrow> 'k \<Rightarrow> 'r list \<Rightarrow> 'r option" where
  "find_row key k rows = find (\<lambda>r. key r = k) rows"

definition update_row :: "('r \<Rightarrow> 'k) \<Rightarrow> 'r \<Rightarrow> 'r list \<Rightarrow> 'r list" where
  "update_row key new rows = map (\<lambda>r. if key r = key new then new else r) rows"

text \<open>The ranges of the Postgres column types \<^verbatim>\<open>integer\<close> and \<^verbatim>\<open>varchar(n)\<close>.\<close>

definition int4_ok :: "int \<Rightarrow> bool" where
  "int4_ok i \<longleftrightarrow> - 2147483648 \<le> i \<and> i \<le> 2147483647"

fun int4_opt_ok :: "int option \<Rightarrow> bool" where
  "int4_opt_ok None = True"
| "int4_opt_ok (Some i) = int4_ok i"

definition varchar_ok :: "nat \<Rightarrow> string \<Rightarrow> bool" where
  "varchar_ok n s \<longleftrightarrow> length s \<le> n"

fun varchar_opt_ok :: "nat \<Rightarrow> string option \<Rightarrow> bool" where
  "varchar_opt_ok n None = True"
| "varchar_opt_ok n (Some s) = varchar_ok n s"

text \<open>
  \<^verbatim>\<open>ORDER BY key LIMIT limit OFFSET offset\<close>: Postgres refuses a negative limit or offset.
\<close>

definition sql_page :: "('r \<Rightarrow> 'k::linorder) \<Rightarrow> int \<Rightarrow> int \<Rightarrow> 'r list \<Rightarrow> py_exn + 'r list" where
  "sql_page key limit offset rows =
     (if limit < 0 \<or> offset < 0 then Inl DataError
      else Inr (take (nat limit) (drop (nat offset) (sort_key key rows))))"

text \<open>The Python slice \<^verbatim>\<open>xs[:n]\<close>; a negative bound counts from the end.\<close>

definition slice_to :: "int \<Rightarrow> 'a list \<Rightarrow> 'a list" where
  "slice_to n xs = (if n < 0 then take (length xs - nat (- n)) xs else take (nat n) xs)"

lemma find_row_Nil [simp]: "find_row key k [] = None"
  by (simp add: find_row_def)

lemma find_row_Cons [simp]:
  "find_row key k (r # rs) = (if key r = k then Some r else find_row key k rs)"
  by (simp add: find_row_def)

lemma find_row_SomeD [table_simps]:
  "find_row key k rows = Some r \<Longrightarrow> r \<in> set rows \<and> key r = k"
  by (auto simp: find_row_def find_Some_iff)

lemma find_row_None_iff [table_simps]:
  "find_row key k rows = None \<longleftrightarrow> k \<notin> key ` set rows"
  by (auto simp: find_row_def find_None_iff)

lemma find_row_append [table_simps]:
  "find_row key k (rows @ rows') =
     (case find_row key k rows of None \<Rightarrow> find_row key k rows' | Some r \<Rightarrow> Some r)"
  by (induction rows) auto

lemma find_row_distinct:
  assumes "distinct (map key rows)" "r \<in> set rows"
  shows "find_row key (key r) rows = Some r"
  using assms by (induction rows) auto

lemma map_key_update_row [simp]: "map key (update_row key new rows) = map key rows"
  by (induction rows) (auto simp: update_row_def)

lemma update_row_notin [simp]:
  "key new \<notin> key ` set rows \<Longrightarrow> update_row key new rows = rows"
  by (induction rows) (auto simp: update_row_def)

lemma set_update_row_subset: "set (update_row key new rows) \<subseteq> insert new (set rows)"
  by (auto simp: update_row_def)

lemma set_update_row:
  assumes "distinct (map key rows)" "r \<in> set rows" "key r = key new"
  shows "set (update_row key new rows) = insert new (set rows - {r})"
  using assms
proof (induction rows)
  case (Cons a rows)
  then show ?case
    by (cases "key a = key new")
      (auto simp: update_row_def rev_image_eqI dest: map_eq_conv [THEN iffD1])
qed simp

lemma map_update_row:
  assumes "distinct (map key rows)" "r \<in> set rows" "key r = key new" "f new = f r"
  shows "map f (update_row key new rows) = map f rows"
proof -
  have "x = r" if "x \<in> set rows" "key x = key new" for x
    using assms(1-3) that by (auto simp: distinct_map inj_on_def)
  with assms(4) show ?thesis by (auto simp: update_row_def)
qed

lemma find_row_update_row:
  "find_row key k (update_row key new rows) =
     (if k = key new then map_option (\<lambda>_. new) (find_row key k rows) else find_row key k rows)"
  by (induction rows) (auto simp: update_row_def)

lemma update_row_twice [simp]:
  "key b = key a \<Longrightarrow> update_row key b (update_row key a rows) = update_row key b rows"
  by (induction rows) (auto simp: update_row_def)

lemma length_update_row [simp]: "length (update_row key new rows) = length rows"
  by (simp add: update_row_def)

lemma slice_to_nonneg [simp]: "0 \<le> n \<Longrightarrow> slice_to n xs = take (nat n) xs"
  by (simp add: slice_to_def)

end
