(* ===== verification/Uuid.thy ===== *)
theory Uuid
  imports Prelude
begin

text \<open>
  The part of Python's \<^verbatim>\<open>uuid\<close> module the services use: a UUID is a 128-bit number,
  \<open>uuid_str\<close> is \<^verbatim>\<open>str(u)\<close> (lower-case hexadecimal in groups of 8-4-4-4-12) and \<open>uuid_parse\<close> is
  \<^verbatim>\<open>uuid.UUID(s)\<close>, which drops \<^verbatim>\<open>urn:\<close>, \<^verbatim>\<open>uuid:\<close>, braces and hyphens, wants 32
  characters and reads them as a hexadecimal number.  The identifiers that travel between the
  services (event payloads, token subjects, Redis keys) make the trip through these two functions;
  \<open>uuid_parse_str\<close> says that the trip loses nothing.
\<close>

type_synonym uuid = "128 word"

section \<open>Printing\<close>

definition hex_chars :: string where
  "hex_chars = ''0123456789abcdef''"

definition hex_digit :: "nat \<Rightarrow> char" where
  "hex_digit d = hex_chars ! d"

primrec to_hex :: "nat \<Rightarrow> nat \<Rightarrow> string" where
  "to_hex 0 n = []"
| "to_hex (Suc k) n = to_hex k (n div 16) @ [hex_digit (n mod 16)]"

definition uuid_str :: "uuid \<Rightarrow> string" where
  "uuid_str u =
     (let h = to_hex 32 (unat u)
      in take 8 h @ ''-'' @ take 4 (drop 8 h) @ ''-'' @ take 4 (drop 12 h) @ ''-'' @
         take 4 (drop 16 h) @ ''-'' @ drop 20 h)"

section \<open>Parsing\<close>

definition hex_upper :: string where
  "hex_upper = ''0123456789ABCDEF''"

fun index_of :: "char \<Rightarrow> string \<Rightarrow> nat option" where
  "index_of c [] = None"
| "index_of c (d # ds) = (if c = d then Some 0 else map_option Suc (index_of c ds))"

definition hex_val :: "char \<Rightarrow> nat option" where
  "hex_val c = (case index_of c hex_chars of Some d \<Rightarrow> Some d | None \<Rightarrow> index_of c hex_upper)"

text \<open>\<^verbatim>\<open>s.replace(pat, "")\<close> for a non-empty pattern.\<close>

function str_remove :: "string \<Rightarrow> string \<Rightarrow> string" where
  "str_remove pat s =
     (if s = [] then []
      else if pat \<noteq> [] \<and> take (length pat) s = pat then str_remove pat (drop (length pat) s)
      else hd s # str_remove pat (tl s))"
  by pat_completeness auto
termination
proof (relation "measure (\<lambda>(pat, s). length s)", goal_cases)
  case (2 pat s)
  then show ?case by (cases pat; cases s) auto
next
  case (3 pat s)
  then show ?case by (cases s) auto
qed simp

declare str_remove.simps [simp del]

definition str_strip :: "(char \<Rightarrow> bool) \<Rightarrow> string \<Rightarrow> string" where
  "str_strip p s = rev (dropWhile p (rev (dropWhile p s)))"

text \<open>
  \<^verbatim>\<open>int(s, 16)\<close> on what is left: surrounding white space, a sign and a \<^verbatim>\<open>0x\<close> prefix are
  accepted, and single underscores between digits.
\<close>

fun hex_number :: "nat \<Rightarrow> bool \<Rightarrow> string \<Rightarrow> nat option" where
  "hex_number acc seen [] = (if seen then Some acc else None)"
| "hex_number acc seen (c # cs) =
     (if c = CHR ''_'' then (if seen then hex_number acc False cs else None)
      else case hex_val c of None \<Rightarrow> None | Some d \<Rightarrow> hex_number (16 * acc + d) True cs)"

definition is_space :: "char \<Rightarrow> bool" where
  "is_space c \<longleftrightarrow> of_char c \<in> {9 :: nat, 10, 11, 12, 13, 28, 29, 30, 31, 32}"

definition drop_0x :: "string \<Rightarrow> string" where
  "drop_0x s =
     (if take 2 s = ''0x'' \<or> take 2 s = ''0X''
      then (let r = drop 2 s in if take 1 r = ''_'' then drop 1 r else r) else s)"

definition int_base16 :: "string \<Rightarrow> int option" where
  "int_base16 s =
     (let t = str_strip is_space s;
          neg = (take 1 t = ''-'');
          r = (if neg \<or> take 1 t = ''+'' then drop 1 t else t)
      in map_option (\<lambda>n. if neg then - int n else int n) (hex_number 0 False (drop_0x r)))"

definition uuid_parse :: "string \<Rightarrow> uuid option" where
  "uuid_parse s =
     (let h = filter (\<lambda>c. c \<noteq> CHR ''-'')
                (str_strip (\<lambda>c. c = CHR ''{'' \<or> c = CHR ''}'')
                  (str_remove ''uuid:'' (str_remove ''urn:'' s)))
      in if length h \<noteq> 32 then None
         else case int_base16 h of
                None \<Rightarrow> None
              | Some i \<Rightarrow> if 0 \<le> i \<and> i < 2 ^ 128 then Some (word_of_int i) else None)"

text \<open>\<^verbatim>\<open>uuid.UUID(x)\<close> on a JSON value, with the exception each kind of argument raises.\<close>

fun uuid_of_json :: "json \<Rightarrow> py_exn + uuid" where
  "uuid_of_json (JStr s) = (case uuid_parse s of None \<Rightarrow> Inl ValueError | Some u \<Rightarrow> Inr u)"
| "uuid_of_json JNull = Inl TypeError"
| "uuid_of_json _ = Inl AttributeError"

definition uuid_item :: "dict \<Rightarrow> string \<Rightarrow> py_exn + uuid" where
  "uuid_item d k = bindE (dict_item d k) uuid_of_json"

section \<open>The round trip\<close>

lemma length_to_hex [simp]: "length (to_hex k n) = k"
  by (induction k arbitrary: n) auto

lemma hex_digit_cases:
  assumes "d < 16"
  shows "hex_digit d \<in> set hex_chars" "hex_val (hex_digit d) = Some d"
proof -
  have "\<forall>d \<in> set [0..<16]. hex_digit d \<in> set hex_chars \<and> hex_val (hex_digit d) = Some d"
    by code_simp
  then show "hex_digit d \<in> set hex_chars" "hex_val (hex_digit d) = Some d"
    using assms by auto
qed

lemma set_to_hex: "set (to_hex k n) \<subseteq> set hex_chars"
  by (induction k arbitrary: n) (auto simp: hex_digit_cases)

lemma hex_chars_plain:
  "c \<in> set hex_chars \<Longrightarrow>
     c \<noteq> CHR ''-'' \<and> c \<noteq> CHR ''_'' \<and> c \<noteq> CHR ''+'' \<and> c \<noteq> CHR ''u'' \<and> c \<noteq> CHR ''{'' \<and> c \<noteq> CHR ''}''
     \<and> c \<noteq> CHR ''x'' \<and> c \<noteq> CHR ''X'' \<and> \<not> is_space c"
  by (auto simp: hex_chars_def is_space_def)

lemma hex_number_append:
  assumes "set xs \<subseteq> set hex_chars" "xs \<noteq> []"
  shows "hex_number acc seen (xs @ ys) =
     (case hex_number acc seen xs of None \<Rightarrow> None | Some a \<Rightarrow> hex_number a True ys)"
  using assms
proof (induction xs arbitrary: acc seen)
  case (Cons x xs)
  then show ?case
    by (cases xs) (auto split: option.splits dest: hex_chars_plain)
qed simp

lemma hex_number_to_hex:
  "hex_number acc True (to_hex k n) = Some (acc * 16 ^ k + n mod 16 ^ k)"
proof (induction k arbitrary: n)
  case (Suc k)
  have d: "hex_val (hex_digit (n mod 16)) = Some (n mod 16)" "hex_digit (n mod 16) \<noteq> CHR ''_''"
    using hex_digit_cases [of "n mod 16"] hex_chars_plain [of "hex_digit (n mod 16)"] by auto
  have m: "16 * ((n div 16) mod 16 ^ k) + n mod 16 = n mod 16 ^ Suc k"
    by (simp add: mod_mult2_eq)
  show ?case
  proof (cases k)
    case 0
    then show ?thesis using d by simp
  next
    case (Suc j)
    then have "to_hex k (n div 16) \<noteq> []" by simp
    then show ?thesis
      using Suc.IH [of "n div 16"] d m set_to_hex [of k "n div 16"]
      by (simp add: hex_number_append algebra_simps)
  qed
qed simp

lemma hex_number_start:
  "set xs \<subseteq> set hex_chars \<Longrightarrow> xs \<noteq> [] \<Longrightarrow> hex_number acc False xs = hex_number acc True xs"
  by (cases xs) (auto dest: hex_chars_plain)

lemma str_remove_absent:
  "CHR ''u'' \<notin> set s \<Longrightarrow> pat \<noteq> [] \<Longrightarrow> hd pat = CHR ''u'' \<Longrightarrow> str_remove pat s = s"
proof (induction s)
  case (Cons c s)
  then have "take (length pat) (c # s) \<noteq> pat" by (cases pat) auto
  then show ?case using Cons by (subst str_remove.simps) auto
qed (simp add: str_remove.simps)

lemma str_strip_id: "\<forall>c \<in> set s. \<not> p c \<Longrightarrow> str_strip p s = s"
proof -
  assume a: "\<forall>c \<in> set s. \<not> p c"
  then have "dropWhile p s = s" by (cases s) auto
  moreover from a have "dropWhile p (rev s) = rev s" by (cases "rev s") (auto simp: rev_eq_Cons_iff)
  ultimately show ?thesis by (simp add: str_strip_def)
qed

lemma filter_hyphen_hex: "set h \<subseteq> set hex_chars \<Longrightarrow> filter (\<lambda>c. c \<noteq> CHR ''-'') h = h"
  by (auto simp: filter_id_conv dest: hex_chars_plain)

lemma int_base16_to_hex:
  assumes "0 < k"
  shows "int_base16 (to_hex k n) = Some (int (n mod 16 ^ k))"
proof -
  let ?h = "to_hex k n"
  have sub: "set ?h \<subseteq> set hex_chars" by (rule set_to_hex)
  have ne: "?h \<noteq> []" using assms by (metis length_greater_0_conv length_to_hex)
  obtain c r where h: "?h = c # r" using ne by (cases ?h) auto
  have c: "c \<noteq> CHR ''-''" "c \<noteq> CHR ''+''" and r: "set r \<subseteq> set hex_chars"
    using sub h hex_chars_plain [of c] by auto
  have strip: "str_strip is_space ?h = ?h"
    using sub hex_chars_plain by (intro str_strip_id) blast
  have nox: "drop_0x ?h = ?h"
    using r h by (cases r) (auto simp: drop_0x_def dest: hex_chars_plain)
  have "hex_number 0 False ?h = Some (n mod 16 ^ k)"
    using hex_number_to_hex [of 0 k n] hex_number_start [OF sub ne, of 0] by simp
  then show ?thesis
    using c h strip nox by (simp add: int_base16_def Let_def)
qed

definition uuid_hex :: "uuid \<Rightarrow> string" where
  "uuid_hex u = to_hex 32 (unat u)"

lemma uuid_str_chars: "set (uuid_str u) \<subseteq> insert (CHR ''-'') (set hex_chars)"
  using set_to_hex [of 32 "unat u"]
  by (auto simp: uuid_str_def Let_def dest: in_set_takeD in_set_dropD)

lemma uuid_str_unhyphen: "filter (\<lambda>c. c \<noteq> CHR ''-'') (uuid_str u) = uuid_hex u"
proof -
  let ?h = "to_hex 32 (unat u)"
  have sub: "set ?h \<subseteq> set hex_chars" by (rule set_to_hex)
  then have part: "filter (\<lambda>c. c \<noteq> CHR ''-'') (take i (drop j ?h)) = take i (drop j ?h)" for i j
    by (intro filter_hyphen_hex) (meson in_set_dropD in_set_takeD subset_code(1))
  have part': "filter (\<lambda>c. c \<noteq> CHR ''-'') (drop j ?h) = drop j ?h" for j
    using part [of 32 j] by simp
  have join: "take 8 ?h @ take 4 (drop 8 ?h) @ take 4 (drop 12 ?h) @ take 4 (drop 16 ?h) @ drop 20 ?h = ?h"
  proof -
    have "take 4 (drop 16 ?h) @ drop 20 ?h = drop 16 ?h"
      using append_take_drop_id [of 4 "drop 16 ?h"] by (simp add: add.commute)
    moreover have "take 4 (drop 12 ?h) @ drop 16 ?h = drop 12 ?h"
      using append_take_drop_id [of 4 "drop 12 ?h"] by (simp add: add.commute)
    moreover have "take 4 (drop 8 ?h) @ drop 12 ?h = drop 8 ?h"
      using append_take_drop_id [of 4 "drop 8 ?h"] by (simp add: add.commute)
    ultimately show ?thesis by simp
  qed
  show ?thesis
    using part [of _ 0] part part' join by (simp add: uuid_str_def uuid_hex_def Let_def)
qed

lemma uuid_parse_str [simp]: "uuid_parse (uuid_str u) = Some u"
proof -
  have no_u: "CHR ''u'' \<notin> set (uuid_str u)"
    using uuid_str_chars [of u] by (auto simp: hex_chars_def)
  have no_brace: "\<forall>c \<in> set (uuid_str u). \<not> (c = CHR ''{'' \<or> c = CHR ''}'')"
    using uuid_str_chars [of u] by (auto simp: hex_chars_def)
  have "unat u < 2 ^ LENGTH(128)" by (rule unsigned_less)
  then have lt: "unat u < 16 ^ 32" by simp
  then have "int_base16 (uuid_hex u) = Some (int (unat u))"
    by (simp add: uuid_hex_def int_base16_to_hex)
  moreover have "int (unat u) < 2 ^ 128"
    using lt of_nat_less_iff [of "unat u" "16 ^ 32", where 'a = int] by simp
  ultimately show ?thesis
    using no_u no_brace
    by (simp add: uuid_parse_def Let_def str_remove_absent str_strip_id uuid_str_unhyphen uuid_hex_def)
qed

lemma uuid_str_inject [simp]: "uuid_str u = uuid_str v \<longleftrightarrow> u = v"
  by (metis option.inject uuid_parse_str)

lemma uuid_of_json_str [simp]: "uuid_of_json (JStr (uuid_str u)) = Inr u"
  by simp

lemma length_uuid_str [simp]: "length (uuid_str u) = 36"
  by (simp add: uuid_str_def Let_def)

lemma uuid_str_not_Nil [simp]: "uuid_str u \<noteq> []"
  using length_uuid_str [of u] by (metis length_0_conv zero_neq_numeral)

end
