(* ===== verification/Booking_Domain.thy ===== *)
theory Booking_Domain
  imports Uuid
begin

text \<open>
  The booking state machine of \<^verbatim>\<open>services/booking/domain.py\<close>: the state a decision looks at, the
  transition it answers with (the events to append and the status they settle on) and one
  function per decision.  Dates are day numbers, money is in cents, Python integers are \<open>int\<close>.

  The abstract specification is the graph of \<open>status_step\<close>: the domain functions only take its
  edges (\<open>domain_step_sound\<close>), and the three terminal statuses have no edge out.
\<close>

datatype booking_exn =
    BookingPy py_exn
  | InvalidBookingTransitionError string
  | BookingNotFoundError uuid
  | NotBookingPartyError uuid
  | VehicleNotBookableError uuid
  | VehicleNotFoundError uuid
  | HTTPStatusError int
  | OverlappingBookingError uuid
  | ConcurrentBookingUpdateError uuid

definition OVERAGE_RATE_CENTS_PER_MILE :: int where
  "OVERAGE_RATE_CENTS_PER_MILE = 50"

record booking_state =
  bs_id :: uuid
  bs_vehicle_id :: uuid
  bs_host_id :: uuid
  bs_renter_id :: uuid
  bs_start_date :: int
  bs_end_date :: int
  bs_daily_price_cents :: int
  bs_daily_mileage_limit :: int
  bs_booking_mode :: string
  bs_status :: string
  bs_version :: int
  bs_start_odometer :: "int option"
  bs_end_odometer :: "int option"
  bs_start_fuel_percent :: "int option"
  bs_end_fuel_percent :: "int option"
  bs_start_photo_url :: "string option"
  bs_end_photo_url :: "string option"
  bs_overage_cents :: int

type_synonym event_fact = "string \<times> dict"

record transition =
  tr_events :: "event_fact list"
  tr_next_status :: string

definition rental_days :: "booking_state \<Rightarrow> int" where
  "rental_days state = max (bs_end_date state - bs_start_date state) 1"

definition require_status :: "booking_state \<Rightarrow> string \<Rightarrow> booking_exn + unit" where
  "require_status state expected =
     requireE (bs_status state = expected)
       (InvalidBookingTransitionError
         (''cannot do this from status '' @ [CHR 0x27] @ bs_status state @ [CHR 0x27] @
          '' (expected '' @ [CHR 0x27] @ expected @ [CHR 0x27] @ '')''))"

definition accept_request :: "booking_state \<Rightarrow> booking_exn + transition" where
  "accept_request state =
     bindE (requireE (bs_booking_mode state = ''request'')
              (InvalidBookingTransitionError ''booking is not in request-to-book mode'')) (\<lambda>_.
     bindE (require_status state ''requested'') (\<lambda>_.
     Inr \<lparr>tr_events = [(''booking_request_accepted'', [])], tr_next_status = ''requested''\<rparr>))"

definition reject_request :: "booking_state \<Rightarrow> booking_exn + transition" where
  "reject_request state =
     bindE (require_status state ''requested'') (\<lambda>_.
     Inr \<lparr>tr_events = [(''booking_rejected'', [])], tr_next_status = ''rejected''\<rparr>)"

definition confirm_after_payment_authorized :: "booking_state \<Rightarrow> booking_exn + transition" where
  "confirm_after_payment_authorized state =
     bindE (require_status state ''requested'') (\<lambda>_.
     Inr \<lparr>tr_events = [(''payment_authorized'', []), (''booking_confirmed'', [])],
          tr_next_status = ''confirmed''\<rparr>)"

definition cancel_after_payment_authorization_failed :: "booking_state \<Rightarrow> booking_exn + transition" where
  "cancel_after_payment_authorization_failed state =
     bindE (require_status state ''requested'') (\<lambda>_.
     Inr \<lparr>tr_events = [(''payment_authorization_failed'', []), (''booking_cancelled'', [])],
          tr_next_status = ''cancelled''\<rparr>)"

definition domain_record_handover :: "booking_state \<Rightarrow> int \<Rightarrow> int \<Rightarrow> string \<Rightarrow> booking_exn + transition" where
  "domain_record_handover state odometer fuel_percent photo_url =
     bindE (require_status state ''confirmed'') (\<lambda>_.
     Inr \<lparr>tr_events = [(''booking_handover_recorded'',
                         [(''odometer'', JInt odometer), (''fuel_percent'', JInt fuel_percent),
                          (''photo_url'', JStr photo_url)])],
          tr_next_status = ''active''\<rparr>)"

definition compute_overage_cents :: "int \<Rightarrow> int \<Rightarrow> int \<Rightarrow> int \<Rightarrow> int" where
  "compute_overage_cents start_odometer end_odometer daily_mileage_limit days =
     (let miles_driven = end_odometer - start_odometer;
          miles_allowed = daily_mileage_limit * days
      in if miles_driven \<le> miles_allowed then 0
         else (miles_driven - miles_allowed) * OVERAGE_RATE_CENTS_PER_MILE)"

text \<open>
  Subtracting \<^verbatim>\<open>None\<close> raises a \<^verbatim>\<open>TypeError\<close> when no start odometer was recorded.
\<close>

definition domain_record_return ::
  "booking_state \<Rightarrow> int \<Rightarrow> int \<Rightarrow> string \<Rightarrow> booking_exn + (transition \<times> int)"
where
  "domain_record_return state odometer fuel_percent photo_url =
     bindE (require_status state ''active'') (\<lambda>_.
     case bs_start_odometer state of
       None \<Rightarrow> Inl (BookingPy TypeError)
     | Some start_odometer \<Rightarrow>
         (let overage_cents = compute_overage_cents start_odometer odometer
                                (bs_daily_mileage_limit state) (rental_days state)
          in Inr (\<lparr>tr_events = [(''booking_return_recorded'',
                                 [(''odometer'', JInt odometer), (''fuel_percent'', JInt fuel_percent),
                                  (''photo_url'', JStr photo_url), (''overage_cents'', JInt overage_cents)])],
                   tr_next_status = ''active''\<rparr>, overage_cents)))"

definition complete_after_payment_captured :: "booking_state \<Rightarrow> booking_exn + transition" where
  "complete_after_payment_captured state =
     bindE (require_status state ''active'') (\<lambda>_.
     Inr \<lparr>tr_events = [(''payment_captured'', []), (''booking_completed'', [])],
          tr_next_status = ''completed''\<rparr>)"

definition note_payment_capture_failed :: "booking_state \<Rightarrow> booking_exn + transition" where
  "note_payment_capture_failed state =
     bindE (require_status state ''active'') (\<lambda>_.
     Inr \<lparr>tr_events = [(''payment_capture_failed'', [])], tr_next_status = ''active''\<rparr>)"

section \<open>The specification of the state machine\<close>

text \<open>
  The statuses the table's check constraint admits, the edges of the life cycle, and the two
  groups of statuses the rest of the system distinguishes.
\<close>

definition booking_statuses :: "string set" where
  "booking_statuses =
     {''requested'', ''confirmed'', ''active'', ''completed'', ''cancelled'', ''rejected''}"

definition terminal_statuses :: "string set" where
  "terminal_statuses = {''completed'', ''cancelled'', ''rejected''}"

inductive status_step :: "string \<Rightarrow> string \<Rightarrow> bool" where
  accept: "status_step ''requested'' ''requested''"
| reject: "status_step ''requested'' ''rejected''"
| confirm: "status_step ''requested'' ''confirmed''"
| cancel: "status_step ''requested'' ''cancelled''"
| handover: "status_step ''confirmed'' ''active''"
| stay_active: "status_step ''active'' ''active''"
| complete: "status_step ''active'' ''completed''"

inductive_simps status_step_iff: "status_step s t"

section \<open>Lemmas\<close>

lemmas domain_defs =
  accept_request_def reject_request_def confirm_after_payment_authorized_def
  cancel_after_payment_authorization_failed_def domain_record_handover_def domain_record_return_def
  complete_after_payment_captured_def note_payment_capture_failed_def

lemma require_status_Inr [result_simps]: "require_status s x = Inr u \<longleftrightarrow> bs_status s = x"
  by (simp add: require_status_def result_simps)

lemma require_status_Inl [result_simps]:
  "require_status s x = Inl err \<Longrightarrow> bs_status s \<noteq> x \<and> (\<exists>m. err = InvalidBookingTransitionError m)"
  by (auto simp: require_status_def result_simps)

lemma terminal_statuses_final: "s \<in> terminal_statuses \<Longrightarrow> \<not> status_step s t"
  by (auto simp: terminal_statuses_def status_step_iff)

lemma status_step_valid: "status_step s t \<Longrightarrow> s \<in> booking_statuses \<and> t \<in> booking_statuses"
  by (auto simp: booking_statuses_def status_step_iff)

lemma rental_days_pos: "1 \<le> rental_days s"
  by (simp add: rental_days_def)

subsection \<open>Overage\<close>

text \<open>The overage as a formula without branches: the truncated excess at the fixed rate.\<close>

lemma compute_overage_cents_eq:
  "compute_overage_cents s e l d = 50 * max 0 (e - s - l * d)"
  by (simp add: compute_overage_cents_def OVERAGE_RATE_CENTS_PER_MILE_def max_def Let_def)

lemma compute_overage_cents_nonneg: "0 \<le> compute_overage_cents s e l d"
  by (simp add: compute_overage_cents_eq)

lemma compute_overage_cents_mono:
  "e \<le> e' \<Longrightarrow> compute_overage_cents s e l d \<le> compute_overage_cents s e' l d"
  by (simp add: compute_overage_cents_eq)

text \<open>Every decision of the module takes an edge of the life cycle.\<close>

lemma domain_step_sound:
  "accept_request s = Inr t \<Longrightarrow> status_step (bs_status s) (tr_next_status t)"
  "reject_request s = Inr t \<Longrightarrow> status_step (bs_status s) (tr_next_status t)"
  "confirm_after_payment_authorized s = Inr t \<Longrightarrow> status_step (bs_status s) (tr_next_status t)"
  "cancel_after_payment_authorization_failed s = Inr t \<Longrightarrow> status_step (bs_status s) (tr_next_status t)"
  "domain_record_handover s od fu ph = Inr t \<Longrightarrow> status_step (bs_status s) (tr_next_status t)"
  "domain_record_return s od fu ph = Inr (t, cents) \<Longrightarrow> status_step (bs_status s) (tr_next_status t)"
  "complete_after_payment_captured s = Inr t \<Longrightarrow> status_step (bs_status s) (tr_next_status t)"
  "note_payment_capture_failed s = Inr t \<Longrightarrow> status_step (bs_status s) (tr_next_status t)"
  by (auto simp: domain_defs Let_def result_simps
      split: option.splits intro: status_step.intros)

end
