(* ===== verification/Messaging.thy ===== *)
theory Messaging
  imports Uuid
begin

text \<open>
  The event plumbing every service shares: the outbox table (\<^verbatim>\<open>shared/outbox.py\<close>), the inbox
  table (\<^verbatim>\<open>shared/inbox.py\<close>) and the Kafka consumer loop with its Postgres-backed processor
  (\<^verbatim>\<open>shared/kafka_consumer.py\<close>).  A topic is the list of its record values; a consumer is its
  position, its committed offset and the database its handlers write.

  Two interfaces are stated as locales.  \<open>claimed_once\<close> is what a consumer has to promise so that
  crashes and redeliveries are invisible; \<open>inbox_consumer\<close> is what a service that keeps an inbox
  table provides, and it gives the former.  The main result is \<open>crash_run_refines\<close>: a consumer that may crash
  between the database commit and the offset commit reaches only databases that a consumer
  handling every record exactly once, in order, reaches too.
\<close>

section \<open>Outbox\<close>

record outbox_row =
  ob_id :: uuid
  ob_aggregatetype :: string
  ob_aggregateid :: string
  ob_type :: string
  ob_payload :: json

definition outbox_envelope :: "env \<Rightarrow> uuid \<Rightarrow> string \<Rightarrow> dict \<Rightarrow> dict" where
  "outbox_envelope e event_id event_type data =
     [(''event_id'', JStr (uuid_str event_id)),
      (''event_type'', JStr event_type),
      (''data'', JObj data),
      (''trace_context'', JObj (env_trace e))]"

text \<open>
  \<open>write_outbox_event e k\<close> draws the operation's \<open>k\<close>-th UUID.  The only constraint of the table
  a write can violate is its primary key: all callers pass constant type names and the
  36-character form of a UUID, within the columns' 255 characters.
\<close>

definition write_outbox_event ::
  "env \<Rightarrow> nat \<Rightarrow> string \<Rightarrow> string \<Rightarrow> string \<Rightarrow> dict \<Rightarrow> outbox_row list \<Rightarrow> py_exn + (string \<times> outbox_row list)"
where
  "write_outbox_event e k aggregate_type aggregate_id event_type data rows =
     (let event_id = env_uuid4 e k
      in if event_id \<in> ob_id ` set rows then Inl IntegrityError
         else Inr (uuid_str event_id,
                   rows @ [\<lparr>ob_id = event_id, ob_aggregatetype = aggregate_type,
                            ob_aggregateid = aggregate_id, ob_type = event_type,
                            ob_payload = JObj (outbox_envelope e event_id event_type data)\<rparr>]))"

section \<open>Inbox\<close>

type_synonym inbox = "string set"

definition claim_event :: "string \<Rightarrow> inbox \<Rightarrow> bool \<times> inbox" where
  "claim_event event_id ib = (if event_id \<in> ib then (False, ib) else (True, insert event_id ib))"

section \<open>Envelopes\<close>

text \<open>
  \<open>loads\<close> stands for \<^verbatim>\<open>json.loads\<close>, which raises \<^verbatim>\<open>JSONDecodeError\<close>, a \<^verbatim>\<open>ValueError\<close>, on text
  that is not JSON (\<open>None\<close> here).
\<close>

definition json_loads :: "(string \<Rightarrow> json option) \<Rightarrow> string \<Rightarrow> py_exn + json" where
  "json_loads loads raw = (case loads raw of None \<Rightarrow> Inl ValueError | Some j \<Rightarrow> Inr j)"

definition decode_envelope :: "(string \<Rightarrow> json option) \<Rightarrow> string \<Rightarrow> py_exn + json" where
  "decode_envelope loads raw =
     bindE (json_loads loads raw)
       (\<lambda>envelope. case envelope of JStr s \<Rightarrow> json_loads loads s | _ \<Rightarrow> Inr envelope)"

text \<open>
  What the loop reads of an envelope before it calls \<^verbatim>\<open>process\<close>: \<^verbatim>\<open>.get\<close> on something that
  is not a dictionary is an \<^verbatim>\<open>AttributeError\<close>, a missing field a \<^verbatim>\<open>KeyError\<close>.
\<close>

fun json_dict :: "json \<Rightarrow> py_exn + dict" where
  "json_dict (JObj d) = Inr d"
| "json_dict _ = Inl TypeError"

fun envelope_fields :: "json \<Rightarrow> py_exn + (string \<times> string \<times> dict)" where
  "envelope_fields (JObj d) =
     bindE (str_item d ''event_type'') (\<lambda>event_type.
     bindE (str_item d ''event_id'') (\<lambda>event_id.
     bindE (bindE (dict_item d ''data'') json_dict) (\<lambda>data.
     Inr (event_id, event_type, data))))"
| "envelope_fields _ = Inl AttributeError"

text \<open>
  Specification of what an operation adds to the outbox: rows with new identifiers whose
  envelopes carry the events \<open>outs\<close>, under their own identifier.
\<close>

definition emitted :: "(string \<times> dict) list \<Rightarrow> outbox_row list \<Rightarrow> outbox_row list \<Rightarrow> bool" where
  "emitted outs rows rows' \<longleftrightarrow>
     (\<exists>new. rows' = rows @ new \<and> distinct (map ob_id new) \<and>
            list_all2 (\<lambda>r (ty, d). envelope_fields (ob_payload r) = Inr (uuid_str (ob_id r), ty, d) \<and>
                                   ob_id r \<notin> ob_id ` set rows) new outs)"

section \<open>The consumer\<close>

definition postgres_inbox_processor ::
  "('db \<Rightarrow> inbox) \<Rightarrow> (inbox \<Rightarrow> 'db \<Rightarrow> 'db) \<Rightarrow> (string \<Rightarrow> ('db \<Rightarrow> dict \<Rightarrow> 'e + 'db) option)
     \<Rightarrow> string \<Rightarrow> string \<Rightarrow> dict \<Rightarrow> 'db \<Rightarrow> 'e + 'db"
where
  "postgres_inbox_processor get_inbox put_inbox handlers event_id event_type data db =
     (let (claimed, ib) = claim_event event_id (get_inbox db);
          session = put_inbox ib db
      in if claimed
         then (case handlers event_type of
                 Some handler \<Rightarrow> handler session data
               | None \<Rightarrow> Inr session)
         else Inr session)"

text \<open>
  One turn of the loop body: decode, read the fields, process.  An exception leaves the
  database as it was, because the session that \<^verbatim>\<open>process\<close> opened is closed without a commit.
\<close>

definition consume_record ::
  "(string \<Rightarrow> json option) \<Rightarrow> (py_exn \<Rightarrow> 'e) \<Rightarrow> (string \<Rightarrow> string \<Rightarrow> dict \<Rightarrow> 'db \<Rightarrow> 'e + 'db)
     \<Rightarrow> string \<Rightarrow> 'db \<Rightarrow> 'e + 'db"
where
  "consume_record loads raise process raw db =
     bindE (mapErr raise (bindE (decode_envelope loads raw) envelope_fields))
       (\<lambda>(event_id, event_type, data). process event_id event_type data db)"

text \<open>
  The loop over the records of a topic from the committed offset on.  The offset is committed
  after each record; an exception ends the loop with the offset of the failing record
  uncommitted, and the third component is the exception that is re-raised.
\<close>

fun run_consumer :: "('r \<Rightarrow> 'db \<Rightarrow> 'e + 'db) \<Rightarrow> 'r list \<Rightarrow> nat \<Rightarrow> 'db \<Rightarrow> nat \<times> 'db \<times> 'e option" where
  "run_consumer consume [] committed db = (committed, db, None)"
| "run_consumer consume (r # rs) committed db =
     (case consume r db of
        Inl e \<Rightarrow> (committed, db, Some e)
      | Inr db' \<Rightarrow> run_consumer consume rs (Suc committed) db')"

text \<open>
  \<^verbatim>\<open>report_consumer_lag\<close>: per assigned partition the high-water mark, if known, and the
  position.
\<close>

fun report_consumer_lag :: "(int option \<times> int) list \<Rightarrow> int" where
  "report_consumer_lag [] = 0"
| "report_consumer_lag ((None, position) # ps) = report_consumer_lag ps"
| "report_consumer_lag ((Some highwater, position) # ps) =
     max (highwater - position) 0 + report_consumer_lag ps"

section \<open>Crashes and redeliveries\<close>

text \<open>
  A running consumer.  \<open>handle\<close> is the body of the loop up to the database commit, with \<open>w\<close>
  what the handler reads from outside; \<open>commit\<close> is \<^verbatim>\<open>consumer.commit()\<close>; \<open>restart\<close> is a crash
  at any point, or an exception in \<^verbatim>\<open>process\<close>, followed by the redelivery from the last
  committed offset; \<open>other\<close> is any transaction of another part of the service.
\<close>

record 'db consumer =
  con_pos :: nat
  con_committed :: nat
  con_db :: 'db

inductive crash_run ::
  "('w \<Rightarrow> 'r \<Rightarrow> 'db \<Rightarrow> 'e + 'db) \<Rightarrow> ('db \<Rightarrow> 'db \<Rightarrow> bool) \<Rightarrow> 'r list \<Rightarrow> 'db \<Rightarrow> 'db consumer \<Rightarrow> bool"
  for consume others topic db0
where
  start: "crash_run consume others topic db0 \<lparr>con_pos = 0, con_committed = 0, con_db = db0\<rparr>"
| handle: "crash_run consume others topic db0 c \<Longrightarrow> con_pos c = con_committed c \<Longrightarrow>
     con_pos c < length topic \<Longrightarrow> consume w (topic ! con_pos c) (con_db c) = Inr db' \<Longrightarrow>
     crash_run consume others topic db0 (c\<lparr>con_pos := Suc (con_pos c), con_db := db'\<rparr>)"
| commit: "crash_run consume others topic db0 c \<Longrightarrow>
     crash_run consume others topic db0 (c\<lparr>con_committed := con_pos c\<rparr>)"
| restart: "crash_run consume others topic db0 c \<Longrightarrow>
     crash_run consume others topic db0 (c\<lparr>con_pos := con_committed c\<rparr>)"
| other: "crash_run consume others topic db0 c \<Longrightarrow> others (con_db c) db' \<Longrightarrow>
     crash_run consume others topic db0 (c\<lparr>con_db := db'\<rparr>)"

text \<open>The specification: every record is applied once, in order, with no crash.\<close>

inductive atomic_run ::
  "('w \<Rightarrow> 'r \<Rightarrow> 'db \<Rightarrow> 'e + 'db) \<Rightarrow> ('db \<Rightarrow> 'db \<Rightarrow> bool) \<Rightarrow> 'r list \<Rightarrow> 'db \<Rightarrow> nat \<Rightarrow> 'db \<Rightarrow> bool"
  for consume others topic db0
where
  start: "atomic_run consume others topic db0 0 db0"
| handle: "atomic_run consume others topic db0 n db \<Longrightarrow> n < length topic \<Longrightarrow>
     consume w (topic ! n) db = Inr db' \<Longrightarrow> atomic_run consume others topic db0 (Suc n) db'"
| other: "atomic_run consume others topic db0 n db \<Longrightarrow> others db db' \<Longrightarrow>
     atomic_run consume others topic db0 n db'"

section \<open>Lemmas\<close>

subsection \<open>Outbox and envelopes\<close>

lemma write_outbox_event_Inr [result_simps]:
  "write_outbox_event e k aty ai ty d rows = Inr (i, rows') \<longleftrightarrow>
     env_uuid4 e k \<notin> ob_id ` set rows \<and> i = uuid_str (env_uuid4 e k) \<and>
     rows' = rows @ [\<lparr>ob_id = env_uuid4 e k, ob_aggregatetype = aty, ob_aggregateid = ai, ob_type = ty,
                      ob_payload = JObj (outbox_envelope e (env_uuid4 e k) ty d)\<rparr>]"
  by (auto simp: write_outbox_event_def Let_def)

lemma envelope_fields_outbox [simp]:
  "envelope_fields (JObj (outbox_envelope e i ty d)) = Inr (uuid_str i, ty, d)"
  by (simp add: outbox_envelope_def str_item_def)

declare envelope_fields.simps [simp del]

lemma emitted_none [simp]: "emitted [] rows rows"
  by (simp add: emitted_def)

lemma write_outbox_event_emits:
  "write_outbox_event e k aty ai ty d rows = Inr (i, rows') \<Longrightarrow> emitted [(ty, d)] rows rows'"
  by (simp add: write_outbox_event_Inr emitted_def)

lemma emitted_distinct:
  assumes "emitted outs rows rows'" "distinct (map ob_id rows)"
  shows "distinct (map ob_id rows')"
proof -
  obtain new where new: "rows' = rows @ new" "distinct (map ob_id new)"
    "list_all2 (\<lambda>r (ty, d). envelope_fields (ob_payload r) = Inr (uuid_str (ob_id r), ty, d) \<and>
                           ob_id r \<notin> ob_id ` set rows) new outs"
    using assms(1) by (auto simp: emitted_def)
  have "\<forall>r \<in> set new. ob_id r \<notin> ob_id ` set rows"
    using new(3) by (induction new outs rule: list_all2_induct) auto
  then have "ob_id ` set rows \<inter> ob_id ` set new = {}" by (simp add: image_iff disjoint_iff) metis
  then show ?thesis using new(1,2) assms(2) by simp
qed

lemma report_consumer_lag_nonneg: "0 \<le> report_consumer_lag ps"
  by (induction ps rule: report_consumer_lag.induct) auto

subsection \<open>The loop\<close>

lemma run_consumer_append:
  "run_consumer consume (rs @ rs') n db =
     (case run_consumer consume rs n db of
        (m, db', Some e) \<Rightarrow> (m, db', Some e)
      | (m, db', None) \<Rightarrow> run_consumer consume rs' m db')"
  by (induction rs arbitrary: n db) (auto split: sum.splits)

lemma run_consumer_prefix:
  "run_consumer consume rs n db = (m, db', err) \<Longrightarrow>
     n \<le> m \<and> m \<le> n + length rs \<and> run_consumer consume (take (m - n) rs) n db = (m, db', None) \<and>
     (case err of None \<Rightarrow> m = n + length rs
      | Some e \<Rightarrow> m < n + length rs \<and> consume (rs ! (m - n)) db' = Inl e)"
proof (induction rs arbitrary: n db)
  case (Cons r rs)
  show ?case
  proof (cases "consume r db")
    case (Inl e)
    with Cons.prems show ?thesis by auto
  next
    case (Inr db1)
    with Cons.prems have "run_consumer consume rs (Suc n) db1 = (m, db', err)" by simp
    from Cons.IH [OF this] have IH: "Suc n \<le> m \<and> m \<le> Suc n + length rs \<and>
        run_consumer consume (take (m - Suc n) rs) (Suc n) db1 = (m, db', None) \<and>
        (case err of None \<Rightarrow> m = Suc n + length rs
         | Some e \<Rightarrow> m < Suc n + length rs \<and> consume (rs ! (m - Suc n)) db' = Inl e)" .
    then obtain j where "m - n = Suc j" "m - Suc n = j" by (metis Suc_diff_le diff_Suc_Suc)
    with IH Inr show ?thesis by (auto split: option.splits)
  qed
qed simp

subsection \<open>Claiming an event once makes crashes invisible\<close>

locale claimed_once =
  fixes consume :: "'w \<Rightarrow> 'r \<Rightarrow> 'db \<Rightarrow> 'e + 'db"
    and claimed :: "'r \<Rightarrow> 'db \<Rightarrow> bool"
    and others :: "'db \<Rightarrow> 'db \<Rightarrow> bool"
  assumes consume_claims: "consume w r db = Inr db' \<Longrightarrow> claimed r db'"
    and claimed_skips: "claimed r db \<Longrightarrow> consume w r db = Inr db"
    and others_keep: "others db db' \<Longrightarrow> claimed r db \<Longrightarrow> claimed r db'"
begin

lemma consume_idempotent: "consume w r db = Inr db' \<Longrightarrow> consume w' r db' = Inr db'"
  by (blast intro: claimed_skips consume_claims)

text \<open>
  The simulation: the specification is ahead of the committed offset by the record that is
  handled but not committed, and that record is claimed.
\<close>

lemma crash_run_refines_atomic:
  assumes "crash_run consume others topic db0 c"
  shows "\<exists>n. atomic_run consume others topic db0 n (con_db c) \<and> con_committed c \<le> con_pos c \<and>
             con_pos c \<le> n \<and> n \<le> Suc (con_committed c) \<and> n \<le> length topic \<and>
             (con_committed c < n \<longrightarrow> claimed (topic ! con_committed c) (con_db c))"
  using assms
proof (induction rule: crash_run.induct)
  case start
  show ?case by (auto intro!: exI [of _ 0] atomic_run.start)
next
  case (handle c w db')
  then obtain n where n: "atomic_run consume others topic db0 n (con_db c)" "con_pos c \<le> n"
    "n \<le> Suc (con_committed c)" "n \<le> length topic"
    "con_committed c < n \<longrightarrow> claimed (topic ! con_committed c) (con_db c)" by blast
  show ?case
  proof (cases "n = con_committed c")
    case True
    with n handle.hyps have "atomic_run consume others topic db0 (Suc n) db'"
      by (auto intro: atomic_run.handle)
    with True n handle.hyps show ?thesis
      by (intro exI [of _ "Suc n"]) (auto intro: consume_claims)
  next
    case False
    with n handle.hyps have "claimed (topic ! con_committed c) (con_db c)" and m: "n = Suc (con_committed c)"
      by auto
    with handle.hyps have "db' = con_db c" using claimed_skips by fastforce
    with m n handle.hyps show ?thesis by (intro exI [of _ n]) auto
  qed
next
  case (commit c)
  then obtain n where n: "atomic_run consume others topic db0 n (con_db c)" "con_committed c \<le> con_pos c"
    "con_pos c \<le> n" "n \<le> Suc (con_committed c)" "n \<le> length topic"
    "con_committed c < n \<longrightarrow> claimed (topic ! con_committed c) (con_db c)" by blast
  then have "con_pos c = n \<or> con_pos c = con_committed c" by auto
  then show ?case using n by (intro exI [of _ n]) auto
next
  case (restart c)
  then show ?case by auto
next
  case (other c db')
  then obtain n where "atomic_run consume others topic db0 n (con_db c)" "con_committed c \<le> con_pos c"
    "con_pos c \<le> n" "n \<le> Suc (con_committed c)" "n \<le> length topic"
    "con_committed c < n \<longrightarrow> claimed (topic ! con_committed c) (con_db c)" by blast
  then show ?case using other.hyps
    by (intro exI [of _ n]) (auto intro: atomic_run.other others_keep)
qed

end

subsection \<open>A Postgres inbox provides it\<close>

text \<open>
  A service with an inbox table: how to read and write the table in its database, and its
  handlers, which leave the inbox alone.  \<open>others\<close> are the other transactions of the
  service; they only ever add inbox rows.
\<close>

locale inbox_consumer =
  fixes get_inbox :: "'db \<Rightarrow> inbox"
    and put_inbox :: "inbox \<Rightarrow> 'db \<Rightarrow> 'db"
    and handlers :: "'w \<Rightarrow> string \<Rightarrow> ('db \<Rightarrow> dict \<Rightarrow> 'e + 'db) option"
    and loads :: "string \<Rightarrow> json option"
    and raise :: "py_exn \<Rightarrow> 'e"
  assumes inbox_get_put: "get_inbox (put_inbox ib db) = ib"
    and inbox_put_get: "put_inbox (get_inbox db) db = db"
    and handler_keeps_inbox: "handlers w ty = Some h \<Longrightarrow> h db d = Inr db' \<Longrightarrow> get_inbox db' = get_inbox db"
begin

abbreviation process :: "'w \<Rightarrow> string \<Rightarrow> string \<Rightarrow> dict \<Rightarrow> 'db \<Rightarrow> 'e + 'db" where
  "process w \<equiv> postgres_inbox_processor get_inbox put_inbox (handlers w)"

abbreviation consume :: "'w \<Rightarrow> string \<Rightarrow> 'db \<Rightarrow> 'e + 'db" where
  "consume w \<equiv> consume_record loads raise (process w)"

definition claimed :: "string \<Rightarrow> 'db \<Rightarrow> bool" where
  "claimed raw db \<longleftrightarrow>
     (\<exists>i t d. bindE (decode_envelope loads raw) envelope_fields = Inr (i, t, d) \<and> i \<in> get_inbox db)"

lemma process_inbox:
  "process w i ty d db = Inr db' \<Longrightarrow> get_inbox db' = insert i (get_inbox db)"
  by (auto simp: postgres_inbox_processor_def claim_event_def Let_def inbox_get_put
      insert_absorb split: if_splits option.splits dest: handler_keeps_inbox)

lemma process_duplicate: "i \<in> get_inbox db \<Longrightarrow> process w i ty d db = Inr db"
  by (simp add: postgres_inbox_processor_def claim_event_def inbox_put_get)

lemma process_first:
  "i \<notin> get_inbox db \<Longrightarrow> handlers w ty = Some h \<Longrightarrow>
     process w i ty d db = h (put_inbox (insert i (get_inbox db)) db) d"
  by (simp add: postgres_inbox_processor_def claim_event_def)

lemma process_unhandled:
  "i \<notin> get_inbox db \<Longrightarrow> handlers w ty = None \<Longrightarrow>
     process w i ty d db = Inr (put_inbox (insert i (get_inbox db)) db)"
  by (simp add: postgres_inbox_processor_def claim_event_def)

end

text \<open>A service with an inbox table satisfies the first contract.\<close>

sublocale inbox_consumer \<subseteq> once: claimed_once consume claimed "\<lambda>db db'. get_inbox db \<subseteq> get_inbox db'"
proof
  fix w r db db'
  show "consume w r db = Inr db' \<Longrightarrow> claimed r db'"
    by (auto simp: consume_record_def claimed_def result_simps dest!: process_inbox)
  show "claimed r db \<Longrightarrow> consume w r db = Inr db"
    by (auto simp: consume_record_def claimed_def process_duplicate)
  show "get_inbox db \<subseteq> get_inbox db' \<Longrightarrow> claimed r db \<Longrightarrow> claimed r db'"
    by (auto simp: claimed_def)
qed

context inbox_consumer
begin

lemma crash_run_refines:
  assumes "crash_run consume (\<lambda>db db'. get_inbox db \<subseteq> get_inbox db') topic db0 c"
  shows "\<exists>n. atomic_run consume (\<lambda>db db'. get_inbox db \<subseteq> get_inbox db') topic db0 n (con_db c) \<and>
             con_committed c \<le> n \<and> n \<le> Suc (con_committed c)"
  using once.crash_run_refines_atomic [OF assms] by auto

end

end
