(* ===== verification/Jwt_Auth.thy ===== *)
theory Jwt_Auth
  imports Uuid
begin

text \<open>
  Token checks shared by all services (\<^verbatim>\<open>shared/jwt_auth.py\<close>) and the best-effort caller identity
  that scopes idempotency keys (\<^verbatim>\<open>_consumer_id_resolver\<close> of the booking, listing and admin
  applications).  PyJWT's \<^verbatim>\<open>jwt.decode\<close> is a parameter, \<open>jw_decode\<close>, which answers \<open>None\<close> where
  PyJWT raises \<^verbatim>\<open>InvalidTokenError\<close>.
\<close>

record jwt_settings =
  jw_decode :: "string \<Rightarrow> string \<Rightarrow> string list \<Rightarrow> string \<Rightarrow> dict option"
  jw_secret :: string
  jw_issuer :: string

definition decode_token :: "jwt_settings \<Rightarrow> string \<Rightarrow> dict option" where
  "decode_token st token = jw_decode st token (jw_secret st) [''HS256''] (jw_issuer st)"

text \<open>\<^verbatim>\<open>str.lower()\<close> on the ASCII letters.\<close>

definition char_lower :: "char \<Rightarrow> char" where
  "char_lower c = (let n = (of_char c :: nat) in if 65 \<le> n \<and> n \<le> 90 then char_of (n + 32) else c)"

text \<open>\<^verbatim>\<open>s.split(" ", 1)[1]\<close>: the text after the first space.\<close>

definition after_space :: "string \<Rightarrow> py_exn + string" where
  "after_space s =
     (case dropWhile (\<lambda>c. c \<noteq> CHR '' '') s of [] \<Rightarrow> Inl IndexError | _ # r \<Rightarrow> Inr r)"

definition bearer_token :: "string option \<Rightarrow> py_exn + string" where
  "bearer_token authorization =
     (case authorization of
        None \<Rightarrow> Inl (HTTPException 401 ''missing bearer token'')
      | Some a \<Rightarrow>
          if a = [] \<or> take 7 (map char_lower a) \<noteq> ''bearer ''
          then Inl (HTTPException 401 ''missing bearer token'')
          else after_space a)"

definition claims_dependency :: "jwt_settings \<Rightarrow> string \<Rightarrow> string option \<Rightarrow> py_exn + dict" where
  "claims_dependency st token_type authorization =
     bindE (bearer_token authorization) (\<lambda>token.
       case decode_token st token of
         None \<Rightarrow> Inl (HTTPException 401 ''invalid or expired token'')
       | Some claims \<Rightarrow>
           if dict_get claims ''type'' \<noteq> Some (JStr token_type)
           then Inl (HTTPException 401 (''expected a '' @ token_type @ '' token''))
           else Inr claims)"

definition require_role :: "dict \<Rightarrow> string list \<Rightarrow> py_exn + unit" where
  "require_role claims allowed_roles =
     requireE (\<exists>r \<in> set allowed_roles. dict_get claims ''role'' = Some (JStr r))
       (HTTPException 403 ''insufficient role'')"

text \<open>
  \<^verbatim>\<open>claims.get("sub", "")\<close>; PyJWT refuses a token whose subject is not a string, so the last
  case does not arise with its \<^verbatim>\<open>decode\<close>.
\<close>

definition consumer_id_resolver :: "jwt_settings \<Rightarrow> string option \<Rightarrow> string" where
  "consumer_id_resolver st authorization =
     (case bearer_token authorization of
        Inl _ \<Rightarrow> ''''
      | Inr token \<Rightarrow>
          (case decode_token st token of
             None \<Rightarrow> ''''
           | Some claims \<Rightarrow>
               (case dict_get claims ''sub'' of Some (JStr s) \<Rightarrow> s | _ \<Rightarrow> '''')))"

section \<open>Lemmas\<close>

lemma char_lower_space: "char_lower c = CHR '' '' \<Longrightarrow> c = CHR '' ''"
proof (rule ccontr)
  let ?n = "of_char c :: nat"
  assume "char_lower c = CHR '' ''" and "c \<noteq> CHR '' ''"
  then have n: "65 \<le> ?n" "?n \<le> 90" and c: "char_of (?n + 32) = CHR '' ''"
    by (auto simp: char_lower_def Let_def split: if_splits)
  have "(?n + 32) mod 256 = of_char (char_of (?n + 32) :: char)" by (simp only: of_char_of)
  also have "\<dots> = 32" unfolding c by simp
  finally show False using n by simp
qed

lemma after_space_bearer:
  assumes "take 7 (map char_lower a) = ''bearer ''"
  shows "\<exists>t. after_space a = Inr t"
proof -
  have len: "7 \<le> length a"
    using arg_cong [OF assms, of length] by simp
  then have "char_lower (a ! 6) = CHR '' ''"
    using arg_cong [OF assms, of "\<lambda>l. l ! 6"] by (simp add: nth_Cons numeral_eq_Suc)
  then have "a ! 6 = CHR '' ''" by (rule char_lower_space)
  then have "CHR '' '' \<in> set a" using len using nth_mem [of 6 a] by simp
  then have "dropWhile (\<lambda>c. c \<noteq> CHR '' '') a \<noteq> []" by (simp add: dropWhile_eq_Nil_conv)
  then show ?thesis by (cases "dropWhile (\<lambda>c. c \<noteq> CHR '' '') a") (auto simp: after_space_def)
qed

lemma bearer_token_Bearer [simp]: "bearer_token (Some (''Bearer '' @ t)) = Inr t"
proof -
  have "char_lower (CHR ''B'') = CHR ''b''" by (simp add: char_lower_def char_of_def bit_0)
  then show ?thesis
    by (simp add: bearer_token_def after_space_def char_lower_def [of "CHR ''e''"] char_lower_def [of "CHR ''a''"]
        char_lower_def [of "CHR ''r''"] char_lower_def [of "CHR '' ''"])
qed

lemma claims_dependency_Bearer:
  "claims_dependency st ty (Some (''Bearer '' @ t)) =
     (case decode_token st t of
        None \<Rightarrow> Inl (HTTPException 401 ''invalid or expired token'')
      | Some claims \<Rightarrow>
          if dict_get claims ''type'' \<noteq> Some (JStr ty)
          then Inl (HTTPException 401 (''expected a '' @ ty @ '' token'')) else Inr claims)"
  unfolding claims_dependency_def bearer_token_Bearer by simp

text \<open>The only exceptions of the bearer check are the 401s: the index in it never fails.\<close>

lemma bearer_token_Inl:
  "bearer_token a = Inl x \<Longrightarrow> x = HTTPException 401 ''missing bearer token''"
  using after_space_bearer
  by (auto simp: bearer_token_def split: option.splits if_splits) fastforce

lemma claims_dependency_Inr:
  "claims_dependency st ty a = Inr claims \<longleftrightarrow>
     (\<exists>token. bearer_token a = Inr token \<and> decode_token st token = Some claims \<and>
              dict_get claims ''type'' = Some (JStr ty))"
  by (auto simp: claims_dependency_def result_simps split: option.splits if_splits)

lemma claims_dependency_Inl:
  assumes "claims_dependency st ty a = Inl x"
  shows "\<exists>d. x = HTTPException 401 d"
  using assms
  by (auto simp: claims_dependency_def result_simps split: option.splits if_splits
      dest: bearer_token_Inl)

lemma require_role_Inr [result_simps]:
  "require_role claims rs = Inr u \<longleftrightarrow> (\<exists>r \<in> set rs. dict_get claims ''role'' = Some (JStr r))"
  by (simp add: require_role_def result_simps)

end
