(* ===== verification/Idempotency.thy ===== *)
theory Idempotency
  imports Messaging Jwt_Auth
begin

text \<open>
  The idempotency keys of \<^verbatim>\<open>shared/idempotency.py\<close>: the \<^verbatim>\<open>idempotency_keys\<close> table of a service,
  the guard a request builds from its \<^verbatim>\<open>Idempotency-Key\<close> header, the atomic store of the
  response with the effect, and the clean-up of expired rows.  The database of a service is a
  type parameter with a reader and a writer for its table; SHA-256 is a parameter.

  A request reads the table when its guard is built and writes it when the response is stored;
  \<open>respond_idempotently\<close> takes the database as it is at the second moment, so that another
  request's commit in between can be expressed.  The locale \<open>idempotent_store\<close> is the interface
  of a service's database; \<open>replay_same\<close> is the contract: a repeated key gets the stored
  response and changes nothing.
\<close>

section \<open>The table and the guard\<close>

record idem_row =
  ir_consumer_id :: string
  ir_key :: string
  ir_request_hash :: string
  ir_response_body :: string
  ir_status_code :: int
  ir_created_at :: int

abbreviation idem_key_of :: "idem_row \<Rightarrow> string \<times> string" where
  "idem_key_of r \<equiv> (ir_consumer_id r, ir_key r)"

definition find_idem :: "string \<Rightarrow> string \<Rightarrow> idem_row list \<Rightarrow> idem_row option" where
  "find_idem consumer_id key rows = find_row idem_key_of (consumer_id, key) rows"

record idempotency_guard =
  ig_consumer_id :: string
  ig_key :: string
  ig_request_hash :: string
  ig_replay_body :: "string option"
  ig_replay_status :: "int option"

definition is_replay :: "idempotency_guard \<Rightarrow> bool" where
  "is_replay g \<longleftrightarrow> ig_replay_body g \<noteq> None"

definition reuse_error :: py_exn where
  "reuse_error = HTTPException 409 ''Idempotency-Key was already used with a different request''"

text \<open>
  \<^verbatim>\<open>IdempotencyGuard.store\<close>: \<^verbatim>\<open>INSERT ... ON CONFLICT DO NOTHING\<close>, then, when nothing was
  inserted, the comparison with the row that is there.
\<close>

definition guard_store ::
  "int \<Rightarrow> idempotency_guard \<Rightarrow> string \<Rightarrow> int \<Rightarrow> idem_row list \<Rightarrow> py_exn + (idempotency_guard \<times> idem_row list)"
where
  "guard_store now g response_body status_code rows =
     (case find_idem (ig_consumer_id g) (ig_key g) rows of
        None \<Rightarrow>
          Inr (g, rows @ [\<lparr>ir_consumer_id = ig_consumer_id g, ir_key = ig_key g,
                           ir_request_hash = ig_request_hash g, ir_response_body = response_body,
                           ir_status_code = status_code, ir_created_at = now\<rparr>])
      | Some row \<Rightarrow>
          if ir_request_hash row \<noteq> ig_request_hash g then Inl reuse_error
          else Inr (g\<lparr>ig_replay_body := Some (ir_response_body row),
                     ig_replay_status := Some (ir_status_code row)\<rparr>, rows))"

section \<open>Answering a request\<close>

record response =
  rsp_content :: string
  rsp_status_code :: int

definition replay_response :: "idempotency_guard \<Rightarrow> py_exn + response" where
  "replay_response g =
     (case (ig_replay_body g, ig_replay_status g) of
        (Some body, Some status) \<Rightarrow> Inr \<lparr>rsp_content = body, rsp_status_code = status\<rparr>
      | _ \<Rightarrow> Inl TypeError)"

text \<open>
  The result is the response or exception together with the committed database: an exception
  closes the session without a commit, so the database is then the one before the request.
\<close>

definition respond_idempotently ::
  "('db \<Rightarrow> idem_row list) \<Rightarrow> (idem_row list \<Rightarrow> 'db \<Rightarrow> 'db) \<Rightarrow> (py_exn \<Rightarrow> 'e) \<Rightarrow> int \<Rightarrow> idempotency_guard
     \<Rightarrow> int \<Rightarrow> ('db \<Rightarrow> 'e + (string \<times> 'db)) \<Rightarrow> 'db \<Rightarrow> ('e + response) \<times> 'db"
where
  "respond_idempotently get_idem put_idem raise now g status_code build_response_json db =
     (if is_replay g then (mapErr raise (replay_response g), db)
      else case build_response_json db of
             Inl e \<Rightarrow> (Inl e, db)
           | Inr (response_json, session) \<Rightarrow>
               (case guard_store now g response_json status_code (get_idem session) of
                  Inl e \<Rightarrow> (Inl (raise e), db)
                | Inr (g', rows) \<Rightarrow>
                    (if is_replay g' then mapErr raise (replay_response g')
                     else Inr \<lparr>rsp_content = response_json, rsp_status_code = status_code\<rparr>,
                     put_idem rows session)))"

text \<open>
  \<open>header\<close> is the \<^verbatim>\<open>Idempotency-Key\<close> header, \<open>sha256_hex\<close> the digest of the request body.
\<close>

definition hash_request_body :: "(string \<Rightarrow> string) \<Rightarrow> string \<Rightarrow> string" where
  "hash_request_body sha256_hex body = sha256_hex body"

definition idempotency_guard_dependency ::
  "(string \<Rightarrow> string) \<Rightarrow> string option \<Rightarrow> string \<Rightarrow> string \<Rightarrow> idem_row list \<Rightarrow> py_exn + idempotency_guard"
where
  "idempotency_guard_dependency sha256_hex header consumer_id body rows =
     (let missing = Inl (HTTPException 400 ''Idempotency-Key header is required'');
          request_hash = hash_request_body sha256_hex body
      in case header of
           None \<Rightarrow> missing
         | Some key \<Rightarrow>
             if key = [] then missing
             else (case find_idem consumer_id key rows of
                     Some row \<Rightarrow>
                       if ir_request_hash row \<noteq> request_hash then Inl reuse_error
                       else Inr \<lparr>ig_consumer_id = consumer_id, ig_key = key,
                                 ig_request_hash = request_hash,
                                 ig_replay_body = Some (ir_response_body row),
                                 ig_replay_status = Some (ir_status_code row)\<rparr>
                   | None \<Rightarrow>
                       Inr \<lparr>ig_consumer_id = consumer_id, ig_key = key,
                            ig_request_hash = request_hash,
                            ig_replay_body = None, ig_replay_status = None\<rparr>))"

section \<open>Clean-up\<close>

definition purge_expired_idempotency_keys :: "int \<Rightarrow> int \<Rightarrow> idem_row list \<Rightarrow> int \<times> idem_row list" where
  "purge_expired_idempotency_keys now older_than rows =
     (let cutoff = now - older_than
      in (int (length (filter (\<lambda>r. ir_created_at r < cutoff) rows)),
          filter (\<lambda>r. \<not> ir_created_at r < cutoff) rows))"

text \<open>
  The clean-up loop, over the times at which its sleeps end; \<open>older_than\<close> is 24 hours by
  default.
\<close>

definition idempotency_older_than :: int where
  "idempotency_older_than = 24 * 3600"

fun run_idempotency_cleanup_loop :: "int \<Rightarrow> int list \<Rightarrow> idem_row list \<Rightarrow> idem_row list" where
  "run_idempotency_cleanup_loop older_than [] rows = rows"
| "run_idempotency_cleanup_loop older_than (now # wakes) rows =
     run_idempotency_cleanup_loop older_than wakes
       (snd (purge_expired_idempotency_keys now older_than rows))"

section \<open>One whole request\<close>

text \<open>
  A request handled with no other commit between the guard's read and the store.
\<close>

definition idempotent_request ::
  "('db \<Rightarrow> idem_row list) \<Rightarrow> (idem_row list \<Rightarrow> 'db \<Rightarrow> 'db) \<Rightarrow> (py_exn \<Rightarrow> 'e) \<Rightarrow> (string \<Rightarrow> string) \<Rightarrow> int
     \<Rightarrow> string option \<Rightarrow> string \<Rightarrow> string \<Rightarrow> int \<Rightarrow> ('db \<Rightarrow> 'e + (string \<times> 'db)) \<Rightarrow> 'db \<Rightarrow> ('e + response) \<times> 'db"
where
  "idempotent_request get_idem put_idem raise sha256_hex now header consumer_id body status_code build db =
     (case idempotency_guard_dependency sha256_hex header consumer_id body (get_idem db) of
        Inl e \<Rightarrow> (Inl (raise e), db)
      | Inr g \<Rightarrow> respond_idempotently get_idem put_idem raise now g status_code build db)"

section \<open>Lemmas\<close>

lemma find_idem_append:
  "find_idem c k (rows @ rows') =
     (case find_idem c k rows of None \<Rightarrow> find_idem c k rows' | Some r \<Rightarrow> Some r)"
  by (simp add: find_idem_def find_row_append cong: option.case_cong)

lemma find_idem_filter:
  assumes "find_idem c k rows = Some r" "p r"
  shows "find_idem c k (filter p rows) = Some r"
  using assms unfolding find_idem_def by (induction rows) (auto split: if_splits)

lemma guard_dependency_Inr_key:
  "idempotency_guard_dependency sha header c body rows = Inr g \<Longrightarrow>
     \<exists>key. header = Some key \<and> key \<noteq> [] \<and> ig_consumer_id g = c \<and> ig_key g = key \<and>
           ig_request_hash g = sha body \<and> (\<not> is_replay g \<longrightarrow> find_idem c key rows = None)"
  by (auto simp: idempotency_guard_dependency_def hash_request_body_def is_replay_def Let_def
      split: option.splits if_splits)

lemma guard_dependency_Inr_replay:
  assumes "idempotency_guard_dependency sha header c body rows = Inr g" "is_replay g"
  shows "\<exists>key row. header = Some key \<and> key \<noteq> [] \<and> find_idem c key rows = Some row \<and>
     ir_request_hash row = sha body \<and>
     replay_response g = Inr \<lparr>rsp_content = ir_response_body row, rsp_status_code = ir_status_code row\<rparr>"
  using assms
  by (auto simp: idempotency_guard_dependency_def hash_request_body_def is_replay_def
      replay_response_def Let_def split: option.splits if_splits)

text \<open>A store that is not a replay leaves exactly one new row; with it the guard replays.\<close>

lemma guard_store_fresh:
  assumes "find_idem (ig_consumer_id g) (ig_key g) rows = None"
  shows "\<exists>row. guard_store now g body status rows = Inr (g, rows @ [row]) \<and>
               find_idem (ig_consumer_id g) (ig_key g) (rows @ [row]) = Some row \<and>
               ir_request_hash row = ig_request_hash g \<and> ir_response_body row = body \<and>
               ir_status_code row = status \<and> ir_created_at row = now"
  using assms by (simp add: guard_store_def find_idem_append) (simp add: find_idem_def)

lemma run_cleanup_keeps_fresh:
  assumes "find_idem c k rows = Some row" "\<forall>now \<in> set wakes. now - older \<le> ir_created_at row"
  shows "find_idem c k (run_idempotency_cleanup_loop older wakes rows) = Some row"
  using assms
proof (induction wakes arbitrary: rows)
  case (Cons now wakes)
  then have "find_idem c k (snd (purge_expired_idempotency_keys now older rows)) = Some row"
    by (simp add: purge_expired_idempotency_keys_def Let_def find_idem_filter)
  with Cons show ?case by simp
qed simp

subsection \<open>The contract of a service's table\<close>

locale idempotent_store =
  fixes get_idem :: "'db \<Rightarrow> idem_row list"
    and put_idem :: "idem_row list \<Rightarrow> 'db \<Rightarrow> 'db"
    and raise :: "py_exn \<Rightarrow> 'e"
  assumes idem_get_put: "get_idem (put_idem rows db) = rows"
begin

abbreviation request ::
  "(string \<Rightarrow> string) \<Rightarrow> int \<Rightarrow> string option \<Rightarrow> string \<Rightarrow> string \<Rightarrow> int \<Rightarrow> ('db \<Rightarrow> 'e + (string \<times> 'db)) \<Rightarrow> 'db
     \<Rightarrow> ('e + response) \<times> 'db" where
  "request \<equiv> idempotent_request get_idem put_idem raise"

text \<open>What an endpoint has to promise: it does not write the key table itself.\<close>

definition keeps_idem :: "('db \<Rightarrow> 'e + (string \<times> 'db)) \<Rightarrow> bool" where
  "keeps_idem build \<longleftrightarrow> (\<forall>db body db'. build db = Inr (body, db') \<longrightarrow> get_idem db' = get_idem db)"

lemma request_effect:
  assumes req: "request sha now header c body status build db = (Inr r, db')"
    and keep: "keeps_idem build"
  obtains (replay) key row where "header = Some key" "key \<noteq> []" "find_idem c key (get_idem db) = Some row"
      "ir_request_hash row = sha body" "r = \<lparr>rsp_content = ir_response_body row, rsp_status_code = ir_status_code row\<rparr>"
      "db' = db"
  | (fresh) key row out session where "header = Some key" "key \<noteq> []" "find_idem c key (get_idem db) = None"
      "build db = Inr (out, session)" "r = \<lparr>rsp_content = out, rsp_status_code = status\<rparr>"
      "db' = put_idem (get_idem db @ [row]) session" "find_idem c key (get_idem db') = Some row"
      "ir_request_hash row = sha body" "ir_response_body row = out" "ir_status_code row = status"
proof -
  obtain g where g: "idempotency_guard_dependency sha header c body (get_idem db) = Inr g"
    and resp: "respond_idempotently get_idem put_idem raise now g status build db = (Inr r, db')"
    using req by (auto simp: idempotent_request_def split: sum.splits)
  show ?thesis
  proof (cases "is_replay g")
    case True
    with guard_dependency_Inr_replay [OF g] obtain key row where row:
      "header = Some key" "key \<noteq> []" "find_idem c key (get_idem db) = Some row" "ir_request_hash row = sha body"
      "replay_response g = Inr \<lparr>rsp_content = ir_response_body row, rsp_status_code = ir_status_code row\<rparr>"
      by auto
    have "r = \<lparr>rsp_content = ir_response_body row, rsp_status_code = ir_status_code row\<rparr>" "db' = db"
      using resp True row by (auto simp: respond_idempotently_def)
    then show ?thesis using row by (intro replay [of key row])
  next
    case False
    from guard_dependency_Inr_key [OF g] False obtain key where
      k: "header = Some key" "key \<noteq> []" "ig_consumer_id g = c" "ig_key g = key"
         "ig_request_hash g = sha body" "find_idem c key (get_idem db) = None" by auto
    from resp False obtain out session where b: "build db = Inr (out, session)"
      by (auto simp: respond_idempotently_def split: sum.splits)
    with keep have t: "get_idem session = get_idem db" by (auto simp: keeps_idem_def)
    obtain row where row: "guard_store now g out status (get_idem session) = Inr (g, get_idem db @ [row])"
      "find_idem c key (get_idem db @ [row]) = Some row" "ir_request_hash row = sha body"
      "ir_response_body row = out" "ir_status_code row = status"
      using guard_store_fresh [of g "get_idem db" now out status] k t by auto
    have "r = \<lparr>rsp_content = out, rsp_status_code = status\<rparr>" "db' = put_idem (get_idem db @ [row]) session"
      using resp b row False by (auto simp: respond_idempotently_def)
    then show ?thesis using fresh [OF k(1,2) k(6) b] row by (simp add: idem_get_put)
  qed
qed

lemma request_found:
  assumes "find_idem c key (get_idem db) = Some row" "ir_request_hash row = sha body" "key \<noteq> []"
  shows "request sha now (Some key) c body status build db =
     (Inr \<lparr>rsp_content = ir_response_body row, rsp_status_code = ir_status_code row\<rparr>, db)"
  using assms
  by (simp add: idempotent_request_def idempotency_guard_dependency_def hash_request_body_def
      respond_idempotently_def is_replay_def replay_response_def)

text \<open>
  Once a request with a key succeeded, every later request of the same caller with that key
  and the same body gets the same response and changes nothing, whatever it asks for.
\<close>

lemma replay_same:
  assumes "request sha now header c body status build db = (Inr r, db')" "keeps_idem build"
  shows "request sha now' header c body status' build' db' = (Inr r, db')"
  using assms
proof (cases rule: request_effect)
  case (replay key row)
  then show ?thesis using request_found by simp
next
  case (fresh key row out session)
  then show ?thesis using request_found [of c key db' row sha body now' status' build'] by simp
qed

text \<open>A repeated key with a different body is refused and changes nothing.\<close>

lemma reuse_refused:
  assumes "request sha now header c body status build db = (Inr r, db')" "keeps_idem build"
    and "sha body' \<noteq> sha body"
  shows "request sha now' header c body' status' build' db' = (Inl (raise reuse_error), db')"
proof -
  obtain key row where "header = Some key" "key \<noteq> []" "find_idem c key (get_idem db') = Some row"
    "ir_request_hash row = sha body"
    using assms(1,2) by (cases rule: request_effect) auto
  then show ?thesis using assms(3)
    by (simp add: idempotent_request_def idempotency_guard_dependency_def hash_request_body_def)
qed

end

end
