(* ===== verification/Booking_Store.thy ===== *)
theory Booking_Store
  imports Booking_Domain Idempotency
begin

text \<open>
  The booking database: the tables of \<^verbatim>\<open>services/booking/models.py\<close> with the constraints of the
  migration \<^verbatim>\<open>0001_initial.py\<close>, and the repository of \<^verbatim>\<open>services/booking/repository.py\<close>.
  An insert or update checks the column ranges (\<^verbatim>\<open>DataError\<close>) and the table constraints
  (\<^verbatim>\<open>IntegrityError\<close>) as Postgres does at flush time.  The time stamps nobody reads
  (\<^verbatim>\<open>updated_at\<close>, \<^verbatim>\<open>booking_events.created_at\<close>) are left out.

  \<open>booking_inv\<close> is the invariant of the database: no two live bookings of a vehicle overlap, the
  event log of a booking has the versions 2, 3, \<open>\<dots>\<close> without a gap, and every booking row is the
  replay of its event log.  \<open>moved\<close> describes what one state change of a booking does to the
  database, and \<open>booking_inv_moved\<close> shows once that it keeps the invariant.
\<close>

section \<open>Tables\<close>

record booking =
  bk_id :: uuid
  bk_vehicle_id :: uuid
  bk_host_id :: uuid
  bk_renter_id :: uuid
  bk_start_date :: int
  bk_end_date :: int
  bk_daily_price_cents :: int
  bk_daily_mileage_limit :: int
  bk_booking_mode :: string
  bk_status :: string
  bk_version :: int
  bk_start_odometer :: "int option"
  bk_end_odometer :: "int option"
  bk_start_fuel_percent :: "int option"
  bk_end_fuel_percent :: "int option"
  bk_start_photo_url :: "string option"
  bk_end_photo_url :: "string option"
  bk_overage_cents :: int
  bk_created_at :: int

record booking_event =
  ev_id :: uuid
  ev_booking_id :: uuid
  ev_version :: int
  ev_event_type :: string
  ev_payload :: dict

record booking_db =
  bdb_bookings :: "booking list"
  bdb_events :: "booking_event list"
  bdb_outbox :: "outbox_row list"
  bdb_inbox :: inbox
  bdb_idem :: "idem_row list"

definition empty_booking_db :: booking_db where
  "empty_booking_db =
     \<lparr>bdb_bookings = [], bdb_events = [], bdb_outbox = [], bdb_inbox = {}, bdb_idem = []\<rparr>"

section \<open>Constraints\<close>

text \<open>
  The exclusion constraint \<^verbatim>\<open>ex_bookings_no_overlap\<close>: closed date ranges, on the rows that are
  neither cancelled nor rejected.
\<close>

definition booking_live :: "booking \<Rightarrow> bool" where
  "booking_live b \<longleftrightarrow> bk_status b \<notin> {''cancelled'', ''rejected''}"

definition dates_overlap :: "booking \<Rightarrow> booking \<Rightarrow> bool" where
  "dates_overlap a b \<longleftrightarrow> bk_start_date a \<le> bk_end_date b \<and> bk_start_date b \<le> bk_end_date a"

definition booking_conflict :: "booking \<Rightarrow> booking \<Rightarrow> bool" where
  "booking_conflict a b \<longleftrightarrow>
     booking_live a \<and> booking_live b \<and> bk_vehicle_id a = bk_vehicle_id b \<and> dates_overlap a b"

text \<open>
  The column types, and \<^verbatim>\<open>daterange(start_date, end_date, '[]')\<close>, which fails on a range that
  ends before it starts.
\<close>

definition booking_columns_ok :: "booking \<Rightarrow> bool" where
  "booking_columns_ok b \<longleftrightarrow>
     int4_ok (bk_daily_price_cents b) \<and> int4_ok (bk_daily_mileage_limit b) \<and> int4_ok (bk_version b) \<and>
     int4_ok (bk_overage_cents b) \<and>
     int4_opt_ok (bk_start_odometer b) \<and> int4_opt_ok (bk_end_odometer b) \<and>
     int4_opt_ok (bk_start_fuel_percent b) \<and> int4_opt_ok (bk_end_fuel_percent b) \<and>
     varchar_ok 16 (bk_booking_mode b) \<and> varchar_ok 16 (bk_status b) \<and>
     varchar_opt_ok 512 (bk_start_photo_url b) \<and> varchar_opt_ok 512 (bk_end_photo_url b) \<and>
     (booking_live b \<longrightarrow> bk_start_date b \<le> bk_end_date b)"

section \<open>Repository\<close>

definition to_state :: "booking \<Rightarrow> booking_state" where
  "to_state row =
     \<lparr>bs_id = bk_id row, bs_vehicle_id = bk_vehicle_id row, bs_host_id = bk_host_id row,
      bs_renter_id = bk_renter_id row, bs_start_date = bk_start_date row, bs_end_date = bk_end_date row,
      bs_daily_price_cents = bk_daily_price_cents row,
      bs_daily_mileage_limit = bk_daily_mileage_limit row,
      bs_booking_mode = bk_booking_mode row, bs_status = bk_status row, bs_version = bk_version row,
      bs_start_odometer = bk_start_odometer row, bs_end_odometer = bk_end_odometer row,
      bs_start_fuel_percent = bk_start_fuel_percent row, bs_end_fuel_percent = bk_end_fuel_percent row,
      bs_start_photo_url = bk_start_photo_url row, bs_end_photo_url = bk_end_photo_url row,
      bs_overage_cents = bk_overage_cents row\<rparr>"

definition get_by_id :: "uuid \<Rightarrow> booking_db \<Rightarrow> booking option" where
  "get_by_id booking_id db = find_row bk_id booking_id (bdb_bookings db)"

definition create_requested ::
  "env \<Rightarrow> nat \<Rightarrow> uuid \<Rightarrow> uuid \<Rightarrow> uuid \<Rightarrow> int \<Rightarrow> int \<Rightarrow> int \<Rightarrow> int \<Rightarrow> string \<Rightarrow> booking_db
     \<Rightarrow> booking_exn + (booking \<times> booking_db)"
where
  "create_requested e k vehicle_id host_id renter_id start_date end_date daily_price_cents
       daily_mileage_limit booking_mode db =
     (let booking =
            \<lparr>bk_id = env_uuid4 e k, bk_vehicle_id = vehicle_id, bk_host_id = host_id,
             bk_renter_id = renter_id, bk_start_date = start_date, bk_end_date = end_date,
             bk_daily_price_cents = daily_price_cents, bk_daily_mileage_limit = daily_mileage_limit,
             bk_booking_mode = booking_mode, bk_status = ''requested'', bk_version = 1,
             bk_start_odometer = None, bk_end_odometer = None,
             bk_start_fuel_percent = None, bk_end_fuel_percent = None,
             bk_start_photo_url = None, bk_end_photo_url = None,
             bk_overage_cents = 0, bk_created_at = env_now e\<rparr>
      in if \<not> booking_columns_ok booking then Inl (BookingPy DataError)
         else if bk_id booking \<in> bk_id ` set (bdb_bookings db) \<or>
                 (\<exists>row \<in> set (bdb_bookings db). booking_conflict row booking)
         then Inl (OverlappingBookingError vehicle_id)
         else Inr (booking, db\<lparr>bdb_bookings := bdb_bookings db @ [booking]\<rparr>))"

text \<open>
  The loop of \<^verbatim>\<open>append_events\<close>; \<open>offset\<close> counts from 1.  A duplicate \<^verbatim>\<open>(booking_id, version)\<close> or
  event id is the integrity error that is turned into \<^verbatim>\<open>ConcurrentBookingUpdateError\<close>.
\<close>

fun insert_events ::
  "env \<Rightarrow> nat \<Rightarrow> booking \<Rightarrow> int \<Rightarrow> event_fact list \<Rightarrow> booking_event list \<Rightarrow> booking_exn + booking_event list"
where
  "insert_events e k booking offset [] rows = Inr rows"
| "insert_events e k booking offset ((event_type, payload) # events) rows =
     (let next_version = bk_version booking + offset
      in if (\<exists>r \<in> set rows. ev_id r = env_uuid4 e k \<or>
                              (ev_booking_id r = bk_id booking \<and> ev_version r = next_version))
         then Inl (ConcurrentBookingUpdateError (bk_id booking))
         else insert_events e (Suc k) booking (offset + 1) events
                (rows @ [\<lparr>ev_id = env_uuid4 e k, ev_booking_id = bk_id booking,
                          ev_version = next_version, ev_event_type = event_type,
                          ev_payload = payload\<rparr>]))"

definition append_events ::
  "env \<Rightarrow> nat \<Rightarrow> booking \<Rightarrow> event_fact list \<Rightarrow> string \<Rightarrow> booking_db \<Rightarrow> booking_exn + (booking \<times> booking_db)"
where
  "append_events e k booking events next_status db =
     bindE (insert_events e k booking 1 events (bdb_events db)) (\<lambda>rows.
     Inr (booking\<lparr>bk_version := bk_version booking + int (length events), bk_status := next_status\<rparr>,
          db\<lparr>bdb_events := rows\<rparr>))"

text \<open>\<^verbatim>\<open>save\<close> flushes the changed row.\<close>

definition save_booking :: "booking \<Rightarrow> booking_db \<Rightarrow> booking_exn + booking_db" where
  "save_booking booking db =
     (if \<not> booking_columns_ok booking then Inl (BookingPy DataError)
      else if bk_status booking \<notin> booking_statuses \<or>
              (\<exists>row \<in> set (bdb_bookings db). bk_id row \<noteq> bk_id booking \<and> booking_conflict row booking)
      then Inl (BookingPy IntegrityError)
      else Inr (db\<lparr>bdb_bookings := update_row bk_id booking (bdb_bookings db)\<rparr>))"

definition repo_list_all :: "int \<Rightarrow> int \<Rightarrow> booking_db \<Rightarrow> booking_exn + booking list" where
  "repo_list_all limit offset db =
     mapErr BookingPy (sql_page (\<lambda>b. (bk_created_at b, bk_id b)) limit offset (bdb_bookings db))"

section \<open>Specification: replaying the event log\<close>

definition fact_int :: "dict \<Rightarrow> string \<Rightarrow> int option" where
  "fact_int d k = (case dict_get d k of Some (JInt i) \<Rightarrow> Some i | _ \<Rightarrow> None)"

definition fact_str :: "dict \<Rightarrow> string \<Rightarrow> string option" where
  "fact_str d k = (case dict_get d k of Some (JStr s) \<Rightarrow> Some s | _ \<Rightarrow> None)"

text \<open>
  What one recorded fact says about the booking, independently of how the service computes the
  row.  \<open>replay\<close> rebuilds a row from the data fixed at creation.
\<close>

definition replay_event :: "event_fact \<Rightarrow> booking \<Rightarrow> booking" where
  "replay_event f b0 =
     (let b = b0\<lparr>bk_version := bk_version b0 + 1\<rparr>; ty = fst f; p = snd f in
      if ty = ''booking_rejected'' then b\<lparr>bk_status := ''rejected''\<rparr>
      else if ty = ''booking_confirmed'' then b\<lparr>bk_status := ''confirmed''\<rparr>
      else if ty = ''booking_cancelled'' then b\<lparr>bk_status := ''cancelled''\<rparr>
      else if ty = ''booking_completed'' then b\<lparr>bk_status := ''completed''\<rparr>
      else if ty = ''booking_handover_recorded'' then
        b\<lparr>bk_status := ''active'', bk_start_odometer := fact_int p ''odometer'',
          bk_start_fuel_percent := fact_int p ''fuel_percent'',
          bk_start_photo_url := fact_str p ''photo_url''\<rparr>
      else if ty = ''booking_return_recorded'' then
        b\<lparr>bk_end_odometer := fact_int p ''odometer'',
          bk_end_fuel_percent := fact_int p ''fuel_percent'',
          bk_end_photo_url := fact_str p ''photo_url'',
          bk_overage_cents := (case fact_int p ''overage_cents'' of None \<Rightarrow> bk_overage_cents b | Some c \<Rightarrow> c)\<rparr>
      else b)"

definition replay :: "event_fact list \<Rightarrow> booking \<Rightarrow> booking" where
  "replay facts b = fold replay_event facts b"

definition unstarted :: "booking \<Rightarrow> booking" where
  "unstarted b =
     b\<lparr>bk_status := ''requested'', bk_version := 1,
       bk_start_odometer := None, bk_end_odometer := None,
       bk_start_fuel_percent := None, bk_end_fuel_percent := None,
       bk_start_photo_url := None, bk_end_photo_url := None, bk_overage_cents := 0\<rparr>"

definition events_of :: "uuid \<Rightarrow> booking_db \<Rightarrow> booking_event list" where
  "events_of booking_id db = filter (\<lambda>r. ev_booking_id r = booking_id) (bdb_events db)"

definition ev_fact :: "booking_event \<Rightarrow> event_fact" where
  "ev_fact r = (ev_event_type r, ev_payload r)"

section \<open>Invariant\<close>

definition booking_row_ok :: "booking_db \<Rightarrow> booking \<Rightarrow> bool" where
  "booking_row_ok db b \<longleftrightarrow>
     bk_status b \<in> booking_statuses \<and>
     map ev_version (events_of (bk_id b) db) = [2..bk_version b] \<and>
     replay (map ev_fact (events_of (bk_id b) db)) (unstarted b) = b \<and>
     (bk_status b \<in> {''active'', ''completed''} \<longrightarrow> bk_start_odometer b \<noteq> None)"

definition booking_inv :: "booking_db \<Rightarrow> bool" where
  "booking_inv db \<longleftrightarrow>
     distinct (map bk_id (bdb_bookings db)) \<and>
     (\<forall>a \<in> set (bdb_bookings db). \<forall>b \<in> set (bdb_bookings db).
        bk_id a \<noteq> bk_id b \<longrightarrow> \<not> booking_conflict a b) \<and>
     (\<forall>r \<in> set (bdb_events db). ev_booking_id r \<in> bk_id ` set (bdb_bookings db)) \<and>
     (\<forall>b \<in> set (bdb_bookings db). booking_row_ok db b)"

text \<open>
  One state change: the row \<open>b\<close> becomes the replay \<open>b'\<close> of the facts that are appended, along an
  edge of the life cycle; the events \<open>outs\<close> are added to the outbox; inbox and key table stay.
\<close>

definition moved ::
  "booking_db \<Rightarrow> booking \<Rightarrow> event_fact list \<Rightarrow> event_fact list \<Rightarrow> booking \<Rightarrow> booking_db \<Rightarrow> bool"
where
  "moved db b facts outs b' db' \<longleftrightarrow>
     get_by_id (bk_id b) db = Some b \<and> facts \<noteq> [] \<and> b' = replay facts b \<and>
     status_step (bk_status b) (bk_status b') \<and>
     (bk_status b' \<in> {''active'', ''completed''} \<longrightarrow> bk_start_odometer b' \<noteq> None) \<and>
     bdb_bookings db' = update_row bk_id b' (bdb_bookings db) \<and>
     (\<exists>rows. bdb_events db' = bdb_events db @ rows \<and> map ev_fact rows = facts \<and>
             map ev_version rows = [bk_version b + 1..bk_version b'] \<and>
             (\<forall>r \<in> set rows. ev_booking_id r = bk_id b)) \<and>
     emitted outs (bdb_outbox db) (bdb_outbox db') \<and>
     bdb_inbox db' = bdb_inbox db \<and> bdb_idem db' = bdb_idem db"

section \<open>Lemmas\<close>

lemma to_state_simps [simp]:
  "bs_status (to_state b) = bk_status b" "bs_booking_mode (to_state b) = bk_booking_mode b"
  "bs_start_odometer (to_state b) = bk_start_odometer b" "bs_start_date (to_state b) = bk_start_date b"
  "bs_end_date (to_state b) = bk_end_date b" "bs_daily_mileage_limit (to_state b) = bk_daily_mileage_limit b"
  by (simp_all add: to_state_def)

lemma get_by_id_SomeD:
  "get_by_id i db = Some b \<Longrightarrow> b \<in> set (bdb_bookings db) \<and> bk_id b = i"
  by (auto simp: get_by_id_def dest: find_row_SomeD)

lemma booking_conflict_sym: "booking_conflict a b \<longleftrightarrow> booking_conflict b a"
  by (auto simp: booking_conflict_def dates_overlap_def)

subsection \<open>Appending events\<close>

lemma insert_events_Inr:
  assumes "insert_events e k b offset facts rows = Inr rows'"
  shows "\<exists>new. rows' = rows @ new \<and> map ev_fact new = facts \<and>
               map ev_version new = [bk_version b + offset..bk_version b + offset + int (length facts) - 1] \<and>
               (\<forall>r \<in> set new. ev_booking_id r = bk_id b)"
  using assms
proof (induction e k b offset facts rows rule: insert_events.induct)
  case (2 e k b offset ty p facts rows)
  let ?r = "\<lparr>ev_id = env_uuid4 e k, ev_booking_id = bk_id b, ev_version = bk_version b + offset,
             ev_event_type = ty, ev_payload = p\<rparr>"
  from "2.prems" have "insert_events e (Suc k) b (offset + 1) facts (rows @ [?r]) = Inr rows'"
    by (auto simp: Let_def split: if_splits)
  with "2.IH" "2.prems" obtain new where new: "rows' = (rows @ [?r]) @ new" "map ev_fact new = facts"
    "map ev_version new =
       [bk_version b + (offset + 1)..bk_version b + (offset + 1) + int (length facts) - 1]"
    "\<forall>r \<in> set new. ev_booking_id r = bk_id b"
    by (auto simp: Let_def split: if_splits)
  have "[bk_version b + offset..bk_version b + offset + int (length ((ty, p) # facts)) - 1] =
      (bk_version b + offset) # [bk_version b + (offset + 1)..bk_version b + (offset + 1) + int (length facts) - 1]"
    by (subst upto_rec1) (auto simp: algebra_simps)
  with new show ?case by (intro exI [of _ "?r # new"]) (auto simp: ev_fact_def)
qed simp

lemma append_events_Inr:
  assumes "append_events e k b facts s db = Inr (b', db')"
  shows "b' = b\<lparr>bk_version := bk_version b + int (length facts), bk_status := s\<rparr> \<and>
         (\<exists>new. db' = db\<lparr>bdb_events := bdb_events db @ new\<rparr> \<and> map ev_fact new = facts \<and>
                map ev_version new = [bk_version b + 1..bk_version b'] \<and>
                (\<forall>r \<in> set new. ev_booking_id r = bk_id b))"
  using assms insert_events_Inr [of e k b 1 facts "bdb_events db"]
  by (fastforce simp: append_events_def result_simps)

lemma save_booking_Inr [result_simps]:
  "save_booking b db = Inr db' \<longleftrightarrow>
     booking_columns_ok b \<and> bk_status b \<in> booking_statuses \<and>
     (\<forall>row \<in> set (bdb_bookings db). bk_id row \<noteq> bk_id b \<longrightarrow> \<not> booking_conflict row b) \<and>
     db' = db\<lparr>bdb_bookings := update_row bk_id b (bdb_bookings db)\<rparr>"
  by (auto simp: save_booking_def)

subsection \<open>Replay\<close>

lemma replay_simps [simp]:
  "replay [] b = b" "replay (f # fs) b = replay fs (replay_event f b)"
  "replay (fs @ gs) b = replay gs (replay fs b)"
  by (simp_all add: replay_def)

lemma replay_event_fixed [simp]:
  "bk_id (replay_event f b) = bk_id b" "bk_vehicle_id (replay_event f b) = bk_vehicle_id b"
  "bk_host_id (replay_event f b) = bk_host_id b" "bk_renter_id (replay_event f b) = bk_renter_id b"
  "bk_start_date (replay_event f b) = bk_start_date b" "bk_end_date (replay_event f b) = bk_end_date b"
  "bk_daily_price_cents (replay_event f b) = bk_daily_price_cents b"
  "bk_daily_mileage_limit (replay_event f b) = bk_daily_mileage_limit b"
  "bk_booking_mode (replay_event f b) = bk_booking_mode b"
  "bk_created_at (replay_event f b) = bk_created_at b"
  "bk_version (replay_event f b) = bk_version b + 1"
  by (simp_all add: replay_event_def Let_def)

lemma replay_fixed [simp]:
  "bk_id (replay fs b) = bk_id b" "bk_vehicle_id (replay fs b) = bk_vehicle_id b"
  "bk_host_id (replay fs b) = bk_host_id b" "bk_renter_id (replay fs b) = bk_renter_id b"
  "bk_start_date (replay fs b) = bk_start_date b" "bk_end_date (replay fs b) = bk_end_date b"
  "bk_daily_price_cents (replay fs b) = bk_daily_price_cents b"
  "bk_daily_mileage_limit (replay fs b) = bk_daily_mileage_limit b"
  "bk_booking_mode (replay fs b) = bk_booking_mode b" "bk_created_at (replay fs b) = bk_created_at b"
  by (induction fs arbitrary: b) simp_all

lemma replay_version: "bk_version (replay fs b) = bk_version b + int (length fs)"
  by (induction fs arbitrary: b) simp_all

lemma unstarted_replay_event: "unstarted (replay_event f b) = unstarted b"
  by (simp add: replay_event_def unstarted_def Let_def)

lemma unstarted_replay [simp]: "unstarted (replay fs b) = unstarted b"
  by (induction fs arbitrary: b) (simp_all add: unstarted_replay_event)

subsection \<open>A state change keeps the invariant\<close>

lemma movedD:
  assumes "moved db b facts outs b' db'"
  shows "bk_id b' = bk_id b" "get_by_id (bk_id b) db = Some b" "b \<in> set (bdb_bookings db)"
    "status_step (bk_status b) (bk_status b')"
  using assms by (auto simp: moved_def dest: get_by_id_SomeD)

lemma moved_conflict:
  assumes "moved db b facts outs b' db'" "booking_conflict b' a"
  shows "booking_conflict b a"
proof -
  have "booking_live b' \<Longrightarrow> booking_live b"
    using movedD(4) [OF assms(1)] by (auto simp: booking_live_def status_step_iff)
  then show ?thesis
    using assms by (auto simp: moved_def booking_conflict_def dates_overlap_def)
qed

lemma booking_inv_rows:
  assumes "booking_inv db" "moved db b facts outs b' db'"
  shows "set (bdb_bookings db') = insert b' (set (bdb_bookings db) - {b})"
  using assms movedD [OF assms(2)] set_update_row [of bk_id "bdb_bookings db" b b']
  by (auto simp: booking_inv_def moved_def)

lemma moved_row_ok_other:
  assumes "moved db b facts outs b' db'" "booking_row_ok db a" "bk_id a \<noteq> bk_id b"
  shows "booking_row_ok db' a"
proof -
  from assms(1,3) have "events_of (bk_id a) db' = events_of (bk_id a) db"
    by (auto simp: moved_def events_of_def filter_empty_conv)
  with assms(2) show ?thesis by (simp add: booking_row_ok_def)
qed

lemma upto_join: "(i::int) \<le> j + 1 \<Longrightarrow> j \<le> k \<Longrightarrow> [i..j] @ [j + 1..k] = [i..k]"
proof (cases "i \<le> j")
  case False
  moreover assume "i \<le> j + 1"
  ultimately have "i = j + 1" by simp
  then show ?thesis by simp
next
  case True
  moreover assume "j \<le> k"
  ultimately show ?thesis by (rule upto_split2 [symmetric])
qed

lemma moved_row_ok_self:
  assumes "moved db b facts outs b' db'" "booking_row_ok db b"
  shows "booking_row_ok db' b'"
proof -
  obtain rows where rows: "bdb_events db' = bdb_events db @ rows" "map ev_fact rows = facts"
    "map ev_version rows = [bk_version b + 1..bk_version b']" "\<forall>r \<in> set rows. ev_booking_id r = bk_id b"
    and b': "b' = replay facts b" using assms(1) by (auto simp: moved_def)
  have eo: "events_of (bk_id b') db' = events_of (bk_id b) db @ rows"
    using rows(1,4) b' by (simp add: events_of_def)
  have ge: "1 \<le> bk_version b"
  proof -
    have "bk_version b = bk_version (unstarted b) + int (length (events_of (bk_id b) db))"
      using assms(2) replay_version [of "map ev_fact (events_of (bk_id b) db)" "unstarted b"]
      by (simp add: booking_row_ok_def)
    then show ?thesis by (simp add: unstarted_def)
  qed
  have "bk_version b \<le> bk_version b'" using replay_version [of facts b] b' by simp
  then have "map ev_version (events_of (bk_id b') db') = [2..bk_version b']"
    using assms(2) eo rows(3) ge upto_join [of 2 "bk_version b" "bk_version b'"]
    by (simp add: booking_row_ok_def)
  moreover have "replay (map ev_fact (events_of (bk_id b') db')) (unstarted b') = b'"
    using assms(2) eo rows(2) b' by (simp add: booking_row_ok_def)
  ultimately show ?thesis
    using assms(1) status_step_valid [OF movedD(4) [OF assms(1)]]
    unfolding booking_row_ok_def moved_def by blast
qed

lemma booking_inv_moved:
  assumes inv: "booking_inv db" and mv: "moved db b facts outs b' db'"
  shows "booking_inv db'"
proof -
  have ids: "map bk_id (bdb_bookings db') = map bk_id (bdb_bookings db)"
    using mv by (simp add: moved_def)
  note rows = booking_inv_rows [OF inv mv] and b = movedD [OF mv]
  have other: "bk_id a \<noteq> bk_id b" if "a \<in> set (bdb_bookings db) - {b}" for a
    using inv b(3) that by (auto simp: booking_inv_def distinct_map inj_on_def)
  have "\<not> booking_conflict x y" if "x \<in> set (bdb_bookings db')" "y \<in> set (bdb_bookings db')" "bk_id x \<noteq> bk_id y" for x y
    using inv that rows b(1,3) moved_conflict [OF mv] booking_conflict_sym
    unfolding booking_inv_def by (metis DiffE insertE)
  moreover have "ev_booking_id r \<in> bk_id ` set (bdb_bookings db')" if "r \<in> set (bdb_events db')" for r
  proof -
    have "bk_id ` set (bdb_bookings db') = bk_id ` set (bdb_bookings db)"
      using arg_cong [OF ids, of set] by simp
    then show ?thesis using mv inv that b(3) by (auto simp: moved_def booking_inv_def)
  qed
  moreover have "booking_row_ok db' a" if "a \<in> set (bdb_bookings db')" for a
    using inv that rows b(3) other moved_row_ok_self [OF mv] moved_row_ok_other [OF mv]
    by (auto simp: booking_inv_def)
  ultimately show ?thesis using inv ids by (simp add: booking_inv_def)
qed

end
