(* ===== verification/Booking_Service.thy ===== *)
theory Booking_Service
  imports Booking_Store
begin

text \<open>
  The use cases of the booking service: \<^verbatim>\<open>services/booking/service.py\<close>, the HTTP client it asks
  for vehicles (\<^verbatim>\<open>listing_client.py\<close>) and the payment event consumers (\<^verbatim>\<open>consumers.py\<close>).  An
  operation maps the database to an exception or to its result and the new database; an
  exception leaves the database as it was, because the session is closed without a commit.

  Every operation is shown to be a \<open>moved\<close> step (or, for a new request, a \<open>created\<close> one), so it
  keeps \<open>booking_inv\<close>; \<open>booking_step\<close> collects all transactions of the service and
  \<open>booking_reachable\<close> the databases they lead to.
\<close>

section \<open>The client of the listing service\<close>

record http_response =
  hr_status_code :: int
  hr_json :: "json option"

text \<open>
  \<open>http_get url authorization\<close> is the answer of the other service, a parameter of the model.
\<close>

type_synonym http_get = "string \<Rightarrow> string \<Rightarrow> http_response"

record vehicle_info =
  vi_id :: uuid
  vi_host_id :: uuid
  vi_daily_price_cents :: int
  vi_daily_mileage_limit :: int
  vi_booking_mode :: string
  vi_approval_status :: string

definition rstrip_slash :: "string \<Rightarrow> string" where
  "rstrip_slash s = rev (dropWhile (\<lambda>c. c = CHR ''/'') (rev s))"

definition response_json :: "http_response \<Rightarrow> py_exn + dict" where
  "response_json r = (case hr_json r of None \<Rightarrow> Inl ValueError | Some j \<Rightarrow> json_dict j)"

definition get_vehicle :: "http_get \<Rightarrow> string \<Rightarrow> uuid \<Rightarrow> string \<Rightarrow> booking_exn + vehicle_info" where
  "get_vehicle http_get base_url vehicle_id token =
     (let response = http_get (rstrip_slash base_url @ ''/listing/vehicles/'' @ uuid_str vehicle_id)
                              (''Bearer '' @ token)
      in if hr_status_code response \<in> {404, 403} then Inl (VehicleNotFoundError vehicle_id)
         else if \<not> (200 \<le> hr_status_code response \<and> hr_status_code response < 300)
         then Inl (HTTPStatusError (hr_status_code response))
         else mapErr BookingPy (
           bindE (response_json response) (\<lambda>body.
           bindE (uuid_item body ''id'') (\<lambda>id.
           bindE (uuid_item body ''host_id'') (\<lambda>host_id.
           bindE (int_item body ''daily_price_cents'') (\<lambda>daily_price_cents.
           bindE (int_item body ''daily_mileage_limit'') (\<lambda>daily_mileage_limit.
           bindE (str_item body ''booking_mode'') (\<lambda>booking_mode.
           bindE (str_item body ''approval_status'') (\<lambda>approval_status.
           Inr \<lparr>vi_id = id, vi_host_id = host_id, vi_daily_price_cents = daily_price_cents,
                vi_daily_mileage_limit = daily_mileage_limit, vi_booking_mode = booking_mode,
                vi_approval_status = approval_status\<rparr>)))))))))"

section \<open>Helpers\<close>

text \<open>
  \<^verbatim>\<open>_apply_transition\<close> copies the inspection data of the first event into the row.
\<close>

definition apply_transition :: "booking \<Rightarrow> transition \<Rightarrow> booking_exn + booking" where
  "apply_transition booking t =
     (case tr_events t of
        [] \<Rightarrow> Inl (BookingPy IndexError)
      | (event_type, payload) # _ \<Rightarrow> mapErr BookingPy (
          if event_type = ''booking_handover_recorded'' then
            bindE (int_item payload ''odometer'') (\<lambda>odometer.
            bindE (int_item payload ''fuel_percent'') (\<lambda>fuel_percent.
            bindE (str_item payload ''photo_url'') (\<lambda>photo_url.
            Inr (booking\<lparr>bk_start_odometer := Some odometer,
                         bk_start_fuel_percent := Some fuel_percent,
                         bk_start_photo_url := Some photo_url\<rparr>))))
          else if event_type = ''booking_return_recorded'' then
            bindE (int_item payload ''odometer'') (\<lambda>odometer.
            bindE (int_item payload ''fuel_percent'') (\<lambda>fuel_percent.
            bindE (str_item payload ''photo_url'') (\<lambda>photo_url.
            bindE (int_item payload ''overage_cents'') (\<lambda>overage_cents.
            Inr (booking\<lparr>bk_end_odometer := Some odometer,
                         bk_end_fuel_percent := Some fuel_percent,
                         bk_end_photo_url := Some photo_url,
                         bk_overage_cents := overage_cents\<rparr>)))))
          else Inr booking))"

definition booking_outbox_event ::
  "env \<Rightarrow> nat \<Rightarrow> booking \<Rightarrow> string \<Rightarrow> dict \<Rightarrow> booking_db \<Rightarrow> booking_exn + booking_db"
where
  "booking_outbox_event e k booking event_type data db =
     bindE (mapErr BookingPy (write_outbox_event e k ''booking'' (uuid_str (bk_id booking)) event_type data
              (bdb_outbox db))) (\<lambda>(_, rows).
     Inr (db\<lparr>bdb_outbox := rows\<rparr>))"

definition emit_domain_event ::
  "env \<Rightarrow> nat \<Rightarrow> booking \<Rightarrow> string \<Rightarrow> booking_db \<Rightarrow> booking_exn + booking_db"
where
  "emit_domain_event e k booking event_type db =
     booking_outbox_event e k booking event_type
       [(''booking_id'', JStr (uuid_str (bk_id booking))),
        (''renter_id'', JStr (uuid_str (bk_renter_id booking))),
        (''host_id'', JStr (uuid_str (bk_host_id booking))),
        (''status'', JStr (bk_status booking))] db"

definition booking_days :: "booking \<Rightarrow> int" where
  "booking_days booking = max (bk_end_date booking - bk_start_date booking) 1"

definition emit_authorize_payment_requested ::
  "env \<Rightarrow> nat \<Rightarrow> booking \<Rightarrow> booking_db \<Rightarrow> booking_exn + booking_db"
where
  "emit_authorize_payment_requested e k booking db =
     booking_outbox_event e k booking ''authorize_payment_requested''
       [(''booking_id'', JStr (uuid_str (bk_id booking))),
        (''renter_id'', JStr (uuid_str (bk_renter_id booking))),
        (''amount_cents'', JInt (bk_daily_price_cents booking * booking_days booking))] db"

section \<open>Use cases\<close>

definition request_booking ::
  "env \<Rightarrow> http_get \<Rightarrow> string \<Rightarrow> uuid \<Rightarrow> uuid \<Rightarrow> int \<Rightarrow> int \<Rightarrow> string \<Rightarrow> booking_db
     \<Rightarrow> booking_exn + (booking \<times> booking_db)"
where
  "request_booking e http_get base_url renter_id vehicle_id start_date end_date token db =
     bindE (case get_vehicle http_get base_url vehicle_id token of
              Inl (VehicleNotFoundError _) \<Rightarrow> Inl (VehicleNotBookableError vehicle_id)
            | r \<Rightarrow> r) (\<lambda>vehicle.
     bindE (requireE (vi_approval_status vehicle = ''approved'') (VehicleNotBookableError vehicle_id)) (\<lambda>_.
     bindE (create_requested e 0 vehicle_id (vi_host_id vehicle) renter_id start_date end_date
              (vi_daily_price_cents vehicle) (vi_daily_mileage_limit vehicle) (vi_booking_mode vehicle) db)
           (\<lambda>(booking, db).
     bindE (append_events e 1 booking [(''booking_requested'', [])] ''requested'' db) (\<lambda>(booking, db).
     bindE (if vi_booking_mode vehicle = ''instant''
            then emit_authorize_payment_requested e 2 booking db else Inr db) (\<lambda>db.
     bindE (save_booking booking db) (\<lambda>db.
     Inr (booking, db)))))))"

definition accept_booking_request ::
  "env \<Rightarrow> uuid \<Rightarrow> uuid \<Rightarrow> booking_db \<Rightarrow> booking_exn + (booking \<times> booking_db)"
where
  "accept_booking_request e booking_id host_id db =
     (case get_by_id booking_id db of
        None \<Rightarrow> Inl (BookingNotFoundError booking_id)
      | Some booking \<Rightarrow>
          bindE (requireE (bk_host_id booking = host_id) (NotBookingPartyError booking_id)) (\<lambda>_.
          bindE (accept_request (to_state booking)) (\<lambda>t.
          bindE (append_events e 0 booking (tr_events t) (tr_next_status t) db) (\<lambda>(booking, db).
          bindE (emit_authorize_payment_requested e (length (tr_events t)) booking db) (\<lambda>db.
          bindE (save_booking booking db) (\<lambda>db.
          Inr (booking, db)))))))"

definition reject_booking_request ::
  "env \<Rightarrow> uuid \<Rightarrow> uuid \<Rightarrow> booking_db \<Rightarrow> booking_exn + (booking \<times> booking_db)"
where
  "reject_booking_request e booking_id host_id db =
     (case get_by_id booking_id db of
        None \<Rightarrow> Inl (BookingNotFoundError booking_id)
      | Some booking \<Rightarrow>
          bindE (requireE (bk_host_id booking = host_id) (NotBookingPartyError booking_id)) (\<lambda>_.
          bindE (reject_request (to_state booking)) (\<lambda>t.
          bindE (append_events e 0 booking (tr_events t) (tr_next_status t) db) (\<lambda>(booking, db).
          bindE (emit_domain_event e (length (tr_events t)) booking ''booking_rejected'' db) (\<lambda>db.
          bindE (save_booking booking db) (\<lambda>db.
          Inr (booking, db)))))))"

definition list_all_bookings :: "int \<Rightarrow> int \<Rightarrow> booking_db \<Rightarrow> booking_exn + booking list" where
  "list_all_bookings limit offset db = repo_list_all limit offset db"

definition get_booking_for_viewer ::
  "uuid \<Rightarrow> uuid \<Rightarrow> string \<Rightarrow> booking_db \<Rightarrow> booking_exn + booking"
where
  "get_booking_for_viewer booking_id viewer_id viewer_role db =
     (case get_by_id booking_id db of
        None \<Rightarrow> Inl (BookingNotFoundError booking_id)
      | Some booking \<Rightarrow>
          (let is_party = (viewer_id \<in> {bk_renter_id booking, bk_host_id booking})
           in if viewer_role \<noteq> ''admin'' \<and> \<not> is_party then Inl (NotBookingPartyError booking_id)
              else Inr booking))"

definition record_handover ::
  "env \<Rightarrow> uuid \<Rightarrow> uuid \<Rightarrow> int \<Rightarrow> int \<Rightarrow> string \<Rightarrow> booking_db \<Rightarrow> booking_exn + (booking \<times> booking_db)"
where
  "record_handover e booking_id host_id odometer fuel_percent photo_url db =
     (case get_by_id booking_id db of
        None \<Rightarrow> Inl (BookingNotFoundError booking_id)
      | Some booking \<Rightarrow>
          bindE (requireE (bk_host_id booking = host_id) (NotBookingPartyError booking_id)) (\<lambda>_.
          bindE (domain_record_handover (to_state booking) odometer fuel_percent photo_url) (\<lambda>t.
          bindE (apply_transition booking t) (\<lambda>booking.
          bindE (append_events e 0 booking (tr_events t) (tr_next_status t) db) (\<lambda>(booking, db).
          bindE (save_booking booking db) (\<lambda>db.
          Inr (booking, db)))))))"

definition record_return ::
  "env \<Rightarrow> uuid \<Rightarrow> uuid \<Rightarrow> int \<Rightarrow> int \<Rightarrow> string \<Rightarrow> booking_db \<Rightarrow> booking_exn + (booking \<times> booking_db)"
where
  "record_return e booking_id host_id odometer fuel_percent photo_url db =
     (case get_by_id booking_id db of
        None \<Rightarrow> Inl (BookingNotFoundError booking_id)
      | Some booking \<Rightarrow>
          bindE (requireE (bk_host_id booking = host_id) (NotBookingPartyError booking_id)) (\<lambda>_.
          bindE (domain_record_return (to_state booking) odometer fuel_percent photo_url) (\<lambda>(t, overage_cents).
          bindE (apply_transition booking t) (\<lambda>booking.
          bindE (append_events e 0 booking (tr_events t) (tr_next_status t) db) (\<lambda>(booking, db).
          bindE (booking_outbox_event e (length (tr_events t)) booking ''capture_payment_requested''
                   [(''booking_id'', JStr (uuid_str (bk_id booking))),
                    (''host_id'', JStr (uuid_str (bk_host_id booking))),
                    (''hold_amount_cents'', JInt (bk_daily_price_cents booking * booking_days booking)),
                    (''overage_cents'', JInt overage_cents)] db) (\<lambda>db.
          bindE (save_booking booking db) (\<lambda>db.
          Inr (booking, db))))))))"

text \<open>
  The four reactions to payment events differ in the decision and in the event they emit.
\<close>

definition apply_payment_authorized :: "env \<Rightarrow> uuid \<Rightarrow> booking_db \<Rightarrow> booking_exn + (booking \<times> booking_db)" where
  "apply_payment_authorized e booking_id db =
     (case get_by_id booking_id db of
        None \<Rightarrow> Inl (BookingNotFoundError booking_id)
      | Some booking \<Rightarrow>
          bindE (confirm_after_payment_authorized (to_state booking)) (\<lambda>t.
          bindE (append_events e 0 booking (tr_events t) (tr_next_status t) db) (\<lambda>(booking, db).
          bindE (emit_domain_event e (length (tr_events t)) booking ''booking_confirmed'' db) (\<lambda>db.
          bindE (save_booking booking db) (\<lambda>db.
          Inr (booking, db))))))"

definition apply_payment_authorization_failed ::
  "env \<Rightarrow> uuid \<Rightarrow> booking_db \<Rightarrow> booking_exn + (booking \<times> booking_db)"
where
  "apply_payment_authorization_failed e booking_id db =
     (case get_by_id booking_id db of
        None \<Rightarrow> Inl (BookingNotFoundError booking_id)
      | Some booking \<Rightarrow>
          bindE (cancel_after_payment_authorization_failed (to_state booking)) (\<lambda>t.
          bindE (append_events e 0 booking (tr_events t) (tr_next_status t) db) (\<lambda>(booking, db).
          bindE (emit_domain_event e (length (tr_events t)) booking ''booking_cancelled'' db) (\<lambda>db.
          bindE (save_booking booking db) (\<lambda>db.
          Inr (booking, db))))))"

definition apply_payment_captured :: "env \<Rightarrow> uuid \<Rightarrow> booking_db \<Rightarrow> booking_exn + (booking \<times> booking_db)" where
  "apply_payment_captured e booking_id db =
     (case get_by_id booking_id db of
        None \<Rightarrow> Inl (BookingNotFoundError booking_id)
      | Some booking \<Rightarrow>
          bindE (complete_after_payment_captured (to_state booking)) (\<lambda>t.
          bindE (append_events e 0 booking (tr_events t) (tr_next_status t) db) (\<lambda>(booking, db).
          bindE (emit_domain_event e (length (tr_events t)) booking ''booking_completed'' db) (\<lambda>db.
          bindE (save_booking booking db) (\<lambda>db.
          Inr (booking, db))))))"

definition apply_payment_capture_failed ::
  "env \<Rightarrow> uuid \<Rightarrow> booking_db \<Rightarrow> booking_exn + (booking \<times> booking_db)"
where
  "apply_payment_capture_failed e booking_id db =
     (case get_by_id booking_id db of
        None \<Rightarrow> Inl (BookingNotFoundError booking_id)
      | Some booking \<Rightarrow>
          bindE (note_payment_capture_failed (to_state booking)) (\<lambda>t.
          bindE (append_events e 0 booking (tr_events t) (tr_next_status t) db) (\<lambda>(booking, db).
          bindE (emit_domain_event e (length (tr_events t)) booking ''booking_payment_capture_failed'' db) (\<lambda>db.
          bindE (save_booking booking db) (\<lambda>db.
          Inr (booking, db))))))"

section \<open>Consumers of payment events\<close>

definition handle_payment_event ::
  "(uuid \<Rightarrow> booking_db \<Rightarrow> booking_exn + (booking \<times> booking_db)) \<Rightarrow> booking_db \<Rightarrow> dict \<Rightarrow> booking_exn + booking_db"
where
  "handle_payment_event apply_event db data =
     bindE (mapErr BookingPy (uuid_item data ''booking_id'')) (\<lambda>booking_id.
     bindE (apply_event booking_id db) (\<lambda>(_, db).
     Inr db))"

definition payment_event_handlers ::
  "env \<Rightarrow> string \<Rightarrow> (booking_db \<Rightarrow> dict \<Rightarrow> booking_exn + booking_db) option"
where
  "payment_event_handlers e = map_of
     [(''payment_authorized'', handle_payment_event (apply_payment_authorized e)),
      (''payment_authorization_failed'', handle_payment_event (apply_payment_authorization_failed e)),
      (''payment_captured'', handle_payment_event (apply_payment_captured e)),
      (''payment_capture_failed'', handle_payment_event (apply_payment_capture_failed e))]"

definition booking_process :: "env \<Rightarrow> string \<Rightarrow> string \<Rightarrow> dict \<Rightarrow> booking_db \<Rightarrow> booking_exn + booking_db" where
  "booking_process e =
     postgres_inbox_processor bdb_inbox (\<lambda>ib db. db\<lparr>bdb_inbox := ib\<rparr>) (payment_event_handlers e)"

section \<open>Lemmas\<close>

lemmas service_defs =
  accept_booking_request_def reject_booking_request_def record_handover_def record_return_def
  apply_payment_authorized_def apply_payment_authorization_failed_def apply_payment_captured_def
  apply_payment_capture_failed_def

lemma booking_outbox_event_Inr:
  "booking_outbox_event e k b ty d db = Inr db' \<Longrightarrow>
     \<exists>rows. db' = db\<lparr>bdb_outbox := rows\<rparr> \<and> emitted [(ty, d)] (bdb_outbox db) rows"
  by (auto simp: booking_outbox_event_def bindE_eq_Inr mapErr_eq_Inr intro: write_outbox_event_emits)

lemma booking_days_ge_1: "1 \<le> booking_days b"
  by (simp add: booking_days_def)

subsection \<open>Each operation is one step of the event log\<close>

text \<open>
  The common tail of the state-changing operations: append the facts, write the outbox, flush.
\<close>

lemma moved_intro:
  assumes "get_by_id i db = Some b" "bk_id b1 = bk_id b" "bk_version b1 = bk_version b"
    and "append_events e k b1 facts s db = Inr (b2, db1)"
    and "db2 = db1\<lparr>bdb_outbox := rows\<rparr>" "emitted outs (bdb_outbox db) rows"
    and "save_booking b2 db2 = Inr db3"
    and "b2 = replay facts b" "status_step (bk_status b) (bk_status b2)"
    and "bk_status b2 \<in> {''active'', ''completed''} \<longrightarrow> bk_start_odometer b2 \<noteq> None" "facts \<noteq> []"
  shows "moved db b facts outs b2 db3"
proof -
  from append_events_Inr [OF assms(4)] obtain new where new:
    "db1 = db\<lparr>bdb_events := bdb_events db @ new\<rparr>" "map ev_fact new = facts"
    "map ev_version new = [bk_version b + 1..bk_version b2]" "\<forall>r \<in> set new. ev_booking_id r = bk_id b"
    using assms(2,3) by auto
  with assms(5,7) have "bdb_events db3 = bdb_events db @ new"
    "bdb_bookings db3 = update_row bk_id b2 (bdb_bookings db)" "bdb_outbox db3 = rows"
    "bdb_inbox db3 = bdb_inbox db" "bdb_idem db3 = bdb_idem db"
    by (auto simp: save_booking_Inr)
  then show ?thesis
    unfolding moved_def using assms(1,6,8-11) new(2-4) get_by_id_SomeD [OF assms(1)] by auto
qed

lemma append_events_row:
  "append_events e k b facts s db = Inr (b', db') \<Longrightarrow>
     b' = b\<lparr>bk_version := bk_version b + int (length facts), bk_status := s\<rparr> \<and> bdb_outbox db' = bdb_outbox db"
  using append_events_Inr by fastforce

definition booking_event_data :: "booking \<Rightarrow> dict" where
  "booking_event_data b =
     [(''booking_id'', JStr (uuid_str (bk_id b))), (''renter_id'', JStr (uuid_str (bk_renter_id b))),
      (''host_id'', JStr (uuid_str (bk_host_id b))), (''status'', JStr (bk_status b))]"

definition authorize_data :: "booking \<Rightarrow> dict" where
  "authorize_data b =
     [(''booking_id'', JStr (uuid_str (bk_id b))), (''renter_id'', JStr (uuid_str (bk_renter_id b))),
      (''amount_cents'', JInt (bk_daily_price_cents b * booking_days b))]"

definition capture_data :: "booking \<Rightarrow> dict" where
  "capture_data b =
     [(''booking_id'', JStr (uuid_str (bk_id b))), (''host_id'', JStr (uuid_str (bk_host_id b))),
      (''hold_amount_cents'', JInt (bk_daily_price_cents b * booking_days b)),
      (''overage_cents'', JInt (bk_overage_cents b))]"

lemma emit_domain_event_eq:
  "emit_domain_event e k b ty db = booking_outbox_event e k b ty (booking_event_data b) db"
  by (simp add: emit_domain_event_def booking_event_data_def)

lemma emit_authorize_eq:
  "emit_authorize_payment_requested e k b db =
     booking_outbox_event e k b ''authorize_payment_requested'' (authorize_data b) db"
  by (simp add: emit_authorize_payment_requested_def authorize_data_def)

text \<open>
  The common tail as one function: what an operation does once its decision is taken.
\<close>

definition commit_facts ::
  "env \<Rightarrow> booking \<Rightarrow> event_fact list \<Rightarrow> string \<Rightarrow> string \<Rightarrow> (booking \<Rightarrow> dict) \<Rightarrow> booking_db
     \<Rightarrow> booking_exn + (booking \<times> booking_db)"
where
  "commit_facts e booking facts status ty data db =
     bindE (append_events e 0 booking facts status db) (\<lambda>(booking, db).
     bindE (booking_outbox_event e (length facts) booking ty (data booking) db) (\<lambda>db.
     bindE (save_booking booking db) (\<lambda>db.
     Inr (booking, db))))"

lemma commit_facts_moved:
  assumes "get_by_id i db = Some b" "commit_facts e b1 facts s ty data db = Inr (b', db')"
    and "bk_id b1 = bk_id b" "bk_version b1 = bk_version b"
    and "b1\<lparr>bk_version := bk_version b + int (length facts), bk_status := s\<rparr> = replay facts b"
    and "status_step (bk_status b) s"
    and "s \<in> {''active'', ''completed''} \<longrightarrow> bk_start_odometer b1 \<noteq> None" "facts \<noteq> []"
  shows "moved db b facts [(ty, data b')] b' db'"
proof -
  obtain db1 db2 where ap: "append_events e 0 b1 facts s db = Inr (b', db1)"
    and em: "booking_outbox_event e (length facts) b' ty (data b') db1 = Inr db2"
    and sv: "save_booking b' db2 = Inr db'"
    using assms(2) by (auto simp: commit_facts_def bindE_eq_Inr)
  obtain rows where rows: "db2 = db1\<lparr>bdb_outbox := rows\<rparr>" "emitted [(ty, data b')] (bdb_outbox db) rows"
    using booking_outbox_event_Inr [OF em] append_events_row [OF ap] by auto
  have b': "b' = replay facts b" "bk_status b' = s" "bk_start_odometer b' = bk_start_odometer b1"
    using append_events_row [OF ap] assms(4) by (simp_all flip: assms(5))
  show ?thesis
    using moved_intro [OF assms(1,3,4) ap rows sv] b' assms(6-8) by simp
qed

lemma some_booking:
  "(case get_by_id i db of None \<Rightarrow> Inl x | Some b \<Rightarrow> f b) = Inr y \<longleftrightarrow>
     (\<exists>b. get_by_id i db = Some b \<and> f b = Inr y)"
  by (simp split: option.split)

lemmas decision_simps =
  some_booking commit_facts_def emit_domain_event_eq emit_authorize_eq requireE_def require_status_def

lemma same_status:
  "bk_status b = s \<Longrightarrow> b\<lparr>bk_version := v, bk_status := s\<rparr> = b\<lparr>bk_version := v\<rparr>"
  by (cases b) simp

lemmas facts_simps = replay_event_def fact_int_def fact_str_def same_status status_step.intros

lemma booking_inv_odometer:
  assumes "booking_inv db" "get_by_id i db = Some b" "bk_status b \<in> {''active'', ''completed''}"
  shows "\<exists>m. bk_start_odometer b = Some m"
proof -
  from get_by_id_SomeD [OF assms(2)] assms(1) have "booking_row_ok db b" by (simp add: booking_inv_def)
  with assms(3) show ?thesis by (auto simp: booking_row_ok_def)
qed

lemma accept_booking_request_moved:
  assumes "accept_booking_request e i h db = Inr (b', db')"
  obtains b where "bk_id b = i" "bk_host_id b = h" "bk_booking_mode b = ''request''" "bk_status b = ''requested''"
    "moved db b [(''booking_request_accepted'', [])]
       [(''authorize_payment_requested'', authorize_data b')] b' db'"
proof -
  obtain b where b: "get_by_id i db = Some b" "bk_host_id b = h" "bk_booking_mode b = ''request''" "bk_status b = ''requested''"
      "commit_facts e b [(''booking_request_accepted'', [])] ''requested''
         ''authorize_payment_requested'' authorize_data db = Inr (b', db')"
    using assms by (auto simp: accept_booking_request_def accept_request_def decision_simps split: if_splits)
  have "moved db b [(''booking_request_accepted'', [])] [(''authorize_payment_requested'', authorize_data b')] b' db'"
    by (rule commit_facts_moved [OF b(1,5)]) (simp_all add: b(4) facts_simps)
  with b get_by_id_SomeD [OF b(1)] that show ?thesis by blast
qed

lemma reject_booking_request_moved:
  assumes "reject_booking_request e i h db = Inr (b', db')"
  obtains b where "bk_id b = i" "bk_host_id b = h" "bk_status b = ''requested''"
    "moved db b [(''booking_rejected'', [])]
       [(''booking_rejected'', booking_event_data b')] b' db'"
proof -
  obtain b where b: "get_by_id i db = Some b" "bk_host_id b = h" "bk_status b = ''requested''"
      "commit_facts e b [(''booking_rejected'', [])] ''rejected''
         ''booking_rejected'' booking_event_data db = Inr (b', db')"
    using assms by (auto simp: reject_booking_request_def reject_request_def decision_simps split: if_splits)
  have "moved db b [(''booking_rejected'', [])] [(''booking_rejected'', booking_event_data b')] b' db'"
    by (rule commit_facts_moved [OF b(1,4)]) (simp_all add: b(3) facts_simps)
  with b get_by_id_SomeD [OF b(1)] that show ?thesis by blast
qed

lemma apply_payment_authorized_moved:
  assumes "apply_payment_authorized e i db = Inr (b', db')"
  obtains b where "bk_id b = i" "bk_status b = ''requested''"
    "moved db b [(''payment_authorized'', []), (''booking_confirmed'', [])]
       [(''booking_confirmed'', booking_event_data b')] b' db'"
proof -
  obtain b where b: "get_by_id i db = Some b" "bk_status b = ''requested''"
      "commit_facts e b [(''payment_authorized'', []), (''booking_confirmed'', [])] ''confirmed''
         ''booking_confirmed'' booking_event_data db = Inr (b', db')"
    using assms by (auto simp: apply_payment_authorized_def confirm_after_payment_authorized_def decision_simps split: if_splits)
  have "moved db b [(''payment_authorized'', []), (''booking_confirmed'', [])] [(''booking_confirmed'', booking_event_data b')] b' db'"
    by (rule commit_facts_moved [OF b(1,3)]) (simp_all add: b(2) facts_simps)
  with b get_by_id_SomeD [OF b(1)] that show ?thesis by blast
qed

lemma apply_payment_authorization_failed_moved:
  assumes "apply_payment_authorization_failed e i db = Inr (b', db')"
  obtains b where "bk_id b = i" "bk_status b = ''requested''"
    "moved db b [(''payment_authorization_failed'', []), (''booking_cancelled'', [])]
       [(''booking_cancelled'', booking_event_data b')] b' db'"
proof -
  obtain b where b: "get_by_id i db = Some b" "bk_status b = ''requested''"
      "commit_facts e b [(''payment_authorization_failed'', []), (''booking_cancelled'', [])] ''cancelled''
         ''booking_cancelled'' booking_event_data db = Inr (b', db')"
    using assms by (auto simp: apply_payment_authorization_failed_def cancel_after_payment_authorization_failed_def decision_simps split: if_splits)
  have "moved db b [(''payment_authorization_failed'', []), (''booking_cancelled'', [])] [(''booking_cancelled'', booking_event_data b')] b' db'"
    by (rule commit_facts_moved [OF b(1,3)]) (simp_all add: b(2) facts_simps)
  with b get_by_id_SomeD [OF b(1)] that show ?thesis by blast
qed

lemma apply_payment_captured_moved:
  assumes "apply_payment_captured e i db = Inr (b', db')" "booking_inv db"
  obtains b where "bk_id b = i" "bk_status b = ''active''"
    "moved db b [(''payment_captured'', []), (''booking_completed'', [])]
       [(''booking_completed'', booking_event_data b')] b' db'"
proof -
  obtain b where b: "get_by_id i db = Some b" "bk_status b = ''active''"
      "commit_facts e b [(''payment_captured'', []), (''booking_completed'', [])] ''completed''
         ''booking_completed'' booking_event_data db = Inr (b', db')"
    using assms(1) by (auto simp: apply_payment_captured_def complete_after_payment_captured_def decision_simps split: if_splits)
  have odometer: "\<exists>m. bk_start_odometer b = Some m"
    using booking_inv_odometer [OF assms(2) b(1)] b(2) by simp
  have "moved db b [(''payment_captured'', []), (''booking_completed'', [])] [(''booking_completed'', booking_event_data b')] b' db'"
    by (rule commit_facts_moved [OF b(1,3)]) (simp_all add: b(2) facts_simps odometer)
  with b get_by_id_SomeD [OF b(1)] that show ?thesis by blast
qed

lemma apply_payment_capture_failed_moved:
  assumes "apply_payment_capture_failed e i db = Inr (b', db')" "booking_inv db"
  obtains b where "bk_id b = i" "bk_status b = ''active''"
    "moved db b [(''payment_capture_failed'', [])]
       [(''booking_payment_capture_failed'', booking_event_data b')] b' db'"
proof -
  obtain b where b: "get_by_id i db = Some b" "bk_status b = ''active''"
      "commit_facts e b [(''payment_capture_failed'', [])] ''active''
         ''booking_payment_capture_failed'' booking_event_data db = Inr (b', db')"
    using assms(1) by (auto simp: apply_payment_capture_failed_def note_payment_capture_failed_def decision_simps split: if_splits)
  have odometer: "\<exists>m. bk_start_odometer b = Some m"
    using booking_inv_odometer [OF assms(2) b(1)] b(2) by simp
  have "moved db b [(''payment_capture_failed'', [])] [(''booking_payment_capture_failed'', booking_event_data b')] b' db'"
    by (rule commit_facts_moved [OF b(1,3)]) (simp_all add: b(2) facts_simps odometer)
  with b get_by_id_SomeD [OF b(1)] that show ?thesis by blast
qed

definition handover_fact :: "int \<Rightarrow> int \<Rightarrow> string \<Rightarrow> event_fact" where
  "handover_fact odometer fuel_percent photo_url =
     (''booking_handover_recorded'',
      [(''odometer'', JInt odometer), (''fuel_percent'', JInt fuel_percent), (''photo_url'', JStr photo_url)])"

definition return_fact :: "int \<Rightarrow> int \<Rightarrow> string \<Rightarrow> int \<Rightarrow> event_fact" where
  "return_fact odometer fuel_percent photo_url overage_cents =
     (''booking_return_recorded'',
      [(''odometer'', JInt odometer), (''fuel_percent'', JInt fuel_percent), (''photo_url'', JStr photo_url),
       (''overage_cents'', JInt overage_cents)])"

lemmas inspection_simps = apply_transition_def int_item_def str_item_def handover_fact_def return_fact_def

lemma record_handover_moved:
  assumes "record_handover e i h od fu ph db = Inr (b', db')"
  obtains b where "bk_id b = i" "bk_host_id b = h" "bk_status b = ''confirmed''" "bk_start_odometer b' = Some od"
    "moved db b [handover_fact od fu ph] [] b' db'"
proof -
  obtain b b1 db1 where b: "get_by_id i db = Some b" "bk_host_id b = h" "bk_status b = ''confirmed''"
    and b1: "b1 = b\<lparr>bk_start_odometer := Some od, bk_start_fuel_percent := Some fu, bk_start_photo_url := Some ph\<rparr>"
    and ap: "append_events e 0 b1 [handover_fact od fu ph] ''active'' db = Inr (b', db1)"
    and sv: "save_booking b' db1 = Inr db'"
    using assms
    by (auto simp: record_handover_def domain_record_handover_def some_booking requireE_def
        require_status_def bindE_eq_Inr inspection_simps split: if_splits)
  have em: "db1 = db1\<lparr>bdb_outbox := bdb_outbox db\<rparr>" "emitted [] (bdb_outbox db) (bdb_outbox db)"
    using append_events_row [OF ap] by simp_all
  have b': "b' = replay [handover_fact od fu ph] b"
    using append_events_row [OF ap] b1 by (simp add: handover_fact_def facts_simps)
  then have b'': "bk_status b' = ''active''" "bk_start_odometer b' = Some od"
    by (simp_all add: handover_fact_def facts_simps)
  have "moved db b [handover_fact od fu ph] [] b' db'"
    by (rule moved_intro [OF b(1) _ _ ap em sv b']) (simp_all add: b1 b'' b(3) status_step.intros)
  with b b'' get_by_id_SomeD [OF b(1)] that show ?thesis by blast
qed

lemma record_return_moved:
  assumes "record_return e i h od fu ph db = Inr (b', db')"
  obtains b m where "bk_id b = i" "bk_host_id b = h" "bk_status b = ''active''" "bk_start_odometer b = Some m"
    "bk_overage_cents b' = compute_overage_cents m od (bk_daily_mileage_limit b) (booking_days b)"
    "moved db b [return_fact od fu ph (bk_overage_cents b')] [(''capture_payment_requested'', capture_data b')] b' db'"
proof -
  obtain b m ov where b: "get_by_id i db = Some b" "bk_host_id b = h" "bk_status b = ''active''"
      "bk_start_odometer b = Some m" "ov = compute_overage_cents m od (bk_daily_mileage_limit b) (booking_days b)"
    and cm: "commit_facts e (b\<lparr>bk_end_odometer := Some od, bk_end_fuel_percent := Some fu,
                bk_end_photo_url := Some ph, bk_overage_cents := ov\<rparr>) [return_fact od fu ph ov] ''active''
         ''capture_payment_requested'' (\<lambda>b. [(''booking_id'', JStr (uuid_str (bk_id b))),
           (''host_id'', JStr (uuid_str (bk_host_id b))),
           (''hold_amount_cents'', JInt (bk_daily_price_cents b * booking_days b)),
           (''overage_cents'', JInt ov)]) db = Inr (b', db')"
    using assms
    by (auto simp: record_return_def domain_record_return_def decision_simps Let_def rental_days_def
        booking_days_def inspection_simps split: if_splits option.splits)
  have mv: "moved db b [return_fact od fu ph ov] [(''capture_payment_requested'',
      [(''booking_id'', JStr (uuid_str (bk_id b'))), (''host_id'', JStr (uuid_str (bk_host_id b'))),
       (''hold_amount_cents'', JInt (bk_daily_price_cents b' * booking_days b')), (''overage_cents'', JInt ov)])] b' db'"
    by (rule commit_facts_moved [OF b(1) cm]) (simp_all add: return_fact_def b(3,4) facts_simps)
  have "bk_overage_cents b' = ov"
    using mv unfolding moved_def by (simp add: return_fact_def facts_simps)
  then show ?thesis using that [of b m] b mv get_by_id_SomeD [OF b(1)] by (simp add: capture_data_def)
qed

subsection \<open>A new request\<close>

text \<open>
  \<open>created\<close>: a row that conflicts with no other is added with its first event, version 2, and at
  most the payment command is emitted.
\<close>

definition created :: "booking_db \<Rightarrow> event_fact list \<Rightarrow> booking \<Rightarrow> booking_db \<Rightarrow> bool" where
  "created db outs b db' \<longleftrightarrow>
     bk_id b \<notin> bk_id ` set (bdb_bookings db) \<and> (unstarted b)\<lparr>bk_version := 2\<rparr> = b \<and>
     (\<forall>row \<in> set (bdb_bookings db). \<not> booking_conflict row b) \<and>
     bdb_bookings db' = bdb_bookings db @ [b] \<and>
     (\<exists>row. bdb_events db' = bdb_events db @ [row] \<and> ev_booking_id row = bk_id b \<and> ev_version row = 2 \<and>
            ev_fact row = (''booking_requested'', [])) \<and>
     emitted outs (bdb_outbox db) (bdb_outbox db') \<and>
     bdb_inbox db' = bdb_inbox db \<and> bdb_idem db' = bdb_idem db"

lemma unstarted_version [simp]: "unstarted (b\<lparr>bk_version := v\<rparr>) = unstarted b"
  by (simp add: unstarted_def)

lemma conflict_version [simp]: "booking_conflict x (b\<lparr>bk_version := v\<rparr>) = booking_conflict x b"
  by (simp add: booking_conflict_def booking_live_def dates_overlap_def)

lemma not_found_Inr:
  "(case r of Inl (VehicleNotFoundError _) \<Rightarrow> Inl y | r' \<Rightarrow> r') = Inr x \<longleftrightarrow> r = Inr x"
  by (auto split: sum.split booking_exn.split)

lemma unstarted_version_1 [simp]: "bk_version (unstarted b) = 1"
  by (simp add: unstarted_def)

lemma update_row_last:
  "key new \<notin> key ` set rows \<Longrightarrow> key r = key new \<Longrightarrow> update_row key new (rows @ [r]) = rows @ [new]"
  using update_row_notin [of key new rows] by (simp add: update_row_def)

lemma create_requested_Inr:
  "create_requested e k v h r sd ed p l m db = Inr (b, db') \<Longrightarrow>
     unstarted b = b \<and> bk_status b = ''requested'' \<and> bk_version b = 1 \<and> bk_vehicle_id b = v \<and> bk_host_id b = h \<and> bk_renter_id b = r \<and>
     bk_start_date b = sd \<and> bk_end_date b = ed \<and> bk_daily_price_cents b = p \<and>
     bk_daily_mileage_limit b = l \<and> bk_booking_mode b = m \<and>
     bk_id b \<notin> bk_id ` set (bdb_bookings db) \<and> (\<forall>row \<in> set (bdb_bookings db). \<not> booking_conflict row b) \<and>
     db' = db\<lparr>bdb_bookings := bdb_bookings db @ [b]\<rparr>"
  by (auto simp: create_requested_def Let_def unstarted_def split: if_splits)

lemma request_booking_created:
  assumes "request_booking e http base r v sd ed tok db = Inr (b, db')"
  obtains vi where "get_vehicle http base v tok = Inr vi" "vi_approval_status vi = ''approved''"
    "bk_vehicle_id b = v" "bk_renter_id b = r" "bk_host_id b = vi_host_id vi" "bk_start_date b = sd"
    "bk_end_date b = ed" "bk_daily_price_cents b = vi_daily_price_cents vi"
    "bk_daily_mileage_limit b = vi_daily_mileage_limit vi" "bk_booking_mode b = vi_booking_mode vi"
    "created db (if bk_booking_mode b = ''instant'' then [(''authorize_payment_requested'', authorize_data b)] else [])
       b db'"
proof -
  obtain vi b0 db0 db1 db2 where vi: "get_vehicle http base v tok = Inr vi" "vi_approval_status vi = ''approved''"
    and cr: "create_requested e 0 v (vi_host_id vi) r sd ed (vi_daily_price_cents vi)
               (vi_daily_mileage_limit vi) (vi_booking_mode vi) db = Inr (b0, db0)"
    and ap: "append_events e 1 b0 [(''booking_requested'', [])] ''requested'' db0 = Inr (b, db1)"
    and em: "(if vi_booking_mode vi = ''instant'' then emit_authorize_payment_requested e 2 b db1 else Inr db1) = Inr db2"
    and sv: "save_booking b db2 = Inr db'"
    using assms
    by (auto simp: request_booking_def bindE_eq_Inr requireE_eq_Inr not_found_Inr)
  note b0 = create_requested_Inr [OF cr]
  have b: "b = b0\<lparr>bk_version := 2\<rparr>"
    using append_events_row [OF ap] b0 by (simp add: same_status)
  obtain row where row: "db1 = db0\<lparr>bdb_events := bdb_events db0 @ [row]\<rparr>" "ev_booking_id row = bk_id b"
    "ev_version row = 2" "ev_fact row = (''booking_requested'', [])"
  proof -
    obtain new where n: "db1 = db0\<lparr>bdb_events := bdb_events db0 @ new\<rparr>" "map ev_fact new = [(''booking_requested'', [])]"
      "map ev_version new = [bk_version b0 + 1..bk_version b]" "\<forall>r \<in> set new. ev_booking_id r = bk_id b0"
      using append_events_Inr [OF ap] by auto
    then show ?thesis using that b b0 by (cases new) auto
  qed
  obtain rows where rows: "db2 = db1\<lparr>bdb_outbox := rows\<rparr>"
    "emitted (if bk_booking_mode b = ''instant'' then [(''authorize_payment_requested'', authorize_data b)] else [])
       (bdb_outbox db) rows"
  proof (cases "vi_booking_mode vi = ''instant''")
    case True
    with em have "booking_outbox_event e 2 b ''authorize_payment_requested'' (authorize_data b) db1 = Inr db2"
      by (simp add: emit_authorize_eq)
    from booking_outbox_event_Inr [OF this] show ?thesis using that True b b0 row(1) by auto
  next
    case False
    then show ?thesis using that [of "bdb_outbox db"] em b b0 row(1) by simp
  qed
  have saved: "bdb_bookings db' = bdb_bookings db @ [b]" "bdb_events db' = bdb_events db @ [row]"
    "bdb_outbox db' = rows" "bdb_inbox db' = bdb_inbox db" "bdb_idem db' = bdb_idem db"
    using sv b b0 rows(1) row(1) by (simp_all add: save_booking_Inr update_row_last)
  have "\<not> booking_conflict x b" if "x \<in> set (bdb_bookings db)" for x
    using b b0 that by simp
  moreover have "(unstarted b)\<lparr>bk_version := 2\<rparr> = b"
    using b b0 by simp
  ultimately have "created db (if bk_booking_mode b = ''instant'' then [(''authorize_payment_requested'', authorize_data b)] else [])
       b db'"
    using saved row(2-4) rows(2) b0 b unfolding created_def by auto
  then show ?thesis using that [OF vi] b b0 by simp
qed

lemma booking_inv_created:
  assumes inv: "booking_inv db" and cr: "created db outs b db'"
  shows "booking_inv db'"
proof -
  from cr obtain row where row: "bdb_events db' = bdb_events db @ [row]" "ev_booking_id row = bk_id b"
    "ev_version row = 2" "ev_fact row = (''booking_requested'', [])"
    and b: "bk_id b \<notin> bk_id ` set (bdb_bookings db)" "(unstarted b)\<lparr>bk_version := 2\<rparr> = b"
    "\<forall>row \<in> set (bdb_bookings db). \<not> booking_conflict row b" "bdb_bookings db' = bdb_bookings db @ [b]"
    by (auto simp: created_def)
  note inv' = inv [unfolded booking_inv_def]
  have none: "events_of (bk_id b) db = []"
    using conjunct1 [OF conjunct2 [OF conjunct2 [OF inv']]] b(1)
    unfolding events_of_def filter_empty_conv by metis
  have ver: "bk_version b = 2" "bk_status b = ''requested''"
    using arg_cong [OF b(2), of bk_version] arg_cong [OF b(2), of bk_status] by (simp_all add: unstarted_def)
  have "replay_event (''booking_requested'', []) (unstarted b) = b"
    using b(2) by (simp add: replay_event_def unstarted_version_1)
  then have new: "booking_row_ok db' b"
    using row none ver by (simp add: booking_row_ok_def events_of_def booking_statuses_def)
  have old: "booking_row_ok db' a" if "a \<in> set (bdb_bookings db)" for a
  proof -
    from that b(1) have "bk_id a \<noteq> bk_id b" by (metis imageI)
    then have "events_of (bk_id a) db' = events_of (bk_id a) db" using row(1,2) by (simp add: events_of_def)
    then show ?thesis using inv that by (auto simp: booking_inv_def booking_row_ok_def)
  qed
  have "\<not> booking_conflict x y"
    if "x \<in> set (bdb_bookings db')" "y \<in> set (bdb_bookings db')" "bk_id x \<noteq> bk_id y" for x y
    using that inv' b(3,4) booking_conflict_sym by (metis Un_iff empty_iff insertE set_ConsD set_append list.set(1))
  then show ?thesis
    using inv' new old b(1,4) row(1,2) by (simp add: booking_inv_def)
qed

section \<open>All transactions of the service\<close>

lemma booking_inv_tables [simp]:
  "booking_inv (db\<lparr>bdb_inbox := ib\<rparr>) = booking_inv db" "booking_inv (db\<lparr>bdb_idem := rows\<rparr>) = booking_inv db"
  "booking_inv (db\<lparr>bdb_outbox := obs\<rparr>) = booking_inv db"
  by (simp_all add: booking_inv_def booking_row_ok_def events_of_def)

lemma get_by_id_inbox [simp]: "get_by_id i (db\<lparr>bdb_inbox := ib\<rparr>) = get_by_id i db"
  by (simp add: get_by_id_def)

text \<open>
  One committed transaction: a use case, one record of the payment topic, or a change of the
  idempotency table (a stored response, the clean-up).
\<close>

inductive booking_step :: "booking_db \<Rightarrow> booking_db \<Rightarrow> bool" where
  request: "request_booking e http base r v sd ed tok db = Inr (b, db') \<Longrightarrow> booking_step db db'"
| accept: "accept_booking_request e i h db = Inr (b, db') \<Longrightarrow> booking_step db db'"
| reject: "reject_booking_request e i h db = Inr (b, db') \<Longrightarrow> booking_step db db'"
| handover: "record_handover e i h od fu ph db = Inr (b, db') \<Longrightarrow> booking_step db db'"
| return: "record_return e i h od fu ph db = Inr (b, db') \<Longrightarrow> booking_step db db'"
| event: "booking_process e eid ty d db = Inr db' \<Longrightarrow> booking_step db db'"
| keys: "booking_step db (db\<lparr>bdb_idem := rows\<rparr>)"

inductive booking_reachable :: "booking_db \<Rightarrow> bool" where
  empty: "booking_reachable empty_booking_db"
| step: "booking_reachable db \<Longrightarrow> booking_step db db' \<Longrightarrow> booking_reachable db'"

text \<open>The three shapes a transaction has.\<close>

lemma payment_event_cases:
  assumes "payment_event_handlers e ty = Some h" "h db d = Inr db'"
  obtains (authorized) i b' where "ty = ''payment_authorized''" "uuid_item d ''booking_id'' = Inr i"
      "apply_payment_authorized e i db = Inr (b', db')"
  | (failed) i b' where "ty = ''payment_authorization_failed''" "uuid_item d ''booking_id'' = Inr i"
      "apply_payment_authorization_failed e i db = Inr (b', db')"
  | (captured) i b' where "ty = ''payment_captured''" "uuid_item d ''booking_id'' = Inr i"
      "apply_payment_captured e i db = Inr (b', db')"
  | (capture_failed) i b' where "ty = ''payment_capture_failed''" "uuid_item d ''booking_id'' = Inr i"
      "apply_payment_capture_failed e i db = Inr (b', db')"
  using assms that
  by (auto simp: payment_event_handlers_def handle_payment_event_def bindE_eq_Inr mapErr_eq_Inr split: if_splits)

lemma payment_event_moved:
  assumes "payment_event_handlers e ty = Some h" "h db d = Inr db'" "booking_inv db"
  obtains b facts outs b' where "moved db b facts outs b' db'"
  using assms(1,2)
proof (cases rule: payment_event_cases)
  case authorized
  then show ?thesis using that by (elim apply_payment_authorized_moved)
next
  case failed
  then show ?thesis using that by (elim apply_payment_authorization_failed_moved)
next
  case captured
  then show ?thesis using that assms(3) by (metis apply_payment_captured_moved)
next
  case capture_failed
  then show ?thesis using that assms(3) by (metis apply_payment_capture_failed_moved)
qed

lemma payment_event_inbox:
  assumes "payment_event_handlers e ty = Some h" "h db d = Inr db'"
  shows "bdb_inbox db' = bdb_inbox db"
  using assms
  by (cases rule: payment_event_cases)
    (auto simp: service_defs domain_defs some_booking emit_domain_event_eq bindE_eq_Inr
      save_booking_Inr dest!: append_events_Inr booking_outbox_event_Inr)

text \<open>The inbox table of the booking database meets the contract of \<open>inbox_consumer\<close>.\<close>

interpretation booking_inbox: inbox_consumer bdb_inbox "\<lambda>ib db. db\<lparr>bdb_inbox := ib\<rparr>" payment_event_handlers loads BookingPy
  for loads
  by unfold_locales (simp_all add: payment_event_inbox)

lemma booking_process_cases:
  assumes "booking_process e eid ty d db = Inr db'" "booking_inv db"
  obtains (quiet) ib where "db' = db\<lparr>bdb_inbox := ib\<rparr>"
  | (moved) ib b facts outs b' where "moved (db\<lparr>bdb_inbox := ib\<rparr>) b facts outs b' db'"
proof (cases "eid \<in> bdb_inbox db")
  case True
  then show ?thesis
    using assms(1) quiet [of "bdb_inbox db"] by (simp add: booking_process_def booking_inbox.process_duplicate)
next
  case False
  show ?thesis
  proof (cases "payment_event_handlers e ty")
    case None
    then show ?thesis
      using assms(1) False quiet by (metis Inr_inject booking_process_def booking_inbox.process_unhandled)
  next
    case (Some h)
    then have "h (db\<lparr>bdb_inbox := insert eid (bdb_inbox db)\<rparr>) d = Inr db'"
      using assms(1) False by (simp add: booking_process_def booking_inbox.process_first)
    then show ?thesis using payment_event_moved [OF Some] assms(2) moved by (metis booking_inv_tables(1))
  qed
qed

lemma booking_step_cases:
  assumes "booking_step db db'" "booking_inv db"
  obtains (created) outs b where "created db outs b db'"
  | (moved) ib b facts outs b' where "moved (db\<lparr>bdb_inbox := ib\<rparr>) b facts outs b' db'"
  | (quiet) "bdb_bookings db' = bdb_bookings db" "bdb_events db' = bdb_events db" "bdb_outbox db' = bdb_outbox db"
proof -
  have *: "db = db\<lparr>bdb_inbox := bdb_inbox db\<rparr>" by simp
  from assms(1) show ?thesis
  proof cases
    case request
    then show ?thesis by (elim request_booking_created) (rule created)
  next
    case accept
    then show ?thesis using moved * by (elim accept_booking_request_moved) metis
  next
    case reject
    then show ?thesis using moved * by (elim reject_booking_request_moved) metis
  next
    case handover
    then show ?thesis using moved * by (elim record_handover_moved) metis
  next
    case return
    then show ?thesis using moved * by (elim record_return_moved) metis
  next
    case event
    then show ?thesis using assms(2) by (cases rule: booking_process_cases) (auto intro: quiet moved)
  next
    case keys
    then show ?thesis using quiet by simp
  qed
qed

lemma booking_step_inv:
  assumes "booking_step db db'" "booking_inv db"
  shows "booking_inv db'"
  using assms
proof (cases rule: booking_step_cases)
  case created
  then show ?thesis using assms(2) booking_inv_created by blast
next
  case (moved ib)
  then show ?thesis using assms(2) booking_inv_moved [of "db\<lparr>bdb_inbox := ib\<rparr>"] by simp
next
  case quiet
  then show ?thesis using assms(2) by (simp add: booking_inv_def booking_row_ok_def events_of_def)
qed

lemma booking_inv_empty: "booking_inv empty_booking_db"
  by (simp add: booking_inv_def empty_booking_db_def)

lemma booking_reachable_inv: "booking_reachable db \<Longrightarrow> booking_inv db"
  by (induction rule: booking_reachable.induct) (auto intro: booking_inv_empty booking_step_inv)

section \<open>How a row changes\<close>

lemma find_row_append_new:
  "key b \<notin> key ` set rows \<Longrightarrow> i \<noteq> key b \<Longrightarrow> find_row key i (rows @ [b]) = find_row key i rows"
  by (simp add: find_row_append split: option.split)

lemma moved_get_by_id:
  assumes "moved db b facts outs b' db'"
  shows "get_by_id i db' = (if i = bk_id b then Some b' else get_by_id i db)"
  using assms movedD(1,2) [OF assms]
  by (auto simp: moved_def get_by_id_def find_row_update_row)

lemma moved_version: "moved db b facts outs b' db' \<Longrightarrow> bk_version b < bk_version b'"
  by (auto simp: moved_def replay_version)

lemma booking_step_row:
  assumes step: "booking_step db db'" and inv: "booking_inv db" and b: "get_by_id i db = Some b"
  obtains (same) "get_by_id i db' = Some b"
  | (changed) b' where "get_by_id i db' = Some b'" "status_step (bk_status b) (bk_status b')"
      "unstarted b' = unstarted b" "bk_version b < bk_version b'"
  using step inv
proof (cases rule: booking_step_cases)
  case (created outs c)
  then have "bk_id c \<noteq> i" using get_by_id_SomeD [OF b] by (metis created_def imageI)
  then show ?thesis using same created b by (simp add: created_def get_by_id_def find_row_append_new)
next
  case (moved ib c facts outs c')
  note mv = moved
  show ?thesis
  proof (cases "i = bk_id c")
    case True
    with b movedD(2) [OF mv] have "c = b" by simp
    moreover have "unstarted c' = unstarted c" using mv by (auto simp: moved_def)
    ultimately show ?thesis
      using changed True moved_get_by_id [OF mv, of i] movedD(4) [OF mv] moved_version [OF mv] by simp
  next
    case False
    then show ?thesis using same moved_get_by_id [OF mv, of i] b by simp
  qed
next
  case quiet
  then show ?thesis using same b by (simp add: get_by_id_def)
qed

end
