(* ===== verification/Payment.thy ===== *)
theory Payment
  imports Messaging Jwt_Auth
begin

text \<open>
  The payment service: tables and constraints (\<^verbatim>\<open>models.py\<close>, migration \<^verbatim>\<open>0001_initial.py\<close>), the
  repository with the double-entry ledger (\<^verbatim>\<open>repository.py\<close>), the Stripe wrapper
  (\<^verbatim>\<open>stripe_client.py\<close>), the reactions to the booking service's commands (\<^verbatim>\<open>service.py\<close>,
  \<^verbatim>\<open>consumers.py\<close>) and the HTTP routes (\<^verbatim>\<open>routes.py\<close>).

  The Stripe SDK is a parameter.  A call to it cannot be rolled back with the database, so an
  operation that uses it answers with the list of the calls it made beside its result:
  \<open>bindS\<close> sequences such operations and \<open>tryS\<close> is \<^verbatim>\<open>try ... except StripeError\<close>.

  \<open>payment_inv\<close> says that the ledger is what the payments' statuses promise: a captured payment
  has its rental pair and, when charged, its overage pair, and no other payment has any entry.
\<close>

datatype payment_exn = PaymentPy py_exn | StripeError

section \<open>Tables\<close>

record payment =
  pm_id :: uuid
  pm_booking_id :: uuid
  pm_renter_id :: uuid
  pm_hold_amount_cents :: int
  pm_overage_cents :: int
  pm_status :: string
  pm_stripe_payment_intent_id :: "string option"
  pm_stripe_overage_intent_id :: "string option"

record ledger_entry =
  le_id :: uuid
  le_payment_id :: uuid
  le_booking_id :: uuid
  le_account :: string
  le_direction :: string
  le_amount_cents :: int
  le_reason :: string

record payment_db =
  pdb_payments :: "payment list"
  pdb_ledger :: "ledger_entry list"
  pdb_outbox :: "outbox_row list"
  pdb_inbox :: inbox

definition empty_payment_db :: payment_db where
  "empty_payment_db = \<lparr>pdb_payments = [], pdb_ledger = [], pdb_outbox = [], pdb_inbox = {}\<rparr>"

definition payment_statuses :: "string set" where
  "payment_statuses = {''authorized'', ''authorization_failed'', ''captured'', ''capture_failed''}"

definition payment_columns_ok :: "payment \<Rightarrow> bool" where
  "payment_columns_ok p \<longleftrightarrow>
     int4_ok (pm_hold_amount_cents p) \<and> int4_ok (pm_overage_cents p) \<and> varchar_ok 24 (pm_status p) \<and>
     varchar_opt_ok 255 (pm_stripe_payment_intent_id p) \<and> varchar_opt_ok 255 (pm_stripe_overage_intent_id p)"

definition ledger_columns_ok :: "ledger_entry \<Rightarrow> bool" where
  "ledger_columns_ok l \<longleftrightarrow>
     int4_ok (le_amount_cents l) \<and> varchar_ok 64 (le_account l) \<and> varchar_ok 6 (le_direction l) \<and>
     varchar_ok 32 (le_reason l)"

section \<open>Calls to Stripe\<close>

record create_params =
  cp_amount :: int
  cp_currency :: string
  cp_payment_method :: string
  cp_capture_method :: string
  cp_confirm :: bool

text \<open>
  The SDK's two operations with the idempotency key of the request: the identifier of the
  payment intent, or \<open>None\<close> where the SDK raises \<^verbatim>\<open>stripe.StripeError\<close>.
\<close>

record stripe_client =
  sc_create :: "create_params \<Rightarrow> string \<Rightarrow> string option"
  sc_capture :: "string option \<Rightarrow> int \<Rightarrow> string \<Rightarrow> bool"
  sc_test_payment_method :: string

datatype stripe_call = CreateIntent create_params string | CaptureIntent "string option" int string

type_synonym 'a stripe_m = "stripe_call list \<times> (payment_exn + 'a)"

definition bindS :: "'a stripe_m \<Rightarrow> ('a \<Rightarrow> 'b stripe_m) \<Rightarrow> 'b stripe_m" where
  "bindS m f = (case m of (calls, Inl e) \<Rightarrow> (calls, Inl e)
                        | (calls, Inr x) \<Rightarrow> (case f x of (calls', r) \<Rightarrow> (calls @ calls', r)))"

definition tryS :: "'a stripe_m \<Rightarrow> 'b stripe_m \<Rightarrow> ('a \<Rightarrow> 'b stripe_m) \<Rightarrow> 'b stripe_m" where
  "tryS m handler f =
     (case m of (calls, Inl StripeError) \<Rightarrow> (case handler of (calls', r) \<Rightarrow> (calls @ calls', r))
              | (calls, Inl e) \<Rightarrow> (calls, Inl e)
              | (calls, Inr x) \<Rightarrow> (case f x of (calls', r) \<Rightarrow> (calls @ calls', r)))"

definition pureS :: "payment_exn + 'a \<Rightarrow> 'a stripe_m" where
  "pureS r = ([], r)"

definition create_intent :: "stripe_client \<Rightarrow> create_params \<Rightarrow> string \<Rightarrow> string stripe_m" where
  "create_intent client params key =
     ([CreateIntent params key],
      case sc_create client params key of None \<Rightarrow> Inl StripeError | Some intent_id \<Rightarrow> Inr intent_id)"

definition stripe_authorize :: "stripe_client \<Rightarrow> int \<Rightarrow> string \<Rightarrow> string stripe_m" where
  "stripe_authorize client amount_cents idempotency_key =
     create_intent client
       \<lparr>cp_amount = amount_cents, cp_currency = ''usd'', cp_payment_method = sc_test_payment_method client,
        cp_capture_method = ''manual'', cp_confirm = True\<rparr> idempotency_key"

definition stripe_capture :: "stripe_client \<Rightarrow> string option \<Rightarrow> int \<Rightarrow> string \<Rightarrow> unit stripe_m" where
  "stripe_capture client payment_intent_id amount_cents idempotency_key =
     ([CaptureIntent payment_intent_id amount_cents idempotency_key],
      if sc_capture client payment_intent_id amount_cents idempotency_key then Inr () else Inl StripeError)"

definition stripe_authorize_and_capture :: "stripe_client \<Rightarrow> int \<Rightarrow> string \<Rightarrow> string stripe_m" where
  "stripe_authorize_and_capture client amount_cents idempotency_key =
     create_intent client
       \<lparr>cp_amount = amount_cents, cp_currency = ''usd'', cp_payment_method = sc_test_payment_method client,
        cp_capture_method = ''automatic'', cp_confirm = True\<rparr> idempotency_key"

section \<open>Repository\<close>

definition get_by_booking_id :: "uuid \<Rightarrow> payment_db \<Rightarrow> payment option" where
  "get_by_booking_id booking_id db = find_row pm_booking_id booking_id (pdb_payments db)"

definition payment_create ::
  "env \<Rightarrow> nat \<Rightarrow> uuid \<Rightarrow> uuid \<Rightarrow> int \<Rightarrow> string \<Rightarrow> string option \<Rightarrow> payment_db \<Rightarrow> payment_exn + (payment \<times> payment_db)"
where
  "payment_create e k booking_id renter_id hold_amount_cents status stripe_payment_intent_id db =
     (let payment =
            \<lparr>pm_id = env_uuid4 e k, pm_booking_id = booking_id, pm_renter_id = renter_id,
             pm_hold_amount_cents = hold_amount_cents, pm_overage_cents = 0, pm_status = status,
             pm_stripe_payment_intent_id = stripe_payment_intent_id, pm_stripe_overage_intent_id = None\<rparr>
      in if \<not> payment_columns_ok payment then Inl (PaymentPy DataError)
         else if pm_status payment \<notin> payment_statuses \<or> pm_id payment \<in> pm_id ` set (pdb_payments db) \<or>
                 booking_id \<in> pm_booking_id ` set (pdb_payments db)
         then Inl (PaymentPy IntegrityError)
         else Inr (payment, db\<lparr>pdb_payments := pdb_payments db @ [payment]\<rparr>))"

definition payment_save :: "payment \<Rightarrow> payment_db \<Rightarrow> payment_exn + payment_db" where
  "payment_save payment db =
     (if \<not> payment_columns_ok payment then Inl (PaymentPy DataError)
      else if pm_status payment \<notin> payment_statuses then Inl (PaymentPy IntegrityError)
      else Inr (db\<lparr>pdb_payments := update_row pm_id payment (pdb_payments db)\<rparr>))"

definition ledger_pair ::
  "env \<Rightarrow> nat \<Rightarrow> uuid \<Rightarrow> uuid \<Rightarrow> string \<Rightarrow> string \<Rightarrow> int \<Rightarrow> string \<Rightarrow> ledger_entry list"
where
  "ledger_pair e k payment_id booking_id debit_account credit_account amount_cents reason =
     [\<lparr>le_id = env_uuid4 e k, le_payment_id = payment_id, le_booking_id = booking_id,
       le_account = debit_account, le_direction = ''debit'', le_amount_cents = amount_cents,
       le_reason = reason\<rparr>,
      \<lparr>le_id = env_uuid4 e (Suc k), le_payment_id = payment_id, le_booking_id = booking_id,
       le_account = credit_account, le_direction = ''credit'', le_amount_cents = amount_cents,
       le_reason = reason\<rparr>]"

definition write_ledger_pair ::
  "env \<Rightarrow> nat \<Rightarrow> uuid \<Rightarrow> uuid \<Rightarrow> string \<Rightarrow> string \<Rightarrow> int \<Rightarrow> string \<Rightarrow> payment_db \<Rightarrow> payment_exn + payment_db"
where
  "write_ledger_pair e k payment_id booking_id debit_account credit_account amount_cents reason db =
     (let entries = ledger_pair e k payment_id booking_id debit_account credit_account amount_cents reason
      in if \<not> (\<forall>l \<in> set entries. ledger_columns_ok l) then Inl (PaymentPy DataError)
         else if amount_cents \<le> 0 \<or> payment_id \<notin> pm_id ` set (pdb_payments db) \<or>
                 \<not> distinct (map le_id (pdb_ledger db @ entries))
         then Inl (PaymentPy IntegrityError)
         else Inr (db\<lparr>pdb_ledger := pdb_ledger db @ entries\<rparr>))"

definition payment_outbox_event ::
  "env \<Rightarrow> nat \<Rightarrow> uuid \<Rightarrow> string \<Rightarrow> payment_db \<Rightarrow> payment_exn + payment_db"
where
  "payment_outbox_event e k booking_id event_type db =
     bindE (mapErr PaymentPy (write_outbox_event e k ''payment'' (uuid_str booking_id) event_type
              [(''booking_id'', JStr (uuid_str booking_id))] (pdb_outbox db))) (\<lambda>(_, rows).
     Inr (db\<lparr>pdb_outbox := rows\<rparr>))"

section \<open>Commands of the booking service\<close>

definition handle_authorize_payment_requested ::
  "stripe_client \<Rightarrow> env \<Rightarrow> uuid \<Rightarrow> uuid \<Rightarrow> int \<Rightarrow> payment_db \<Rightarrow> payment_db stripe_m"
where
  "handle_authorize_payment_requested stripe e booking_id renter_id amount_cents db =
     (case get_by_booking_id booking_id db of
        Some existing \<Rightarrow> pureS (Inr db)
      | None \<Rightarrow>
          tryS (stripe_authorize stripe amount_cents (''authorize:'' @ uuid_str booking_id))
            (pureS (
               bindE (payment_create e 0 booking_id renter_id amount_cents ''authorization_failed'' None db) (\<lambda>(_, db).
               payment_outbox_event e 1 booking_id ''payment_authorization_failed'' db)))
            (\<lambda>intent_id. pureS (
               bindE (payment_create e 0 booking_id renter_id amount_cents ''authorized'' (Some intent_id) db) (\<lambda>(_, db).
               payment_outbox_event e 1 booking_id ''payment_authorized'' db))))"

text \<open>
  The overage part of the capture: its result is the payment object, the database and the
  number of identifiers drawn so far.
\<close>

definition charge_overage ::
  "stripe_client \<Rightarrow> env \<Rightarrow> uuid \<Rightarrow> uuid \<Rightarrow> int \<Rightarrow> payment \<Rightarrow> payment_db \<Rightarrow> (payment \<times> payment_db \<times> nat) stripe_m"
where
  "charge_overage stripe e booking_id host_id overage_cents payment db =
     (if 0 < overage_cents then
        tryS (stripe_authorize_and_capture stripe overage_cents (''overage:'' @ uuid_str booking_id))
          (pureS (Inr (payment, db, 2)))
          (\<lambda>overage_intent_id.
             let payment = payment\<lparr>pm_stripe_overage_intent_id := Some overage_intent_id,
                                   pm_overage_cents := overage_cents\<rparr>
             in pureS (
               bindE (payment_save payment db) (\<lambda>db.
               bindE (write_ledger_pair e 2 (pm_id payment) booking_id
                        (''renter:'' @ uuid_str (pm_renter_id payment)) (''host:'' @ uuid_str host_id)
                        overage_cents ''mileage_overage'' db) (\<lambda>db.
               Inr (payment, db, 4)))))
      else pureS (Inr (payment, db, 2)))"

definition handle_capture_payment_requested ::
  "stripe_client \<Rightarrow> env \<Rightarrow> uuid \<Rightarrow> uuid \<Rightarrow> int \<Rightarrow> int \<Rightarrow> payment_db \<Rightarrow> payment_db stripe_m"
where
  "handle_capture_payment_requested stripe e booking_id host_id hold_amount_cents overage_cents db =
     (case get_by_booking_id booking_id db of
        None \<Rightarrow> pureS (Inr db)
      | Some payment \<Rightarrow>
          if pm_status payment \<noteq> ''authorized'' then pureS (Inr db)
          else
            tryS (stripe_capture stripe (pm_stripe_payment_intent_id payment) hold_amount_cents
                    (''capture:'' @ uuid_str booking_id))
              (pureS (
                 bindE (payment_save (payment\<lparr>pm_status := ''capture_failed''\<rparr>) db) (\<lambda>db.
                 payment_outbox_event e 0 booking_id ''payment_capture_failed'' db)))
              (\<lambda>_.
                 bindS (pureS (
                   write_ledger_pair e 0 (pm_id payment) booking_id
                     (''renter:'' @ uuid_str (pm_renter_id payment)) (''host:'' @ uuid_str host_id)
                     hold_amount_cents ''rental'' db)) (\<lambda>db.
                 bindS (charge_overage stripe e booking_id host_id overage_cents payment db) (\<lambda>(payment, db, k).
                 pureS (
                   bindE (payment_save (payment\<lparr>pm_status := ''captured''\<rparr>) db) (\<lambda>db.
                   payment_outbox_event e k booking_id ''payment_captured'' db))))))"

section \<open>Consumer\<close>

definition authorize_command :: "stripe_client \<Rightarrow> env \<Rightarrow> payment_db \<Rightarrow> dict \<Rightarrow> payment_db stripe_m" where
  "authorize_command stripe e db data =
     bindS (pureS (mapErr PaymentPy (
       bindE (uuid_item data ''booking_id'') (\<lambda>booking_id.
       bindE (uuid_item data ''renter_id'') (\<lambda>renter_id.
       bindE (int_item data ''amount_cents'') (\<lambda>amount_cents.
       Inr (booking_id, renter_id, amount_cents))))))) (\<lambda>(booking_id, renter_id, amount_cents).
     handle_authorize_payment_requested stripe e booking_id renter_id amount_cents db)"

definition capture_command :: "stripe_client \<Rightarrow> env \<Rightarrow> payment_db \<Rightarrow> dict \<Rightarrow> payment_db stripe_m" where
  "capture_command stripe e db data =
     bindS (pureS (mapErr PaymentPy (
       bindE (uuid_item data ''booking_id'') (\<lambda>booking_id.
       bindE (uuid_item data ''host_id'') (\<lambda>host_id.
       bindE (int_item data ''hold_amount_cents'') (\<lambda>hold_amount_cents.
       bindE (int_item data ''overage_cents'') (\<lambda>overage_cents.
       Inr (booking_id, host_id, hold_amount_cents, overage_cents))))))))
       (\<lambda>(booking_id, host_id, hold_amount_cents, overage_cents).
     handle_capture_payment_requested stripe e booking_id host_id hold_amount_cents overage_cents db)"

definition build_booking_command_handlers ::
  "stripe_client \<Rightarrow> env \<Rightarrow> string \<Rightarrow> (payment_db \<Rightarrow> dict \<Rightarrow> payment_db stripe_m) option"
where
  "build_booking_command_handlers stripe e = map_of
     [(''authorize_payment_requested'', authorize_command stripe e),
      (''capture_payment_requested'', capture_command stripe e)]"

text \<open>The database effect of the handlers, for the inbox processor.\<close>

definition payment_handlers ::
  "stripe_client \<times> env \<Rightarrow> string \<Rightarrow> (payment_db \<Rightarrow> dict \<Rightarrow> payment_exn + payment_db) option"
where
  "payment_handlers w ty =
     map_option (\<lambda>h db data. snd (h db data)) (build_booking_command_handlers (fst w) (snd w) ty)"

definition payment_process ::
  "stripe_client \<times> env \<Rightarrow> string \<Rightarrow> string \<Rightarrow> dict \<Rightarrow> payment_db \<Rightarrow> payment_exn + payment_db"
where
  "payment_process w =
     postgres_inbox_processor pdb_inbox (\<lambda>ib db. db\<lparr>pdb_inbox := ib\<rparr>) (payment_handlers w)"

section \<open>Routes\<close>

definition payment_response :: "payment \<Rightarrow> dict" where
  "payment_response p =
     [(''booking_id'', JStr (uuid_str (pm_booking_id p))), (''renter_id'', JStr (uuid_str (pm_renter_id p))),
      (''status'', JStr (pm_status p)), (''hold_amount_cents'', JInt (pm_hold_amount_cents p)),
      (''overage_cents'', JInt (pm_overage_cents p)),
      (''stripe_payment_intent_id'',
       case pm_stripe_payment_intent_id p of None \<Rightarrow> JNull | Some s \<Rightarrow> JStr s)]"

definition get_payment :: "jwt_settings \<Rightarrow> string option \<Rightarrow> uuid \<Rightarrow> payment_db \<Rightarrow> py_exn + dict" where
  "get_payment st authorization booking_id db =
     bindE (claims_dependency st ''access'' authorization) (\<lambda>claims.
     bindE (require_role claims [''admin'']) (\<lambda>_.
     case get_by_booking_id booking_id db of
       None \<Rightarrow> Inl (HTTPException 404 ''payment not found'')
     | Some payment \<Rightarrow> Inr (payment_response payment)))"

text \<open>
  \<open>construct_event\<close> stands for \<^verbatim>\<open>stripe.Webhook.construct_event\<close>: \<open>None\<close> when the signature or
  the payload is refused.
\<close>

definition stripe_webhook ::
  "(string \<Rightarrow> string \<Rightarrow> string \<Rightarrow> dict option) \<Rightarrow> string \<Rightarrow> string \<Rightarrow> string \<Rightarrow> payment_db \<Rightarrow> py_exn + (dict \<times> payment_db)"
where
  "stripe_webhook construct_event webhook_secret payload stripe_signature db =
     (case construct_event payload stripe_signature webhook_secret of
        None \<Rightarrow> Inl (HTTPException 400 ''invalid webhook signature'')
      | Some event \<Rightarrow>
          bindE (str_item event ''id'') (\<lambda>event_id.
          let (claimed, ib) = claim_event event_id (pdb_inbox db) in
          bindE (if claimed then bindE (dict_item event ''type'') (\<lambda>_. Inr ()) else Inr ()) (\<lambda>_.
          Inr ([(''status'', JStr ''ok'')], db\<lparr>pdb_inbox := ib\<rparr>))))"

section \<open>Specification of the ledger\<close>

definition entry_of :: "ledger_entry \<Rightarrow> string \<times> string \<times> int \<times> string" where
  "entry_of l = (le_account l, le_direction l, le_amount_cents l, le_reason l)"

definition ledger_of :: "uuid \<Rightarrow> payment_db \<Rightarrow> ledger_entry list" where
  "ledger_of payment_id db = filter (\<lambda>l. le_payment_id l = payment_id) (pdb_ledger db)"

definition pair_spec :: "uuid \<Rightarrow> uuid \<Rightarrow> int \<Rightarrow> string \<Rightarrow> (string \<times> string \<times> int \<times> string) list" where
  "pair_spec renter host amount reason =
     [(''renter:'' @ uuid_str renter, ''debit'', amount, reason), (''host:'' @ uuid_str host, ''credit'', amount, reason)]"

text \<open>The entries a captured payment must have.\<close>

definition charge_spec :: "payment \<Rightarrow> uuid \<Rightarrow> int \<Rightarrow> (string \<times> string \<times> int \<times> string) list" where
  "charge_spec p host amount =
     pair_spec (pm_renter_id p) host amount ''rental'' @
     (if 0 < pm_overage_cents p then pair_spec (pm_renter_id p) host (pm_overage_cents p) ''mileage_overage'' else [])"

definition entry_value :: "string \<times> string \<times> int \<times> string \<Rightarrow> int" where
  "entry_value = (\<lambda>(account, direction, amount, reason). if direction = ''debit'' then amount else - amount)"

definition ledger_balance :: "ledger_entry list \<Rightarrow> int" where
  "ledger_balance ls = (\<Sum>l\<leftarrow>ls. entry_value (entry_of l))"

definition payment_row_ok :: "payment_db \<Rightarrow> payment \<Rightarrow> bool" where
  "payment_row_ok db p \<longleftrightarrow>
     pm_status p \<in> payment_statuses \<and>
     (pm_status p = ''authorization_failed'' \<longleftrightarrow> pm_stripe_payment_intent_id p = None) \<and>
     (if pm_status p = ''captured''
      then 0 \<le> pm_overage_cents p \<and>
           (\<exists>host amount. 0 < amount \<and> map entry_of (ledger_of (pm_id p) db) = charge_spec p host amount)
      else ledger_of (pm_id p) db = [] \<and> pm_overage_cents p = 0)"

definition payment_inv :: "payment_db \<Rightarrow> bool" where
  "payment_inv db \<longleftrightarrow>
     distinct (map pm_id (pdb_payments db)) \<and> distinct (map pm_booking_id (pdb_payments db)) \<and>
     (\<forall>l \<in> set (pdb_ledger db). le_payment_id l \<in> pm_id ` set (pdb_payments db)) \<and>
     ledger_balance (pdb_ledger db) = 0 \<and>
     (\<forall>p \<in> set (pdb_payments db). payment_row_ok db p)"

section \<open>Lemmas\<close>

lemma pureS_simps [simp]: "bindS (pureS (Inr x)) f = f x" "bindS (pureS (Inl e)) f = pureS (Inl e)" "snd (pureS r) = r"
  "fst (pureS r) = []"
  by (simp_all add: bindS_def pureS_def)

lemma snd_bindS: "snd (bindS m f) = bindE (snd m) (\<lambda>x. snd (f x))"
  by (auto simp: bindS_def split: prod.split sum.split)

lemma snd_tryS:
  "snd (tryS m h f) = (case snd m of Inl StripeError \<Rightarrow> snd h | Inl e \<Rightarrow> Inl e | Inr x \<Rightarrow> snd (f x))"
  by (auto simp: tryS_def split: prod.split sum.split payment_exn.split)

lemma snd_create_intent:
  "snd (create_intent c ps key) = (case sc_create c ps key of None \<Rightarrow> Inl StripeError | Some i \<Rightarrow> Inr i)"
  by (simp add: create_intent_def)

lemma payment_outbox_event_Inr:
  "payment_outbox_event e k i ty db = Inr db' \<Longrightarrow>
     \<exists>rows. db' = db\<lparr>pdb_outbox := rows\<rparr> \<and>
            emitted [(ty, [(''booking_id'', JStr (uuid_str i))])] (pdb_outbox db) rows"
  by (auto simp: payment_outbox_event_def bindE_eq_Inr mapErr_eq_Inr intro: write_outbox_event_emits)

lemma payment_create_Inr:
  "payment_create e k i r amount s intent db = Inr (p, db') \<Longrightarrow>
     p = \<lparr>pm_id = env_uuid4 e k, pm_booking_id = i, pm_renter_id = r, pm_hold_amount_cents = amount,
          pm_overage_cents = 0, pm_status = s, pm_stripe_payment_intent_id = intent,
          pm_stripe_overage_intent_id = None\<rparr> \<and>
     s \<in> payment_statuses \<and> pm_id p \<notin> pm_id ` set (pdb_payments db) \<and>
     i \<notin> pm_booking_id ` set (pdb_payments db) \<and> int4_ok amount \<and>
     db' = db\<lparr>pdb_payments := pdb_payments db @ [p]\<rparr>"
  by (auto simp: payment_create_def Let_def payment_columns_ok_def split: if_splits)

lemma payment_save_Inr:
  "payment_save p db = Inr db' \<longleftrightarrow>
     payment_columns_ok p \<and> pm_status p \<in> payment_statuses \<and>
     db' = db\<lparr>pdb_payments := update_row pm_id p (pdb_payments db)\<rparr>"
  by (auto simp: payment_save_def)

lemma write_ledger_pair_Inr:
  "write_ledger_pair e k pid i da ca amount reason db = Inr db' \<Longrightarrow>
     db' = db\<lparr>pdb_ledger := pdb_ledger db @ ledger_pair e k pid i da ca amount reason\<rparr> \<and> 0 < amount \<and>
     pid \<in> pm_id ` set (pdb_payments db)"
  by (auto simp: write_ledger_pair_def Let_def split: if_splits)

lemma entry_of_pair:
  "map entry_of (ledger_pair e k pid i (''renter:'' @ uuid_str r) (''host:'' @ uuid_str h) amount reason) =
     pair_spec r h amount reason"
  "\<forall>l \<in> set (ledger_pair e k pid i da ca amount reason). le_payment_id l = pid \<and> le_booking_id l = i"
  by (simp_all add: ledger_pair_def entry_of_def pair_spec_def)

subsection \<open>What the commands do\<close>

lemma authorize_effect:
  assumes "snd (handle_authorize_payment_requested stripe e i r amount db) = Inr db'"
  obtains (known) p where "get_by_booking_id i db = Some p" "db' = db"
  | (new) p rows where "get_by_booking_id i db = None" "pm_id p \<notin> pm_id ` set (pdb_payments db)"
      "pm_booking_id p = i" "pm_renter_id p = r" "pm_hold_amount_cents p = amount" "pm_overage_cents p = 0"
      "int4_ok amount"
      "pm_status p = ''authorized'' \<and> pm_stripe_payment_intent_id p \<noteq> None \<or>
       pm_status p = ''authorization_failed'' \<and> pm_stripe_payment_intent_id p = None"
      "db' = db\<lparr>pdb_payments := pdb_payments db @ [p], pdb_outbox := rows\<rparr>"
      "emitted [(''payment_'' @ pm_status p, [(''booking_id'', JStr (uuid_str i))])] (pdb_outbox db) rows"
proof (cases "get_by_booking_id i db")
  case None
  have tail: thesis
    if s: "s = ''authorized'' \<and> intent \<noteq> None \<or> s = ''authorization_failed'' \<and> intent = None"
      and cr: "payment_create e 0 i r amount s intent db = Inr (p, db1)"
      and ob: "payment_outbox_event e 1 i (''payment_'' @ s) db1 = Inr db'" for s intent p db1
  proof -
    obtain rows where "db' = db1\<lparr>pdb_outbox := rows\<rparr>"
      "emitted [(''payment_'' @ s, [(''booking_id'', JStr (uuid_str i))])] (pdb_outbox db1) rows"
      using payment_outbox_event_Inr [OF ob] by blast
    with payment_create_Inr [OF cr] s show thesis by (intro new [OF None, of p rows]) auto
  qed
  show ?thesis
  proof (cases "snd (stripe_authorize stripe amount (''authorize:'' @ uuid_str i))")
    case (Inl x)
    then have "x = StripeError" by (simp add: stripe_authorize_def snd_create_intent split: option.splits)
    with Inl None assms obtain p db1 where "payment_create e 0 i r amount ''authorization_failed'' None db = Inr (p, db1)"
      "payment_outbox_event e 1 i ''payment_authorization_failed'' db1 = Inr db'"
      by (auto simp: handle_authorize_payment_requested_def snd_tryS bindE_eq_Inr)
    then show ?thesis using tail [of "''authorization_failed''" None p db1] by simp
  next
    case (Inr intent)
    with None assms obtain p db1 where "payment_create e 0 i r amount ''authorized'' (Some intent) db = Inr (p, db1)"
      "payment_outbox_event e 1 i ''payment_authorized'' db1 = Inr db'"
      by (auto simp: handle_authorize_payment_requested_def snd_tryS bindE_eq_Inr)
    then show ?thesis using tail [of "''authorized''" "Some intent" p db1] by simp
  qed
next
  case (Some p)
  then have "db' = db" using assms by (simp add: handle_authorize_payment_requested_def)
  then show ?thesis by (rule known [OF Some])
qed

abbreviation overage_answer :: "stripe_client \<Rightarrow> uuid \<Rightarrow> int \<Rightarrow> string option" where
  "overage_answer stripe i ov \<equiv> sc_create stripe
     \<lparr>cp_amount = ov, cp_currency = ''usd'', cp_payment_method = sc_test_payment_method stripe,
      cp_capture_method = ''automatic'', cp_confirm = True\<rparr> (''overage:'' @ uuid_str i)"

lemma charge_overage_effect:
  assumes "snd (charge_overage stripe e i h ov p db) = Inr (p', db', k)"
  obtains (none) "\<not> (0 < ov \<and> overage_answer stripe i ov \<noteq> None)" "p' = p" "db' = db"
  | (charged) x new where "0 < ov" "overage_answer stripe i ov = Some x" "p' = p\<lparr>pm_stripe_overage_intent_id := Some x, pm_overage_cents := ov\<rparr>"
      "map entry_of new = pair_spec (pm_renter_id p) h ov ''mileage_overage''"
      "\<forall>l \<in> set new. le_payment_id l = pm_id p \<and> le_booking_id l = i"
      "db' = db\<lparr>pdb_payments := update_row pm_id p' (pdb_payments db), pdb_ledger := pdb_ledger db @ new\<rparr>"
proof (cases "0 < ov")
  case True
  show ?thesis
  proof (cases "snd (stripe_authorize_and_capture stripe ov (''overage:'' @ uuid_str i))")
    case (Inl x)
    then have x: "x = StripeError" "overage_answer stripe i ov = None"
      by (simp_all add: stripe_authorize_and_capture_def snd_create_intent split: option.splits)
    with Inl True assms have "p' = p" "db' = db" by (simp_all add: charge_overage_def snd_tryS)
    with x show ?thesis by (intro none) simp_all
  next
    case (Inr x)
    let ?p = "p\<lparr>pm_stripe_overage_intent_id := Some x, pm_overage_cents := ov\<rparr>"
    have x: "overage_answer stripe i ov = Some x"
      using Inr by (simp add: stripe_authorize_and_capture_def snd_create_intent split: option.splits)
    obtain db1 where db1: "payment_save ?p db = Inr db1" "p' = ?p"
      "write_ledger_pair e 2 (pm_id ?p) i (''renter:'' @ uuid_str (pm_renter_id ?p)) (''host:'' @ uuid_str h) ov
         ''mileage_overage'' db1 = Inr db'"
      using assms True Inr by (auto simp: charge_overage_def snd_tryS Let_def bindE_eq_Inr)
    show ?thesis
      using charged [OF True x db1(2) entry_of_pair(1) entry_of_pair(2)] db1(1,2) write_ledger_pair_Inr [OF db1(3)]
      by (auto simp: payment_save_Inr)
  qed
next
  case False
  with assms have "p' = p" "db' = db" by (simp_all add: charge_overage_def)
  with False show ?thesis by (intro none) simp_all
qed

lemma capture_effect:
  assumes "snd (handle_capture_payment_requested stripe e i h hold ov db) = Inr db'"
  obtains (ignored) "\<forall>p. get_by_booking_id i db = Some p \<longrightarrow> pm_status p \<noteq> ''authorized''" "db' = db"
  | (failed) p rows where "get_by_booking_id i db = Some p" "pm_status p = ''authorized''"
      "\<not> sc_capture stripe (pm_stripe_payment_intent_id p) hold (''capture:'' @ uuid_str i)"
      "db' = db\<lparr>pdb_payments := update_row pm_id (p\<lparr>pm_status := ''capture_failed''\<rparr>) (pdb_payments db),
              pdb_outbox := rows\<rparr>"
      "emitted [(''payment_capture_failed'', [(''booking_id'', JStr (uuid_str i))])] (pdb_outbox db) rows"
  | (captured) p p' extra new rows where "get_by_booking_id i db = Some p" "pm_status p = ''authorized''" "0 < hold"
      "sc_capture stripe (pm_stripe_payment_intent_id p) hold (''capture:'' @ uuid_str i)"
      "\<not> (0 < ov \<and> overage_answer stripe i ov \<noteq> None) \<and> p' = p\<lparr>pm_status := ''captured''\<rparr> \<and> extra = [] \<or>
       0 < ov \<and> overage_answer stripe i ov \<noteq> None \<and> extra = pair_spec (pm_renter_id p) h ov ''mileage_overage'' \<and>
       (\<exists>x. p' = p\<lparr>pm_stripe_overage_intent_id := Some x, pm_overage_cents := ov, pm_status := ''captured''\<rparr>)"
      "map entry_of new = pair_spec (pm_renter_id p) h hold ''rental'' @ extra"
      "\<forall>l \<in> set new. le_payment_id l = pm_id p \<and> le_booking_id l = i"
      "db' = db\<lparr>pdb_payments := update_row pm_id p' (pdb_payments db), pdb_ledger := pdb_ledger db @ new,
              pdb_outbox := rows\<rparr>"
      "emitted [(''payment_captured'', [(''booking_id'', JStr (uuid_str i))])] (pdb_outbox db) rows"
proof (cases "\<exists>p. get_by_booking_id i db = Some p \<and> pm_status p = ''authorized''")
  case False
  then show ?thesis
    using assms ignored by (auto simp: handle_capture_payment_requested_def split: option.splits if_splits)
next
  case True
  then obtain p where p: "get_by_booking_id i db = Some p" "pm_status p = ''authorized''" by blast
  let ?key = "''capture:'' @ uuid_str i"
  show ?thesis
  proof (cases "sc_capture stripe (pm_stripe_payment_intent_id p) hold ?key")
    case False
    then obtain db1 where "payment_save (p\<lparr>pm_status := ''capture_failed''\<rparr>) db = Inr db1"
      and ob: "payment_outbox_event e 0 i ''payment_capture_failed'' db1 = Inr db'"
      using assms p by (auto simp: handle_capture_payment_requested_def snd_tryS stripe_capture_def bindE_eq_Inr)
    then show ?thesis using failed [OF p False] payment_outbox_event_Inr [OF ob] by (auto simp: payment_save_Inr)
  next
    case True
    let ?new = "ledger_pair e 0 (pm_id p) i (''renter:'' @ uuid_str (pm_renter_id p)) (''host:'' @ uuid_str h) hold ''rental''"
    obtain db1 p1 db2 k db3 where
      wl: "write_ledger_pair e 0 (pm_id p) i (''renter:'' @ uuid_str (pm_renter_id p)) (''host:'' @ uuid_str h)
             hold ''rental'' db = Inr db1"
      and co: "snd (charge_overage stripe e i h ov p db1) = Inr (p1, db2, k)"
      and sv: "payment_save (p1\<lparr>pm_status := ''captured''\<rparr>) db2 = Inr db3"
      and ob: "payment_outbox_event e k i ''payment_captured'' db3 = Inr db'"
      using assms p True
      by (auto simp: handle_capture_payment_requested_def snd_tryS stripe_capture_def snd_bindS bindE_eq_Inr)
    obtain rows where rows: "db' = db3\<lparr>pdb_outbox := rows\<rparr>"
      "emitted [(''payment_captured'', [(''booking_id'', JStr (uuid_str i))])] (pdb_outbox db3) rows"
      using payment_outbox_event_Inr [OF ob] by blast
    have db1: "db1 = db\<lparr>pdb_ledger := pdb_ledger db @ ?new\<rparr>" "0 < hold" using write_ledger_pair_Inr [OF wl] by auto
    have db3: "db3 = db2\<lparr>pdb_payments := update_row pm_id (p1\<lparr>pm_status := ''captured''\<rparr>) (pdb_payments db2)\<rparr>"
      using sv by (simp add: payment_save_Inr)
    from co show ?thesis
    proof (cases rule: charge_overage_effect)
      case none
      show ?thesis
        by (rule captured [OF p db1(2) True, where p' = "p\<lparr>pm_status := ''captured''\<rparr>" and extra = "[]" and new = ?new and rows = rows])
          (use none db1 db3 rows entry_of_pair in auto)
    next
      case (charged x new2)
      show ?thesis
        by (rule captured [OF p db1(2) True, where p' = "p1\<lparr>pm_status := ''captured''\<rparr>" and new = "?new @ new2" and rows = rows
              and extra = "pair_spec (pm_renter_id p) h ov ''mileage_overage''"])
          (use charged db1 db3 rows entry_of_pair in auto)
    qed
  qed
qed

subsection \<open>The invariant\<close>

lemma get_by_booking_id_SomeD:
  "get_by_booking_id i db = Some p \<Longrightarrow> p \<in> set (pdb_payments db) \<and> pm_booking_id p = i"
  by (auto simp: get_by_booking_id_def dest: find_row_SomeD)

lemma get_by_booking_id_None: "get_by_booking_id i db = None \<longleftrightarrow> i \<notin> pm_booking_id ` set (pdb_payments db)"
  by (simp add: get_by_booking_id_def find_row_None_iff)

lemma ledger_balance_append [simp]: "ledger_balance (xs @ ys) = ledger_balance xs + ledger_balance ys"
  by (simp add: ledger_balance_def)

lemma ledger_balance_spec: "ledger_balance ls = (\<Sum>x\<leftarrow>map entry_of ls. entry_value x)"
  by (simp add: ledger_balance_def comp_def)

lemma pair_spec_balance [simp]: "(\<Sum>x\<leftarrow>pair_spec r h a reason. entry_value x) = 0"
  by (simp add: pair_spec_def entry_value_def)

lemma payment_row_ok_ledger:
  "ledger_of (pm_id p) db' = ledger_of (pm_id p) db \<Longrightarrow> payment_row_ok db' p = payment_row_ok db p"
  by (simp add: payment_row_ok_def)

lemma payment_inv_new:
  assumes inv: "payment_inv db" and p: "pm_id p \<notin> pm_id ` set (pdb_payments db)"
    "pm_booking_id p \<notin> pm_booking_id ` set (pdb_payments db)" "pm_overage_cents p = 0"
    "pm_status p = ''authorized'' \<and> pm_stripe_payment_intent_id p \<noteq> None \<or>
     pm_status p = ''authorization_failed'' \<and> pm_stripe_payment_intent_id p = None"
    and db': "pdb_payments db' = pdb_payments db @ [p]" "pdb_ledger db' = pdb_ledger db"
  shows "payment_inv db'"
proof -
  have "ledger_of (pm_id p) db' = []"
    using inv p(1) db'(2) unfolding payment_inv_def ledger_of_def filter_empty_conv by metis
  then have "payment_row_ok db' p" using p(3,4) by (auto simp: payment_row_ok_def payment_statuses_def)
  moreover have "payment_row_ok db' q" if "q \<in> set (pdb_payments db)" for q
    using inv that db'(2) payment_row_ok_ledger [of q db' db] by (simp add: payment_inv_def ledger_of_def)
  ultimately show ?thesis using inv p(1,2) db' by (simp add: payment_inv_def)
qed

lemma payment_inv_update:
  assumes inv: "payment_inv db" and p: "p \<in> set (pdb_payments db)" "pm_id p' = pm_id p" "pm_booking_id p' = pm_booking_id p"
    and db': "pdb_payments db' = update_row pm_id p' (pdb_payments db)" "pdb_ledger db' = pdb_ledger db @ new"
    and new: "\<forall>l \<in> set new. le_payment_id l = pm_id p" "ledger_balance new = 0" "payment_row_ok db' p'"
  shows "payment_inv db'"
proof -
  have d: "distinct (map pm_id (pdb_payments db))" using inv by (simp add: payment_inv_def)
  have ids: "map pm_id (pdb_payments db') = map pm_id (pdb_payments db)"
    "map pm_booking_id (pdb_payments db') = map pm_booking_id (pdb_payments db)"
    using map_update_row [OF d p(1), of p' pm_booking_id] p(2,3) db'(1) by simp_all
  have rows: "set (pdb_payments db') = insert p' (set (pdb_payments db) - {p})"
    using set_update_row [OF d p(1)] p(2) db'(1) by simp
  have "payment_row_ok db' q" if q: "q \<in> set (pdb_payments db)" "q \<noteq> p" for q
  proof -
    have "pm_id q \<noteq> pm_id p" using d q p(1) by (auto simp: distinct_map inj_on_def)
    then have "ledger_of (pm_id q) db' = ledger_of (pm_id q) db"
      using new(1) db'(2) by (auto simp: ledger_of_def filter_empty_conv)
    then show ?thesis using inv q(1) payment_row_ok_ledger [of q db' db] by (simp add: payment_inv_def)
  qed
  moreover have "le_payment_id l \<in> pm_id ` set (pdb_payments db')" if "l \<in> set (pdb_ledger db')" for l
  proof -
    have "pm_id ` set (pdb_payments db') = pm_id ` set (pdb_payments db)" using arg_cong [OF ids(1), of set] by simp
    then show ?thesis using that inv new(1) p(1) db'(2) by (auto simp: payment_inv_def)
  qed
  ultimately show ?thesis
    using inv ids new(2,3) rows db'(2) by (auto simp: payment_inv_def)
qed

lemma authorize_inv:
  assumes "snd (handle_authorize_payment_requested stripe e i r amount db) = Inr db'" "payment_inv db"
  shows "payment_inv db'"
  using assms(1)
proof (cases rule: authorize_effect)
  case (new p rows)
  then show ?thesis
    using assms(2) payment_inv_new [of db p db'] by (auto simp: get_by_booking_id_None)
qed (simp add: assms)

text \<open>The entries a capture leaves are those the specification asks for.\<close>

lemma captured_ledger:
  assumes "payment_inv db" "get_by_booking_id i db = Some p" "pm_status p = ''authorized''"
    and "p' = p\<lparr>pm_status := ''captured''\<rparr> \<and> extra = [] \<or>
       0 < ov \<and> extra = pair_spec (pm_renter_id p) h ov ''mileage_overage'' \<and>
       (\<exists>x. p' = p\<lparr>pm_stripe_overage_intent_id := Some x, pm_overage_cents := ov, pm_status := ''captured''\<rparr>)"
    and "map entry_of new = pair_spec (pm_renter_id p) h hold ''rental'' @ extra"
    and "\<forall>l \<in> set new. le_payment_id l = pm_id p \<and> le_booking_id l = i"
    and "pdb_ledger db' = pdb_ledger db @ new"
  shows "map entry_of (ledger_of (pm_id p) db') = charge_spec p' h hold" "0 \<le> pm_overage_cents p'"
    "ledger_of (pm_id p) db = []" "pm_overage_cents p = 0" "pm_stripe_payment_intent_id p \<noteq> None"
    "pm_id p' = pm_id p" "pm_booking_id p' = pm_booking_id p" "pm_status p' = ''captured''"
    "pm_stripe_payment_intent_id p' = pm_stripe_payment_intent_id p" "pm_renter_id p' = pm_renter_id p"
    "pm_hold_amount_cents p' = pm_hold_amount_cents p"
proof -
  have "payment_row_ok db p"
    using assms(1) get_by_booking_id_SomeD [OF assms(2)] by (simp add: payment_inv_def)
  then show none: "ledger_of (pm_id p) db = []" "pm_overage_cents p = 0" "pm_stripe_payment_intent_id p \<noteq> None"
    using assms(3) by (auto simp: payment_row_ok_def)
  show same: "pm_id p' = pm_id p" "pm_booking_id p' = pm_booking_id p" "pm_status p' = ''captured''"
    "pm_stripe_payment_intent_id p' = pm_stripe_payment_intent_id p" "pm_renter_id p' = pm_renter_id p"
    "pm_hold_amount_cents p' = pm_hold_amount_cents p"
    using assms(4) by auto
  show "0 \<le> pm_overage_cents p'" using assms(4) none(2) by auto
  have "ledger_of (pm_id p) db' = new"
    using none(1) assms(6,7) by (simp add: ledger_of_def)
  then show "map entry_of (ledger_of (pm_id p) db') = charge_spec p' h hold"
    using assms(4,5) none(2) same(5) by (auto simp: charge_spec_def)
qed

lemma capture_inv:
  assumes "snd (handle_capture_payment_requested stripe e i h hold ov db) = Inr db'" "payment_inv db"
  shows "payment_inv db'"
  using assms(1)
proof (cases rule: capture_effect)
  case (failed p rows)
  have pin: "p \<in> set (pdb_payments db)" using get_by_booking_id_SomeD [OF failed(1)] by simp
  with assms(2) have "payment_row_ok db p" by (simp add: payment_inv_def)
  then have "payment_row_ok db' (p\<lparr>pm_status := ''capture_failed''\<rparr>)"
    using failed(2,4) by (simp add: payment_row_ok_def payment_statuses_def ledger_of_def)
  then show ?thesis
    using payment_inv_update [OF assms(2) pin, of "p\<lparr>pm_status := ''capture_failed''\<rparr>" db' "[]"] failed(4)
    by (simp add: ledger_balance_def)
next
  case (captured p p' extra new rows)
  have pin: "p \<in> set (pdb_payments db)" using get_by_booking_id_SomeD [OF captured(1)] by simp
  have how: "p' = p\<lparr>pm_status := ''captured''\<rparr> \<and> extra = [] \<or>
       0 < ov \<and> extra = pair_spec (pm_renter_id p) h ov ''mileage_overage'' \<and>
       (\<exists>x. p' = p\<lparr>pm_stripe_overage_intent_id := Some x, pm_overage_cents := ov, pm_status := ''captured''\<rparr>)"
    using captured(5) by blast
  have "pdb_ledger db' = pdb_ledger db @ new" using captured(8) by simp
  note led = captured_ledger [OF assms(2) captured(1,2) how captured(6,7) this]
  have ok: "payment_row_ok db' p'"
    using led captured(3) by (auto simp: payment_row_ok_def payment_statuses_def)
  have "ledger_balance new = 0" using how captured(6) by (auto simp: ledger_balance_spec)
  then show ?thesis
    using payment_inv_update [OF assms(2) pin led(6,7), of db' new] ok captured(7,8) by simp
qed (simp add: assms)

subsection \<open>Transactions\<close>

lemma payment_handler_cases:
  assumes "payment_handlers (stripe, e) ty = Some h" "h db d = Inr db'"
  obtains (authorize) i r amount where "ty = ''authorize_payment_requested''" "uuid_item d ''booking_id'' = Inr i"
      "uuid_item d ''renter_id'' = Inr r" "int_item d ''amount_cents'' = Inr amount"
      "snd (handle_authorize_payment_requested stripe e i r amount db) = Inr db'"
  | (capture) i ho hold ov where "ty = ''capture_payment_requested''" "uuid_item d ''booking_id'' = Inr i"
      "uuid_item d ''host_id'' = Inr ho" "int_item d ''hold_amount_cents'' = Inr hold" "int_item d ''overage_cents'' = Inr ov"
      "snd (handle_capture_payment_requested stripe e i ho hold ov db) = Inr db'"
  using assms that
  by (auto simp: payment_handlers_def build_booking_command_handlers_def authorize_command_def
      capture_command_def snd_bindS bindE_eq_Inr mapErr_eq_Inr split: if_splits)

lemma payment_handler_inbox:
  assumes "payment_handlers w ty = Some h" "h db d = Inr db'"
  shows "pdb_inbox db' = pdb_inbox db"
proof -
  obtain stripe e where "w = (stripe, e)" by (cases w)
  with assms have "payment_handlers (stripe, e) ty = Some h" by simp
  from this assms(2) show ?thesis
    by (cases rule: payment_handler_cases) (auto elim: authorize_effect capture_effect)
qed

interpretation payment_inbox: inbox_consumer pdb_inbox "\<lambda>ib db. db\<lparr>pdb_inbox := ib\<rparr>" payment_handlers loads PaymentPy
  for loads
  by unfold_locales (simp_all add: payment_handler_inbox)

lemma payment_inv_inbox [simp]: "payment_inv (db\<lparr>pdb_inbox := ib\<rparr>) = payment_inv db"
  by (simp add: payment_inv_def payment_row_ok_def ledger_of_def)

lemma get_by_booking_id_inbox [simp]: "get_by_booking_id i (db\<lparr>pdb_inbox := ib\<rparr>) = get_by_booking_id i db"
  by (simp add: get_by_booking_id_def)

text \<open>
  One committed transaction of the service: one record of the command topic, with any answers of
  Stripe, or a webhook call.
\<close>

inductive payment_step :: "payment_db \<Rightarrow> payment_db \<Rightarrow> bool" where
  command: "payment_process w eid ty d db = Inr db' \<Longrightarrow> payment_step db db'"
| webhook: "stripe_webhook ce secret payload sig db = Inr (r, db') \<Longrightarrow> payment_step db db'"

inductive payment_reachable :: "payment_db \<Rightarrow> bool" where
  empty: "payment_reachable empty_payment_db"
| step: "payment_reachable db \<Longrightarrow> payment_step db db' \<Longrightarrow> payment_reachable db'"

lemma payment_process_cases:
  assumes "payment_process (stripe, e) eid ty d db = Inr db'"
  obtains (quiet) ib where "db' = db\<lparr>pdb_inbox := ib\<rparr>"
  | (authorize) ib i r amount where "eid \<notin> pdb_inbox db" "ib = insert eid (pdb_inbox db)"
      "ty = ''authorize_payment_requested''" "uuid_item d ''booking_id'' = Inr i"
      "uuid_item d ''renter_id'' = Inr r" "int_item d ''amount_cents'' = Inr amount"
      "snd (handle_authorize_payment_requested stripe e i r amount (db\<lparr>pdb_inbox := ib\<rparr>)) = Inr db'"
  | (capture) ib i ho hold ov where "eid \<notin> pdb_inbox db" "ib = insert eid (pdb_inbox db)"
      "ty = ''capture_payment_requested''" "uuid_item d ''booking_id'' = Inr i"
      "uuid_item d ''host_id'' = Inr ho" "int_item d ''hold_amount_cents'' = Inr hold" "int_item d ''overage_cents'' = Inr ov"
      "snd (handle_capture_payment_requested stripe e i ho hold ov (db\<lparr>pdb_inbox := ib\<rparr>)) = Inr db'"
proof (cases "eid \<in> pdb_inbox db")
  case True
  then have "db' = db\<lparr>pdb_inbox := pdb_inbox db\<rparr>"
    using assms by (simp add: payment_process_def payment_inbox.process_duplicate)
  then show ?thesis by (rule quiet)
next
  case False
  show ?thesis
  proof (cases "payment_handlers (stripe, e) ty")
    case None
    then show ?thesis
      using assms False quiet by (metis Inr_inject payment_process_def payment_inbox.process_unhandled)
  next
    case (Some h)
    then have "h (db\<lparr>pdb_inbox := insert eid (pdb_inbox db)\<rparr>) d = Inr db'"
      using assms False by (simp add: payment_process_def payment_inbox.process_first)
    with Some show ?thesis
    proof (cases rule: payment_handler_cases)
      case authorize': authorize
      show ?thesis by (rule authorize [OF False refl authorize'])
    next
      case capture': capture
      show ?thesis by (rule capture [OF False refl capture'])
    qed
  qed
qed

lemma stripe_webhook_inbox:
  assumes "stripe_webhook ce secret payload sig db = Inr (r, db')"
  shows "\<exists>ib. db' = db\<lparr>pdb_inbox := ib\<rparr>"
  using assms
  by (cases "ce payload sig secret")
    (auto simp: stripe_webhook_def bindE_eq_Inr Let_def case_prod_unfold)

lemma payment_step_inv:
  assumes "payment_step db db'" "payment_inv db"
  shows "payment_inv db'"
  using assms(1)
proof cases
  case (command w eid ty d)
  obtain stripe e where "w = (stripe, e)" by (cases w)
  with command have "payment_process (stripe, e) eid ty d db = Inr db'" by simp
  then show ?thesis
  proof (cases rule: payment_process_cases)
    case authorize
    then show ?thesis using assms(2) authorize_inv by (metis payment_inv_inbox)
  next
    case capture
    then show ?thesis using assms(2) capture_inv by (metis payment_inv_inbox)
  qed (simp add: assms)
next
  case webhook
  then obtain ib where "db' = db\<lparr>pdb_inbox := ib\<rparr>" by (auto dest: stripe_webhook_inbox)
  then show ?thesis using assms(2) by simp
qed

lemma payment_inv_empty: "payment_inv empty_payment_db"
  by (simp add: payment_inv_def empty_payment_db_def ledger_balance_def)

lemma payment_reachable_inv: "payment_reachable db \<Longrightarrow> payment_inv db"
  by (induction rule: payment_reachable.induct) (auto intro: payment_step_inv payment_inv_empty)

subsection \<open>How a payment changes\<close>

lemma get_by_booking_id_append:
  "pm_booking_id q \<noteq> i \<Longrightarrow> pdb_payments db' = pdb_payments db @ [q] \<Longrightarrow>
     get_by_booking_id i db' = get_by_booking_id i db"
  by (simp add: get_by_booking_id_def find_row_append split: option.split)

lemma get_by_booking_id_update:
  assumes "payment_inv db" "get_by_booking_id j db = Some p" "pm_id p' = pm_id p" "pm_booking_id p' = pm_booking_id p"
    and "pdb_payments db' = update_row pm_id p' (pdb_payments db)"
  shows "get_by_booking_id i db' = (if i = j then Some p' else get_by_booking_id i db)"
proof -
  have p: "p \<in> set (pdb_payments db)" "pm_booking_id p = j" using get_by_booking_id_SomeD [OF assms(2)] by auto
  have d: "distinct (map pm_id (pdb_payments db))" using assms(1) by (simp add: payment_inv_def)
  have "find_row pm_booking_id i (update_row pm_id p' rows) =
      (if i = j then map_option (\<lambda>_. p') (find_row pm_booking_id i rows) else find_row pm_booking_id i rows)"
    if "set rows \<subseteq> set (pdb_payments db)" "distinct (map pm_booking_id (pdb_payments db))" for rows
    using that
  proof (induction rows)
    case (Cons q rows)
    have "pm_id q = pm_id p \<longleftrightarrow> q = p" "pm_booking_id q = j \<longleftrightarrow> q = p"
      using Cons.prems p d by (auto simp: distinct_map inj_on_def)
    then show ?case using Cons p assms(3,4) by (auto simp: update_row_def)
  qed (simp add: update_row_def)
  then show ?thesis using assms(1,2,5) by (simp add: get_by_booking_id_def payment_inv_def)
qed

text \<open>One transaction leaves a payment alone, or settles an authorized one.\<close>

lemma payment_step_row:
  assumes step: "payment_step db db'" and inv: "payment_inv db" and p: "get_by_booking_id i db = Some p"
  obtains (same) "get_by_booking_id i db' = Some p"
  | (settled) p' where "pm_status p = ''authorized''" "get_by_booking_id i db' = Some p'"
      "pm_status p' \<in> {''captured'', ''capture_failed''}" "pm_hold_amount_cents p' = pm_hold_amount_cents p"
      "pm_renter_id p' = pm_renter_id p"
  using step
proof cases
  case (command w eid ty d)
  obtain stripe e where "w = (stripe, e)" by (cases w)
  with command have "payment_process (stripe, e) eid ty d db = Inr db'" by simp
  then show ?thesis
  proof (cases rule: payment_process_cases)
    case (quiet ib)
    then show ?thesis using p same by simp
  next
    case (authorize ib j r amount)
    from authorize(7) show ?thesis
    proof (cases rule: authorize_effect)
      case known
      then show ?thesis using p same by simp
    next
      case (new q rows)
      then have "j \<noteq> i" using p by auto
      then show ?thesis
        using same new p get_by_booking_id_append [of q i db' "db\<lparr>pdb_inbox := ib\<rparr>"] by simp
    qed
  next
    case (capture ib j ho hold ov)
    let ?db = "db\<lparr>pdb_inbox := ib\<rparr>"
    have inv': "payment_inv ?db" using inv by simp
    from capture(8) show ?thesis
    proof (cases rule: capture_effect)
      case ignored
      then show ?thesis using p same by simp
    next
      case (failed q rows)
      have *: "get_by_booking_id i db' = (if i = j then Some (q\<lparr>pm_status := ''capture_failed''\<rparr>) else get_by_booking_id i ?db)"
        by (rule get_by_booking_id_update [OF inv' failed(1)]) (simp_all add: failed(4))
      show ?thesis using * failed(1,2) p same settled by (cases "i = j") auto
    next
      case (captured q q' extra new rows)
      have *: "get_by_booking_id i db' = (if i = j then Some q' else get_by_booking_id i ?db)"
        by (rule get_by_booking_id_update [OF inv' captured(1)]) (use captured(5,8) in auto)
      show ?thesis
      proof (cases "i = j")
        case True
        then show ?thesis using * captured(1,2,5) p by (intro settled [of q']) auto
      qed (use * p same in simp)
    qed
  qed
next
  case webhook
  then obtain ib where "db' = db\<lparr>pdb_inbox := ib\<rparr>" by (auto dest: stripe_webhook_inbox)
  then show ?thesis using p same by simp
qed

end
