(* ===== verification/Saga.thy ===== *)
theory Saga
  imports Booking_Service Payment
begin

text \<open>
  The booking and payment services together.  The state is the pair of their databases; a step is
  a request to the booking service, a webhook call to the payment service, or the delivery of
  any outbox row of one service to the consumer of the other.  Kafka and Debezium are covered by
  allowing deliveries of any row at any time: late, out of order, again, or never.

  \<open>system_inv\<close> ties the two databases together: what is in flight in an outbox agrees with the
  row it speaks of, every payment is for the price of its booking, and the status of a booking
  is backed by the status of its payment.
\<close>

record system =
  sys_booking :: booking_db
  sys_payment :: payment_db

definition empty_system :: system where
  "empty_system = \<lparr>sys_booking = empty_booking_db, sys_payment = empty_payment_db\<rparr>"

inductive booking_request :: "booking_db \<Rightarrow> booking_db \<Rightarrow> bool" where
  request: "request_booking e http base r v sd ed tok db = Inr (b, db') \<Longrightarrow> booking_request db db'"
| accept: "accept_booking_request e i h db = Inr (b, db') \<Longrightarrow> booking_request db db'"
| reject: "reject_booking_request e i h db = Inr (b, db') \<Longrightarrow> booking_request db db'"
| handover: "record_handover e i h od fu ph db = Inr (b, db') \<Longrightarrow> booking_request db db'"
| return: "record_return e i h od fu ph db = Inr (b, db') \<Longrightarrow> booking_request db db'"
| keys: "booking_request db (db\<lparr>bdb_idem := rows\<rparr>)"

inductive system_step :: "system \<Rightarrow> system \<Rightarrow> bool" where
  api: "booking_request (sys_booking s) db' \<Longrightarrow> system_step s (s\<lparr>sys_booking := db'\<rparr>)"
| webhook: "stripe_webhook ce secret payload sig (sys_payment s) = Inr (r, db') \<Longrightarrow>
     system_step s (s\<lparr>sys_payment := db'\<rparr>)"
| deliver_command: "row \<in> set (bdb_outbox (sys_booking s)) \<Longrightarrow>
     envelope_fields (ob_payload row) = Inr (eid, ty, d) \<Longrightarrow>
     payment_process w eid ty d (sys_payment s) = Inr db' \<Longrightarrow> system_step s (s\<lparr>sys_payment := db'\<rparr>)"
| deliver_event: "row \<in> set (pdb_outbox (sys_payment s)) \<Longrightarrow>
     envelope_fields (ob_payload row) = Inr (eid, ty, d) \<Longrightarrow>
     booking_process e eid ty d (sys_booking s) = Inr db' \<Longrightarrow> system_step s (s\<lparr>sys_booking := db'\<rparr>)"

inductive system_reachable :: "system \<Rightarrow> bool" where
  start: "system_reachable empty_system"
| step: "system_reachable s \<Longrightarrow> system_step s s' \<Longrightarrow> system_reachable s'"

section \<open>Invariant\<close>

definition rental_price :: "booking \<Rightarrow> int" where
  "rental_price b = bk_daily_price_cents b * booking_days b"

definition command_ok :: "booking_db \<Rightarrow> string \<Rightarrow> dict \<Rightarrow> bool" where
  "command_ok db ty d \<longleftrightarrow>
     (ty = ''authorize_payment_requested'' \<longrightarrow> (\<exists>i b. get_by_id i db = Some b \<and> d = authorize_data b)) \<and>
     (ty = ''capture_payment_requested'' \<longrightarrow>
        (\<exists>i b ov. get_by_id i db = Some b \<and> bk_status b \<in> {''active'', ''completed''} \<and> 0 \<le> ov \<and>
                  d = capture_data (b\<lparr>bk_overage_cents := ov\<rparr>)))"

definition event_ok :: "payment_db \<Rightarrow> string \<Rightarrow> dict \<Rightarrow> bool" where
  "event_ok db ty d \<longleftrightarrow>
     (\<exists>i p. d = [(''booking_id'', JStr (uuid_str i))] \<and> get_by_booking_id i db = Some p \<and>
        (ty = ''payment_authorized'' \<longrightarrow> pm_status p \<noteq> ''authorization_failed'') \<and>
        (ty = ''payment_authorization_failed'' \<longrightarrow> pm_status p = ''authorization_failed'') \<and>
        (ty = ''payment_captured'' \<longrightarrow> pm_status p = ''captured'') \<and>
        (ty = ''payment_capture_failed'' \<longrightarrow> pm_status p = ''capture_failed''))"

definition outbox_ok :: "(string \<Rightarrow> dict \<Rightarrow> bool) \<Rightarrow> outbox_row list \<Rightarrow> bool" where
  "outbox_ok ok rows \<longleftrightarrow>
     (\<forall>r \<in> set rows. \<forall>eid ty d. envelope_fields (ob_payload r) = Inr (eid, ty, d) \<longrightarrow> ok ty d)"

definition payment_matches :: "payment_db \<Rightarrow> payment \<Rightarrow> booking \<Rightarrow> bool" where
  "payment_matches db p b \<longleftrightarrow>
     pm_renter_id p = bk_renter_id b \<and> pm_hold_amount_cents p = rental_price b \<and>
     (pm_status p \<in> {''captured'', ''capture_failed''} \<longrightarrow> bk_status b \<in> {''active'', ''completed''}) \<and>
     (pm_status p = ''captured'' \<longrightarrow>
        map entry_of (ledger_of (pm_id p) db) = charge_spec p (bk_host_id b) (rental_price b))"

definition booking_backed :: "payment_db \<Rightarrow> booking \<Rightarrow> bool" where
  "booking_backed db b \<longleftrightarrow>
     (bk_status b \<in> {''confirmed'', ''active'', ''completed''} \<longrightarrow>
        (\<exists>p. get_by_booking_id (bk_id b) db = Some p \<and> pm_status p \<noteq> ''authorization_failed'')) \<and>
     (bk_status b = ''completed'' \<longrightarrow> (\<exists>p. get_by_booking_id (bk_id b) db = Some p \<and> pm_status p = ''captured'')) \<and>
     (bk_status b = ''cancelled'' \<longrightarrow>
        (\<exists>p. get_by_booking_id (bk_id b) db = Some p \<and> pm_status p = ''authorization_failed''))"

definition system_inv :: "system \<Rightarrow> bool" where
  "system_inv s \<longleftrightarrow>
     booking_inv (sys_booking s) \<and> payment_inv (sys_payment s) \<and>
     outbox_ok (command_ok (sys_booking s)) (bdb_outbox (sys_booking s)) \<and>
     outbox_ok (event_ok (sys_payment s)) (pdb_outbox (sys_payment s)) \<and>
     (\<forall>i p. get_by_booking_id i (sys_payment s) = Some p \<longrightarrow>
        (\<exists>b. get_by_id i (sys_booking s) = Some b \<and> payment_matches (sys_payment s) p b)) \<and>
     (\<forall>i b. get_by_id i (sys_booking s) = Some b \<longrightarrow> booking_backed (sys_payment s) b)"

section \<open>Stability\<close>

text \<open>The data of a command depend only on what is fixed when a booking is created.\<close>

lemma unstarted_fixed:
  assumes "unstarted b' = unstarted b"
  shows "bk_id b' = bk_id b" "bk_renter_id b' = bk_renter_id b" "bk_host_id b' = bk_host_id b"
    "rental_price b' = rental_price b" "authorize_data b' = authorize_data b"
    "capture_data (b'\<lparr>bk_overage_cents := ov\<rparr>) = capture_data (b\<lparr>bk_overage_cents := ov\<rparr>)"
proof -
  have *: "bk_id (unstarted x) = bk_id x" "bk_renter_id (unstarted x) = bk_renter_id x"
    "bk_host_id (unstarted x) = bk_host_id x" "bk_daily_price_cents (unstarted x) = bk_daily_price_cents x"
    "bk_start_date (unstarted x) = bk_start_date x" "bk_end_date (unstarted x) = bk_end_date x" for x
    by (simp_all add: unstarted_def)
  have f: "bk_id b' = bk_id b" "bk_renter_id b' = bk_renter_id b" "bk_host_id b' = bk_host_id b"
    "bk_daily_price_cents b' = bk_daily_price_cents b" "bk_start_date b' = bk_start_date b" "bk_end_date b' = bk_end_date b"
    using * [of b] * [of b'] assms by simp_all
  show "bk_id b' = bk_id b" "bk_renter_id b' = bk_renter_id b" "bk_host_id b' = bk_host_id b" by (fact f)+
  show "rental_price b' = rental_price b" "authorize_data b' = authorize_data b"
    "capture_data (b'\<lparr>bk_overage_cents := ov\<rparr>) = capture_data (b\<lparr>bk_overage_cents := ov\<rparr>)"
    using f by (simp_all add: rental_price_def authorize_data_def capture_data_def booking_days_def)
qed

text \<open>
  \<open>booking_keeps db db'\<close>: the rows of \<open>db\<close> are still there, with their fixed data and a status that
  follows the life cycle.
\<close>

definition booking_keeps :: "booking_db \<Rightarrow> booking_db \<Rightarrow> bool" where
  "booking_keeps db db' \<longleftrightarrow>
     (\<forall>i b. get_by_id i db = Some b \<longrightarrow>
        (\<exists>b'. get_by_id i db' = Some b' \<and> unstarted b' = unstarted b \<and>
              (bk_status b' = bk_status b \<or> status_step (bk_status b) (bk_status b'))))"

definition payment_keeps :: "payment_db \<Rightarrow> payment_db \<Rightarrow> bool" where
  "payment_keeps db db' \<longleftrightarrow>
     (\<forall>i p. get_by_booking_id i db = Some p \<longrightarrow>
        (\<exists>p'. get_by_booking_id i db' = Some p' \<and>
              (p' = p \<or> pm_status p = ''authorized'' \<and> pm_status p' \<in> {''captured'', ''capture_failed''})))"

lemma active_stays:
  "s \<in> {''active'', ''completed''} \<Longrightarrow> t = s \<or> status_step s t \<Longrightarrow> t \<in> {''active'', ''completed''}"
  by (auto simp: status_step_iff)

lemma booking_keepsD:
  assumes "booking_keeps db db'" "get_by_id i db = Some b"
  obtains b' where "get_by_id i db' = Some b'" "unstarted b' = unstarted b"
    "bk_status b' = bk_status b \<or> status_step (bk_status b) (bk_status b')"
  using assms unfolding booking_keeps_def by blast

lemma command_ok_keeps:
  assumes k: "booking_keeps db db'" and ok: "command_ok db ty d"
  shows "command_ok db' ty d"
  unfolding command_ok_def
proof (intro conjI impI)
  assume "ty = ''authorize_payment_requested''"
  with ok obtain i b where b: "get_by_id i db = Some b" "d = authorize_data b" by (auto simp: command_ok_def)
  from k b(1) obtain b' where "get_by_id i db' = Some b'" "unstarted b' = unstarted b" by (rule booking_keepsD)
  with b(2) show "\<exists>i b. get_by_id i db' = Some b \<and> d = authorize_data b" using unstarted_fixed(5) by metis
next
  assume "ty = ''capture_payment_requested''"
  with ok obtain i b ov where b: "get_by_id i db = Some b" "bk_status b \<in> {''active'', ''completed''}" "0 \<le> ov"
    "d = capture_data (b\<lparr>bk_overage_cents := ov\<rparr>)" by (auto simp: command_ok_def)
  from k b(1) obtain b' where b': "get_by_id i db' = Some b'" "unstarted b' = unstarted b"
    "bk_status b' = bk_status b \<or> status_step (bk_status b) (bk_status b')" by (rule booking_keepsD)
  have "bk_status b' \<in> {''active'', ''completed''}" by (rule active_stays [OF b(2) b'(3)])
  with b(3,4) b'(1) unstarted_fixed(6) [OF b'(2)]
  show "\<exists>i b ov. get_by_id i db' = Some b \<and> bk_status b \<in> {''active'', ''completed''} \<and> 0 \<le> ov \<and>
      d = capture_data (b\<lparr>bk_overage_cents := ov\<rparr>)" by metis
qed

text \<open>What a later database still says about a payment's status.\<close>

lemma payment_keepsD:
  assumes "payment_keeps db db'" "get_by_booking_id i db = Some p"
  shows "\<exists>p'. get_by_booking_id i db' = Some p' \<and>
    (pm_status p' = ''authorization_failed'' \<longleftrightarrow> pm_status p = ''authorization_failed'') \<and>
    (pm_status p = ''captured'' \<longrightarrow> pm_status p' = ''captured'') \<and>
    (pm_status p = ''capture_failed'' \<longrightarrow> pm_status p' = ''capture_failed'')"
proof -
  obtain p' where "get_by_booking_id i db' = Some p'"
    "p' = p \<or> pm_status p = ''authorized'' \<and> pm_status p' \<in> {''captured'', ''capture_failed''}"
    using assms unfolding payment_keeps_def by blast
  then show ?thesis by (intro exI [of _ p']) auto
qed

lemma event_ok_keeps:
  assumes k: "payment_keeps db db'" and ok: "event_ok db ty d"
  shows "event_ok db' ty d"
proof -
  from ok obtain i p where d: "d = [(''booking_id'', JStr (uuid_str i))]" and p: "get_by_booking_id i db = Some p"
    "ty = ''payment_authorized'' \<longrightarrow> pm_status p \<noteq> ''authorization_failed''"
    "ty = ''payment_authorization_failed'' \<longrightarrow> pm_status p = ''authorization_failed''"
    "ty = ''payment_captured'' \<longrightarrow> pm_status p = ''captured''"
    "ty = ''payment_capture_failed'' \<longrightarrow> pm_status p = ''capture_failed''"
    by (auto simp: event_ok_def)
  from k p(1) obtain p' where "get_by_booking_id i db' = Some p'"
    "pm_status p' = ''authorization_failed'' \<longleftrightarrow> pm_status p = ''authorization_failed''"
    "pm_status p = ''captured'' \<longrightarrow> pm_status p' = ''captured''"
    "pm_status p = ''capture_failed'' \<longrightarrow> pm_status p' = ''capture_failed''" using payment_keepsD by blast
  with d p(2-) show ?thesis unfolding event_ok_def by (intro exI [of _ i] exI [of _ p']) simp
qed

lemma booking_backed_keeps:
  assumes k: "payment_keeps db db'" and ok: "booking_backed db b"
  shows "booking_backed db' b"
proof (cases "get_by_booking_id (bk_id b) db")
  case None
  with ok show ?thesis by (simp add: booking_backed_def)
next
  case (Some p)
  with payment_keepsD [OF k this] ok show ?thesis by (auto simp: booking_backed_def)
qed

lemma booking_step_keeps:
  assumes "booking_step db db'" "booking_inv db"
  shows "booking_keeps db db'"
  unfolding booking_keeps_def
proof (intro allI impI)
  fix i b assume b: "get_by_id i db = Some b"
  from booking_step_row [OF assms b] show "\<exists>b'. get_by_id i db' = Some b' \<and> unstarted b' = unstarted b \<and>
    (bk_status b' = bk_status b \<or> status_step (bk_status b) (bk_status b'))" by metis
qed

lemma payment_step_keeps:
  assumes "payment_step db db'" "payment_inv db"
  shows "payment_keeps db db'"
  unfolding payment_keeps_def
proof (intro allI impI)
  fix i p assume p: "get_by_booking_id i db = Some p"
  from payment_step_row [OF assms p] show "\<exists>p'. get_by_booking_id i db' = Some p' \<and>
    (p' = p \<or> pm_status p = ''authorized'' \<and> pm_status p' \<in> {''captured'', ''capture_failed''})" by metis
qed

lemma outbox_ok_emitted:
  assumes "outbox_ok ok rows" "emitted outs rows rows'" "\<forall>(ty, d) \<in> set outs. ok ty d"
  shows "outbox_ok ok rows'"
proof -
  obtain new where new: "rows' = rows @ new"
    "list_all2 (\<lambda>r (ty, d). envelope_fields (ob_payload r) = Inr (uuid_str (ob_id r), ty, d) \<and>
                           ob_id r \<notin> ob_id ` set rows) new outs"
    using assms(2) by (auto simp: emitted_def)
  have "outbox_ok ok new"
    using new(2) assms(3) by (induction new outs rule: list_all2_induct) (auto simp: outbox_ok_def)
  with assms(1) new(1) show ?thesis by (auto simp: outbox_ok_def)
qed

lemma outbox_ok_mono: "outbox_ok ok rows \<Longrightarrow> (\<And>ty d. ok ty d \<Longrightarrow> ok' ty d) \<Longrightarrow> outbox_ok ok' rows"
  by (auto simp: outbox_ok_def)

section \<open>Booking steps\<close>

lemma booking_request_step: "booking_request db db' \<Longrightarrow> booking_step db db'"
  by (auto elim!: booking_request.cases intro: booking_step.intros)

lemma moved_get:
  assumes "moved (db\<lparr>bdb_inbox := ib\<rparr>) b facts outs b' db'" "get_by_id j db' = Some c"
  shows "c = b' \<and> j = bk_id b \<or> get_by_id j db = Some c"
  using moved_get_by_id [OF assms(1), of j] assms(2) by (auto split: if_splits)

lemma backed_moved:
  assumes "moved (db\<lparr>bdb_inbox := ib\<rparr>) b facts outs b' db'"
    and "\<forall>i b. get_by_id i db = Some b \<longrightarrow> booking_backed pdb b"
    and "booking_backed pdb b \<Longrightarrow> booking_backed pdb b'"
  shows "\<forall>i b. get_by_id i db' = Some b \<longrightarrow> booking_backed pdb b"
  using moved_get [OF assms(1)] assms(2,3) movedD(2) [OF assms(1)] by (metis get_by_id_inbox)

lemma moved_command:
  assumes "moved db b facts outs b' db'"
  shows "get_by_id (bk_id b') db' = Some b'"
  using moved_get_by_id [OF assms, of "bk_id b"] movedD(1) [OF assms] by simp

lemma moved_emitted: "moved db b facts outs b' db' \<Longrightarrow> emitted outs (bdb_outbox db) (bdb_outbox db')"
  unfolding moved_def by blast

lemma capture_command_ok:
  assumes "get_by_id i db = Some b" "bk_status b \<in> {''active'', ''completed''}" "0 \<le> bk_overage_cents b"
  shows "command_ok db ''capture_payment_requested'' (capture_data b)"
  unfolding command_ok_def
proof (intro conjI impI)
  show "\<exists>i b' ov. get_by_id i db = Some b' \<and> bk_status b' \<in> {''active'', ''completed''} \<and> 0 \<le> ov \<and>
      capture_data b = capture_data (b'\<lparr>bk_overage_cents := ov\<rparr>)"
    by (intro exI [of _ i] exI [of _ b] exI [of _ "bk_overage_cents b"]) (use assms in auto)
qed simp

lemma created_row:
  assumes "created db outs b db'"
  shows "bk_status b = ''requested''" "get_by_id (bk_id b) db' = Some b"
    "get_by_id j db' = Some c \<Longrightarrow> c = b \<or> get_by_id j db = Some c"
proof -
  have "(unstarted b)\<lparr>bk_version := 2\<rparr> = b" using assms by (simp add: created_def)
  from arg_cong [OF this, of bk_status] show "bk_status b = ''requested''" by (simp add: unstarted_def)
  have rows: "bk_id b \<notin> bk_id ` set (bdb_bookings db)" "bdb_bookings db' = bdb_bookings db @ [b]"
    using assms by (simp_all add: created_def)
  then have "find_row bk_id (bk_id b) (bdb_bookings db) = None" by (simp only: find_row_None_iff not_False_eq_True)
  then show "get_by_id (bk_id b) db' = Some b" by (simp add: get_by_id_def rows(2) find_row_append)
  show "get_by_id j db' = Some c \<Longrightarrow> c = b \<or> get_by_id j db = Some c"
    by (simp add: get_by_id_def rows(2) find_row_append split: option.splits if_splits)
qed

text \<open>A request to the booking service leaves both the outbox and the backing of the statuses in order.\<close>

lemma booking_request_ok:
  assumes req: "booking_request db db'" and inv: "booking_inv db"
    and backed: "\<forall>i b. get_by_id i db = Some b \<longrightarrow> booking_backed pdb b"
  shows "(\<exists>outs. emitted outs (bdb_outbox db) (bdb_outbox db') \<and> (\<forall>(ty, d) \<in> set outs. command_ok db' ty d)) \<and>
         (\<forall>i b. get_by_id i db' = Some b \<longrightarrow> booking_backed pdb b)"
proof -
  have self: "db = db\<lparr>bdb_inbox := bdb_inbox db\<rparr>" by simp
  have via: ?thesis
    if "moved db b facts outs b' db'" "\<forall>(ty, d) \<in> set outs. command_ok db' ty d"
      "booking_backed pdb b \<Longrightarrow> booking_backed pdb b'" for b facts outs b'
    using that backed_moved [of "bdb_inbox db" db b facts outs b' db' pdb] backed by (auto simp: moved_def)
  from req show ?thesis
  proof cases
    case (request e http base r v sd ed tok b)
    from request show ?thesis
    proof (elim request_booking_created)
      assume c: "created db (if bk_booking_mode b = ''instant'' then [(''authorize_payment_requested'', authorize_data b)] else []) b db'"
      have "\<forall>(ty, d) \<in> set (if bk_booking_mode b = ''instant'' then [(''authorize_payment_requested'', authorize_data b)] else []).
          command_ok db' ty d"
        using created_row(2) [OF c] by (auto simp: command_ok_def)
      moreover have "booking_backed pdb b" using created_row(1) [OF c] by (simp add: booking_backed_def)
      ultimately show ?thesis
        using c created_row(3) [OF c] backed unfolding created_def by blast
    qed
  next
    case (accept e i h b')
    then show ?thesis
    proof (elim accept_booking_request_moved)
      fix b assume b: "bk_status b = ''requested''"
        and mv: "moved db b [(''booking_request_accepted'', [])] [(''authorize_payment_requested'', authorize_data b')] b' db'"
      have st: "bk_status b' = ''requested''" using mv b by (auto simp: moved_def facts_simps)
      show ?thesis
        by (rule via [OF mv]) (use moved_command [OF mv] st in \<open>auto simp: command_ok_def booking_backed_def\<close>)
    qed
  next
    case (reject e i h b')
    then show ?thesis
    proof (elim reject_booking_request_moved)
      fix b assume mv: "moved db b [(''booking_rejected'', [])] [(''booking_rejected'', booking_event_data b')] b' db'"
      have st: "bk_status b' = ''rejected''" using mv by (auto simp: moved_def facts_simps)
      show ?thesis by (rule via [OF mv]) (use st in \<open>auto simp: command_ok_def booking_backed_def\<close>)
    qed
  next
    case (handover e i h od fu ph b')
    then show ?thesis
    proof (elim record_handover_moved)
      fix b assume b: "bk_status b = ''confirmed''" and mv: "moved db b [handover_fact od fu ph] [] b' db'"
      have st: "bk_status b' = ''active''" using mv by (auto simp: moved_def handover_fact_def facts_simps)
      show ?thesis
        by (rule via [OF mv]) (use b st movedD(1) [OF mv] in \<open>auto simp: booking_backed_def\<close>)
    qed
  next
    case (return e i h od fu ph b')
    then show ?thesis
    proof (elim record_return_moved)
      fix b m assume b: "bk_status b = ''active''"
        and ov: "bk_overage_cents b' = compute_overage_cents m od (bk_daily_mileage_limit b) (booking_days b)"
        and mv: "moved db b [return_fact od fu ph (bk_overage_cents b')] [(''capture_payment_requested'', capture_data b')] b' db'"
      have "bk_status (replay [return_fact od fu ph ov'] b) = ''active''" for ov'
        using b by (simp add: return_fact_def facts_simps)
      then have st: "bk_status b' = ''active''" using mv unfolding moved_def by metis
      have "0 \<le> bk_overage_cents b'" using ov by (simp add: compute_overage_cents_nonneg)
      then have "command_ok db' ''capture_payment_requested'' (capture_data b')"
        using capture_command_ok [OF moved_command [OF mv]] st by simp
      then show ?thesis
        by (intro via [OF mv]) (use b st movedD(1) [OF mv] in \<open>auto simp: booking_backed_def\<close>)
    qed
  next
    case (keys rows)
    then show ?thesis using backed by (auto intro!: exI [of _ "[]"] simp: get_by_id_def)
  qed
qed

lemma deliver_event_ok:
  assumes proc: "booking_process e eid ty d db = Inr db'" and inv: "booking_inv db"
    and ev: "event_ok pdb ty d" and backed: "\<forall>i b. get_by_id i db = Some b \<longrightarrow> booking_backed pdb b"
  shows "(\<exists>outs. emitted outs (bdb_outbox db) (bdb_outbox db') \<and> (\<forall>(ty, d) \<in> set outs. command_ok db' ty d)) \<and>
         (\<forall>i b. get_by_id i db' = Some b \<longrightarrow> booking_backed pdb b)"
proof (cases "eid \<in> bdb_inbox db \<or> payment_event_handlers e ty = None")
  case True
  then obtain ib where "db' = db\<lparr>bdb_inbox := ib\<rparr>"
    using proc booking_inbox.process_unhandled [of eid db e ty d] booking_inbox.process_duplicate [of eid db e ty d]
    unfolding booking_process_def by (metis Inr_inject booking_db.surjective booking_db.update_convs(4))
  then show ?thesis using backed by (auto intro!: exI [of _ "[]"])
next
  case False
  let ?db = "db\<lparr>bdb_inbox := insert eid (bdb_inbox db)\<rparr>"
  from False obtain h where h: "payment_event_handlers e ty = Some h" "h ?db d = Inr db'"
    using proc by (auto simp: booking_process_def booking_inbox.process_first)
  obtain j p where d: "d = [(''booking_id'', JStr (uuid_str j))]" and p: "get_by_booking_id j pdb = Some p"
    "ty = ''payment_authorized'' \<longrightarrow> pm_status p \<noteq> ''authorization_failed''"
    "ty = ''payment_authorization_failed'' \<longrightarrow> pm_status p = ''authorization_failed''"
    "ty = ''payment_captured'' \<longrightarrow> pm_status p = ''captured''"
    using ev by (auto simp: event_ok_def)
  have j: "i = j" if "uuid_item d ''booking_id'' = Inr i" for i using that d by (simp add: uuid_item_def)
  have inv': "booking_inv ?db" using inv by simp
  have via: ?thesis
    if mv: "moved ?db b facts [(ty', booking_event_data b')] b' db'" and "bk_id b = j"
      and "ty' \<notin> {''authorize_payment_requested'', ''capture_payment_requested''}"
      and "booking_backed pdb b \<Longrightarrow> booking_backed pdb b'" for b facts ty' b'
  proof -
    have "emitted [(ty', booking_event_data b')] (bdb_outbox db) (bdb_outbox db')" using moved_emitted [OF mv] by simp
    moreover have "\<forall>(ty, d) \<in> set [(ty', booking_event_data b')]. command_ok db' ty d"
      using that(3) by (simp add: command_ok_def)
    ultimately show ?thesis using backed_moved [OF mv backed that(4)] by blast
  qed
  from h show ?thesis
  proof (cases rule: payment_event_cases)
    case (authorized i b')
    from authorized(3) show ?thesis
    proof (rule apply_payment_authorized_moved)
      fix b assume b: "bk_id b = i" and mv: "moved ?db b [(''payment_authorized'', []), (''booking_confirmed'', [])]
         [(''booking_confirmed'', booking_event_data b')] b' db'"
      have "bk_status b' = ''confirmed''" "bk_id b' = j"
        using mv b j [OF authorized(2)] by (auto simp: moved_def facts_simps)
      then have "booking_backed pdb b'" using p authorized(1) by (simp add: booking_backed_def)
      then show ?thesis by (intro via [OF mv]) (use b j [OF authorized(2)] in auto)
    qed
  next
    case (failed i b')
    from failed(3) show ?thesis
    proof (rule apply_payment_authorization_failed_moved)
      fix b assume b: "bk_id b = i" and mv: "moved ?db b [(''payment_authorization_failed'', []), (''booking_cancelled'', [])]
         [(''booking_cancelled'', booking_event_data b')] b' db'"
      have "bk_status b' = ''cancelled''" "bk_id b' = j"
        using mv b j [OF failed(2)] by (auto simp: moved_def facts_simps)
      then have "booking_backed pdb b'" using p failed(1) by (simp add: booking_backed_def)
      then show ?thesis by (intro via [OF mv]) (use b j [OF failed(2)] in auto)
    qed
  next
    case (captured i b')
    from captured(3) inv' show ?thesis
    proof (rule apply_payment_captured_moved)
      fix b assume b: "bk_id b = i" and mv: "moved ?db b [(''payment_captured'', []), (''booking_completed'', [])]
         [(''booking_completed'', booking_event_data b')] b' db'"
      have "bk_status b' = ''completed''" "bk_id b' = j"
        using mv b j [OF captured(2)] by (auto simp: moved_def facts_simps)
      then have "booking_backed pdb b'" using p captured(1) by (simp add: booking_backed_def)
      then show ?thesis by (intro via [OF mv]) (use b j [OF captured(2)] in auto)
    qed
  next
    case (capture_failed i b')
    from capture_failed(3) inv' show ?thesis
    proof (rule apply_payment_capture_failed_moved)
      fix b assume b: "bk_id b = i" "bk_status b = ''active''" and mv: "moved ?db b [(''payment_capture_failed'', [])]
         [(''booking_payment_capture_failed'', booking_event_data b')] b' db'"
      have "bk_status b' = ''active''" "bk_id b' = bk_id b"
        using mv b by (auto simp: moved_def facts_simps)
      then show ?thesis
        by (intro via [OF mv]) (use b j [OF capture_failed(2)] in \<open>auto simp: booking_backed_def\<close>)
    qed
  qed
qed

section \<open>Payment steps\<close>

lemma payment_matches_ledger:
  "ledger_of (pm_id p) db' = ledger_of (pm_id p) db \<Longrightarrow> payment_matches db' p b = payment_matches db p b"
  by (simp add: payment_matches_def)

lemma authorize_data_fields:
  assumes "d = authorize_data b"
  shows "uuid_item d ''booking_id'' = Inr (bk_id b)" "uuid_item d ''renter_id'' = Inr (bk_renter_id b)"
    "int_item d ''amount_cents'' = Inr (rental_price b)"
  using assms by (simp_all add: authorize_data_def uuid_item_def int_item_def rental_price_def)

lemma capture_data_fields:
  assumes "d = capture_data (b\<lparr>bk_overage_cents := ov\<rparr>)"
  shows "uuid_item d ''booking_id'' = Inr (bk_id b)" "uuid_item d ''host_id'' = Inr (bk_host_id b)"
    "int_item d ''hold_amount_cents'' = Inr (rental_price b)" "int_item d ''overage_cents'' = Inr ov"
  using assms by (simp_all add: capture_data_def uuid_item_def int_item_def rental_price_def booking_days_def)

lemma payment_event_ok:
  assumes "get_by_booking_id i db = Some p"
    and "ty = ''payment_'' @ pm_status p" "pm_status p \<in> payment_statuses"
  shows "event_ok db ty [(''booking_id'', JStr (uuid_str i))]"
  using assms by (auto simp: event_ok_def payment_statuses_def)

lemma ledger_of_other:
  assumes inv: "payment_inv db" and p: "get_by_booking_id i db = Some p" and q: "get_by_booking_id j db = Some q" "i \<noteq> j"
    and new: "\<forall>l \<in> set new. le_payment_id l = pm_id p" "pdb_ledger db' = pdb_ledger db @ new"
  shows "ledger_of (pm_id q) db' = ledger_of (pm_id q) db"
proof -
  have "p \<noteq> q" using p q get_by_booking_id_SomeD by blast
  then have "pm_id p \<noteq> pm_id q"
    using inv get_by_booking_id_SomeD [OF p] get_by_booking_id_SomeD [OF q(1)]
    by (auto simp: payment_inv_def distinct_map inj_on_def)
  then show ?thesis using new by (auto simp: ledger_of_def filter_empty_conv)
qed

text \<open>
  A settled payment: the event that is emitted speaks the truth, and the payments still match
  their bookings.
\<close>

lemma settled_ok:
  assumes inv: "payment_inv db" and p: "get_by_booking_id i db = Some p"
    and p': "pm_id p' = pm_id p" "pm_booking_id p' = pm_booking_id p" "pm_status p' \<in> payment_statuses"
    and db': "pdb_payments db' = update_row pm_id p' (pdb_payments db)" "pdb_ledger db' = pdb_ledger db @ new"
      "\<forall>l \<in> set new. le_payment_id l = pm_id p"
      "emitted [(''payment_'' @ pm_status p', [(''booking_id'', JStr (uuid_str i))])] (pdb_outbox db) (pdb_outbox db')"
    and matches: "\<forall>i p. get_by_booking_id i db = Some p \<longrightarrow> (\<exists>b. get_by_id i bdb = Some b \<and> payment_matches db p b)"
    and own: "\<And>b. get_by_id i bdb = Some b \<Longrightarrow> payment_matches db p b \<Longrightarrow> payment_matches db' p' b"
  shows "(\<exists>outs. emitted outs (pdb_outbox db) (pdb_outbox db') \<and> (\<forall>(ty, d) \<in> set outs. event_ok db' ty d)) \<and>
         (\<forall>i p. get_by_booking_id i db' = Some p \<longrightarrow> (\<exists>b. get_by_id i bdb = Some b \<and> payment_matches db' p b))"
proof (rule conjI)
  have g: "get_by_booking_id j db' = (if j = i then Some p' else get_by_booking_id j db)" for j
    by (rule get_by_booking_id_update [OF inv p p'(1,2) db'(1)])
  have "event_ok db' (''payment_'' @ pm_status p') [(''booking_id'', JStr (uuid_str i))]"
    using payment_event_ok [of i db' p'] g [of i] p'(3) by simp
  with db'(4) show "\<exists>outs. emitted outs (pdb_outbox db) (pdb_outbox db') \<and> (\<forall>(ty, d) \<in> set outs. event_ok db' ty d)"
    by (intro exI conjI) (assumption, simp)
  show "\<forall>j q. get_by_booking_id j db' = Some q \<longrightarrow> (\<exists>b. get_by_id j bdb = Some b \<and> payment_matches db' q b)"
  proof (intro allI impI)
    fix j q assume q: "get_by_booking_id j db' = Some q"
    show "\<exists>b. get_by_id j bdb = Some b \<and> payment_matches db' q b"
    proof (cases "j = i")
      case True
      then have "q = p'" using q g by simp
      then show ?thesis using True matches p own by blast
    next
      case False
      then have q': "get_by_booking_id j db = Some q" using q g by simp
      with matches obtain b where "get_by_id j bdb = Some b" "payment_matches db q b" by blast
      then show ?thesis
        using ledger_of_other [OF inv p q' _ db'(3,2)] False payment_matches_ledger [of q db' db b] by auto
    qed
  qed
qed

lemma deliver_command_ok:
  assumes proc: "payment_process w eid ty d db = Inr db'" and inv: "payment_inv db" and cmd: "command_ok bdb ty d"
    and matches: "\<forall>i p. get_by_booking_id i db = Some p \<longrightarrow> (\<exists>b. get_by_id i bdb = Some b \<and> payment_matches db p b)"
  shows "(\<exists>outs. emitted outs (pdb_outbox db) (pdb_outbox db') \<and> (\<forall>(ty, d) \<in> set outs. event_ok db' ty d)) \<and>
         (\<forall>i p. get_by_booking_id i db' = Some p \<longrightarrow> (\<exists>b. get_by_id i bdb = Some b \<and> payment_matches db' p b))"
proof -
  obtain stripe e where "w = (stripe, e)" by (cases w)
  have same: ?thesis if "pdb_payments db' = pdb_payments db" "pdb_ledger db' = pdb_ledger db" "pdb_outbox db' = pdb_outbox db"
    using that matches by (auto simp: get_by_booking_id_def payment_matches_def ledger_of_def intro!: exI [of _ "[]"])
  from proc \<open>w = (stripe, e)\<close> have "payment_process (stripe, e) eid ty d db = Inr db'" by simp
  then show ?thesis
  proof (cases rule: payment_process_cases)
    case (quiet ib)
    then show ?thesis by (intro same) simp_all
  next
    case (authorize ib i r amount)
    let ?db = "db\<lparr>pdb_inbox := ib\<rparr>"
    from cmd authorize(3) obtain k b where b: "get_by_id k bdb = Some b" "d = authorize_data b"
      by (auto simp: command_ok_def)
    have i: "i = bk_id b" "r = bk_renter_id b" "amount = rental_price b" "k = bk_id b"
      using authorize(4-6) authorize_data_fields [OF b(2)] get_by_id_SomeD [OF b(1)] by auto
    from authorize(7) show ?thesis
    proof (cases rule: authorize_effect)
      case known
      then show ?thesis by (intro same) simp_all
    next
      case (new p rows)
      have none: "get_by_booking_id i db = None" using new(1) by simp
      have g: "get_by_booking_id j db' = (if j = i then Some p else get_by_booking_id j db)" for j
        using new(3,9) none by (auto simp: get_by_booking_id_def find_row_append split: option.split)
      have "event_ok db' (''payment_'' @ pm_status p) [(''booking_id'', JStr (uuid_str i))]"
        using payment_event_ok [of i db' p] g [of i] new(8) by (auto simp: payment_statuses_def)
      moreover have "payment_matches db' p b" using new(4,5,8) i by (auto simp: payment_matches_def)
      moreover have "payment_matches db' q c = payment_matches db q c" for q c
        using new(9) by (simp add: payment_matches_def ledger_of_def)
      moreover have "emitted [(''payment_'' @ pm_status p, [(''booking_id'', JStr (uuid_str i))])] (pdb_outbox db) (pdb_outbox db')"
        using new(9,10) by simp
      ultimately show ?thesis using g matches b(1) i(1,4) by (intro conjI exI) (assumption, auto)
    qed
  next
    case (capture ib i ho hold ov)
    let ?db = "db\<lparr>pdb_inbox := ib\<rparr>"
    have inv': "payment_inv ?db" using inv by simp
    have matches': "\<forall>i p. get_by_booking_id i ?db = Some p \<longrightarrow> (\<exists>b. get_by_id i bdb = Some b \<and> payment_matches ?db p b)"
      using matches by (simp add: payment_matches_def ledger_of_def)
    from cmd capture(3) obtain k b ov' where b: "get_by_id k bdb = Some b" "d = capture_data (b\<lparr>bk_overage_cents := ov'\<rparr>)"
      "bk_status b \<in> {''active'', ''completed''}" by (auto simp: command_ok_def)
    have i: "i = bk_id b" "ho = bk_host_id b" "hold = rental_price b" "k = bk_id b"
      using capture(4-6) capture_data_fields [OF b(2)] get_by_id_SomeD [OF b(1)] by auto
    from capture(8) show ?thesis
    proof (cases rule: capture_effect)
      case ignored
      then show ?thesis by (intro same) simp_all
    next
      case (failed p rows)
      have "(\<exists>outs. emitted outs (pdb_outbox ?db) (pdb_outbox db') \<and> (\<forall>(ty, d) \<in> set outs. event_ok db' ty d)) \<and>
         (\<forall>i p. get_by_booking_id i db' = Some p \<longrightarrow> (\<exists>b. get_by_id i bdb = Some b \<and> payment_matches db' p b))"
        by (rule settled_ok [OF inv' failed(1), where p' = "p\<lparr>pm_status := ''capture_failed''\<rparr>" and new = "[]"])
          (use failed matches' b(1,3) i(1,4) in \<open>auto simp: payment_statuses_def payment_matches_def\<close>)
      then show ?thesis by simp
    next
      case (captured p p' extra new rows)
      have how: "p' = p\<lparr>pm_status := ''captured''\<rparr> \<and> extra = [] \<or>
         0 < ov \<and> extra = pair_spec (pm_renter_id p) ho ov ''mileage_overage'' \<and>
         (\<exists>x. p' = p\<lparr>pm_stripe_overage_intent_id := Some x, pm_overage_cents := ov, pm_status := ''captured''\<rparr>)"
        using captured(5) by blast
      have l: "pdb_ledger db' = pdb_ledger ?db @ new" using captured(8) by simp
      note led = captured_ledger [OF inv' captured(1,2) how captured(6,7) l]
      have m: "payment_matches db' p' c" if "get_by_id i bdb = Some c" "payment_matches ?db p c" for c
        using that b(1,3) i led by (auto simp: payment_matches_def)
      have "(\<exists>outs. emitted outs (pdb_outbox ?db) (pdb_outbox db') \<and> (\<forall>(ty, d) \<in> set outs. event_ok db' ty d)) \<and>
         (\<forall>i p. get_by_booking_id i db' = Some p \<longrightarrow> (\<exists>b. get_by_id i bdb = Some b \<and> payment_matches db' p b))"
        by (rule settled_ok [OF inv' captured(1) led(6,7), where new = new])
          (use captured(7,8,9) led(8) matches' m l in \<open>simp_all add: payment_statuses_def\<close>)
      then show ?thesis by simp
    qed
  qed
qed

section \<open>The whole system\<close>

lemma payment_matches_booking:
  assumes "unstarted b' = unstarted b" "bk_status b' = bk_status b \<or> status_step (bk_status b) (bk_status b')"
    and "payment_matches db p b"
  shows "payment_matches db p b'"
  using assms(3) unstarted_fixed [OF assms(1)] active_stays [OF _ assms(2)] unfolding payment_matches_def by metis

text \<open>Steps that change the booking database.\<close>

lemma system_inv_booking:
  assumes inv: "system_inv s" and step: "booking_step (sys_booking s) db'"
    and ok: "(\<exists>outs. emitted outs (bdb_outbox (sys_booking s)) (bdb_outbox db') \<and>
                     (\<forall>(ty, d) \<in> set outs. command_ok db' ty d)) \<and>
             (\<forall>i b. get_by_id i db' = Some b \<longrightarrow> booking_backed (sys_payment s) b)"
  shows "system_inv (s\<lparr>sys_booking := db'\<rparr>)"
proof -
  have binv: "booking_inv (sys_booking s)" using inv by (simp add: system_inv_def)
  have k: "booking_keeps (sys_booking s) db'" by (rule booking_step_keeps [OF step binv])
  obtain outs where outs: "emitted outs (bdb_outbox (sys_booking s)) (bdb_outbox db')" "\<forall>(ty, d) \<in> set outs. command_ok db' ty d"
    using ok by blast
  have "outbox_ok (command_ok db') (bdb_outbox (sys_booking s))"
    using inv outbox_ok_mono command_ok_keeps [OF k] unfolding system_inv_def by blast
  then have "outbox_ok (command_ok db') (bdb_outbox db')" by (rule outbox_ok_emitted [OF _ outs])
  moreover have "\<exists>b. get_by_id i db' = Some b \<and> payment_matches (sys_payment s) p b"
    if "get_by_booking_id i (sys_payment s) = Some p" for i p
  proof -
    obtain b where b: "get_by_id i (sys_booking s) = Some b" "payment_matches (sys_payment s) p b"
      using inv \<open>get_by_booking_id i (sys_payment s) = Some p\<close> unfolding system_inv_def by blast
    from k b(1) obtain b' where "get_by_id i db' = Some b'" "unstarted b' = unstarted b"
      "bk_status b' = bk_status b \<or> status_step (bk_status b) (bk_status b')" by (rule booking_keepsD)
    then show ?thesis using payment_matches_booking b(2) by blast
  qed
  ultimately show ?thesis
    using inv ok booking_step_inv [OF step binv] by (simp add: system_inv_def)
qed

text \<open>Steps that change the payment database.\<close>

lemma system_inv_payment:
  assumes inv: "system_inv s" and step: "payment_step (sys_payment s) db'"
    and ok: "(\<exists>outs. emitted outs (pdb_outbox (sys_payment s)) (pdb_outbox db') \<and>
                     (\<forall>(ty, d) \<in> set outs. event_ok db' ty d)) \<and>
             (\<forall>i p. get_by_booking_id i db' = Some p \<longrightarrow>
                (\<exists>b. get_by_id i (sys_booking s) = Some b \<and> payment_matches db' p b))"
  shows "system_inv (s\<lparr>sys_payment := db'\<rparr>)"
proof -
  have pinv: "payment_inv (sys_payment s)" using inv by (simp add: system_inv_def)
  have k: "payment_keeps (sys_payment s) db'" by (rule payment_step_keeps [OF step pinv])
  obtain outs where outs: "emitted outs (pdb_outbox (sys_payment s)) (pdb_outbox db')" "\<forall>(ty, d) \<in> set outs. event_ok db' ty d"
    using ok by blast
  have "outbox_ok (event_ok db') (pdb_outbox (sys_payment s))"
    using inv outbox_ok_mono event_ok_keeps [OF k] unfolding system_inv_def by blast
  then have "outbox_ok (event_ok db') (pdb_outbox db')" by (rule outbox_ok_emitted [OF _ outs])
  moreover have "booking_backed db' b" if "get_by_id i (sys_booking s) = Some b" for i b
    using inv that booking_backed_keeps [OF k] unfolding system_inv_def by blast
  ultimately show ?thesis
    using inv ok payment_step_inv [OF step pinv] by (simp add: system_inv_def)
qed

lemma system_invD:
  assumes "system_inv s"
  shows "booking_inv (sys_booking s)" "payment_inv (sys_payment s)"
    "outbox_ok (command_ok (sys_booking s)) (bdb_outbox (sys_booking s))"
    "outbox_ok (event_ok (sys_payment s)) (pdb_outbox (sys_payment s))"
    "\<forall>i p. get_by_booking_id i (sys_payment s) = Some p \<longrightarrow>
        (\<exists>b. get_by_id i (sys_booking s) = Some b \<and> payment_matches (sys_payment s) p b)"
    "\<forall>i b. get_by_id i (sys_booking s) = Some b \<longrightarrow> booking_backed (sys_payment s) b"
  using assms by (simp_all add: system_inv_def)

lemma system_step_inv:
  assumes "system_step s s'" "system_inv s"
  shows "system_inv s'"
  using assms(1)
proof cases
  case (api db')
  show ?thesis unfolding api(1)
    by (rule system_inv_booking [OF assms(2) booking_request_step [OF api(2)]
          booking_request_ok [OF api(2) system_invD(1,6) [OF assms(2)]]])
next
  case (webhook ce secret payload sig r db')
  obtain ib where "db' = (sys_payment s)\<lparr>pdb_inbox := ib\<rparr>" using stripe_webhook_inbox [OF webhook(2)] by blast
  then show ?thesis unfolding webhook(1)
    using system_invD(5) [OF assms(2)]
    by (intro system_inv_payment [OF assms(2) payment_step.webhook [OF webhook(2)]] conjI exI [of _ "[]"])
      (simp_all add: payment_matches_def ledger_of_def)
next
  case (deliver_command row eid ty d w db')
  have "command_ok (sys_booking s) ty d"
    using system_invD(3) [OF assms(2)] deliver_command(2,3) unfolding outbox_ok_def by blast
  then show ?thesis unfolding deliver_command(1)
    by (rule system_inv_payment [OF assms(2) payment_step.command [OF deliver_command(4)]
          deliver_command_ok [OF deliver_command(4) system_invD(2) [OF assms(2)] _ system_invD(5) [OF assms(2)]]])
next
  case (deliver_event row eid ty d e db')
  have "event_ok (sys_payment s) ty d"
    using system_invD(4) [OF assms(2)] deliver_event(2,3) unfolding outbox_ok_def by blast
  then show ?thesis unfolding deliver_event(1)
    by (rule system_inv_booking [OF assms(2) booking_step.event [OF deliver_event(4)]
          deliver_event_ok [OF deliver_event(4) system_invD(1) [OF assms(2)] _ system_invD(6) [OF assms(2)]]])
qed

lemma system_inv_empty: "system_inv empty_system"
  using booking_inv_empty payment_inv_empty
  by (simp add: system_inv_def empty_system_def outbox_ok_def empty_booking_db_def empty_payment_db_def
      get_by_booking_id_def get_by_id_def)

lemma system_reachable_inv: "system_reachable s \<Longrightarrow> system_inv s"
  by (induction rule: system_reachable.induct) (auto intro: system_inv_empty system_step_inv)

end
