(* ===== verification/Booking_Properties.thy ===== *)
theory Booking_Properties
  imports Booking_Service
begin

text \<open>
  The properties of the booking service over all databases it can reach, each with a concrete
  run on which its hypotheses hold.
\<close>

section \<open>A sample run\<close>

text \<open>
  Concrete inputs on which the hypotheses of the theorems are seen to hold: identifiers counted
  from a start value, and a listing service that knows one approved vehicle.
\<close>

definition sample_env :: "nat \<Rightarrow> env" where
  "sample_env k0 = \<lparr>env_uuid4 = (\<lambda>k. of_nat (k0 + k)), env_now = 0, env_trace = []\<rparr>"

definition sample_http :: "string \<Rightarrow> http_get" where
  "sample_http mode url authorization =
     \<lparr>hr_status_code = 200, hr_json = Some (JObj
       [(''id'', JStr (uuid_str 9)), (''host_id'', JStr (uuid_str 5)), (''daily_price_cents'', JInt 4000),
        (''daily_mileage_limit'', JInt 100), (''booking_mode'', JStr mode),
        (''approval_status'', JStr ''approved'')])\<rparr>"

definition sample_booking :: "uuid \<Rightarrow> string \<Rightarrow> int \<Rightarrow> int \<Rightarrow> booking" where
  "sample_booking i mode sd ed =
     \<lparr>bk_id = i, bk_vehicle_id = 9, bk_host_id = 5, bk_renter_id = 7, bk_start_date = sd, bk_end_date = ed,
      bk_daily_price_cents = 4000, bk_daily_mileage_limit = 100, bk_booking_mode = mode,
      bk_status = ''requested'', bk_version = 2, bk_start_odometer = None, bk_end_odometer = None,
      bk_start_fuel_percent = None, bk_end_fuel_percent = None, bk_start_photo_url = None,
      bk_end_photo_url = None, bk_overage_cents = 0, bk_created_at = 0\<rparr>"

definition after :: "'d \<Rightarrow> 'e + ('a \<times> 'd) \<Rightarrow> 'd" where
  "after db r = (case r of Inr (_, db') \<Rightarrow> db' | Inl _ \<Rightarrow> db)"

lemma sample_env_simps [simp]:
  "env_uuid4 (sample_env k0) k = of_nat (k0 + k)" "env_now (sample_env k0) = 0" "env_trace (sample_env k0) = []"
  by (simp_all add: sample_env_def)

lemma sample_vehicle [simp]:
  "get_vehicle (sample_http mode) base 9 tok =
     Inr \<lparr>vi_id = 9, vi_host_id = 5, vi_daily_price_cents = 4000, vi_daily_mileage_limit = 100,
          vi_booking_mode = mode, vi_approval_status = ''approved''\<rparr>"
  by (simp add: get_vehicle_def response_json_def uuid_item_def int_item_def str_item_def sample_http_def)

lemmas booking_run_simps =
  request_booking_def create_requested_def append_events_def save_booking_def booking_columns_ok_def
  int4_ok_def varchar_ok_def emit_authorize_payment_requested_def emit_domain_event_def
  booking_outbox_event_def write_outbox_event_def booking_statuses_def booking_live_def
  booking_conflict_def dates_overlap_def booking_days_def get_by_id_def service_defs domain_defs
  requireE_def require_status_def empty_booking_db_def inspection_simps rental_days_def
  compute_overage_cents_def OVERAGE_RATE_CENTS_PER_MILE_def update_row_def Let_def

text \<open>Two requests for different weeks, the first of which the host then rejects.\<close>

definition sample_requested :: booking_db where
  "sample_requested = after empty_booking_db
     (request_booking (sample_env 1) (sample_http ''request'') ''http://listing'' 7 9 10 12 ''t'' empty_booking_db)"

definition sample_two :: booking_db where
  "sample_two = after sample_requested
     (request_booking (sample_env 11) (sample_http ''instant'') ''http://listing'' 7 9 13 15 ''t'' sample_requested)"

definition sample_rejected :: booking_db where
  "sample_rejected = after sample_two (reject_booking_request (sample_env 21) 1 5 sample_two)"

lemma sample_requested_run:
  "request_booking (sample_env 1) (sample_http ''request'') ''http://listing'' 7 9 10 12 ''t'' empty_booking_db =
     Inr (sample_booking 1 ''request'' 10 12, sample_requested)"
  "bdb_bookings sample_requested = [sample_booking 1 ''request'' 10 12]"
  "bdb_events sample_requested =
     [\<lparr>ev_id = 2, ev_booking_id = 1, ev_version = 2, ev_event_type = ''booking_requested'', ev_payload = []\<rparr>]"
  "bdb_outbox sample_requested = []" "bdb_inbox sample_requested = {}"
  by (simp_all add: sample_requested_def after_def booking_run_simps sample_booking_def)

lemma sample_two_run:
  "request_booking (sample_env 11) (sample_http ''instant'') ''http://listing'' 7 9 13 15 ''t'' sample_requested =
     Inr (sample_booking 11 ''instant'' 13 15, sample_two)"
  "bdb_bookings sample_two = [sample_booking 1 ''request'' 10 12, sample_booking 11 ''instant'' 13 15]"
  "bdb_events sample_two =
     [\<lparr>ev_id = 2, ev_booking_id = 1, ev_version = 2, ev_event_type = ''booking_requested'', ev_payload = []\<rparr>,
      \<lparr>ev_id = 12, ev_booking_id = 11, ev_version = 2, ev_event_type = ''booking_requested'', ev_payload = []\<rparr>]"
  "ob_id ` set (bdb_outbox sample_two) = {13}" "bdb_inbox sample_two = {}"
  by (simp_all add: sample_two_def after_def booking_run_simps sample_requested_run sample_booking_def)

lemma sample_rejected_run:
  "reject_booking_request (sample_env 21) 1 5 sample_two =
     Inr ((sample_booking 1 ''request'' 10 12)\<lparr>bk_status := ''rejected'', bk_version := 3\<rparr>, sample_rejected)"
  "bdb_bookings sample_rejected =
     [(sample_booking 1 ''request'' 10 12)\<lparr>bk_status := ''rejected'', bk_version := 3\<rparr>,
      sample_booking 11 ''instant'' 13 15]" "bdb_inbox sample_rejected = {}"
  by (simp_all add: sample_rejected_def after_def booking_run_simps sample_two_run sample_booking_def)

text \<open>The second booking is paid, handed over and returned 150 miles over the limit.\<close>

definition sample_event :: dict where
  "sample_event = [(''booking_id'', JStr (uuid_str 11))]"

definition sample_paid :: booking_db where
  "sample_paid =
     (case booking_process (sample_env 31) ''e1'' ''payment_authorized'' sample_event sample_two of
        Inr db \<Rightarrow> db | Inl _ \<Rightarrow> sample_two)"

definition sample_active :: booking_db where
  "sample_active = after sample_paid (record_handover (sample_env 41) 11 5 1000 80 ''p'' sample_paid)"

definition sample_returned :: booking_db where
  "sample_returned = after sample_active (record_return (sample_env 51) 11 5 1350 60 ''q'' sample_active)"

abbreviation sample_row_active :: booking where
  "sample_row_active \<equiv>
     (sample_booking 11 ''instant'' 13 15)\<lparr>bk_status := ''active'', bk_version := 5,
       bk_start_odometer := Some 1000, bk_start_fuel_percent := Some 80, bk_start_photo_url := Some ''p''\<rparr>"

abbreviation sample_row_returned :: booking where
  "sample_row_returned \<equiv>
     sample_row_active\<lparr>bk_version := 6, bk_end_odometer := Some 1350, bk_end_fuel_percent := Some 60,
       bk_end_photo_url := Some ''q'', bk_overage_cents := 7500\<rparr>"

lemma sample_paid_run:
  "booking_process (sample_env 31) ''e1'' ''payment_authorized'' sample_event sample_two = Inr sample_paid"
  "bdb_bookings sample_paid =
     [sample_booking 1 ''request'' 10 12,
      (sample_booking 11 ''instant'' 13 15)\<lparr>bk_status := ''confirmed'', bk_version := 4\<rparr>]"
  "map (\<lambda>r. (ev_id r, ev_booking_id r, ev_version r)) (bdb_events sample_paid) =
     [(2, 1, 2), (12, 11, 2), (31, 11, 3), (32, 11, 4)]"
  "ob_id ` set (bdb_outbox sample_paid) = {33, 13}"
  by (simp_all add: sample_paid_def sample_event_def booking_process_def postgres_inbox_processor_def
      claim_event_def payment_event_handlers_def handle_payment_event_def uuid_item_def
      booking_run_simps sample_two_run sample_booking_def)

lemma ex_event_map:
  "(\<exists>r \<in> set rows. ev_id r = x \<or> ev_booking_id r = y \<and> ev_version r = z) \<longleftrightarrow>
     (\<exists>(a, b, c) \<in> set (map (\<lambda>r. (ev_id r, ev_booking_id r, ev_version r)) rows). a = x \<or> b = y \<and> c = z)"
  by auto

lemma sample_active_run:
  "record_handover (sample_env 41) 11 5 1000 80 ''p'' sample_paid = Inr (sample_row_active, sample_active)"
  "bdb_bookings sample_active = [sample_booking 1 ''request'' 10 12, sample_row_active]"
  "map (\<lambda>r. (ev_id r, ev_booking_id r, ev_version r)) (bdb_events sample_active) =
     [(2, 1, 2), (12, 11, 2), (31, 11, 3), (32, 11, 4), (41, 11, 5)]"
  "ob_id ` set (bdb_outbox sample_active) = {33, 13}"
  by (simp_all add: sample_active_def after_def booking_run_simps sample_paid_run sample_booking_def
      ex_event_map del: set_map)

lemma sample_returned_run:
  "record_return (sample_env 51) 11 5 1350 60 ''q'' sample_active = Inr (sample_row_returned, sample_returned)"
  by (simp_all add: sample_returned_def after_def booking_run_simps sample_active_run sample_booking_def
      ex_event_map del: set_map)

lemma sample_reachable:
  "booking_reachable sample_requested" "booking_reachable sample_two" "booking_reachable sample_rejected"
  "booking_step sample_two sample_rejected"
proof -
  show r: "booking_reachable sample_requested"
    by (rule booking_reachable.step [OF booking_reachable.empty]) (rule booking_step.request [OF sample_requested_run(1)])
  then show t: "booking_reachable sample_two"
    by (rule booking_reachable.step) (rule booking_step.request [OF sample_two_run(1)])
  show s: "booking_step sample_two sample_rejected"
    by (rule booking_step.reject [OF sample_rejected_run(1)])
  show "booking_reachable sample_rejected"
    by (rule booking_reachable.step [OF t s])
qed

section \<open>Safety of the stored bookings\<close>

lemma terminal_row_kept:
  assumes "booking_step\<^sup>*\<^sup>* db db'" "booking_reachable db" "get_by_id i db = Some b"
    and "bk_status b \<in> terminal_statuses"
  shows "booking_reachable db' \<and> get_by_id i db' = Some b"
  using assms(1)
proof (induction rule: rtranclp_induct)
  case (step x y)
  then show ?case
    using booking_step_row [of x y i b] booking_reachable_inv assms(4) terminal_statuses_final
    by (metis booking_reachable.step)
qed (simp add: assms)

text \<open>
  C6: in every database the booking service can reach, two different bookings of one vehicle that
  are neither cancelled nor rejected have disjoint closed date ranges (no double booking).
\<close>

theorem no_double_booking:
  assumes "booking_reachable db" "a \<in> set (bdb_bookings db)" "b \<in> set (bdb_bookings db)" "bk_id a \<noteq> bk_id b"
    and "bk_vehicle_id a = bk_vehicle_id b" "booking_live a" "booking_live b"
  shows "bk_end_date a < bk_start_date b \<or> bk_end_date b < bk_start_date a"
proof -
  have "\<not> booking_conflict a b"
    using booking_reachable_inv [OF assms(1)] assms(2-4) by (simp add: booking_inv_def)
  then show ?thesis using assms(5-7) by (auto simp: booking_conflict_def dates_overlap_def)
qed

theorem no_double_booking_witness:
  "booking_reachable sample_two \<and>
   bk_end_date (sample_booking 1 ''request'' 10 12) < bk_start_date (sample_booking 11 ''instant'' 13 15)"
  using no_double_booking [OF sample_reachable(2),
      of "sample_booking 1 ''request'' 10 12" "sample_booking 11 ''instant'' 13 15"] sample_reachable(2)
  by (simp add: sample_two_run sample_booking_def booking_live_def)

text \<open>
  C7: in every reachable database the event log of a booking has the versions 2, 3, ... up to the
  row's version without a gap, and replaying its facts from the data fixed at creation gives
  exactly the stored row.
\<close>

theorem event_log_replays:
  assumes "booking_reachable db" "b \<in> set (bdb_bookings db)"
  shows "map ev_version (events_of (bk_id b) db) = [2..bk_version b] \<and>
         replay (map ev_fact (events_of (bk_id b) db)) (unstarted b) = b"
  using booking_reachable_inv [OF assms(1)] assms(2) by (simp add: booking_inv_def booking_row_ok_def)

theorem event_log_replays_witness:
  "map ev_version (events_of 1 sample_rejected) = [2..3] \<and>
   bk_status (replay (map ev_fact (events_of 1 sample_rejected)) ((sample_booking 1 ''request'' 10 12)\<lparr>bk_version := 1\<rparr>)) =
     ''rejected''"
  using event_log_replays [OF sample_reachable(3),
      of "(sample_booking 1 ''request'' 10 12)\<lparr>bk_status := ''rejected'', bk_version := 3\<rparr>"]
  by (simp add: sample_rejected_run sample_booking_def unstarted_def)

text \<open>
  C8: a booking that is completed, cancelled or rejected never changes again, whatever
  transactions follow.
\<close>

theorem terminal_booking_final:
  assumes "booking_reachable db" "booking_step\<^sup>*\<^sup>* db db'" "get_by_id i db = Some b"
    and "bk_status b \<in> terminal_statuses"
  shows "get_by_id i db' = Some b"
  using terminal_row_kept [OF assms(2,1,3,4)] by simp

theorem terminal_booking_final_witness:
  "\<exists>b. get_by_id 1 sample_rejected = Some b \<and> bk_status b = ''rejected''"
  using terminal_booking_final [OF sample_reachable(3) rtranclp.rtrancl_refl, of 1
      "(sample_booking 1 ''request'' 10 12)\<lparr>bk_status := ''rejected'', bk_version := 3\<rparr>"]
  by (simp add: sample_rejected_run get_by_id_def sample_booking_def terminal_statuses_def)

text \<open>
  C9: optimistic concurrency: a writer that read an older version of a booking cannot append any
  event; the whole operation ends with \<^verbatim>\<open>ConcurrentBookingUpdateError\<close>.
\<close>

theorem stale_update_refused:
  assumes "booking_reachable db" "get_by_id (bk_id stale) db = Some current"
    and "1 \<le> bk_version stale" "bk_version stale < bk_version current" "facts \<noteq> []"
  shows "append_events e k stale facts s db = Inl (ConcurrentBookingUpdateError (bk_id stale))"
proof -
  have c: "booking_row_ok db current" "bk_id current = bk_id stale"
    using booking_reachable_inv [OF assms(1)] get_by_id_SomeD [OF assms(2)] by (auto simp: booking_inv_def)
  then have "bk_version stale + 1 \<in> set (map ev_version (events_of (bk_id stale) db))"
    using assms(3,4) by (simp add: booking_row_ok_def)
  then have "\<exists>r \<in> set (bdb_events db). ev_booking_id r = bk_id stale \<and> ev_version r = bk_version stale + 1"
    by (auto simp: events_of_def)
  then show ?thesis
    using assms(5) by (cases facts) (auto simp: append_events_def Let_def)
qed

theorem stale_update_refused_witness:
  "append_events (sample_env 31) 0 (sample_booking 1 ''request'' 10 12) [(''booking_request_accepted'', [])]
     ''requested'' sample_rejected = Inl (ConcurrentBookingUpdateError 1)"
  using stale_update_refused [OF sample_reachable(3), of "sample_booking 1 ''request'' 10 12"
      "(sample_booking 1 ''request'' 10 12)\<lparr>bk_status := ''rejected'', bk_version := 3\<rparr>"
      "[(''booking_request_accepted'', [])]" "sample_env 31" 0 "''requested''"]
  by (simp add: sample_rejected_run get_by_id_def sample_booking_def)

section \<open>Behaviour of the operations\<close>

text \<open>
  C10: recording a return charges 50 cents for every mile beyond the daily limit times the rental
  days (at least one), never a negative amount, stores that overage in the booking, and emits
  exactly one capture command with the hold (daily price times days) and the overage.
\<close>

theorem return_charges:
  assumes "record_return e i h od fu ph db = Inr (b', db')"
  shows "\<exists>b m. get_by_id i db = Some b \<and> bk_host_id b = h \<and> bk_start_odometer b = Some m \<and>
    bk_overage_cents b' = 50 * max 0 (od - m - bk_daily_mileage_limit b * max (bk_end_date b - bk_start_date b) 1) \<and>
    emitted [(''capture_payment_requested'',
        [(''booking_id'', JStr (uuid_str i)), (''host_id'', JStr (uuid_str h)),
         (''hold_amount_cents'', JInt (bk_daily_price_cents b * max (bk_end_date b - bk_start_date b) 1)),
         (''overage_cents'', JInt (bk_overage_cents b'))])] (bdb_outbox db) (bdb_outbox db') \<and>
    get_by_id i db' = Some b'"
proof -
  from assms obtain b m where b: "bk_id b = i" "bk_host_id b = h" "bk_start_odometer b = Some m"
    "bk_overage_cents b' = compute_overage_cents m od (bk_daily_mileage_limit b) (booking_days b)"
    and mv: "moved db b [return_fact od fu ph (bk_overage_cents b')] [(''capture_payment_requested'', capture_data b')] b' db'"
    by (rule record_return_moved)
  have fixed: "bk_id b' = i" "bk_host_id b' = h" "bk_daily_price_cents b' = bk_daily_price_cents b"
    "booking_days b' = booking_days b"
    using mv b by (auto simp: moved_def booking_days_def)
  show ?thesis
    using b fixed movedD(2) [OF mv] mv moved_get_by_id [OF mv, of i]
    by (intro exI [of _ b] exI [of _ m])
      (simp add: compute_overage_cents_eq booking_days_def moved_def capture_data_def)
qed

theorem return_charges_witness:
  "bk_overage_cents sample_row_returned = 50 * max 0 (1350 - 1000 - 100 * max (15 - 13) 1)"
  using return_charges [OF sample_returned_run] sample_active_run(2)
  by (auto simp: get_by_id_def sample_booking_def)

text \<open>
  Only the booking's host can accept, reject, hand over or take back; for anyone else the four
  operations end with \<^verbatim>\<open>NotBookingPartyError\<close>.
\<close>

theorem only_host_acts:
  assumes "get_by_id i db = Some b" "bk_host_id b \<noteq> h"
  shows "accept_booking_request e i h db = Inl (NotBookingPartyError i) \<and>
         reject_booking_request e i h db = Inl (NotBookingPartyError i) \<and>
         record_handover e i h od fu ph db = Inl (NotBookingPartyError i) \<and>
         record_return e i h od fu ph db = Inl (NotBookingPartyError i)"
  using assms
  by (simp add: accept_booking_request_def reject_booking_request_def record_handover_def record_return_def)

theorem only_host_acts_witness:
  "accept_booking_request (sample_env 31) 1 7 sample_two = Inl (NotBookingPartyError 1)"
  using only_host_acts [of 1 sample_two "sample_booking 1 ''request'' 10 12" 7 "sample_env 31"]
  by (simp add: sample_two_run get_by_id_def sample_booking_def)





text \<open>
  C14: a payment that is authorized after the host rejected the booking can never be recorded: in
  every later database the event makes its handler raise, so the consumer never gets past it
  and the hold is never released.
\<close>

theorem rejected_booking_blocks_consumer:
  assumes "booking_reachable db" "get_by_id i db = Some b" "bk_status b = ''rejected''"
    and "booking_step\<^sup>*\<^sup>* db db'" "eid \<notin> bdb_inbox db'"
  shows "\<exists>m. booking_process e eid ''payment_authorized'' [(''booking_id'', JStr (uuid_str i))] db' =
             Inl (InvalidBookingTransitionError m)"
proof -
  have "get_by_id i db' = Some b"
    using terminal_row_kept [OF assms(4,1,2)] assms(3) by (simp add: terminal_statuses_def)
  then have "\<exists>m. apply_payment_authorized e i (db'\<lparr>bdb_inbox := insert eid (bdb_inbox db')\<rparr>) =
      Inl (InvalidBookingTransitionError m)"
    using assms(3) by (simp add: apply_payment_authorized_def confirm_after_payment_authorized_def require_status_def)
  then show ?thesis
    using assms(5) booking_inbox.process_first [of eid db' e "''payment_authorized''"]
    by (auto simp: booking_process_def payment_event_handlers_def handle_payment_event_def uuid_item_def)
qed

theorem rejected_booking_blocks_consumer_witness:
  "\<exists>m. booking_process (sample_env 61) ''e2'' ''payment_authorized'' [(''booking_id'', JStr (uuid_str 1))]
         sample_rejected = Inl (InvalidBookingTransitionError m)"
  using rejected_booking_blocks_consumer [OF sample_reachable(3), of 1
      "(sample_booking 1 ''request'' 10 12)\<lparr>bk_status := ''rejected'', bk_version := 3\<rparr>" sample_rejected "''e2''"]
  by (simp add: sample_rejected_run get_by_id_def sample_booking_def)

end
