(* ===== verification/Payment_Properties.thy ===== *)
theory Payment_Properties
  imports Payment
begin

text \<open>
  The properties of the payment service over all databases it can reach, with a concrete run of
  an authorization and a capture as witness.
\<close>

section \<open>A sample run\<close>

definition pay_env :: "nat \<Rightarrow> env" where
  "pay_env k0 = \<lparr>env_uuid4 = (\<lambda>k. of_nat (k0 + k)), env_now = 0, env_trace = []\<rparr>"

lemma pay_env_simps [simp]:
  "env_uuid4 (pay_env k0) k = of_nat (k0 + k)" "env_now (pay_env k0) = 0" "env_trace (pay_env k0) = []"
  by (simp_all add: pay_env_def)

text \<open>A Stripe that accepts everything, and one that declines everything.\<close>

definition stripe_yes :: stripe_client where
  "stripe_yes = \<lparr>sc_create = (\<lambda>ps key. Some ''pi_1''), sc_capture = (\<lambda>i a key. True), sc_test_payment_method = ''pm_card_visa''\<rparr>"

definition sample_authorize_data :: dict where
  "sample_authorize_data =
     [(''booking_id'', JStr (uuid_str 11)), (''renter_id'', JStr (uuid_str 7)), (''amount_cents'', JInt 8000)]"

definition sample_capture_data :: dict where
  "sample_capture_data =
     [(''booking_id'', JStr (uuid_str 11)), (''host_id'', JStr (uuid_str 5)),
      (''hold_amount_cents'', JInt 8000), (''overage_cents'', JInt 7500)]"

definition sample_payment :: payment where
  "sample_payment =
     \<lparr>pm_id = 61, pm_booking_id = 11, pm_renter_id = 7, pm_hold_amount_cents = 8000, pm_overage_cents = 0,
      pm_status = ''authorized'', pm_stripe_payment_intent_id = Some ''pi_1'', pm_stripe_overage_intent_id = None\<rparr>"

definition sample_captured_payment :: payment where
  "sample_captured_payment =
     sample_payment\<lparr>pm_status := ''captured'', pm_overage_cents := 7500, pm_stripe_overage_intent_id := Some ''pi_1''\<rparr>"

definition pay_result :: "payment_exn + payment_db \<Rightarrow> payment_db" where
  "pay_result r = (case r of Inr db \<Rightarrow> db | Inl _ \<Rightarrow> empty_payment_db)"

definition sample_authorized :: payment_db where
  "sample_authorized = pay_result (payment_process (stripe_yes, pay_env 61) ''c1'' ''authorize_payment_requested''
     sample_authorize_data empty_payment_db)"

definition sample_captured :: payment_db where
  "sample_captured = pay_result (payment_process (stripe_yes, pay_env 71) ''c2'' ''capture_payment_requested''
     sample_capture_data sample_authorized)"

lemmas payment_run_simps =
  payment_process_def postgres_inbox_processor_def claim_event_def payment_handlers_def
  build_booking_command_handlers_def authorize_command_def capture_command_def snd_bindS snd_tryS
  handle_authorize_payment_requested_def handle_capture_payment_requested_def charge_overage_def
  stripe_authorize_def stripe_capture_def stripe_authorize_and_capture_def snd_create_intent
  payment_create_def payment_save_def write_ledger_pair_def ledger_pair_def payment_outbox_event_def
  write_outbox_event_def payment_columns_ok_def ledger_columns_ok_def payment_statuses_def
  int4_ok_def varchar_ok_def get_by_booking_id_def uuid_item_def int_item_def pay_result_def Let_def
  update_row_def

lemma sample_authorized_run:
  "payment_process (stripe_yes, pay_env 61) ''c1'' ''authorize_payment_requested'' sample_authorize_data
     empty_payment_db = Inr sample_authorized"
  "pdb_payments sample_authorized = [sample_payment]" "pdb_ledger sample_authorized = []"
  "ob_id ` set (pdb_outbox sample_authorized) = {62}" "pdb_inbox sample_authorized = {''c1''}"
  by (simp_all add: sample_authorized_def sample_authorize_data_def payment_run_simps stripe_yes_def
      empty_payment_db_def sample_payment_def)

lemma sample_captured_run:
  "payment_process (stripe_yes, pay_env 71) ''c2'' ''capture_payment_requested'' sample_capture_data
     sample_authorized = Inr sample_captured"
  "pdb_payments sample_captured = [sample_captured_payment]"
  by (simp_all add: sample_captured_def sample_capture_data_def payment_run_simps stripe_yes_def
      sample_authorized_run sample_payment_def sample_captured_payment_def)

lemma sample_payment_reachable: "payment_reachable sample_authorized" "payment_reachable sample_captured"
proof -
  show a: "payment_reachable sample_authorized"
    by (rule payment_reachable.step [OF payment_reachable.empty]) (rule payment_step.command [OF sample_authorized_run(1)])
  show "payment_reachable sample_captured"
    by (rule payment_reachable.step [OF a]) (rule payment_step.command [OF sample_captured_run(1)])
qed

section \<open>The ledger\<close>

text \<open>
  C15: in every database the payment service can reach, debits and credits of the ledger are equal
  in total; a captured payment has exactly its rental pair and, when an overage was charged,
  the overage pair of that amount, between the renter and one host; every other payment has
  no ledger entry and no overage.
\<close>

theorem ledger_matches_payments:
  assumes "payment_reachable db" "p \<in> set (pdb_payments db)"
  shows "ledger_balance (pdb_ledger db) = 0 \<and>
    (if pm_status p = ''captured''
     then \<exists>host amount. 0 < amount \<and> map entry_of (ledger_of (pm_id p) db) = charge_spec p host amount
     else ledger_of (pm_id p) db = [] \<and> pm_overage_cents p = 0)"
  using payment_reachable_inv [OF assms(1)] assms(2) by (auto simp: payment_inv_def payment_row_ok_def)

theorem ledger_matches_payments_witness:
  "ledger_balance (pdb_ledger sample_captured) = 0 \<and>
   (\<exists>host amount. map entry_of (ledger_of 61 sample_captured) = charge_spec sample_captured_payment host amount)"
  using ledger_matches_payments [OF sample_payment_reachable(2), of sample_captured_payment]
  by (auto simp: sample_captured_run(2) sample_captured_payment_def sample_payment_def)

text \<open>
  In every reachable database a booking has at most one payment, and payment identifiers are
  unique.
\<close>

theorem one_payment_per_booking:
  assumes "payment_reachable db" "p \<in> set (pdb_payments db)" "q \<in> set (pdb_payments db)"
    and "pm_booking_id p = pm_booking_id q \<or> pm_id p = pm_id q"
  shows "p = q"
  using payment_reachable_inv [OF assms(1)] assms(2-4)
  by (auto simp: payment_inv_def distinct_map inj_on_def)

theorem one_payment_per_booking_witness:
  "\<exists>p q. p \<in> set (pdb_payments sample_captured) \<and> q \<in> set (pdb_payments sample_captured) \<and>
         pm_booking_id p = pm_booking_id q \<and> p = q"
  using one_payment_per_booking [OF sample_payment_reachable(2), of sample_captured_payment sample_captured_payment]
  by (auto simp: sample_captured_run(2))

text \<open>
  A payment that is captured, failed to capture or failed to authorize never changes again,
  whatever commands and webhooks follow.
\<close>

theorem settled_payment_final:
  assumes "payment_reachable db" "payment_step\<^sup>*\<^sup>* db db'" "get_by_booking_id i db = Some p"
    and "pm_status p \<noteq> ''authorized''"
  shows "get_by_booking_id i db' = Some p"
proof -
  have "payment_reachable db' \<and> get_by_booking_id i db' = Some p"
    using assms(2)
  proof (induction rule: rtranclp_induct)
    case (step x y)
    then show ?case
      using payment_step_row [of x y i p] payment_reachable_inv assms(4) by (metis payment_reachable.step)
  qed (simp add: assms)
  then show ?thesis ..
qed

theorem settled_payment_final_witness:
  "get_by_booking_id 11 sample_captured = Some sample_captured_payment"
  using settled_payment_final [OF sample_payment_reachable(2) rtranclp.rtrancl_refl, of 11 sample_captured_payment]
  by (simp add: get_by_booking_id_def sample_captured_run(2) sample_captured_payment_def sample_payment_def)

section \<open>What Stripe is asked to do\<close>

text \<open>
  A repeated command costs nothing: an authorize command for a booking that has a payment, and
  a capture command for a booking whose payment is not (or no longer) authorized, succeed
  without a change and without any call to Stripe.
\<close>

theorem repeated_commands_free:
  assumes "get_by_booking_id i db = Some p"
  shows "handle_authorize_payment_requested stripe e i r amount db = ([], Inr db) \<and>
    (pm_status p \<noteq> ''authorized'' \<longrightarrow> handle_capture_payment_requested stripe e i h hold ov db = ([], Inr db))"
  using assms
  by (simp add: handle_authorize_payment_requested_def handle_capture_payment_requested_def pureS_def)

theorem repeated_commands_free_witness:
  "handle_authorize_payment_requested stripe_yes (pay_env 81) 11 7 8000 sample_captured = ([], Inr sample_captured) \<and>
   handle_capture_payment_requested stripe_yes (pay_env 81) 11 5 8000 7500 sample_captured = ([], Inr sample_captured)"
  using repeated_commands_free [of 11 sample_captured sample_captured_payment stripe_yes "pay_env 81" 7 8000 5 8000 7500]
  by (simp add: get_by_booking_id_def sample_captured_run(2) sample_captured_payment_def sample_payment_def)

abbreviation hold_call :: "stripe_client \<Rightarrow> uuid \<Rightarrow> int \<Rightarrow> stripe_call" where
  "hold_call stripe i amount \<equiv> CreateIntent
     \<lparr>cp_amount = amount, cp_currency = ''usd'', cp_payment_method = sc_test_payment_method stripe,
      cp_capture_method = ''manual'', cp_confirm = True\<rparr> (''authorize:'' @ uuid_str i)"

abbreviation overage_call :: "stripe_client \<Rightarrow> uuid \<Rightarrow> int \<Rightarrow> stripe_call" where
  "overage_call stripe i ov \<equiv> CreateIntent
     \<lparr>cp_amount = ov, cp_currency = ''usd'', cp_payment_method = sc_test_payment_method stripe,
      cp_capture_method = ''automatic'', cp_confirm = True\<rparr> (''overage:'' @ uuid_str i)"

abbreviation capture_call :: "uuid \<Rightarrow> string option \<Rightarrow> int \<Rightarrow> stripe_call" where
  "capture_call i intent hold \<equiv> CaptureIntent intent hold (''capture:'' @ uuid_str i)"

lemma fst_tryS:
  "fst (tryS m h f) = fst m @ (case snd m of Inl StripeError \<Rightarrow> fst h | Inl e \<Rightarrow> [] | Inr x \<Rightarrow> fst (f x))"
  by (auto simp: tryS_def split: prod.split sum.split payment_exn.split)

lemma fst_bindS: "fst (bindS m f) = fst m @ (case snd m of Inl e \<Rightarrow> [] | Inr x \<Rightarrow> fst (f x))"
  by (auto simp: bindS_def split: prod.split sum.split)

lemma charge_overage_calls:
  "fst (charge_overage stripe e i h ov p db) = (if 0 < ov then [overage_call stripe i ov] else [])"
  by (simp add: charge_overage_def fst_tryS stripe_authorize_and_capture_def create_intent_def Let_def
      split: option.split)

text \<open>
  Whatever Stripe answers and however the handlers end, they call Stripe at most once per
  purpose and always with the idempotency key of that purpose and booking: one hold of the
  full amount for an authorize command, one capture of the held intent and at most one
  overage charge, of the positive overage, for a capture command.
\<close>

theorem stripe_calls_keyed:
  "fst (handle_authorize_payment_requested stripe e i r amount db) =
     (if get_by_booking_id i db = None then [hold_call stripe i amount] else []) \<and>
   (\<exists>intent. fst (handle_capture_payment_requested stripe e i h hold ov db) \<in>
     {[], [capture_call i intent hold]} \<union>
     (if 0 < ov then {[capture_call i intent hold, overage_call stripe i ov]} else {}))"
proof (rule conjI)
  show "fst (handle_authorize_payment_requested stripe e i r amount db) =
     (if get_by_booking_id i db = None then [hold_call stripe i amount] else [])"
    by (cases "get_by_booking_id i db")
      (simp_all add: handle_authorize_payment_requested_def fst_tryS stripe_authorize_def create_intent_def split: option.split)
  show "\<exists>intent. fst (handle_capture_payment_requested stripe e i h hold ov db) \<in>
     {[], [capture_call i intent hold]} \<union>
     (if 0 < ov then {[capture_call i intent hold, overage_call stripe i ov]} else {})"
  proof (cases "\<exists>p. get_by_booking_id i db = Some p \<and> pm_status p = ''authorized''")
    case False
    then show ?thesis by (auto simp: handle_capture_payment_requested_def split: option.split)
  next
    case True
    then obtain p where p: "get_by_booking_id i db = Some p" "pm_status p = ''authorized''" by blast
    then have "fst (handle_capture_payment_requested stripe e i h hold ov db) \<in>
      {[capture_call i (pm_stripe_payment_intent_id p) hold]} \<union>
      (if 0 < ov then {[capture_call i (pm_stripe_payment_intent_id p) hold, overage_call stripe i ov]} else {})"
      by (auto simp: handle_capture_payment_requested_def fst_tryS fst_bindS stripe_capture_def charge_overage_calls
          split: sum.split prod.split)
    then show ?thesis by (intro exI [of _ "pm_stripe_payment_intent_id p"]) auto
  qed
qed

text \<open>
  C16: the books follow Stripe: when a capture command for an authorized payment is processed, the
  payment ends captured exactly if Stripe captured the hold, the overage is booked exactly if
  it is positive and Stripe charged it, and the matching event is the only one emitted.
\<close>

theorem capture_follows_stripe:
  assumes "snd (handle_capture_payment_requested stripe e i h hold ov db) = Inr db'" "payment_inv db"
    and "get_by_booking_id i db = Some p" "pm_status p = ''authorized''"
  shows "\<exists>p'. get_by_booking_id i db' = Some p' \<and>
    (if sc_capture stripe (pm_stripe_payment_intent_id p) hold (''capture:'' @ uuid_str i)
     then pm_status p' = ''captured'' \<and>
          pm_overage_cents p' = (if 0 < ov \<and> overage_answer stripe i ov \<noteq> None then ov else 0) \<and>
          map entry_of (ledger_of (pm_id p) db') = charge_spec p' h hold
     else pm_status p' = ''capture_failed'' \<and> ledger_of (pm_id p) db' = []) \<and>
    emitted [(''payment_'' @ pm_status p', [(''booking_id'', JStr (uuid_str i))])] (pdb_outbox db) (pdb_outbox db')"
proof -
  have "payment_row_ok db p"
    using assms(2) get_by_booking_id_SomeD [OF assms(3)] by (simp add: payment_inv_def)
  then have none: "ledger_of (pm_id p) db = []" "pm_overage_cents p = 0"
    using assms(4) by (auto simp: payment_row_ok_def)
  from assms(1) show ?thesis
  proof (cases rule: capture_effect)
    case ignored
    then show ?thesis using assms(3,4) by simp
  next
    case (failed q rows)
    then have q: "q = p" using assms(3) by simp
    have "get_by_booking_id i db' = Some (q\<lparr>pm_status := ''capture_failed''\<rparr>)"
      using get_by_booking_id_update [OF assms(2) failed(1), of "q\<lparr>pm_status := ''capture_failed''\<rparr>" db' i] failed(4)
      by simp
    then show ?thesis using failed q none by (auto simp: ledger_of_def)
  next
    case (captured q q' extra new rows)
    then have q: "q = p" using assms(3) by simp
    have how: "q' = q\<lparr>pm_status := ''captured''\<rparr> \<and> extra = [] \<or>
       0 < ov \<and> extra = pair_spec (pm_renter_id q) h ov ''mileage_overage'' \<and>
       (\<exists>x. q' = q\<lparr>pm_stripe_overage_intent_id := Some x, pm_overage_cents := ov, pm_status := ''captured''\<rparr>)"
      using captured(5) by blast
    have "pdb_ledger db' = pdb_ledger db @ new" using captured(8) by simp
    note led = captured_ledger [OF assms(2) captured(1,2) how captured(6,7) this]
    have g: "get_by_booking_id i db' = Some q'"
      using get_by_booking_id_update [OF assms(2) captured(1) led(6,7), of db' i] captured(8) by simp
    have "pm_overage_cents q' = (if 0 < ov \<and> overage_answer stripe i ov \<noteq> None then ov else 0)"
      using captured(5) led(4) by auto
    then show ?thesis using g captured(4,8,9) led(1,8) q by (intro exI [of _ q']) simp
  qed
qed

theorem capture_follows_stripe_witness:
  "\<exists>p'. get_by_booking_id 11 sample_captured = Some p' \<and> pm_overage_cents p' = 7500 \<and>
        map entry_of (ledger_of 61 sample_captured) = charge_spec p' 5 8000"
proof -
  let ?db = "sample_authorized\<lparr>pdb_inbox := {''c1'', ''c2''}\<rparr>"
  have "snd (handle_capture_payment_requested stripe_yes (pay_env 71) 11 5 8000 7500 ?db) = Inr sample_captured"
    using sample_captured_run(1)
    by (simp add: payment_process_def postgres_inbox_processor_def claim_event_def payment_handlers_def
        build_booking_command_handlers_def capture_command_def sample_capture_data_def snd_bindS
        uuid_item_def int_item_def sample_authorized_run insert_commute)
  from capture_follows_stripe [OF this, of sample_payment] show ?thesis
    using payment_reachable_inv [OF sample_payment_reachable(1)]
    by (simp add: get_by_booking_id_def sample_authorized_run sample_payment_def stripe_yes_def) blast
qed



text \<open>
  The payment consumer is crash safe in the same sense as the booking consumer.
\<close>

theorem payment_consumer_exactly_once:
  assumes "crash_run (\<lambda>w. consume_record loads PaymentPy (payment_process w))
             (\<lambda>db db'. pdb_inbox db \<subseteq> pdb_inbox db') topic db0 c"
  shows "\<exists>n. atomic_run (\<lambda>w. consume_record loads PaymentPy (payment_process w))
               (\<lambda>db db'. pdb_inbox db \<subseteq> pdb_inbox db') topic db0 n (con_db c) \<and>
             con_committed c \<le> n \<and> n \<le> Suc (con_committed c)"
  using assms unfolding payment_process_def by (rule payment_inbox.crash_run_refines)

definition pay_loads :: "string \<Rightarrow> json option" where
  "pay_loads raw = Some (JObj [(''event_type'', JStr ''authorize_payment_requested''), (''event_id'', JStr ''c1''),
     (''data'', JObj sample_authorize_data)])"

lemma pay_consume:
  "consume_record pay_loads PaymentPy (payment_process (stripe_yes, pay_env 61)) raw empty_payment_db = Inr sample_authorized"
  by (simp add: consume_record_def decode_envelope_def json_loads_def pay_loads_def envelope_fields.simps
      str_item_def sample_authorized_run)

theorem payment_consumer_exactly_once_witness:
  "\<exists>n. atomic_run (\<lambda>w. consume_record pay_loads PaymentPy (payment_process w))
         (\<lambda>db db'. pdb_inbox db \<subseteq> pdb_inbox db') [''r''] empty_payment_db n sample_authorized \<and> n \<le> 1"
proof -
  let ?c = "\<lparr>con_pos = 0, con_committed = 0, con_db = empty_payment_db\<rparr>"
  have "crash_run (\<lambda>w. consume_record pay_loads PaymentPy (payment_process w))
     (\<lambda>db db'. pdb_inbox db \<subseteq> pdb_inbox db') [''r''] empty_payment_db
     (?c\<lparr>con_pos := Suc (con_pos ?c), con_db := sample_authorized\<rparr>)"
    by (rule crash_run.handle [OF crash_run.start, where w = "(stripe_yes, pay_env 61)"]) (simp_all add: pay_consume)
  from payment_consumer_exactly_once [OF crash_run.restart [OF this]] show ?thesis by auto
qed

section \<open>Routes\<close>

text \<open>
  Payment details are shown to administrators only: a request that is answered carried a valid
  access token with the role \<^verbatim>\<open>admin\<close>, and the answer is the payment of the booking.
\<close>

theorem payment_shown_to_admins_only:
  assumes "get_payment st authorization i db = Inr body"
  shows "\<exists>token claims p. bearer_token authorization = Inr token \<and> decode_token st token = Some claims \<and>
    dict_get claims ''type'' = Some (JStr ''access'') \<and> dict_get claims ''role'' = Some (JStr ''admin'') \<and>
    get_by_booking_id i db = Some p \<and> body = payment_response p"
  using assms
  by (auto simp: get_payment_def bindE_eq_Inr claims_dependency_Inr require_role_Inr split: option.splits)

definition pay_jwt :: jwt_settings where
  "pay_jwt = \<lparr>jw_decode = (\<lambda>token secret algs issuer. Some [(''type'', JStr ''access''), (''role'', JStr ''admin'')]),
             jw_secret = ''s'', jw_issuer = ''carflow-auth''\<rparr>"

theorem payment_shown_to_admins_only_witness:
  "\<exists>p. get_by_booking_id 11 sample_authorized = Some p"
  using payment_shown_to_admins_only [of pay_jwt "Some ''Bearer t''" 11 sample_authorized "payment_response sample_payment"]
  by (simp add: get_payment_def claims_dependency_def bearer_token_def after_space_def decode_token_def pay_jwt_def
      require_role_def char_lower_def get_by_booking_id_def sample_authorized_run sample_payment_def)

end
