(* ===== verification/Saga_Properties.thy ===== *)
theory Saga_Properties
  imports Saga Booking_Properties Payment_Properties
begin

text \<open>
  What the booking and payment services guarantee together, over every interleaving of requests
  and deliveries, and a run of the whole saga from the request to the completed booking.
\<close>

section \<open>A sample run of the saga\<close>

text \<open>
  An instant booking is requested (3 outbox rows in all: authorize, confirmed, capture), paid,
  handed over, returned twice with different odometers before the payment service has seen the
  first capture command, captured and completed.
\<close>

definition run1 :: booking_db where
  "run1 = after empty_booking_db
     (request_booking (sample_env 1) (sample_http ''instant'') ''http://listing'' 7 9 10 12 ''t'' empty_booking_db)"

definition pay1 :: payment_db where
  "pay1 = pay_result (payment_process (stripe_yes, pay_env 61) (uuid_str 3) ''authorize_payment_requested''
     (authorize_data (sample_booking 1 ''instant'' 10 12)) empty_payment_db)"

definition run2 :: booking_db where
  "run2 = (case booking_process (sample_env 11) (uuid_str 62) ''payment_authorized'' [(''booking_id'', JStr (uuid_str 1))] run1 of
     Inr db \<Rightarrow> db | Inl _ \<Rightarrow> run1)"

definition run3 :: booking_db where
  "run3 = after run2 (record_handover (sample_env 21) 1 5 1000 80 ''p'' run2)"

definition run4 :: booking_db where
  "run4 = after run3 (record_return (sample_env 31) 1 5 1350 60 ''q'' run3)"

definition run5 :: booking_db where
  "run5 = after run4 (record_return (sample_env 41) 1 5 1200 60 ''q'' run4)"

abbreviation row_active :: booking where
  "row_active \<equiv> (sample_booking 1 ''instant'' 10 12)\<lparr>bk_status := ''active'', bk_version := 5,
     bk_start_odometer := Some 1000, bk_start_fuel_percent := Some 80, bk_start_photo_url := Some ''p''\<rparr>"

abbreviation row_returned :: booking where
  "row_returned \<equiv> row_active\<lparr>bk_version := 6, bk_end_odometer := Some 1350, bk_end_fuel_percent := Some 60,
     bk_end_photo_url := Some ''q'', bk_overage_cents := 7500\<rparr>"

abbreviation row_again :: booking where
  "row_again \<equiv> row_active\<lparr>bk_version := 7, bk_end_odometer := Some 1200, bk_end_fuel_percent := Some 60,
     bk_end_photo_url := Some ''q'', bk_overage_cents := 0\<rparr>"

definition pay2 :: payment_db where
  "pay2 = pay_result (payment_process (stripe_yes, pay_env 71) (uuid_str 32) ''capture_payment_requested''
     (capture_data row_returned) pay1)"

definition run6 :: booking_db where
  "run6 = (case booking_process (sample_env 51) (uuid_str 75) ''payment_captured'' [(''booking_id'', JStr (uuid_str 1))] run5 of
     Inr db \<Rightarrow> db | Inl _ \<Rightarrow> run5)"

abbreviation outbox_entry :: "env \<Rightarrow> uuid \<Rightarrow> string \<Rightarrow> string \<Rightarrow> dict \<Rightarrow> outbox_row" where
  "outbox_entry e i aggregate ty d \<equiv>
     \<lparr>ob_id = i, ob_aggregatetype = aggregate, ob_aggregateid = uuid_str 1, ob_type = ty,
      ob_payload = JObj (outbox_envelope e i ty d)\<rparr>"

lemma run1_eq:
  "request_booking (sample_env 1) (sample_http ''instant'') ''http://listing'' 7 9 10 12 ''t'' empty_booking_db =
     Inr (sample_booking 1 ''instant'' 10 12, run1)"
  "bdb_bookings run1 = [sample_booking 1 ''instant'' 10 12]"
  "map (\<lambda>r. (ev_id r, ev_booking_id r, ev_version r)) (bdb_events run1) = [(2, 1, 2)]"
  "bdb_outbox run1 = [outbox_entry (sample_env 1) 3 ''booking'' ''authorize_payment_requested''
     (authorize_data (sample_booking 1 ''instant'' 10 12))]" "bdb_inbox run1 = {}"
  by (simp_all add: run1_def after_def booking_run_simps sample_booking_def authorize_data_def)

lemma pay1_eq:
  "payment_process (stripe_yes, pay_env 61) (uuid_str 3) ''authorize_payment_requested''
     (authorize_data (sample_booking 1 ''instant'' 10 12)) empty_payment_db = Inr pay1"
  "pdb_payments pay1 = [sample_payment\<lparr>pm_booking_id := 1\<rparr>]" "pdb_ledger pay1 = []"
  "pdb_outbox pay1 = [outbox_entry (pay_env 61) 62 ''payment'' ''payment_authorized'' [(''booking_id'', JStr (uuid_str 1))]]"
  "pdb_inbox pay1 = {uuid_str 3}"
  by (simp_all add: pay1_def payment_run_simps stripe_yes_def empty_payment_db_def sample_payment_def
      authorize_data_def sample_booking_def booking_days_def)

lemmas process_simps = booking_process_def postgres_inbox_processor_def claim_event_def payment_event_handlers_def
  handle_payment_event_def uuid_item_def

lemma run2_eq:
  "booking_process (sample_env 11) (uuid_str 62) ''payment_authorized'' [(''booking_id'', JStr (uuid_str 1))] run1 = Inr run2"
  "bdb_bookings run2 = [(sample_booking 1 ''instant'' 10 12)\<lparr>bk_status := ''confirmed'', bk_version := 4\<rparr>]"
  "map (\<lambda>r. (ev_id r, ev_booking_id r, ev_version r)) (bdb_events run2) = [(2, 1, 2), (11, 1, 3), (12, 1, 4)]"
  "ob_id ` set (bdb_outbox run2) = {3, 13}" "bdb_inbox run2 = {uuid_str 62}"
  by (simp_all add: run2_def process_simps booking_run_simps run1_eq sample_booking_def ex_event_map insert_commute
      del: set_map)

lemma run3_eq:
  "record_handover (sample_env 21) 1 5 1000 80 ''p'' run2 = Inr (row_active, run3)"
  "bdb_bookings run3 = [row_active]"
  "map (\<lambda>r. (ev_id r, ev_booking_id r, ev_version r)) (bdb_events run3) = [(2, 1, 2), (11, 1, 3), (12, 1, 4), (21, 1, 5)]"
  "ob_id ` set (bdb_outbox run3) = {3, 13}" "bdb_inbox run3 = {uuid_str 62}"
  by (simp_all add: run3_def after_def booking_run_simps run2_eq sample_booking_def ex_event_map del: set_map)

lemma run4_eq:
  "record_return (sample_env 31) 1 5 1350 60 ''q'' run3 = Inr (row_returned, run4)"
  "bdb_bookings run4 = [row_returned]"
  "map (\<lambda>r. (ev_id r, ev_booking_id r, ev_version r)) (bdb_events run4) =
     [(2, 1, 2), (11, 1, 3), (12, 1, 4), (21, 1, 5), (31, 1, 6)]"
  "ob_id ` set (bdb_outbox run4) = {3, 13, 32}" "bdb_inbox run4 = {uuid_str 62}"
  "outbox_entry (sample_env 31) 32 ''booking'' ''capture_payment_requested'' (capture_data row_returned) \<in> set (bdb_outbox run4)"
  by (simp_all add: run4_def after_def booking_run_simps run3_eq sample_booking_def ex_event_map capture_data_def
      insert_commute del: set_map)

lemma run5_eq:
  "record_return (sample_env 41) 1 5 1200 60 ''q'' run4 = Inr (row_again, run5)"
  "bdb_bookings run5 = [row_again]"
  "map (\<lambda>r. (ev_id r, ev_booking_id r, ev_version r)) (bdb_events run5) =
     [(2, 1, 2), (11, 1, 3), (12, 1, 4), (21, 1, 5), (31, 1, 6), (41, 1, 7)]"
  "ob_id ` set (bdb_outbox run5) = {3, 13, 32, 42}" "bdb_inbox run5 = {uuid_str 62}"
  "set (bdb_outbox run4) \<subseteq> set (bdb_outbox run5)"
  by (simp_all add: run5_def after_def booking_run_simps run4_eq sample_booking_def ex_event_map
      insert_commute subset_insertI del: set_map)

lemma pay2_eq:
  "payment_process (stripe_yes, pay_env 71) (uuid_str 32) ''capture_payment_requested'' (capture_data row_returned) pay1 = Inr pay2"
  "pdb_payments pay2 = [sample_captured_payment\<lparr>pm_booking_id := 1\<rparr>]"
  "outbox_entry (pay_env 71) 75 ''payment'' ''payment_captured'' [(''booking_id'', JStr (uuid_str 1))] \<in> set (pdb_outbox pay2)"
  "length (pdb_ledger pay2) = 4"
  by (simp_all add: pay2_def payment_run_simps stripe_yes_def pay1_eq sample_payment_def sample_captured_payment_def
      capture_data_def sample_booking_def booking_days_def)

lemma run6_eq:
  "booking_process (sample_env 51) (uuid_str 75) ''payment_captured'' [(''booking_id'', JStr (uuid_str 1))] run5 = Inr run6"
  "bdb_bookings run6 = [row_again\<lparr>bk_status := ''completed'', bk_version := 9\<rparr>]"
  by (simp_all add: run6_def process_simps booking_run_simps run5_eq sample_booking_def ex_event_map del: set_map)

text \<open>The same request with a card that is declined.\<close>

definition stripe_no :: stripe_client where
  "stripe_no = \<lparr>sc_create = (\<lambda>ps key. None), sc_capture = (\<lambda>i a key. False), sc_test_payment_method = ''pm_card_visa''\<rparr>"

definition pay_declined :: payment_db where
  "pay_declined = pay_result (payment_process (stripe_no, pay_env 61) (uuid_str 3) ''authorize_payment_requested''
     (authorize_data (sample_booking 1 ''instant'' 10 12)) empty_payment_db)"

definition run_declined :: booking_db where
  "run_declined = (case booking_process (sample_env 11) (uuid_str 62) ''payment_authorization_failed''
     [(''booking_id'', JStr (uuid_str 1))] run1 of Inr db \<Rightarrow> db | Inl _ \<Rightarrow> run1)"

lemma pay_declined_eq:
  "payment_process (stripe_no, pay_env 61) (uuid_str 3) ''authorize_payment_requested''
     (authorize_data (sample_booking 1 ''instant'' 10 12)) empty_payment_db = Inr pay_declined"
  "pdb_outbox pay_declined =
     [outbox_entry (pay_env 61) 62 ''payment'' ''payment_authorization_failed'' [(''booking_id'', JStr (uuid_str 1))]]"
  by (simp_all add: pay_declined_def payment_run_simps stripe_no_def empty_payment_db_def
      authorize_data_def sample_booking_def booking_days_def)

lemma run_declined_eq:
  "booking_process (sample_env 11) (uuid_str 62) ''payment_authorization_failed'' [(''booking_id'', JStr (uuid_str 1))] run1 =
     Inr run_declined"
  "bdb_bookings run_declined = [(sample_booking 1 ''instant'' 10 12)\<lparr>bk_status := ''cancelled'', bk_version := 4\<rparr>]"
  by (simp_all add: run_declined_def process_simps booking_run_simps run1_eq sample_booking_def ex_event_map del: set_map)

text \<open>The states of the run are reachable.\<close>

abbreviation saga_state :: "booking_db \<Rightarrow> payment_db \<Rightarrow> system" where
  "saga_state b p \<equiv> \<lparr>sys_booking = b, sys_payment = p\<rparr>"

lemma saga_api:
  "system_reachable (saga_state b p) \<Longrightarrow> booking_request b b' \<Longrightarrow> system_reachable (saga_state b' p)"
  using system_reachable.step system_step.api [of "saga_state b p"] by fastforce

lemma saga_command:
  assumes "system_reachable (saga_state b p)" "row \<in> set (bdb_outbox b)" "envelope_fields (ob_payload row) = Inr (eid, ty, d)"
    and "payment_process w eid ty d p = Inr p'"
  shows "system_reachable (saga_state b p')"
  using system_reachable.step [OF assms(1)] system_step.deliver_command [of row "saga_state b p" eid ty d w p'] assms(2-4)
  by simp

lemma saga_event:
  assumes "system_reachable (saga_state b p)" "row \<in> set (pdb_outbox p)" "envelope_fields (ob_payload row) = Inr (eid, ty, d)"
    and "booking_process e eid ty d b = Inr b'"
  shows "system_reachable (saga_state b' p)"
  using system_reachable.step [OF assms(1)] system_step.deliver_event [of row "saga_state b p" eid ty d e b'] assms(2-4)
  by simp

lemma saga_run_reachable:
  "system_reachable (saga_state run2 pay1)" "system_reachable (saga_state run6 pay2)"
  "system_reachable (saga_state run_declined pay_declined)"
proof -
  have 0: "system_reachable (saga_state run1 empty_payment_db)"
    using saga_api [OF _ booking_request.request [OF run1_eq(1)]] system_reachable.start by (simp add: empty_system_def)
  then have "system_reachable (saga_state run1 pay_declined)"
    by (rule saga_command [OF _ _ _ pay_declined_eq(1), where row = "hd (bdb_outbox run1)"]) (simp_all add: run1_eq)
  then show "system_reachable (saga_state run_declined pay_declined)"
    by (rule saga_event [OF _ _ _ run_declined_eq(1), where row = "hd (pdb_outbox pay_declined)"])
      (simp_all add: pay_declined_eq)
  from 0 have 1: "system_reachable (saga_state run1 pay1)"
    by (rule saga_command [OF _ _ _ pay1_eq(1), where row = "hd (bdb_outbox run1)"]) (simp_all add: run1_eq)
  then show 2: "system_reachable (saga_state run2 pay1)"
    by (rule saga_event [OF _ _ _ run2_eq(1), where row = "hd (pdb_outbox pay1)"]) (simp_all add: pay1_eq)
  have "system_reachable (saga_state run5 pay1)"
    by (rule saga_api [OF saga_api [OF saga_api [OF 2 booking_request.handover [OF run3_eq(1)]]
            booking_request.return [OF run4_eq(1)]] booking_request.return [OF run5_eq(1)]])
  then have "system_reachable (saga_state run5 pay2)"
    by (rule saga_command [OF _ subsetD [OF run5_eq(6) run4_eq(6)] _ pay2_eq(1)]) simp
  then show "system_reachable (saga_state run6 pay2)"
    by (rule saga_event [OF _ pay2_eq(3) _ run6_eq(1)]) simp
qed

section \<open>Guarantees of the saga\<close>

text \<open>
  C1: a completed booking has been paid for: in every reachable state of the two services its
  payment is captured, and the ledger entries of that payment are exactly the rental pair
  from the booking's renter to its host over the daily price times the days, followed by the
  overage pair when an overage was charged.
\<close>

theorem completed_booking_is_paid:
  assumes "system_reachable s" "get_by_id i (sys_booking s) = Some b" "bk_status b = ''completed''"
  shows "\<exists>p. get_by_booking_id i (sys_payment s) = Some p \<and> pm_status p = ''captured'' \<and>
    pm_renter_id p = bk_renter_id b \<and>
    map entry_of (ledger_of (pm_id p) (sys_payment s)) =
      charge_spec p (bk_host_id b) (bk_daily_price_cents b * max (bk_end_date b - bk_start_date b) 1)"
proof -
  note inv = system_invD [OF system_reachable_inv [OF assms(1)]]
  have i: "bk_id b = i" using get_by_id_SomeD [OF assms(2)] by simp
  obtain p where p: "get_by_booking_id i (sys_payment s) = Some p" "pm_status p = ''captured''"
    using inv(6) assms(2,3) i unfolding booking_backed_def by blast
  then have "payment_matches (sys_payment s) p b" using inv(5) assms(2) by fastforce
  with p show ?thesis by (auto simp: payment_matches_def rental_price_def booking_days_def)
qed

theorem completed_booking_is_paid_witness:
  "\<exists>p. get_by_booking_id 1 pay2 = Some p \<and> pm_status p = ''captured'' \<and>
       map entry_of (ledger_of (pm_id p) pay2) = charge_spec p 5 8000"
  using completed_booking_is_paid [OF saga_run_reachable(2), of 1 "row_again\<lparr>bk_status := ''completed'', bk_version := 9\<rparr>"]
  by (auto simp: get_by_id_def run6_eq(2) sample_booking_def)

text \<open>
  C2: a confirmed, active or completed booking is backed by a hold at Stripe over exactly its price:
  it has a payment of its renter with a payment intent and that amount.
\<close>

theorem confirmed_booking_has_hold:
  assumes "system_reachable s" "get_by_id i (sys_booking s) = Some b"
    and "bk_status b \<in> {''confirmed'', ''active'', ''completed''}"
  shows "\<exists>p. get_by_booking_id i (sys_payment s) = Some p \<and> pm_stripe_payment_intent_id p \<noteq> None \<and>
    pm_renter_id p = bk_renter_id b \<and>
    pm_hold_amount_cents p = bk_daily_price_cents b * max (bk_end_date b - bk_start_date b) 1"
proof -
  note inv = system_invD [OF system_reachable_inv [OF assms(1)]]
  have i: "bk_id b = i" using get_by_id_SomeD [OF assms(2)] by simp
  obtain p where p: "get_by_booking_id i (sys_payment s) = Some p" "pm_status p \<noteq> ''authorization_failed''"
    using inv(6) assms(2,3) i unfolding booking_backed_def by blast
  then have m: "payment_matches (sys_payment s) p b" using inv(5) assms(2) by fastforce
  have "payment_row_ok (sys_payment s) p"
    using inv(2) get_by_booking_id_SomeD [OF p(1)] by (simp add: payment_inv_def)
  then have "pm_stripe_payment_intent_id p \<noteq> None" using p(2) by (simp add: payment_row_ok_def)
  with p m show ?thesis by (auto simp: payment_matches_def rental_price_def booking_days_def)
qed

theorem confirmed_booking_has_hold_witness:
  "\<exists>p. get_by_booking_id 1 pay1 = Some p \<and> pm_hold_amount_cents p = 8000"
  using confirmed_booking_has_hold [OF saga_run_reachable(1), of 1
      "(sample_booking 1 ''instant'' 10 12)\<lparr>bk_status := ''confirmed'', bk_version := 4\<rparr>"]
  by (auto simp: get_by_id_def run2_eq(2) sample_booking_def)

text \<open>
  C3: nobody is charged for a car that was not handed over: when the ledger has an entry for a
  payment, its booking exists, is active or completed, and has its start odometer recorded.
\<close>

theorem charged_only_after_handover:
  assumes "system_reachable s" "l \<in> set (pdb_ledger (sys_payment s))"
  shows "\<exists>p b. p \<in> set (pdb_payments (sys_payment s)) \<and> pm_id p = le_payment_id l \<and>
    get_by_id (pm_booking_id p) (sys_booking s) = Some b \<and> bk_status b \<in> {''active'', ''completed''} \<and>
    bk_start_odometer b \<noteq> None"
proof -
  note inv = system_invD [OF system_reachable_inv [OF assms(1)]]
  obtain p where p: "p \<in> set (pdb_payments (sys_payment s))" "pm_id p = le_payment_id l"
    using inv(2) assms(2) by (auto simp: payment_inv_def)
  then have "l \<in> set (ledger_of (pm_id p) (sys_payment s))" using assms(2) by (simp add: ledger_of_def)
  then have cap: "pm_status p = ''captured''"
    using inv(2) p(1) by (auto simp: payment_inv_def payment_row_ok_def split: if_splits)
  have "get_by_booking_id (pm_booking_id p) (sys_payment s) = Some p"
    using inv(2) p(1) find_row_distinct [of pm_booking_id "pdb_payments (sys_payment s)" p]
    by (simp add: payment_inv_def get_by_booking_id_def)
  then obtain b where b: "get_by_id (pm_booking_id p) (sys_booking s) = Some b" "payment_matches (sys_payment s) p b"
    using inv(5) by blast
  then have st: "bk_status b \<in> {''active'', ''completed''}" using cap by (simp add: payment_matches_def)
  with b(1) p booking_inv_odometer [OF inv(1) b(1) st] show ?thesis by auto
qed

theorem charged_only_after_handover_witness:
  "\<exists>l b. l \<in> set (pdb_ledger pay2) \<and> get_by_id 1 run6 = Some b \<and> bk_start_odometer b = Some 1000"
proof -
  obtain l where l: "l \<in> set (pdb_ledger pay2)" using pay2_eq(4) by (cases "pdb_ledger pay2") auto
  from charged_only_after_handover [OF saga_run_reachable(2), of l] l show ?thesis
    by (auto simp: pay2_eq(2) run6_eq(2) get_by_id_def sample_booking_def sample_captured_payment_def sample_payment_def)
qed

text \<open>
  C4: a cancelled booking costs nothing: its payment failed to authorize, and no ledger entry
  mentions it.
\<close>

theorem cancelled_booking_is_free:
  assumes "system_reachable s" "get_by_id i (sys_booking s) = Some b" "bk_status b = ''cancelled''"
  shows "\<exists>p. get_by_booking_id i (sys_payment s) = Some p \<and> pm_status p = ''authorization_failed'' \<and>
    pm_stripe_payment_intent_id p = None \<and> ledger_of (pm_id p) (sys_payment s) = []"
proof -
  note inv = system_invD [OF system_reachable_inv [OF assms(1)]]
  have i: "bk_id b = i" using get_by_id_SomeD [OF assms(2)] by simp
  obtain p where p: "get_by_booking_id i (sys_payment s) = Some p" "pm_status p = ''authorization_failed''"
    using inv(6) assms(2,3) i unfolding booking_backed_def by blast
  have "payment_row_ok (sys_payment s) p"
    using inv(2) get_by_booking_id_SomeD [OF p(1)] by (simp add: payment_inv_def)
  then show ?thesis using p by (auto simp: payment_row_ok_def)
qed

theorem cancelled_booking_is_free_witness:
  "\<exists>p. get_by_booking_id 1 pay_declined = Some p \<and> pm_status p = ''authorization_failed''"
  using cancelled_booking_is_free [OF saga_run_reachable(3), of 1
      "(sample_booking 1 ''instant'' 10 12)\<lparr>bk_status := ''cancelled'', bk_version := 4\<rparr>"]
  by (auto simp: get_by_id_def run_declined_eq(2) sample_booking_def)


end
