(* ===== verification/Http.thy ===== *)
theory Http
  imports Idempotency
begin

text \<open>
  What the routes of the services have in common: the request, the third-party functions a route
  uses (token decoding, SHA-256, JSON printing), and the order in which FastAPI runs the
  dependencies of an endpoint: the idempotency guard, then the token check, then the validation
  of the body (422), then the endpoint itself, which checks the role and answers through
  \<^verbatim>\<open>respond_idempotently\<close>.

  The locale \<open>idempotent_routes\<close> extends the contract of the key table to whole routes:
  \<open>route_replay\<close> says that a request that was answered is answered the same way when it is
  repeated, with no second effect.
\<close>

record http_request =
  rq_authorization :: "string option"
  rq_idempotency_key :: "string option"
  rq_body :: string

record web =
  wb_jwt :: jwt_settings
  wb_sha256_hex :: "string \<Rightarrow> string"
  wb_dumps :: "json \<Rightarrow> string"

definition validation_error :: py_exn where
  "validation_error = HTTPException 422 ''validation error''"

text \<open>
  \<open>payload\<close> is the validated body, \<open>None\<close> when validation fails; \<open>build\<close> is the endpoint's inner
  function, which gets the claims and the payload.
\<close>

definition idempotent_route ::
  "('db \<Rightarrow> idem_row list) \<Rightarrow> (idem_row list \<Rightarrow> 'db \<Rightarrow> 'db) \<Rightarrow> (py_exn \<Rightarrow> 'e) \<Rightarrow> web \<Rightarrow> int \<Rightarrow> http_request
     \<Rightarrow> string \<Rightarrow> int \<Rightarrow> 'p option \<Rightarrow> (dict \<Rightarrow> 'p \<Rightarrow> 'db \<Rightarrow> 'e + (string \<times> 'db)) \<Rightarrow> 'db \<Rightarrow> ('e + response) \<times> 'db"
where
  "idempotent_route get_idem put_idem raise w now rq role status_code payload build db =
     (case idempotency_guard_dependency (wb_sha256_hex w) (rq_idempotency_key rq)
             (consumer_id_resolver (wb_jwt w) (rq_authorization rq)) (rq_body rq) (get_idem db) of
        Inl e \<Rightarrow> (Inl (raise e), db)
      | Inr guard \<Rightarrow>
          (case claims_dependency (wb_jwt w) ''access'' (rq_authorization rq) of
             Inl e \<Rightarrow> (Inl (raise e), db)
           | Inr claims \<Rightarrow>
               (case payload of
                  None \<Rightarrow> (Inl (raise validation_error), db)
                | Some p \<Rightarrow>
                    (case require_role claims [role] of
                       Inl e \<Rightarrow> (Inl (raise e), db)
                     | Inr _ \<Rightarrow>
                         respond_idempotently get_idem put_idem raise now guard status_code (build claims p) db))))"

text \<open>
  The same for an endpoint whose inner function also acts on another system (\<open>io\<close>: Redis, another
  service).  What it did there stays, whatever becomes of the request.
\<close>

definition idempotent_route_io ::
  "('db \<Rightarrow> idem_row list) \<Rightarrow> (idem_row list \<Rightarrow> 'db \<Rightarrow> 'db) \<Rightarrow> (py_exn \<Rightarrow> 'e) \<Rightarrow> web \<Rightarrow> int \<Rightarrow> http_request
     \<Rightarrow> string \<Rightarrow> int \<Rightarrow> 'p option \<Rightarrow> (dict \<Rightarrow> 'p \<Rightarrow> 'db \<Rightarrow> 'io \<Rightarrow> ('e + (string \<times> 'db)) \<times> 'io) \<Rightarrow> 'db \<Rightarrow> 'io
     \<Rightarrow> (('e + response) \<times> 'db) \<times> 'io"
where
  "idempotent_route_io get_idem put_idem raise w now rq role status_code payload build db io =
     (idempotent_route get_idem put_idem raise w now rq role status_code payload
        (\<lambda>claims p db. fst (build claims p db io)) db,
      case idempotency_guard_dependency (wb_sha256_hex w) (rq_idempotency_key rq)
             (consumer_id_resolver (wb_jwt w) (rq_authorization rq)) (rq_body rq) (get_idem db) of
        Inl _ \<Rightarrow> io
      | Inr guard \<Rightarrow>
          (case claims_dependency (wb_jwt w) ''access'' (rq_authorization rq) of
             Inl _ \<Rightarrow> io
           | Inr claims \<Rightarrow>
               (case payload of
                  None \<Rightarrow> io
                | Some p \<Rightarrow>
                    if require_role claims [role] = Inr () \<and> \<not> is_replay guard then snd (build claims p db io) else io)))"

text \<open>The body as Pydantic reads it: \<open>parse\<close> gives the typed fields, \<open>valid\<close> the field constraints.\<close>

definition validated :: "('p \<Rightarrow> bool) \<Rightarrow> (string \<Rightarrow> 'p option) \<Rightarrow> string \<Rightarrow> 'p option" where
  "validated valid parse body =
     (case parse body of None \<Rightarrow> None | Some p \<Rightarrow> if valid p then Some p else None)"

text \<open>\<^verbatim>\<open>uuid.UUID(claims["sub"])\<close>.\<close>

definition subject :: "dict \<Rightarrow> py_exn + uuid" where
  "subject claims = uuid_item claims ''sub''"

text \<open>\<^verbatim>\<open>claims.get("role", "")\<close>.\<close>

definition claimed_role :: "dict \<Rightarrow> string" where
  "claimed_role claims = (case dict_get claims ''role'' of Some (JStr r) \<Rightarrow> r | _ \<Rightarrow> '''')"

section \<open>The contract of a route\<close>

locale idempotent_routes = idempotent_store get_idem put_idem raise
  for get_idem :: "'db \<Rightarrow> idem_row list" and put_idem and raise :: "py_exn \<Rightarrow> 'e"
begin

abbreviation route ::
  "web \<Rightarrow> int \<Rightarrow> http_request \<Rightarrow> string \<Rightarrow> int \<Rightarrow> 'p option \<Rightarrow> (dict \<Rightarrow> 'p \<Rightarrow> 'db \<Rightarrow> 'e + (string \<times> 'db)) \<Rightarrow> 'db
     \<Rightarrow> ('e + response) \<times> 'db" where
  "route \<equiv> idempotent_route get_idem put_idem raise"

text \<open>A request that passes the checks is the plain request of \<open>idempotent_store\<close>.\<close>

lemma route_answered:
  assumes "route w now rq role status payload build db = (Inr r, db')"
  shows "\<exists>claims p. claims_dependency (wb_jwt w) ''access'' (rq_authorization rq) = Inr claims \<and> payload = Some p \<and>
    dict_get claims ''role'' = Some (JStr role) \<and>
    request (wb_sha256_hex w) now (rq_idempotency_key rq) (consumer_id_resolver (wb_jwt w) (rq_authorization rq))
      (rq_body rq) status (build claims p) db = (Inr r, db')"
  using assms
  by (auto simp: idempotent_route_def idempotent_request_def require_role_def requireE_def
      split: sum.splits option.splits if_splits)

lemma route_passes:
  assumes "claims_dependency (wb_jwt w) ''access'' (rq_authorization rq) = Inr claims" "payload = Some p"
    and "dict_get claims ''role'' = Some (JStr role)"
  shows "route w now rq role status payload build db =
    request (wb_sha256_hex w) now (rq_idempotency_key rq) (consumer_id_resolver (wb_jwt w) (rq_authorization rq))
      (rq_body rq) status (build claims p) db"
  using assms
  by (auto simp: idempotent_route_def idempotent_request_def require_role_def split: sum.split)

text \<open>An error is an HTTP error of one of the checks, or the endpoint's own.\<close>

lemma route_error_cases:
  assumes "route w now rq role status payload build db = (Inl x, db')"
  shows "(\<exists>y. x = raise y \<and> (y = TypeError \<or> (\<exists>code d. y = HTTPException code d \<and> 400 \<le> code))) \<or>
    (\<exists>claims p. build claims p db = Inl x)"
proof -
  have guard: "\<exists>code d. y = HTTPException code d \<and> 400 \<le> code"
    if "idempotency_guard_dependency sha h c body rows = Inl y" for sha h c body rows y
    using that by (auto simp: idempotency_guard_dependency_def reuse_error_def Let_def split: option.splits if_splits)
  have store: "y = reuse_error" if "guard_store t g s c rows = Inl y" for t g s c rows y
    using that by (auto simp: guard_store_def split: option.splits if_splits)
  have replay: "y = TypeError" if "replay_response g = Inl y" for g y
    using that by (auto simp: replay_response_def split: option.splits)
  from assms show ?thesis
    unfolding idempotent_route_def respond_idempotently_def require_role_def requireE_def mapErr_def
    by (auto simp: reuse_error_def validation_error_def split: sum.splits option.splits if_splits prod.splits
        dest!: guard store claims_dependency_Inl replay)
qed

text \<open>An error never leaves a trace in the database.\<close>

lemma route_error: "route w now rq role status payload build db = (Inl e, db') \<Longrightarrow> db' = db"
  by (auto simp: idempotent_route_def respond_idempotently_def mapErr_def replay_response_def is_replay_def
      guard_store_def split: sum.splits option.splits if_splits prod.splits)

text \<open>Whatever a request leaves behind is the effect of its endpoint and a change of the key table.\<close>

lemma route_shape:
  assumes "route w now rq role status payload build db = (r, db')"
  shows "db' = db \<or>
    (\<exists>claims p s db1 rows. claims_dependency (wb_jwt w) ''access'' (rq_authorization rq) = Inr claims \<and>
       dict_get claims ''role'' = Some (JStr role) \<and> payload = Some p \<and>
       build claims p db = Inr (s, db1) \<and> db' = put_idem rows db1)"
  using assms
  by (auto simp: idempotent_route_def respond_idempotently_def require_role_def requireE_def
      split: sum.splits option.splits if_splits prod.splits)

text \<open>
  Once a request was answered, the same caller's next request with that key and body gets the
  same answer and has no effect, on whatever endpoint it arrives.
\<close>

lemma route_replay:
  assumes "route w now rq role status payload build db = (Inr r, db')"
    and "\<And>claims p. keeps_idem (build claims p)"
    and "claims_dependency (wb_jwt w) ''access'' (rq_authorization rq) = Inr claims"
      "dict_get claims ''role'' = Some (JStr role')"
  shows "route w now' rq role' status' (Some p') build' db' = (Inr r, db')"
proof -
  obtain cl p where "claims_dependency (wb_jwt w) ''access'' (rq_authorization rq) = Inr cl" and
    req: "request (wb_sha256_hex w) now (rq_idempotency_key rq) (consumer_id_resolver (wb_jwt w) (rq_authorization rq))
      (rq_body rq) status (build cl p) db = (Inr r, db')"
    using route_answered [OF assms(1)] by blast
  show ?thesis
    unfolding route_passes [OF assms(3) refl assms(4)] by (rule replay_same [OF req assms(2)])
qed

lemma route_repeat:
  assumes "route w now rq role status payload build db = (Inr r, db')"
    and "\<And>claims p. keeps_idem (build claims p)"
  shows "route w now' rq role status' payload build' db' = (Inr r, db')"
proof -
  obtain cl p where c: "claims_dependency (wb_jwt w) ''access'' (rq_authorization rq) = Inr cl" "payload = Some p"
    "dict_get cl ''role'' = Some (JStr role)"
    using route_answered [OF assms(1)] by blast
  show ?thesis unfolding c(2) by (rule route_replay [OF assms c(1,3)])
qed

end

end
