(* ===== verification/Booking_Routes.thy ===== *)
theory Booking_Routes
  imports Booking_Service Http
begin

text \<open>
  The HTTP interface of the booking service (\<^verbatim>\<open>services/booking/routes.py\<close> and
  \<^verbatim>\<open>schemas.py\<close>).  Pydantic's reading of the JSON body into typed fields is a parameter of each
  route (\<open>parse\<close>, \<open>None\<close> when the body is not JSON or a field is missing or ill typed); the field
  constraints of the schemas are modelled.  A route answers with a response or an exception and
  leaves the committed database.
\<close>

section \<open>Schemas\<close>

record create_booking_payload =
  cb_vehicle_id :: uuid
  cb_start_date :: int
  cb_end_date :: int

definition create_booking_valid :: "create_booking_payload \<Rightarrow> bool" where
  "create_booking_valid p \<longleftrightarrow> cb_start_date p < cb_end_date p"

record inspection_payload =
  in_odometer :: int
  in_fuel_percent :: int
  in_photo_url :: string

definition inspection_valid :: "inspection_payload \<Rightarrow> bool" where
  "inspection_valid p \<longleftrightarrow>
     0 \<le> in_odometer p \<and> 0 \<le> in_fuel_percent p \<and> in_fuel_percent p \<le> 100 \<and>
     1 \<le> length (in_photo_url p) \<and> length (in_photo_url p) \<le> 512"

section \<open>Responses\<close>

definition json_int_opt :: "int option \<Rightarrow> json" where
  "json_int_opt x = (case x of None \<Rightarrow> JNull | Some i \<Rightarrow> JInt i)"

definition json_str_opt :: "string option \<Rightarrow> json" where
  "json_str_opt x = (case x of None \<Rightarrow> JNull | Some s \<Rightarrow> JStr s)"

text \<open>\<open>isoformat\<close> is the text form of a date.\<close>

definition booking_response :: "(int \<Rightarrow> string) \<Rightarrow> booking \<Rightarrow> json" where
  "booking_response isoformat b = JObj
     [(''id'', JStr (uuid_str (bk_id b))), (''vehicle_id'', JStr (uuid_str (bk_vehicle_id b))),
      (''host_id'', JStr (uuid_str (bk_host_id b))), (''renter_id'', JStr (uuid_str (bk_renter_id b))),
      (''start_date'', JStr (isoformat (bk_start_date b))), (''end_date'', JStr (isoformat (bk_end_date b))),
      (''daily_price_cents'', JInt (bk_daily_price_cents b)),
      (''daily_mileage_limit'', JInt (bk_daily_mileage_limit b)),
      (''booking_mode'', JStr (bk_booking_mode b)), (''status'', JStr (bk_status b)),
      (''start_odometer'', json_int_opt (bk_start_odometer b)),
      (''end_odometer'', json_int_opt (bk_end_odometer b)),
      (''start_fuel_percent'', json_int_opt (bk_start_fuel_percent b)),
      (''end_fuel_percent'', json_int_opt (bk_end_fuel_percent b)),
      (''start_photo_url'', json_str_opt (bk_start_photo_url b)),
      (''end_photo_url'', json_str_opt (bk_end_photo_url b)),
      (''overage_cents'', JInt (bk_overage_cents b))]"

text \<open>
  The \<^verbatim>\<open>except\<close> clauses of the endpoints.  The overlap error of \<^verbatim>\<open>create\<close> rolls the session back
  and answers 409; anything not listed goes through.
\<close>

fun create_errors :: "booking_exn \<Rightarrow> booking_exn" where
  "create_errors (VehicleNotBookableError _) = BookingPy (HTTPException 404 ''vehicle not bookable'')"
| "create_errors (OverlappingBookingError _) =
     BookingPy (HTTPException 409 ''vehicle is already booked for these dates'')"
| "create_errors x = x"

fun viewer_errors :: "booking_exn \<Rightarrow> booking_exn" where
  "viewer_errors (BookingNotFoundError _) = BookingPy (HTTPException 404 ''booking not found'')"
| "viewer_errors (NotBookingPartyError _) = BookingPy (HTTPException 403 ''not your booking'')"
| "viewer_errors x = x"

fun transition_errors :: "booking_exn \<Rightarrow> booking_exn" where
  "transition_errors (InvalidBookingTransitionError m) = BookingPy (HTTPException 409 m)"
| "transition_errors x = viewer_errors x"

section \<open>Endpoints\<close>

record booking_web = web +
  bw_isoformat :: "int \<Rightarrow> string"
  bw_http_get :: http_get
  bw_listing_base_url :: string

abbreviation booking_route ::
  "booking_web \<Rightarrow> int \<Rightarrow> http_request \<Rightarrow> string \<Rightarrow> int \<Rightarrow> 'p option
     \<Rightarrow> (dict \<Rightarrow> 'p \<Rightarrow> booking_db \<Rightarrow> booking_exn + (string \<times> booking_db)) \<Rightarrow> booking_db
     \<Rightarrow> (booking_exn + response) \<times> booking_db" where
  "booking_route w \<equiv> idempotent_route bdb_idem (\<lambda>rows db. db\<lparr>bdb_idem := rows\<rparr>) BookingPy (web.truncate w)"

definition booking_result ::
  "booking_web \<Rightarrow> (booking_exn \<Rightarrow> booking_exn) \<Rightarrow> booking_exn + (booking \<times> booking_db) \<Rightarrow> booking_exn + (string \<times> booking_db)"
where
  "booking_result w errors r =
     bindE (mapErr errors r) (\<lambda>(booking, db).
     Inr (wb_dumps w (booking_response (bw_isoformat w) booking), db))"

definition create_build ::
  "booking_web \<Rightarrow> env \<Rightarrow> http_request \<Rightarrow> dict \<Rightarrow> create_booking_payload \<Rightarrow> booking_db \<Rightarrow> booking_exn + (string \<times> booking_db)"
where
  "create_build w e rq claims p db =
     bindE (mapErr BookingPy (subject claims)) (\<lambda>renter_id.
     bindE (mapErr BookingPy (case rq_authorization rq of None \<Rightarrow> Inl validation_error | Some a \<Rightarrow> after_space a)) (\<lambda>token.
     booking_result w create_errors
       (request_booking e (bw_http_get w) (bw_listing_base_url w) renter_id (cb_vehicle_id p)
          (cb_start_date p) (cb_end_date p) token db)))"

definition create_booking_route ::
  "booking_web \<Rightarrow> env \<Rightarrow> (string \<Rightarrow> create_booking_payload option) \<Rightarrow> http_request \<Rightarrow> booking_db
     \<Rightarrow> (booking_exn + response) \<times> booking_db"
where
  "create_booking_route w e parse rq db =
     booking_route w (env_now e) rq ''renter'' 201 (validated create_booking_valid parse (rq_body rq))
       (create_build w e rq) db"

definition accept_build ::
  "booking_web \<Rightarrow> env \<Rightarrow> uuid \<Rightarrow> dict \<Rightarrow> unit \<Rightarrow> booking_db \<Rightarrow> booking_exn + (string \<times> booking_db)"
where
  "accept_build w e booking_id claims _ db =
     bindE (mapErr BookingPy (subject claims)) (\<lambda>host_id.
     booking_result w transition_errors (accept_booking_request e booking_id host_id db))"

definition accept_route ::
  "booking_web \<Rightarrow> env \<Rightarrow> uuid \<Rightarrow> http_request \<Rightarrow> booking_db \<Rightarrow> (booking_exn + response) \<times> booking_db"
where
  "accept_route w e booking_id rq db =
     booking_route w (env_now e) rq ''host'' 200 (Some ()) (accept_build w e booking_id) db"

definition reject_build ::
  "booking_web \<Rightarrow> env \<Rightarrow> uuid \<Rightarrow> dict \<Rightarrow> unit \<Rightarrow> booking_db \<Rightarrow> booking_exn + (string \<times> booking_db)"
where
  "reject_build w e booking_id claims _ db =
     bindE (mapErr BookingPy (subject claims)) (\<lambda>host_id.
     booking_result w transition_errors (reject_booking_request e booking_id host_id db))"

definition reject_route ::
  "booking_web \<Rightarrow> env \<Rightarrow> uuid \<Rightarrow> http_request \<Rightarrow> booking_db \<Rightarrow> (booking_exn + response) \<times> booking_db"
where
  "reject_route w e booking_id rq db =
     booking_route w (env_now e) rq ''host'' 200 (Some ()) (reject_build w e booking_id) db"

definition handover_build ::
  "booking_web \<Rightarrow> env \<Rightarrow> uuid \<Rightarrow> dict \<Rightarrow> inspection_payload \<Rightarrow> booking_db \<Rightarrow> booking_exn + (string \<times> booking_db)"
where
  "handover_build w e booking_id claims p db =
     bindE (mapErr BookingPy (subject claims)) (\<lambda>host_id.
     booking_result w transition_errors
       (record_handover e booking_id host_id (in_odometer p) (in_fuel_percent p) (in_photo_url p) db))"

definition handover_route ::
  "booking_web \<Rightarrow> env \<Rightarrow> uuid \<Rightarrow> (string \<Rightarrow> inspection_payload option) \<Rightarrow> http_request \<Rightarrow> booking_db
     \<Rightarrow> (booking_exn + response) \<times> booking_db"
where
  "handover_route w e booking_id parse rq db =
     booking_route w (env_now e) rq ''host'' 200 (validated inspection_valid parse (rq_body rq))
       (handover_build w e booking_id) db"

definition return_build ::
  "booking_web \<Rightarrow> env \<Rightarrow> uuid \<Rightarrow> dict \<Rightarrow> inspection_payload \<Rightarrow> booking_db \<Rightarrow> booking_exn + (string \<times> booking_db)"
where
  "return_build w e booking_id claims p db =
     bindE (mapErr BookingPy (subject claims)) (\<lambda>host_id.
     booking_result w transition_errors
       (record_return e booking_id host_id (in_odometer p) (in_fuel_percent p) (in_photo_url p) db))"

definition return_car_route ::
  "booking_web \<Rightarrow> env \<Rightarrow> uuid \<Rightarrow> (string \<Rightarrow> inspection_payload option) \<Rightarrow> http_request \<Rightarrow> booking_db
     \<Rightarrow> (booking_exn + response) \<times> booking_db"
where
  "return_car_route w e booking_id parse rq db =
     booking_route w (env_now e) rq ''host'' 200 (validated inspection_valid parse (rq_body rq))
       (return_build w e booking_id) db"

text \<open>The two read-only endpoints: their answers are the JSON values of the response models.\<close>

definition list_bookings_route ::
  "booking_web \<Rightarrow> string option \<Rightarrow> int \<Rightarrow> int \<Rightarrow> booking_db \<Rightarrow> booking_exn + json"
where
  "list_bookings_route w authorization limit offset db =
     bindE (mapErr BookingPy (claims_dependency (wb_jwt w) ''access'' authorization)) (\<lambda>claims.
     bindE (mapErr BookingPy (require_role claims [''admin''])) (\<lambda>_.
     bindE (list_all_bookings (limit + 1) offset db) (\<lambda>bookings.
     Inr (JObj
       [(''items'', JArr (map (booking_response (bw_isoformat w)) (slice_to limit bookings))),
        (''next_offset'', if int (length bookings) > limit then JInt (offset + limit) else JNull)]))))"

definition get_booking_route ::
  "booking_web \<Rightarrow> string option \<Rightarrow> uuid \<Rightarrow> booking_db \<Rightarrow> booking_exn + json"
where
  "get_booking_route w authorization booking_id db =
     bindE (mapErr BookingPy (claims_dependency (wb_jwt w) ''access'' authorization)) (\<lambda>claims.
     bindE (mapErr BookingPy (subject claims)) (\<lambda>viewer_id.
     bindE (mapErr viewer_errors (get_booking_for_viewer booking_id viewer_id
              (claimed_role claims) db)) (\<lambda>booking.
     Inr (booking_response (bw_isoformat w) booking))))"

section \<open>The routes meet the idempotency contract\<close>

interpretation booking_keys: idempotent_routes bdb_idem "\<lambda>rows db. db\<lparr>bdb_idem := rows\<rparr>" BookingPy
  by unfold_locales simp

lemma booking_result_Inr:
  "booking_result w errors r = Inr (body, db') \<longleftrightarrow>
     (\<exists>b. r = Inr (b, db') \<and> body = wb_dumps w (booking_response (bw_isoformat w) b))"
  by (auto simp: booking_result_def bindE_eq_Inr mapErr_eq_Inr)

lemma moved_idem: "moved db b facts outs b' db' \<Longrightarrow> bdb_idem db' = bdb_idem db"
  unfolding moved_def by blast

lemma created_idem: "created db outs b db' \<Longrightarrow> bdb_idem db' = bdb_idem db"
  by (simp add: created_def)

lemma builds_keep_idem:
  "booking_keys.keeps_idem (create_build w e rq claims p)"
  "booking_keys.keeps_idem (accept_build w e i claims u)"
  "booking_keys.keeps_idem (reject_build w e i claims u)"
  "booking_keys.keeps_idem (handover_build w e i claims q)"
  "booking_keys.keeps_idem (return_build w e i claims q)"
  unfolding booking_keys.keeps_idem_def
  by (auto simp: create_build_def accept_build_def reject_build_def handover_build_def return_build_def
      bindE_eq_Inr mapErr_eq_Inr booking_result_Inr elim!: request_booking_created
      accept_booking_request_moved reject_booking_request_moved record_handover_moved record_return_moved
      dest!: moved_idem created_idem)

end
