(* ===== verification/Booking_Route_Properties.thy ===== *)
theory Booking_Route_Properties
  imports Booking_Routes Booking_Properties
begin

text \<open>
  Properties of the booking service as its HTTP clients see it: repeated requests, keys that are
  used on two endpoints, failing requests, and pages of the administrator's list.
\<close>

section \<open>A sample client\<close>

definition sample_web :: "string \<Rightarrow> uuid \<Rightarrow> string \<Rightarrow> booking_web" where
  "sample_web role sub mode =
     \<lparr>wb_jwt = \<lparr>jw_decode = (\<lambda>token secret algs issuer. Some [(''type'', JStr ''access''), (''role'', JStr role),
                                                          (''sub'', JStr (uuid_str sub))]),
               jw_secret = ''s'', jw_issuer = ''carflow-auth''\<rparr>,
      wb_sha256_hex = (\<lambda>body. body), wb_dumps = (\<lambda>j. ''{}''), bw_isoformat = (\<lambda>d. ''d''),
      bw_http_get = sample_http mode, bw_listing_base_url = ''http://listing''\<rparr>"

definition sample_rq :: http_request where
  "sample_rq = \<lparr>rq_authorization = Some ''bearer t'', rq_idempotency_key = Some ''k1'', rq_body = ''''\<rparr>"

definition sample_parse :: "string \<Rightarrow> create_booking_payload option" where
  "sample_parse body = Some \<lparr>cb_vehicle_id = 9, cb_start_date = 10, cb_end_date = 12\<rparr>"

lemma sample_claims [simp]:
  "claims_dependency (wb_jwt (web.truncate (sample_web role sub mode))) ''access'' (rq_authorization sample_rq) =
     Inr [(''type'', JStr ''access''), (''role'', JStr role), (''sub'', JStr (uuid_str sub))]"
  "consumer_id_resolver (wb_jwt (web.truncate (sample_web role sub mode))) (rq_authorization sample_rq) = uuid_str sub"
  by (simp_all add: claims_dependency_def consumer_id_resolver_def bearer_token_def after_space_def decode_token_def
      sample_web_def sample_rq_def char_lower_def web.defs)

lemma sample_guard:
  "find_idem c ''k1'' rows = None \<Longrightarrow> idempotency_guard_dependency sha (rq_idempotency_key sample_rq) c body rows =
     Inr \<lparr>ig_consumer_id = c, ig_key = ''k1'', ig_request_hash = sha body, ig_replay_body = None, ig_replay_status = None\<rparr>"
  by (simp add: idempotency_guard_dependency_def sample_rq_def hash_request_body_def)

lemma sample_create_run:
  "\<exists>db'. create_booking_route (sample_web ''renter'' 7 ''request'') (sample_env 1) sample_parse sample_rq empty_booking_db =
     (Inr \<lparr>rsp_content = ''{}'', rsp_status_code = 201\<rparr>, db') \<and>
   bdb_bookings db' = [sample_booking 1 ''request'' 10 12]"
proof -
  have b: "create_build (sample_web ''renter'' 7 ''request'') (sample_env 1) sample_rq
      [(''type'', JStr ''access''), (''role'', JStr ''renter''), (''sub'', JStr (uuid_str 7))]
      \<lparr>cb_vehicle_id = 9, cb_start_date = 10, cb_end_date = 12\<rparr> empty_booking_db = Inr (''{}'', sample_requested)"
    using sample_requested_run(1)
    by (simp add: create_build_def subject_def uuid_item_def sample_rq_def after_space_def booking_result_def sample_web_def)
  have none: "bdb_idem sample_requested = []" "find_idem (uuid_str 7) ''k1'' (bdb_idem empty_booking_db) = None"
    by (simp_all add: sample_requested_def after_def booking_run_simps find_idem_def)
  show ?thesis
    using none(1)
    by (simp add: create_booking_route_def idempotent_route_def sample_guard [OF none(2)] require_role_def
        respond_idempotently_def is_replay_def validated_def sample_parse_def create_booking_valid_def b [simplified]
        guard_store_def find_idem_def sample_requested_run(2))
qed

section \<open>Repeated requests\<close>

text \<open>
  C20: every state-changing endpoint of the booking service is idempotent: a request that was
  answered gets the same answer when it is sent again with the same key and body, at any later
  time, and the repetition leaves the database untouched.
\<close>

theorem repeated_request_same_answer:
  "(create_booking_route w e parse rq db = (Inr r, db') \<longrightarrow> create_booking_route w e' parse rq db' = (Inr r, db')) \<and>
   (accept_route w e i rq db = (Inr r, db') \<longrightarrow> accept_route w e' i rq db' = (Inr r, db')) \<and>
   (reject_route w e i rq db = (Inr r, db') \<longrightarrow> reject_route w e' i rq db' = (Inr r, db')) \<and>
   (handover_route w e i parse' rq db = (Inr r, db') \<longrightarrow> handover_route w e' i parse' rq db' = (Inr r, db')) \<and>
   (return_car_route w e i parse' rq db = (Inr r, db') \<longrightarrow> return_car_route w e' i parse' rq db' = (Inr r, db'))"
proof (intro conjI impI)
  show "create_booking_route w e parse rq db = (Inr r, db') \<Longrightarrow> create_booking_route w e' parse rq db' = (Inr r, db')"
    unfolding create_booking_route_def by (rule booking_keys.route_repeat [OF _ builds_keep_idem(1)])
  show "accept_route w e i rq db = (Inr r, db') \<Longrightarrow> accept_route w e' i rq db' = (Inr r, db')"
    unfolding accept_route_def by (rule booking_keys.route_repeat [OF _ builds_keep_idem(2)])
  show "reject_route w e i rq db = (Inr r, db') \<Longrightarrow> reject_route w e' i rq db' = (Inr r, db')"
    unfolding reject_route_def by (rule booking_keys.route_repeat [OF _ builds_keep_idem(3)])
  show "handover_route w e i parse' rq db = (Inr r, db') \<Longrightarrow> handover_route w e' i parse' rq db' = (Inr r, db')"
    unfolding handover_route_def by (rule booking_keys.route_repeat [OF _ builds_keep_idem(4)])
  show "return_car_route w e i parse' rq db = (Inr r, db') \<Longrightarrow> return_car_route w e' i parse' rq db' = (Inr r, db')"
    unfolding return_car_route_def by (rule booking_keys.route_repeat [OF _ builds_keep_idem(5)])
qed

theorem repeated_request_same_answer_witness:
  "\<exists>db'. create_booking_route (sample_web ''renter'' 7 ''request'') (sample_env 99) sample_parse sample_rq db' =
     (Inr \<lparr>rsp_content = ''{}'', rsp_status_code = 201\<rparr>, db') \<and> length (bdb_bookings db') = 1"
proof -
  obtain db' where "create_booking_route (sample_web ''renter'' 7 ''request'') (sample_env 1) sample_parse sample_rq
      empty_booking_db = (Inr \<lparr>rsp_content = ''{}'', rsp_status_code = 201\<rparr>, db')"
    "bdb_bookings db' = [sample_booking 1 ''request'' 10 12]" using sample_create_run by blast
  with repeated_request_same_answer [of "sample_web ''renter'' 7 ''request''" "sample_env 1" sample_parse sample_rq
      empty_booking_db "\<lparr>rsp_content = ''{}'', rsp_status_code = 201\<rparr>" db' "sample_env 99" 0 "\<lambda>_. None"]
  show ?thesis by (metis One_nat_def length_Cons list.size(3))
qed

text \<open>
  The key is not bound to the endpoint: after a host accepted a booking, a rejection sent with
  the same key and body is answered with the stored acceptance, with status 200, and rejects
  nothing.
\<close>

theorem key_reused_on_other_endpoint:
  assumes "accept_route w e i rq db = (Inr r, db')"
  shows "reject_route w e' j rq db' = (Inr r, db')"
proof -
  obtain cl where c: "claims_dependency (wb_jwt (web.truncate w)) ''access'' (rq_authorization rq) = Inr cl"
    "dict_get cl ''role'' = Some (JStr ''host'')"
    using booking_keys.route_answered [OF assms [unfolded accept_route_def]] by blast
  show ?thesis unfolding reject_route_def
    by (rule booking_keys.route_replay [OF assms [unfolded accept_route_def] builds_keep_idem(2) c])
qed

lemma sample_accept_run:
  "\<exists>r db'. accept_route (sample_web ''host'' 5 ''request'') (sample_env 71) 1 sample_rq sample_requested = (Inr r, db')"
proof -
  have "\<exists>db'. accept_booking_request (sample_env 71) 1 5 sample_requested =
      Inr ((sample_booking 1 ''request'' 10 12)\<lparr>bk_version := 3\<rparr>, db') \<and> bdb_idem db' = bdb_idem sample_requested"
    by (simp add: booking_run_simps sample_requested_run sample_booking_def)
  then obtain db1 where b: "accept_build (sample_web ''host'' 5 ''request'') (sample_env 71) 1
      [(''type'', JStr ''access''), (''role'', JStr ''host''), (''sub'', JStr (uuid_str 5))] () sample_requested =
      Inr (''{}'', db1)" and same: "bdb_idem db1 = bdb_idem sample_requested"
    by (auto simp: accept_build_def subject_def uuid_item_def booking_result_def sample_web_def)
  have none: "bdb_idem sample_requested = []"
    by (simp add: sample_requested_def after_def booking_run_simps)
  show ?thesis
    by (simp add: accept_route_def idempotent_route_def sample_guard none same find_idem_def require_role_def
        respond_idempotently_def is_replay_def b guard_store_def)
qed

theorem key_reused_on_other_endpoint_witness:
  "\<exists>r db'. reject_route (sample_web ''host'' 5 ''request'') (sample_env 81) 1 sample_rq db' = (Inr r, db')"
proof -
  obtain r db' where "accept_route (sample_web ''host'' 5 ''request'') (sample_env 71) 1 sample_rq sample_requested = (Inr r, db')"
    using sample_accept_run by blast
  from key_reused_on_other_endpoint [OF this] show ?thesis by blast
qed

section \<open>Failing requests\<close>

text \<open>
  A request that ends with an error, whichever, leaves the booking database exactly as it was.
\<close>

theorem failed_request_no_effect:
  "(create_booking_route w e parse rq db = (Inl x, db') \<longrightarrow> db' = db) \<and>
   (accept_route w e i rq db = (Inl x, db') \<longrightarrow> db' = db) \<and>
   (reject_route w e i rq db = (Inl x, db') \<longrightarrow> db' = db) \<and>
   (handover_route w e i parse' rq db = (Inl x, db') \<longrightarrow> db' = db) \<and>
   (return_car_route w e i parse' rq db = (Inl x, db') \<longrightarrow> db' = db)"
  unfolding create_booking_route_def accept_route_def reject_route_def handover_route_def return_car_route_def
  by (intro conjI impI) (erule booking_keys.route_error)+

theorem failed_request_no_effect_witness:
  "\<exists>x. reject_route (sample_web ''host'' 5 ''request'') (sample_env 81) 1 (sample_rq\<lparr>rq_idempotency_key := None\<rparr>)
         sample_requested = (Inl x, sample_requested)"
proof -
  let ?r = "reject_route (sample_web ''host'' 5 ''request'') (sample_env 81) 1 (sample_rq\<lparr>rq_idempotency_key := None\<rparr>)
         sample_requested"
  obtain x db' where "?r = (Inl x, db')"
    by (simp add: reject_route_def idempotent_route_def idempotency_guard_dependency_def)
  with failed_request_no_effect [of "sample_web ''host'' 5 ''request''" "sample_env 81" "\<lambda>_. None"
      "sample_rq\<lparr>rq_idempotency_key := None\<rparr>" sample_requested x db' 1 "\<lambda>_. None"]
  show ?thesis by auto
qed

section \<open>The administrator's list\<close>

text \<open>
  A page of the booking list holds exactly the bookings from \<open>offset\<close> on, at most \<open>limit\<close> of them,
  in order of creation time and identifier, and announces a next page exactly if bookings
  remain; only administrators get it.
\<close>

theorem booking_page_exact:
  assumes "list_bookings_route w authorization limit offset db = Inr body" "0 \<le> limit"
  shows "body = JObj
      [(''items'', JArr (map (booking_response (bw_isoformat w))
          (take (nat limit) (drop (nat offset) (sort_key (\<lambda>b. (bk_created_at b, bk_id b)) (bdb_bookings db)))))),
       (''next_offset'', if offset + limit < int (length (bdb_bookings db)) then JInt (offset + limit) else JNull)] \<and>
    (\<exists>claims. claims_dependency (wb_jwt w) ''access'' authorization = Inr claims \<and>
              dict_get claims ''role'' = Some (JStr ''admin''))"
proof -
  let ?rows = "sort_key (\<lambda>b. (bk_created_at b, bk_id b)) (bdb_bookings db)"
  have off: "0 \<le> offset" and body: "body = JObj
      [(''items'', JArr (map (booking_response (bw_isoformat w)) (slice_to limit (take (nat (limit + 1)) (drop (nat offset) ?rows))))),
       (''next_offset'', if int (length (take (nat (limit + 1)) (drop (nat offset) ?rows))) > limit then JInt (offset + limit) else JNull)]"
    and cl: "\<exists>claims. claims_dependency (wb_jwt w) ''access'' authorization = Inr claims \<and>
              dict_get claims ''role'' = Some (JStr ''admin'')"
    using assms by (auto simp: list_bookings_route_def list_all_bookings_def repo_list_all_def sql_page_def
        bindE_eq_Inr mapErr_eq_Inr require_role_Inr split: if_splits)
  have "int (length (take (nat (limit + 1)) (drop (nat offset) ?rows))) > limit \<longleftrightarrow>
      offset + limit < int (length (bdb_bookings db))"
    using assms(2) off by (simp add: min_def nat_add_distrib) linarith
  then show ?thesis using body cl assms(2) by (simp add: take_take min_def nat_add_distrib)
qed

theorem booking_page_exact_witness:
  "\<exists>body. list_bookings_route (sample_web ''admin'' 1 ''request'') (rq_authorization sample_rq) 1 0 sample_two = Inr body \<and>
     (\<exists>items. body = JObj [(''items'', items), (''next_offset'', JInt 1)])"
proof -
  let ?w = "sample_web ''admin'' 1 ''request''"
  obtain body where b: "list_bookings_route ?w (rq_authorization sample_rq) 1 0 sample_two = Inr body"
    using sample_claims(1) [of "''admin''" 1 "''request''"]
    by (simp add: list_bookings_route_def list_all_bookings_def repo_list_all_def sql_page_def require_role_def web.defs)
  show ?thesis using b booking_page_exact [OF b] by (simp add: sample_two_run(2))
qed

end
