(* ===== verification/Listing.thy ===== *)
theory Listing
  imports Http
begin

text \<open>
  The listing service: the tables of \<^verbatim>\<open>services/listing/models.py\<close> with the constraints of the
  migrations \<^verbatim>\<open>0001_initial.py\<close> and \<^verbatim>\<open>0002_vehicle_location.py\<close>, the repositories of \<^verbatim>\<open>repository.py\<close>
  and the use cases of \<^verbatim>\<open>service.py\<close>.  Dates are day numbers.  \<^verbatim>\<open>updated_at\<close> and the creation
  time of a block are read by nobody and left out.

  \<open>listing_inv\<close> is the invariant of the database: unique identifiers, columns within their
  constraints, and availability blocks that belong to a vehicle and do not overlap.
  \<open>vehicle_changed\<close> describes what one operation does to one vehicle.
\<close>

section \<open>Tables\<close>

record vehicle =
  vl_id :: uuid
  vl_host_id :: uuid
  vl_make :: string
  vl_model :: string
  vl_year :: int
  vl_daily_price_cents :: int
  vl_daily_mileage_limit :: int
  vl_booking_mode :: string
  vl_approval_status :: string
  vl_latitude :: pyfloat
  vl_longitude :: pyfloat
  vl_created_at :: int

record availability_block =
  ab_id :: uuid
  ab_vehicle_id :: uuid
  ab_start_date :: int
  ab_end_date :: int

record listing_db =
  ldb_vehicles :: "vehicle list"
  ldb_blocks :: "availability_block list"
  ldb_outbox :: "outbox_row list"
  ldb_idem :: "idem_row list"

definition empty_listing_db :: listing_db where
  "empty_listing_db = \<lparr>ldb_vehicles = [], ldb_blocks = [], ldb_outbox = [], ldb_idem = []\<rparr>"

datatype listing_exn =
    ListingPy py_exn
  | ListedVehicleNotFoundError uuid
  | NotVehicleOwnerError uuid
  | InvalidApprovalTransitionError string
  | OverlappingAvailabilityBlockError uuid

section \<open>Constraints\<close>

definition vehicle_columns_ok :: "vehicle \<Rightarrow> bool" where
  "vehicle_columns_ok v \<longleftrightarrow>
     varchar_ok 80 (vl_make v) \<and> varchar_ok 80 (vl_model v) \<and> int4_ok (vl_year v) \<and>
     int4_ok (vl_daily_price_cents v) \<and> int4_ok (vl_daily_mileage_limit v) \<and>
     varchar_ok 16 (vl_booking_mode v) \<and> varchar_ok 16 (vl_approval_status v)"

definition vehicle_checks_ok :: "vehicle \<Rightarrow> bool" where
  "vehicle_checks_ok v \<longleftrightarrow>
     vl_booking_mode v \<in> {''instant'', ''request''} \<and>
     vl_approval_status v \<in> {''pending'', ''approved'', ''rejected''}"

text \<open>The exclusion constraint \<^verbatim>\<open>ex_availability_blocks_overlap\<close>, on closed date ranges.\<close>

definition blocks_overlap :: "availability_block \<Rightarrow> availability_block \<Rightarrow> bool" where
  "blocks_overlap a b \<longleftrightarrow>
     ab_vehicle_id a = ab_vehicle_id b \<and> ab_start_date a \<le> ab_end_date b \<and> ab_start_date b \<le> ab_end_date a"

section \<open>Repositories\<close>

definition vehicle_by_id :: "uuid \<Rightarrow> listing_db \<Rightarrow> vehicle option" where
  "vehicle_by_id vehicle_id db = find_row vl_id vehicle_id (ldb_vehicles db)"

definition vehicle_create ::
  "env \<Rightarrow> nat \<Rightarrow> uuid \<Rightarrow> string \<Rightarrow> string \<Rightarrow> int \<Rightarrow> int \<Rightarrow> int \<Rightarrow> string \<Rightarrow> pyfloat \<Rightarrow> pyfloat \<Rightarrow> listing_db
     \<Rightarrow> listing_exn + (vehicle \<times> listing_db)"
where
  "vehicle_create e k host_id mk model year daily_price_cents daily_mileage_limit booking_mode
       latitude longitude db =
     (let vehicle =
            \<lparr>vl_id = env_uuid4 e k, vl_host_id = host_id, vl_make = mk, vl_model = model, vl_year = year,
             vl_daily_price_cents = daily_price_cents, vl_daily_mileage_limit = daily_mileage_limit,
             vl_booking_mode = booking_mode, vl_approval_status = ''pending'',
             vl_latitude = latitude, vl_longitude = longitude, vl_created_at = env_now e\<rparr>
      in if \<not> vehicle_columns_ok vehicle then Inl (ListingPy DataError)
         else if \<not> vehicle_checks_ok vehicle \<or> vl_id vehicle \<in> vl_id ` set (ldb_vehicles db)
         then Inl (ListingPy IntegrityError)
         else Inr (vehicle, db\<lparr>ldb_vehicles := ldb_vehicles db @ [vehicle]\<rparr>))"

text \<open>The flush of a changed vehicle.\<close>

definition vehicle_save :: "vehicle \<Rightarrow> listing_db \<Rightarrow> listing_exn + listing_db" where
  "vehicle_save vehicle db =
     (if \<not> vehicle_columns_ok vehicle then Inl (ListingPy DataError)
      else if \<not> vehicle_checks_ok vehicle then Inl (ListingPy IntegrityError)
      else Inr (db\<lparr>ldb_vehicles := update_row vl_id vehicle (ldb_vehicles db)\<rparr>))"

definition list_by_approval_status ::
  "string \<Rightarrow> int \<Rightarrow> int \<Rightarrow> listing_db \<Rightarrow> listing_exn + vehicle list"
where
  "list_by_approval_status approval_status limit offset db =
     mapErr ListingPy (sql_page (\<lambda>v. (vl_created_at v, vl_id v)) limit offset
       (filter (\<lambda>v. vl_approval_status v = approval_status) (ldb_vehicles db)))"

text \<open>
  Every integrity error of the insert (primary key, foreign key, date order, overlap) is turned
  into the overlap error.
\<close>

definition block_create ::
  "env \<Rightarrow> nat \<Rightarrow> uuid \<Rightarrow> int \<Rightarrow> int \<Rightarrow> listing_db \<Rightarrow> listing_exn + (availability_block \<times> listing_db)"
where
  "block_create e k vehicle_id start_date end_date db =
     (let block = \<lparr>ab_id = env_uuid4 e k, ab_vehicle_id = vehicle_id, ab_start_date = start_date,
                   ab_end_date = end_date\<rparr>
      in if \<not> start_date \<le> end_date \<or> ab_id block \<in> ab_id ` set (ldb_blocks db) \<or>
            vehicle_id \<notin> vl_id ` set (ldb_vehicles db) \<or> (\<exists>r \<in> set (ldb_blocks db). blocks_overlap r block)
         then Inl (OverlappingAvailabilityBlockError vehicle_id)
         else Inr (block, db\<lparr>ldb_blocks := ldb_blocks db @ [block]\<rparr>))"

section \<open>Use cases\<close>

definition vehicle_snapshot :: "vehicle \<Rightarrow> dict" where
  "vehicle_snapshot vehicle =
     [(''vehicle_id'', JStr (uuid_str (vl_id vehicle))),
      (''host_id'', JStr (uuid_str (vl_host_id vehicle))),
      (''make'', JStr (vl_make vehicle)),
      (''model'', JStr (vl_model vehicle)),
      (''year'', JInt (vl_year vehicle)),
      (''daily_price_cents'', JInt (vl_daily_price_cents vehicle)),
      (''daily_mileage_limit'', JInt (vl_daily_mileage_limit vehicle)),
      (''booking_mode'', JStr (vl_booking_mode vehicle)),
      (''approval_status'', JStr (vl_approval_status vehicle)),
      (''latitude'', JFloat (vl_latitude vehicle)),
      (''longitude'', JFloat (vl_longitude vehicle))]"

definition vehicle_outbox_event ::
  "env \<Rightarrow> nat \<Rightarrow> vehicle \<Rightarrow> string \<Rightarrow> listing_db \<Rightarrow> listing_exn + listing_db"
where
  "vehicle_outbox_event e k vehicle event_type db =
     bindE (mapErr ListingPy (write_outbox_event e k ''vehicle'' (uuid_str (vl_id vehicle)) event_type
              (vehicle_snapshot vehicle) (ldb_outbox db))) (\<lambda>(_, rows).
     Inr (db\<lparr>ldb_outbox := rows\<rparr>))"

definition create_vehicle ::
  "env \<Rightarrow> uuid \<Rightarrow> string \<Rightarrow> string \<Rightarrow> int \<Rightarrow> int \<Rightarrow> int \<Rightarrow> string \<Rightarrow> pyfloat \<Rightarrow> pyfloat \<Rightarrow> listing_db
     \<Rightarrow> listing_exn + (vehicle \<times> listing_db)"
where
  "create_vehicle e host_id mk model year daily_price_cents daily_mileage_limit booking_mode latitude longitude db =
     vehicle_create e 0 host_id mk model year daily_price_cents daily_mileage_limit booking_mode latitude longitude db"

definition get_owned_vehicle :: "uuid \<Rightarrow> uuid \<Rightarrow> listing_db \<Rightarrow> listing_exn + vehicle" where
  "get_owned_vehicle vehicle_id host_id db =
     (case vehicle_by_id vehicle_id db of
        None \<Rightarrow> Inl (ListedVehicleNotFoundError vehicle_id)
      | Some vehicle \<Rightarrow>
          if vl_host_id vehicle \<noteq> host_id then Inl (NotVehicleOwnerError vehicle_id) else Inr vehicle)"

definition get_vehicle_for_viewer :: "uuid \<Rightarrow> uuid \<Rightarrow> string \<Rightarrow> listing_db \<Rightarrow> listing_exn + vehicle" where
  "get_vehicle_for_viewer vehicle_id viewer_id viewer_role db =
     (case vehicle_by_id vehicle_id db of
        None \<Rightarrow> Inl (ListedVehicleNotFoundError vehicle_id)
      | Some vehicle \<Rightarrow>
          let is_owner_or_admin = viewer_role = ''admin'' \<or> vl_host_id vehicle = viewer_id
          in if \<not> is_owner_or_admin \<and> vl_approval_status vehicle \<noteq> ''approved''
             then Inl (NotVehicleOwnerError vehicle_id)
             else Inr vehicle)"

text \<open>
  The mutable fields a request may carry, \<open>None\<close> where it does not (or carries a null), and the
  loop over \<^verbatim>\<open>MUTABLE_VEHICLE_FIELDS\<close>.
\<close>

record vehicle_fields =
  vf_make :: "string option"
  vf_model :: "string option"
  vf_year :: "int option"
  vf_daily_price_cents :: "int option"
  vf_daily_mileage_limit :: "int option"
  vf_booking_mode :: "string option"
  vf_latitude :: "pyfloat option"
  vf_longitude :: "pyfloat option"

definition if_given :: "'a option \<Rightarrow> 'a \<Rightarrow> 'a" where
  "if_given value old = (case value of None \<Rightarrow> old | Some new \<Rightarrow> new)"

definition set_vehicle_fields :: "vehicle_fields \<Rightarrow> vehicle \<Rightarrow> vehicle" where
  "set_vehicle_fields f v =
     v\<lparr>vl_make := if_given (vf_make f) (vl_make v),
       vl_model := if_given (vf_model f) (vl_model v),
       vl_year := if_given (vf_year f) (vl_year v),
       vl_daily_price_cents := if_given (vf_daily_price_cents f) (vl_daily_price_cents v),
       vl_daily_mileage_limit := if_given (vf_daily_mileage_limit f) (vl_daily_mileage_limit v),
       vl_booking_mode := if_given (vf_booking_mode f) (vl_booking_mode v),
       vl_latitude := if_given (vf_latitude f) (vl_latitude v),
       vl_longitude := if_given (vf_longitude f) (vl_longitude v)\<rparr>"

definition update_vehicle ::
  "env \<Rightarrow> uuid \<Rightarrow> uuid \<Rightarrow> vehicle_fields \<Rightarrow> listing_db \<Rightarrow> listing_exn + (vehicle \<times> listing_db)"
where
  "update_vehicle e vehicle_id host_id new_fields db =
     bindE (get_owned_vehicle vehicle_id host_id db) (\<lambda>vehicle.
     let vehicle = set_vehicle_fields new_fields vehicle in
     bindE (vehicle_save vehicle db) (\<lambda>db.
     bindE (vehicle_outbox_event e 0 vehicle ''vehicle_updated'' db) (\<lambda>db.
     Inr (vehicle, db))))"

definition approve_vehicle :: "env \<Rightarrow> uuid \<Rightarrow> listing_db \<Rightarrow> listing_exn + (vehicle \<times> listing_db)" where
  "approve_vehicle e vehicle_id db =
     (case vehicle_by_id vehicle_id db of
        None \<Rightarrow> Inl (ListedVehicleNotFoundError vehicle_id)
      | Some vehicle \<Rightarrow>
          if vl_approval_status vehicle \<noteq> ''pending''
          then Inl (InvalidApprovalTransitionError (vl_approval_status vehicle))
          else
            let vehicle = vehicle\<lparr>vl_approval_status := ''approved''\<rparr> in
            bindE (vehicle_save vehicle db) (\<lambda>db.
            bindE (vehicle_outbox_event e 0 vehicle ''vehicle_approved'' db) (\<lambda>db.
            Inr (vehicle, db))))"

definition reject_vehicle :: "uuid \<Rightarrow> listing_db \<Rightarrow> listing_exn + (vehicle \<times> listing_db)" where
  "reject_vehicle vehicle_id db =
     (case vehicle_by_id vehicle_id db of
        None \<Rightarrow> Inl (ListedVehicleNotFoundError vehicle_id)
      | Some vehicle \<Rightarrow>
          if vl_approval_status vehicle \<noteq> ''pending''
          then Inl (InvalidApprovalTransitionError (vl_approval_status vehicle))
          else
            let vehicle = vehicle\<lparr>vl_approval_status := ''rejected''\<rparr> in
            bindE (vehicle_save vehicle db) (\<lambda>db.
            Inr (vehicle, db)))"

definition list_approved_vehicles :: "int \<Rightarrow> int \<Rightarrow> listing_db \<Rightarrow> listing_exn + vehicle list" where
  "list_approved_vehicles limit offset db = list_by_approval_status ''approved'' limit offset db"

definition add_availability_block ::
  "env \<Rightarrow> uuid \<Rightarrow> uuid \<Rightarrow> int \<Rightarrow> int \<Rightarrow> listing_db \<Rightarrow> listing_exn + (availability_block \<times> listing_db)"
where
  "add_availability_block e vehicle_id host_id start_date end_date db =
     bindE (get_owned_vehicle vehicle_id host_id db) (\<lambda>_.
     block_create e 0 vehicle_id start_date end_date db)"

section \<open>Transactions\<close>

text \<open>
  What the service does to its database in one transaction: a use case that succeeds, or a change
  of the key table (a stored response or the clean-up).
\<close>

inductive listing_step :: "listing_db \<Rightarrow> listing_db \<Rightarrow> bool" where
  create: "create_vehicle e h mk md yr pr ml bm lat lon db = Inr (v, db') \<Longrightarrow> listing_step db db'"
| update: "update_vehicle e i h f db = Inr (v, db') \<Longrightarrow> listing_step db db'"
| approve: "approve_vehicle e i db = Inr (v, db') \<Longrightarrow> listing_step db db'"
| reject: "reject_vehicle i db = Inr (v, db') \<Longrightarrow> listing_step db db'"
| block: "add_availability_block e i h sd ed db = Inr (b, db') \<Longrightarrow> listing_step db db'"
| keys: "listing_step db (db\<lparr>ldb_idem := rows\<rparr>)"

inductive listing_reachable :: "listing_db \<Rightarrow> bool" where
  empty: "listing_reachable empty_listing_db"
| step: "listing_reachable db \<Longrightarrow> listing_step db db' \<Longrightarrow> listing_reachable db'"

section \<open>Invariant\<close>

definition listing_inv :: "listing_db \<Rightarrow> bool" where
  "listing_inv db \<longleftrightarrow>
     distinct (map vl_id (ldb_vehicles db)) \<and>
     (\<forall>v \<in> set (ldb_vehicles db). vehicle_columns_ok v \<and> vehicle_checks_ok v) \<and>
     distinct (map ab_id (ldb_blocks db)) \<and>
     (\<forall>b \<in> set (ldb_blocks db). ab_vehicle_id b \<in> vl_id ` set (ldb_vehicles db) \<and> ab_start_date b \<le> ab_end_date b) \<and>
     (\<forall>a \<in> set (ldb_blocks db). \<forall>b \<in> set (ldb_blocks db). a \<noteq> b \<longrightarrow> \<not> blocks_overlap a b)"

text \<open>The moves of the approval status: an edit keeps it, and only a pending vehicle is decided.\<close>

definition approval_step :: "string \<Rightarrow> string \<Rightarrow> bool" where
  "approval_step s s' \<longleftrightarrow> s' = s \<or> s = ''pending'' \<and> s' \<in> {''approved'', ''rejected''}"

definition vehicle_changed :: "listing_db \<Rightarrow> vehicle \<Rightarrow> string list \<Rightarrow> vehicle \<Rightarrow> listing_db \<Rightarrow> bool" where
  "vehicle_changed db v types v' db' \<longleftrightarrow>
     vehicle_by_id (vl_id v) db = Some v \<and>
     vl_id v' = vl_id v \<and> vl_host_id v' = vl_host_id v \<and> vl_created_at v' = vl_created_at v \<and>
     approval_step (vl_approval_status v) (vl_approval_status v') \<and>
     (types = [] \<longrightarrow> vl_approval_status v = ''pending'' \<and> vl_approval_status v' = ''rejected'') \<and>
     set types \<subseteq> {''vehicle_approved'', ''vehicle_updated''} \<and>
     vehicle_columns_ok v' \<and> vehicle_checks_ok v' \<and>
     ldb_vehicles db' = update_row vl_id v' (ldb_vehicles db) \<and>
     emitted (map (\<lambda>ty. (ty, vehicle_snapshot v')) types) (ldb_outbox db) (ldb_outbox db') \<and>
     ldb_blocks db' = ldb_blocks db \<and> ldb_idem db' = ldb_idem db"

definition vehicle_added :: "listing_db \<Rightarrow> vehicle \<Rightarrow> listing_db \<Rightarrow> bool" where
  "vehicle_added db v db' \<longleftrightarrow>
     vl_id v \<notin> vl_id ` set (ldb_vehicles db) \<and> vl_approval_status v = ''pending'' \<and>
     vehicle_columns_ok v \<and> vehicle_checks_ok v \<and>
     db' = db\<lparr>ldb_vehicles := ldb_vehicles db @ [v]\<rparr>"

definition block_added :: "listing_db \<Rightarrow> availability_block \<Rightarrow> listing_db \<Rightarrow> bool" where
  "block_added db b db' \<longleftrightarrow>
     ab_start_date b \<le> ab_end_date b \<and> ab_id b \<notin> ab_id ` set (ldb_blocks db) \<and>
     ab_vehicle_id b \<in> vl_id ` set (ldb_vehicles db) \<and> (\<forall>r \<in> set (ldb_blocks db). \<not> blocks_overlap r b) \<and>
     db' = db\<lparr>ldb_blocks := ldb_blocks db @ [b]\<rparr>"

section \<open>Lemmas\<close>

lemma vehicle_by_id_SomeD:
  "vehicle_by_id i db = Some v \<Longrightarrow> v \<in> set (ldb_vehicles db) \<and> vl_id v = i"
  unfolding vehicle_by_id_def by (rule find_row_SomeD)

lemma get_owned_vehicle_Inr [result_simps]:
  "get_owned_vehicle i h db = Inr v \<longleftrightarrow> vehicle_by_id i db = Some v \<and> vl_host_id v = h"
  by (auto simp: get_owned_vehicle_def split: option.splits)

lemma vehicle_save_Inr [result_simps]:
  "vehicle_save v db = Inr db' \<longleftrightarrow> vehicle_columns_ok v \<and> vehicle_checks_ok v \<and>
     db' = db\<lparr>ldb_vehicles := update_row vl_id v (ldb_vehicles db)\<rparr>"
  by (auto simp: vehicle_save_def)

lemma vehicle_outbox_event_Inr:
  "vehicle_outbox_event e k v ty db = Inr db' \<Longrightarrow>
     \<exists>rows. db' = db\<lparr>ldb_outbox := rows\<rparr> \<and> emitted [(ty, vehicle_snapshot v)] (ldb_outbox db) rows"
  by (auto simp: vehicle_outbox_event_def bindE_eq_Inr mapErr_eq_Inr intro: write_outbox_event_emits)

lemma set_vehicle_fields_kept [simp]:
  "vl_id (set_vehicle_fields f v) = vl_id v" "vl_host_id (set_vehicle_fields f v) = vl_host_id v"
  "vl_approval_status (set_vehicle_fields f v) = vl_approval_status v"
  "vl_created_at (set_vehicle_fields f v) = vl_created_at v"
  by (simp_all add: set_vehicle_fields_def)

lemma approval_step_refl [simp]: "approval_step s s"
  by (simp add: approval_step_def)

subsection \<open>The shape of each operation\<close>

lemma create_vehicle_added:
  "create_vehicle e h mk md yr pr ml bm lat lon db = Inr (v, db') \<Longrightarrow> vehicle_added db v db' \<and> vl_host_id v = h"
  by (auto simp: create_vehicle_def vehicle_create_def vehicle_added_def Let_def split: if_splits)

lemma add_availability_block_added:
  assumes "add_availability_block e i h sd ed db = Inr (b, db')"
  shows "block_added db b db' \<and> (\<exists>v. vehicle_by_id i db = Some v \<and> vl_host_id v = h \<and> ab_vehicle_id b = i)"
  using assms
  by (auto simp: add_availability_block_def block_create_def block_added_def Let_def result_simps split: if_splits)

lemma update_vehicle_changed:
  assumes "update_vehicle e i h f db = Inr (v', db')"
  obtains v where "vehicle_by_id i db = Some v" "vl_host_id v = h" "v' = set_vehicle_fields f v"
    "vehicle_changed db v [''vehicle_updated''] v' db'"
proof -
  obtain v db1 where v: "vehicle_by_id i db = Some v" "vl_host_id v = h" "v' = set_vehicle_fields f v"
    "vehicle_save v' db = Inr db1" "vehicle_outbox_event e 0 v' ''vehicle_updated'' db1 = Inr db'"
    using assms by (auto simp: update_vehicle_def Let_def bindE_eq_Inr get_owned_vehicle_Inr)
  moreover have "vehicle_changed db v [''vehicle_updated''] v' db'"
    using v vehicle_outbox_event_Inr [OF v(5)] vehicle_by_id_SomeD [OF v(1)]
    by (auto simp: vehicle_changed_def vehicle_save_Inr)
  ultimately show ?thesis using that by blast
qed

lemma approve_vehicle_changed:
  assumes "approve_vehicle e i db = Inr (v', db')"
  obtains v where "vehicle_by_id i db = Some v" "vl_approval_status v = ''pending''"
    "v' = v\<lparr>vl_approval_status := ''approved''\<rparr>" "vehicle_changed db v [''vehicle_approved''] v' db'"
proof -
  obtain v db1 where v: "vehicle_by_id i db = Some v" "vl_approval_status v = ''pending''"
    "v' = v\<lparr>vl_approval_status := ''approved''\<rparr>"
    "vehicle_save v' db = Inr db1" "vehicle_outbox_event e 0 v' ''vehicle_approved'' db1 = Inr db'"
    using assms by (auto simp: approve_vehicle_def Let_def bindE_eq_Inr split: option.splits if_splits)
  moreover have "vehicle_changed db v [''vehicle_approved''] v' db'"
    using v vehicle_outbox_event_Inr [OF v(5)] vehicle_by_id_SomeD [OF v(1)]
    by (auto simp: vehicle_changed_def vehicle_save_Inr approval_step_def)
  ultimately show ?thesis using that by blast
qed

lemma reject_vehicle_changed:
  assumes "reject_vehicle i db = Inr (v', db')"
  obtains v where "vehicle_by_id i db = Some v" "vl_approval_status v = ''pending''"
    "v' = v\<lparr>vl_approval_status := ''rejected''\<rparr>" "vehicle_changed db v [] v' db'"
proof -
  obtain v where v: "vehicle_by_id i db = Some v" "vl_approval_status v = ''pending''"
    "v' = v\<lparr>vl_approval_status := ''rejected''\<rparr>" "vehicle_save v' db = Inr db'"
    using assms by (auto simp: reject_vehicle_def Let_def bindE_eq_Inr split: option.splits if_splits)
  moreover have "vehicle_changed db v [] v' db'"
    using v vehicle_by_id_SomeD [OF v(1)] by (auto simp: vehicle_changed_def vehicle_save_Inr approval_step_def)
  ultimately show ?thesis using that by blast
qed

lemma listing_step_cases:
  assumes "listing_step db db'"
  obtains (added) v where "vehicle_added db v db'"
  | (changed) v types v' where "vehicle_changed db v types v' db'"
  | (blocked) b where "block_added db b db'"
  | (keys) rows where "db' = db\<lparr>ldb_idem := rows\<rparr>"
  using assms
proof cases
  case create
  then show ?thesis using added create_vehicle_added by blast
next
  case update
  then show ?thesis using changed by (elim update_vehicle_changed)
next
  case approve
  then show ?thesis using changed by (elim approve_vehicle_changed)
next
  case reject
  then show ?thesis using changed by (elim reject_vehicle_changed)
next
  case block
  then show ?thesis using blocked add_availability_block_added by blast
next
  case keys
  then show ?thesis by (rule that(4))
qed

subsection \<open>The invariant is kept\<close>

lemma listing_inv_added: "listing_inv db \<Longrightarrow> vehicle_added db v db' \<Longrightarrow> listing_inv db'"
  by (auto simp: listing_inv_def vehicle_added_def)

lemma blocks_overlap_sym: "blocks_overlap a b = blocks_overlap b a"
  by (auto simp: blocks_overlap_def)

lemma listing_inv_blocked:
  assumes "listing_inv db" "block_added db b db'"
  shows "listing_inv db'"
proof -
  have "\<forall>r \<in> set (ldb_blocks db). \<not> blocks_overlap r b \<and> \<not> blocks_overlap b r"
    using assms(2) blocks_overlap_sym by (simp add: block_added_def)
  with assms show ?thesis unfolding listing_inv_def block_added_def by simp
qed

lemma vehicle_ids_changed:
  "vehicle_changed db v types v' db' \<Longrightarrow> map vl_id (ldb_vehicles db') = map vl_id (ldb_vehicles db)"
  by (simp add: vehicle_changed_def)

lemma listing_inv_changed:
  assumes "listing_inv db" "vehicle_changed db v types v' db'"
  shows "listing_inv db'"
proof -
  have "vl_id ` set (ldb_vehicles db') = vl_id ` set (ldb_vehicles db)"
    using vehicle_ids_changed [OF assms(2)] by (metis list.set_map)
  moreover have "set (ldb_vehicles db') \<subseteq> insert v' (set (ldb_vehicles db))"
    using assms(2) set_update_row_subset by (simp add: vehicle_changed_def)
  ultimately show ?thesis
    using assms vehicle_ids_changed [OF assms(2)] unfolding listing_inv_def vehicle_changed_def by auto
qed

lemma listing_step_inv: "listing_inv db \<Longrightarrow> listing_step db db' \<Longrightarrow> listing_inv db'"
  by (erule listing_step_cases)
    (blast intro: listing_inv_added listing_inv_changed listing_inv_blocked, blast intro: listing_inv_changed,
     blast intro: listing_inv_blocked, simp add: listing_inv_def)

lemma listing_inv_empty: "listing_inv empty_listing_db"
  by (simp add: listing_inv_def empty_listing_db_def)

lemma listing_reachable_inv: "listing_reachable db \<Longrightarrow> listing_inv db"
  by (induction rule: listing_reachable.induct) (auto intro: listing_inv_empty listing_step_inv)

text \<open>A vehicle never disappears, never changes its owner, and a decided one stays decided.\<close>

lemma vehicle_by_id_added:
  assumes "vehicle_added db v db'"
  shows "vehicle_by_id i db' = (if i = vl_id v then Some v else vehicle_by_id i db)"
proof -
  have "find_row vl_id (vl_id v) (ldb_vehicles db) = None"
    using assms by (simp add: vehicle_added_def find_row_None_iff)
  then show ?thesis using assms
    by (simp add: vehicle_added_def vehicle_by_id_def find_row_append split: option.split)
qed

lemma vehicle_by_id_changed:
  "vehicle_changed db v types v' db' \<Longrightarrow> vehicle_by_id i db' = (if i = vl_id v then Some v' else vehicle_by_id i db)"
  by (auto simp: vehicle_changed_def vehicle_by_id_def find_row_update_row)

lemma listing_step_vehicle:
  assumes "listing_step db db'" "vehicle_by_id i db = Some v"
  shows "\<exists>v'. vehicle_by_id i db' = Some v' \<and> vl_host_id v' = vl_host_id v \<and>
    vl_created_at v' = vl_created_at v \<and> approval_step (vl_approval_status v) (vl_approval_status v')"
  using assms(1)
proof (cases rule: listing_step_cases)
  case (added w)
  have "i \<in> vl_id ` set (ldb_vehicles db)" using vehicle_by_id_SomeD [OF assms(2)] by (metis image_eqI)
  moreover have "vl_id w \<notin> vl_id ` set (ldb_vehicles db)" using added by (simp add: vehicle_added_def)
  ultimately have "i \<noteq> vl_id w" by metis
  then show ?thesis using vehicle_by_id_added [OF added] assms(2) by simp
next
  case (changed w types w')
  then show ?thesis using vehicle_by_id_changed [OF changed] assms(2) by (auto simp: vehicle_changed_def)
next
  case (blocked b)
  then show ?thesis using assms(2) by (simp add: block_added_def vehicle_by_id_def)
next
  case keys
  then show ?thesis using assms(2) by (simp add: vehicle_by_id_def)
qed

end
