(* ===== verification/Listing_Routes.thy ===== *)
theory Listing_Routes
  imports Listing
begin

text \<open>
  The HTTP interface of the listing service (\<^verbatim>\<open>services/listing/routes.py\<close> and \<^verbatim>\<open>schemas.py\<close>).
  Pydantic's reading of the JSON body into typed fields is a parameter of each route (\<open>parse\<close>);
  the field constraints of the schemas are modelled.
\<close>

section \<open>Schemas\<close>

record create_vehicle_payload =
  cv_make :: string
  cv_model :: string
  cv_year :: int
  cv_daily_price_cents :: int
  cv_daily_mileage_limit :: int
  cv_booking_mode :: string
  cv_latitude :: pyfloat
  cv_longitude :: pyfloat

definition name_valid :: "string \<Rightarrow> bool" where
  "name_valid s \<longleftrightarrow> 1 \<le> length s \<and> length s \<le> 80"

definition year_valid :: "int \<Rightarrow> bool" where
  "year_valid y \<longleftrightarrow> 1980 \<le> y \<and> y \<le> 2100"

definition mode_valid :: "string \<Rightarrow> bool" where
  "mode_valid m \<longleftrightarrow> m \<in> {''instant'', ''request''}"

definition latitude_valid :: "pyfloat \<Rightarrow> bool" where
  "latitude_valid f \<longleftrightarrow> float_le (Finite (- 90)) f \<and> float_le f (Finite 90)"

definition longitude_valid :: "pyfloat \<Rightarrow> bool" where
  "longitude_valid f \<longleftrightarrow> float_le (Finite (- 180)) f \<and> float_le f (Finite 180)"

definition create_vehicle_valid :: "create_vehicle_payload \<Rightarrow> bool" where
  "create_vehicle_valid p \<longleftrightarrow>
     name_valid (cv_make p) \<and> name_valid (cv_model p) \<and> year_valid (cv_year p) \<and>
     0 < cv_daily_price_cents p \<and> 0 < cv_daily_mileage_limit p \<and> mode_valid (cv_booking_mode p) \<and>
     latitude_valid (cv_latitude p) \<and> longitude_valid (cv_longitude p)"

definition update_vehicle_valid :: "vehicle_fields \<Rightarrow> bool" where
  "update_vehicle_valid p \<longleftrightarrow>
     pred_option name_valid (vf_make p) \<and> pred_option name_valid (vf_model p) \<and>
     pred_option year_valid (vf_year p) \<and> pred_option (\<lambda>i. 0 < i) (vf_daily_price_cents p) \<and>
     pred_option (\<lambda>i. 0 < i) (vf_daily_mileage_limit p) \<and> pred_option mode_valid (vf_booking_mode p) \<and>
     pred_option latitude_valid (vf_latitude p) \<and> pred_option longitude_valid (vf_longitude p)"

record block_payload =
  bp_start_date :: int
  bp_end_date :: int

definition block_valid :: "block_payload \<Rightarrow> bool" where
  "block_valid p \<longleftrightarrow> \<not> bp_end_date p < bp_start_date p"

section \<open>Responses\<close>

definition vehicle_response :: "vehicle \<Rightarrow> json" where
  "vehicle_response vehicle = JObj
     [(''id'', JStr (uuid_str (vl_id vehicle))),
      (''host_id'', JStr (uuid_str (vl_host_id vehicle))),
      (''make'', JStr (vl_make vehicle)),
      (''model'', JStr (vl_model vehicle)),
      (''year'', JInt (vl_year vehicle)),
      (''daily_price_cents'', JInt (vl_daily_price_cents vehicle)),
      (''daily_mileage_limit'', JInt (vl_daily_mileage_limit vehicle)),
      (''booking_mode'', JStr (vl_booking_mode vehicle)),
      (''approval_status'', JStr (vl_approval_status vehicle)),
      (''latitude'', JFloat (vl_latitude vehicle)),
      (''longitude'', JFloat (vl_longitude vehicle))]"

definition block_response :: "(int \<Rightarrow> string) \<Rightarrow> availability_block \<Rightarrow> json" where
  "block_response isoformat block = JObj
     [(''id'', JStr (uuid_str (ab_id block))),
      (''vehicle_id'', JStr (uuid_str (ab_vehicle_id block))),
      (''start_date'', JStr (isoformat (ab_start_date block))),
      (''end_date'', JStr (isoformat (ab_end_date block)))]"

text \<open>
  The \<^verbatim>\<open>except\<close> clauses; \<open>verb\<close> is the word in the message of the approval endpoints.
\<close>

fun owner_errors :: "listing_exn \<Rightarrow> listing_exn" where
  "owner_errors (ListedVehicleNotFoundError _) = ListingPy (HTTPException 404 ''vehicle not found'')"
| "owner_errors (NotVehicleOwnerError _) = ListingPy (HTTPException 403 ''not your vehicle'')"
| "owner_errors x = x"

fun approval_errors :: "string \<Rightarrow> listing_exn \<Rightarrow> listing_exn" where
  "approval_errors verb (ListedVehicleNotFoundError _) = ListingPy (HTTPException 404 ''vehicle not found'')"
| "approval_errors verb (InvalidApprovalTransitionError s) =
     ListingPy (HTTPException 409 (''cannot '' @ verb @ '' from status '' @ [CHR 0x27] @ s @ [CHR 0x27]))"
| "approval_errors verb x = x"

fun block_errors :: "listing_exn \<Rightarrow> listing_exn" where
  "block_errors (OverlappingAvailabilityBlockError _) =
     ListingPy (HTTPException 409 ''availability block overlaps an existing one'')"
| "block_errors x = owner_errors x"

section \<open>Endpoints\<close>

record listing_web = web +
  lw_isoformat :: "int \<Rightarrow> string"

abbreviation listing_route ::
  "listing_web \<Rightarrow> int \<Rightarrow> http_request \<Rightarrow> string \<Rightarrow> int \<Rightarrow> 'p option
     \<Rightarrow> (dict \<Rightarrow> 'p \<Rightarrow> listing_db \<Rightarrow> listing_exn + (string \<times> listing_db)) \<Rightarrow> listing_db
     \<Rightarrow> (listing_exn + response) \<times> listing_db" where
  "listing_route w \<equiv> idempotent_route ldb_idem (\<lambda>rows db. db\<lparr>ldb_idem := rows\<rparr>) ListingPy (web.truncate w)"

definition vehicle_result ::
  "listing_web \<Rightarrow> (listing_exn \<Rightarrow> listing_exn) \<Rightarrow> listing_exn + (vehicle \<times> listing_db) \<Rightarrow> listing_exn + (string \<times> listing_db)"
where
  "vehicle_result w errors r =
     bindE (mapErr errors r) (\<lambda>(vehicle, db). Inr (wb_dumps w (vehicle_response vehicle), db))"

definition create_vehicle_build ::
  "listing_web \<Rightarrow> env \<Rightarrow> dict \<Rightarrow> create_vehicle_payload \<Rightarrow> listing_db \<Rightarrow> listing_exn + (string \<times> listing_db)"
where
  "create_vehicle_build w e claims p db =
     bindE (mapErr ListingPy (subject claims)) (\<lambda>host_id.
     vehicle_result w id
       (create_vehicle e host_id (cv_make p) (cv_model p) (cv_year p) (cv_daily_price_cents p)
          (cv_daily_mileage_limit p) (cv_booking_mode p) (cv_latitude p) (cv_longitude p) db))"

definition create_vehicle_route ::
  "listing_web \<Rightarrow> env \<Rightarrow> (string \<Rightarrow> create_vehicle_payload option) \<Rightarrow> http_request \<Rightarrow> listing_db
     \<Rightarrow> (listing_exn + response) \<times> listing_db"
where
  "create_vehicle_route w e parse rq db =
     listing_route w (env_now e) rq ''host'' 201 (validated create_vehicle_valid parse (rq_body rq))
       (create_vehicle_build w e) db"

definition list_vehicles_route ::
  "listing_web \<Rightarrow> string option \<Rightarrow> string \<Rightarrow> int \<Rightarrow> int \<Rightarrow> listing_db \<Rightarrow> listing_exn + json"
where
  "list_vehicles_route w authorization approval_status limit offset db =
     bindE (mapErr ListingPy (claims_dependency (wb_jwt w) ''access'' authorization)) (\<lambda>claims.
     bindE (mapErr ListingPy (require_role claims [''admin''])) (\<lambda>_.
     bindE (requireE (approval_status = ''approved'')
              (ListingPy (HTTPException 400 ''only approval_status=approved is listable''))) (\<lambda>_.
     bindE (list_approved_vehicles (limit + 1) offset db) (\<lambda>vehicles.
     Inr (JObj
       [(''items'', JArr (map vehicle_response (slice_to limit vehicles))),
        (''next_offset'', if int (length vehicles) > limit then JInt (offset + limit) else JNull)])))))"

definition get_vehicle_route ::
  "listing_web \<Rightarrow> string option \<Rightarrow> uuid \<Rightarrow> listing_db \<Rightarrow> listing_exn + json"
where
  "get_vehicle_route w authorization vehicle_id db =
     bindE (mapErr ListingPy (claims_dependency (wb_jwt w) ''access'' authorization)) (\<lambda>claims.
     bindE (mapErr ListingPy (subject claims)) (\<lambda>viewer_id.
     bindE (mapErr owner_errors (get_vehicle_for_viewer vehicle_id viewer_id (claimed_role claims) db)) (\<lambda>vehicle.
     Inr (vehicle_response vehicle))))"

definition update_build ::
  "listing_web \<Rightarrow> env \<Rightarrow> uuid \<Rightarrow> dict \<Rightarrow> vehicle_fields \<Rightarrow> listing_db \<Rightarrow> listing_exn + (string \<times> listing_db)"
where
  "update_build w e vehicle_id claims p db =
     bindE (mapErr ListingPy (subject claims)) (\<lambda>host_id.
     vehicle_result w owner_errors (update_vehicle e vehicle_id host_id p db))"

definition update_route ::
  "listing_web \<Rightarrow> env \<Rightarrow> uuid \<Rightarrow> (string \<Rightarrow> vehicle_fields option) \<Rightarrow> http_request \<Rightarrow> listing_db
     \<Rightarrow> (listing_exn + response) \<times> listing_db"
where
  "update_route w e vehicle_id parse rq db =
     listing_route w (env_now e) rq ''host'' 200 (validated update_vehicle_valid parse (rq_body rq))
       (update_build w e vehicle_id) db"

definition approve_vehicle_build ::
  "listing_web \<Rightarrow> env \<Rightarrow> uuid \<Rightarrow> dict \<Rightarrow> unit \<Rightarrow> listing_db \<Rightarrow> listing_exn + (string \<times> listing_db)"
where
  "approve_vehicle_build w e vehicle_id claims _ db =
     vehicle_result w (approval_errors ''approve'') (approve_vehicle e vehicle_id db)"

definition approve_vehicle_route ::
  "listing_web \<Rightarrow> env \<Rightarrow> uuid \<Rightarrow> http_request \<Rightarrow> listing_db \<Rightarrow> (listing_exn + response) \<times> listing_db"
where
  "approve_vehicle_route w e vehicle_id rq db =
     listing_route w (env_now e) rq ''admin'' 200 (Some ()) (approve_vehicle_build w e vehicle_id) db"

definition reject_vehicle_build ::
  "listing_web \<Rightarrow> uuid \<Rightarrow> dict \<Rightarrow> unit \<Rightarrow> listing_db \<Rightarrow> listing_exn + (string \<times> listing_db)"
where
  "reject_vehicle_build w vehicle_id claims _ db =
     vehicle_result w (approval_errors ''reject'') (reject_vehicle vehicle_id db)"

definition reject_vehicle_route ::
  "listing_web \<Rightarrow> env \<Rightarrow> uuid \<Rightarrow> http_request \<Rightarrow> listing_db \<Rightarrow> (listing_exn + response) \<times> listing_db"
where
  "reject_vehicle_route w e vehicle_id rq db =
     listing_route w (env_now e) rq ''admin'' 200 (Some ()) (reject_vehicle_build w vehicle_id) db"

definition block_build ::
  "listing_web \<Rightarrow> env \<Rightarrow> uuid \<Rightarrow> dict \<Rightarrow> block_payload \<Rightarrow> listing_db \<Rightarrow> listing_exn + (string \<times> listing_db)"
where
  "block_build w e vehicle_id claims p db =
     bindE (mapErr ListingPy (subject claims)) (\<lambda>host_id.
     bindE (mapErr block_errors
              (add_availability_block e vehicle_id host_id (bp_start_date p) (bp_end_date p) db)) (\<lambda>(block, db).
     Inr (wb_dumps w (block_response (lw_isoformat w) block), db)))"

definition create_availability_block_route ::
  "listing_web \<Rightarrow> env \<Rightarrow> uuid \<Rightarrow> (string \<Rightarrow> block_payload option) \<Rightarrow> http_request \<Rightarrow> listing_db
     \<Rightarrow> (listing_exn + response) \<times> listing_db"
where
  "create_availability_block_route w e vehicle_id parse rq db =
     listing_route w (env_now e) rq ''host'' 201 (validated block_valid parse (rq_body rq))
       (block_build w e vehicle_id) db"

section \<open>The routes meet the idempotency contract\<close>

interpretation listing_keys: idempotent_routes ldb_idem "\<lambda>rows db. db\<lparr>ldb_idem := rows\<rparr>" ListingPy
  by unfold_locales simp

lemma vehicle_result_Inr [result_simps]:
  "vehicle_result w errors r = Inr (body, db') \<longleftrightarrow>
     (\<exists>v. r = Inr (v, db') \<and> body = wb_dumps w (vehicle_response v))"
  by (auto simp: vehicle_result_def bindE_eq_Inr mapErr_eq_Inr)

lemma listing_ops_keep_idem:
  "create_vehicle e h mk md yr pr ml bm lat lon db = Inr (v, db') \<Longrightarrow> ldb_idem db' = ldb_idem db"
  "update_vehicle e i h f db = Inr (v, db') \<Longrightarrow> ldb_idem db' = ldb_idem db"
  "approve_vehicle e i db = Inr (v, db') \<Longrightarrow> ldb_idem db' = ldb_idem db"
  "reject_vehicle i db = Inr (v, db') \<Longrightarrow> ldb_idem db' = ldb_idem db"
  "add_availability_block e i h sd ed db = Inr (b, db') \<Longrightarrow> ldb_idem db' = ldb_idem db"
  by (auto dest!: create_vehicle_added add_availability_block_added
      elim!: update_vehicle_changed approve_vehicle_changed reject_vehicle_changed
      simp: vehicle_added_def block_added_def vehicle_changed_def)

lemma listing_builds_keep_idem:
  "listing_keys.keeps_idem (create_vehicle_build w e claims p)"
  "listing_keys.keeps_idem (update_build w e i claims f)"
  "listing_keys.keeps_idem (approve_vehicle_build w e i claims u)"
  "listing_keys.keeps_idem (reject_vehicle_build w i claims u)"
  "listing_keys.keeps_idem (block_build w e i claims q)"
  unfolding listing_keys.keeps_idem_def create_vehicle_build_def update_build_def approve_vehicle_build_def
    reject_vehicle_build_def block_build_def
  by (auto simp: result_simps intro: listing_ops_keep_idem)

text \<open>Every request is a sequence of at most two transactions of the service.\<close>

lemma listing_builds_step:
  "create_vehicle_build w e claims p db = Inr (s, db') \<Longrightarrow> listing_step db db'"
  "update_build w e i claims f db = Inr (s, db') \<Longrightarrow> listing_step db db'"
  "approve_vehicle_build w e i claims u db = Inr (s, db') \<Longrightarrow> listing_step db db'"
  "reject_vehicle_build w i claims u db = Inr (s, db') \<Longrightarrow> listing_step db db'"
  "block_build w e i claims q db = Inr (s, db') \<Longrightarrow> listing_step db db'"
  unfolding create_vehicle_build_def update_build_def approve_vehicle_build_def
    reject_vehicle_build_def block_build_def
  by (auto simp: result_simps intro: listing_step.intros)

lemma listing_route_reachable:
  assumes "listing_route w now rq role status payload build db = (r, db')" "listing_reachable db"
    and "\<And>claims p s db1. build claims p db = Inr (s, db1) \<Longrightarrow> listing_step db db1"
  shows "listing_reachable db'"
  using listing_keys.route_shape [OF assms(1)] assms(2,3) listing_reachable.step listing_step.keys by metis

lemma listing_routes_reachable:
  assumes "listing_reachable db"
  shows "listing_reachable (snd (create_vehicle_route w e p1 rq db))"
    "listing_reachable (snd (update_route w e i p2 rq db))"
    "listing_reachable (snd (approve_vehicle_route w e i rq db))"
    "listing_reachable (snd (reject_vehicle_route w e i rq db))"
    "listing_reachable (snd (create_availability_block_route w e i p3 rq db))"
  unfolding create_vehicle_route_def update_route_def approve_vehicle_route_def reject_vehicle_route_def
    create_availability_block_route_def
  by (rule listing_route_reachable [OF surjective_pairing assms], erule listing_builds_step)+

end
