(* ===== verification/Auth.thy ===== *)
theory Auth
  imports Http
begin

text \<open>
  The auth service: the user table with the constraints of its migration, registration, login,
  token refresh and \<^verbatim>\<open>/me\<close> (\<^verbatim>\<open>services/auth/\<close>).  Argon2 and PyJWT's \<^verbatim>\<open>jwt.encode\<close> are parameters,
  collected in \<open>crypto\<close>; what the code relies on is stated as \<open>hasher_documented\<close> and
  \<open>jwt_documented\<close>.  The \<^verbatim>\<open>created_at\<close> column is read by nobody and left out.
\<close>

section \<open>Tokens and passwords\<close>

text \<open>
  \<open>cr_hash\<close> takes the random salt of the call.  \<open>cr_verify hash password\<close> is \<^verbatim>\<open>PasswordHasher.verify\<close>:
  \<open>Some False\<close> where it raises \<^verbatim>\<open>VerifyMismatchError\<close>, \<open>None\<close> where it raises anything else.
\<close>

record crypto =
  cr_hash :: "nat \<Rightarrow> string \<Rightarrow> string"
  cr_verify :: "string \<Rightarrow> string \<Rightarrow> bool option"
  cr_encode :: "dict \<Rightarrow> string \<Rightarrow> string \<Rightarrow> string"

definition hash_password :: "crypto \<Rightarrow> nat \<Rightarrow> string \<Rightarrow> string" where
  "hash_password cr salt password = cr_hash cr salt password"

definition verify_password :: "crypto \<Rightarrow> string \<Rightarrow> string \<Rightarrow> py_exn + bool" where
  "verify_password cr password password_hash =
     (case cr_verify cr password_hash password of None \<Rightarrow> Inl ValueError | Some ok \<Rightarrow> Inr ok)"

text \<open>PyJWT writes the two time stamps as whole seconds.\<close>

definition create_token :: "crypto \<Rightarrow> int \<Rightarrow> uuid \<Rightarrow> string \<Rightarrow> string \<Rightarrow> string \<Rightarrow> string \<Rightarrow> int \<Rightarrow> string" where
  "create_token cr now user_id role token_type secret issuer ttl_seconds =
     (let payload =
            [(''sub'', JStr (uuid_str user_id)), (''role'', JStr role), (''type'', JStr token_type),
             (''iss'', JStr issuer), (''iat'', JInt now), (''exp'', JInt (now + ttl_seconds))]
      in cr_encode cr payload secret ''HS256'')"

section \<open>Tables\<close>

record user =
  us_id :: uuid
  us_email :: string
  us_name :: string
  us_password_hash :: string
  us_role :: string

definition auth_roles :: "string set" where
  "auth_roles = {''renter'', ''host'', ''admin''}"

record auth_db =
  adb_users :: "user list"
  adb_idem :: "idem_row list"

definition empty_auth_db :: auth_db where
  "empty_auth_db = \<lparr>adb_users = [], adb_idem = []\<rparr>"

datatype auth_exn =
    AuthPy py_exn
  | DuplicateEmailError string
  | EmailAlreadyRegisteredError string
  | InvalidCredentialsError

definition user_columns_ok :: "user \<Rightarrow> bool" where
  "user_columns_ok u \<longleftrightarrow> varchar_ok 320 (us_email u) \<and> varchar_ok 120 (us_name u) \<and> varchar_ok 16 (us_role u)"

definition user_by_email :: "string \<Rightarrow> auth_db \<Rightarrow> user option" where
  "user_by_email email db = find_row us_email email (adb_users db)"

definition user_by_id :: "uuid \<Rightarrow> auth_db \<Rightarrow> user option" where
  "user_by_id user_id db = find_row us_id user_id (adb_users db)"

definition user_create ::
  "env \<Rightarrow> nat \<Rightarrow> string \<Rightarrow> string \<Rightarrow> string \<Rightarrow> string \<Rightarrow> auth_db \<Rightarrow> auth_exn + (user \<times> auth_db)"
where
  "user_create e k email name password_hash role db =
     (let user = \<lparr>us_id = env_uuid4 e k, us_email = email, us_name = name, us_password_hash = password_hash,
                  us_role = role\<rparr>
      in if \<not> user_columns_ok user then Inl (AuthPy DataError)
         else if us_id user \<in> us_id ` set (adb_users db) \<or> us_email user \<in> us_email ` set (adb_users db) \<or>
                 us_role user \<notin> auth_roles
         then Inl (DuplicateEmailError email)
         else Inr (user, db\<lparr>adb_users := adb_users db @ [user]\<rparr>))"

section \<open>Use cases\<close>

definition register_user ::
  "crypto \<Rightarrow> nat \<Rightarrow> env \<Rightarrow> string \<Rightarrow> string \<Rightarrow> string \<Rightarrow> string \<Rightarrow> auth_db \<Rightarrow> auth_exn + (user \<times> auth_db)"
where
  "register_user cr salt e email name password role db =
     (case user_by_email email db of
        Some existing \<Rightarrow> Inl (EmailAlreadyRegisteredError email)
      | None \<Rightarrow>
          (case user_create e 0 email name (hash_password cr salt password) role db of
             Inl (DuplicateEmailError _) \<Rightarrow> Inl (EmailAlreadyRegisteredError email)
           | r \<Rightarrow> r))"

definition authenticate_user :: "crypto \<Rightarrow> string \<Rightarrow> string \<Rightarrow> auth_db \<Rightarrow> auth_exn + user" where
  "authenticate_user cr email password db =
     (case user_by_email email db of
        None \<Rightarrow> Inl InvalidCredentialsError
      | Some user \<Rightarrow>
          bindE (mapErr AuthPy (verify_password cr password (us_password_hash user))) (\<lambda>ok.
          if \<not> ok then Inl InvalidCredentialsError else Inr user))"

record auth_web = web +
  aw_crypto :: crypto
  aw_access_token_ttl_seconds :: int
  aw_refresh_token_ttl_seconds :: int

definition issue_token_pair :: "auth_web \<Rightarrow> int \<Rightarrow> user \<Rightarrow> string \<times> string" where
  "issue_token_pair w now user =
     (create_token (aw_crypto w) now (us_id user) (us_role user) ''access'' (jw_secret (wb_jwt w))
        (jw_issuer (wb_jwt w)) (aw_access_token_ttl_seconds w),
      create_token (aw_crypto w) now (us_id user) (us_role user) ''refresh'' (jw_secret (wb_jwt w))
        (jw_issuer (wb_jwt w)) (aw_refresh_token_ttl_seconds w))"

section \<open>Endpoints\<close>

record register_payload =
  rp_email :: string
  rp_name :: string
  rp_password :: string
  rp_role :: string

text \<open>The syntax of an e-mail address is checked by the parameter \<open>email_valid\<close>.\<close>

definition register_valid :: "(string \<Rightarrow> bool) \<Rightarrow> register_payload \<Rightarrow> bool" where
  "register_valid email_valid p \<longleftrightarrow>
     email_valid (rp_email p) \<and> 1 \<le> length (rp_name p) \<and> length (rp_name p) \<le> 120 \<and>
     8 \<le> length (rp_password p) \<and> rp_role p \<in> {''renter'', ''host''}"

definition user_response :: "user \<Rightarrow> json" where
  "user_response user = JObj
     [(''id'', JStr (uuid_str (us_id user))), (''email'', JStr (us_email user)), (''name'', JStr (us_name user)),
      (''role'', JStr (us_role user))]"

fun register_errors :: "auth_exn \<Rightarrow> auth_exn" where
  "register_errors (EmailAlreadyRegisteredError _) = AuthPy (HTTPException 409 ''email already registered'')"
| "register_errors x = x"

definition register_build ::
  "auth_web \<Rightarrow> nat \<Rightarrow> env \<Rightarrow> register_payload \<Rightarrow> auth_db \<Rightarrow> auth_exn + (string \<times> auth_db)"
where
  "register_build w salt e p db =
     bindE (mapErr register_errors
       (register_user (aw_crypto w) salt e (rp_email p) (rp_name p) (rp_password p) (rp_role p) db)) (\<lambda>(user, db).
     Inr (wb_dumps w (user_response user), db))"

text \<open>
  Registration needs no token: its keys belong to the anonymous consumer \<^verbatim>\<open>""\<close>, and the guard runs
  before the body is validated.
\<close>

definition register_route ::
  "auth_web \<Rightarrow> (string \<Rightarrow> bool) \<Rightarrow> nat \<Rightarrow> env \<Rightarrow> (string \<Rightarrow> register_payload option) \<Rightarrow> http_request \<Rightarrow> auth_db
     \<Rightarrow> (auth_exn + response) \<times> auth_db"
where
  "register_route w email_valid salt e parse rq db =
     (case idempotency_guard_dependency (wb_sha256_hex w) (rq_idempotency_key rq) '''' (rq_body rq) (adb_idem db) of
        Inl x \<Rightarrow> (Inl (AuthPy x), db)
      | Inr guard \<Rightarrow>
          (case validated (register_valid email_valid) parse (rq_body rq) of
             None \<Rightarrow> (Inl (AuthPy validation_error), db)
           | Some p \<Rightarrow>
               respond_idempotently adb_idem (\<lambda>rows db. db\<lparr>adb_idem := rows\<rparr>) AuthPy (env_now e) guard 201
                 (register_build w salt e p) db))"

definition login_route :: "auth_web \<Rightarrow> int \<Rightarrow> string \<Rightarrow> string \<Rightarrow> auth_db \<Rightarrow> auth_exn + (string \<times> string)" where
  "login_route w now email password db =
     bindE (case authenticate_user (aw_crypto w) email password db of
              Inl InvalidCredentialsError \<Rightarrow> Inl (AuthPy (HTTPException 401 ''invalid email or password''))
            | r \<Rightarrow> r) (\<lambda>user.
     Inr (issue_token_pair w now user))"

definition refresh_route :: "auth_web \<Rightarrow> int \<Rightarrow> string \<Rightarrow> auth_db \<Rightarrow> auth_exn + (string \<times> string)" where
  "refresh_route w now refresh_token db =
     (case decode_token (wb_jwt w) refresh_token of
        None \<Rightarrow> Inl (AuthPy (HTTPException 401 ''invalid refresh token''))
      | Some claims \<Rightarrow>
          if dict_get claims ''type'' \<noteq> Some (JStr ''refresh'')
          then Inl (AuthPy (HTTPException 401 ''not a refresh token''))
          else
            bindE (mapErr AuthPy (subject claims)) (\<lambda>user_id.
            case user_by_id user_id db of
              None \<Rightarrow> Inl (AuthPy (HTTPException 401 ''user no longer exists''))
            | Some user \<Rightarrow> Inr (issue_token_pair w now user)))"

definition me_route :: "auth_web \<Rightarrow> string option \<Rightarrow> auth_db \<Rightarrow> auth_exn + json" where
  "me_route w authorization db =
     bindE (mapErr AuthPy (claims_dependency (wb_jwt w) ''access'' authorization)) (\<lambda>claims.
     bindE (mapErr AuthPy (subject claims)) (\<lambda>user_id.
     case user_by_id user_id db of
       None \<Rightarrow> Inl (AuthPy (HTTPException 401 ''user no longer exists''))
     | Some user \<Rightarrow> Inr (user_response user)))"

section \<open>What the service relies on\<close>

text \<open>Argon2 verifies a password against a hash of that password.\<close>

definition hasher_documented :: "crypto \<Rightarrow> bool" where
  "hasher_documented cr \<longleftrightarrow> (\<forall>salt p. cr_verify cr (cr_hash cr salt p) p = Some True)"

text \<open>
  PyJWT, at time \<open>now\<close>: a token that was encoded with the same secret and algorithm is decoded to
  its payload if it was issued by the expected issuer, not in the future, and has not expired.
\<close>

definition jwt_documented :: "jwt_settings \<Rightarrow> crypto \<Rightarrow> int \<Rightarrow> bool" where
  "jwt_documented st cr now \<longleftrightarrow>
     (\<forall>payload issued expires. dict_get payload ''iss'' = Some (JStr (jw_issuer st)) \<and>
        dict_get payload ''iat'' = Some (JInt issued) \<and> issued \<le> now \<and>
        dict_get payload ''exp'' = Some (JInt expires) \<and> now < expires \<longrightarrow>
        jw_decode st (cr_encode cr payload (jw_secret st) ''HS256'') (jw_secret st) [''HS256''] (jw_issuer st) = Some payload)"

section \<open>Transactions and invariant\<close>

inductive auth_reachable :: "auth_db \<Rightarrow> bool" where
  empty: "auth_reachable empty_auth_db"
| register: "auth_reachable db \<Longrightarrow> register_route w email_valid salt e parse rq db = (r, db') \<Longrightarrow> auth_reachable db'"
| cleanup: "auth_reachable db \<Longrightarrow> auth_reachable (db\<lparr>adb_idem := run_idempotency_cleanup_loop older wakes (adb_idem db)\<rparr>)"

definition auth_inv :: "auth_db \<Rightarrow> bool" where
  "auth_inv db \<longleftrightarrow>
     distinct (map us_id (adb_users db)) \<and> distinct (map us_email (adb_users db)) \<and>
     (\<forall>u \<in> set (adb_users db). us_role u \<in> {''renter'', ''host''})"

section \<open>Lemmas\<close>

interpretation auth_keys: idempotent_store adb_idem "\<lambda>rows db. db\<lparr>adb_idem := rows\<rparr>" AuthPy
  by unfold_locales simp

lemma user_create_Inr:
  "user_create e k email name h role db = Inr (u, db') \<longleftrightarrow>
     u = \<lparr>us_id = env_uuid4 e k, us_email = email, us_name = name, us_password_hash = h, us_role = role\<rparr> \<and>
     user_columns_ok u \<and> us_id u \<notin> us_id ` set (adb_users db) \<and> email \<notin> us_email ` set (adb_users db) \<and>
     role \<in> auth_roles \<and> db' = db\<lparr>adb_users := adb_users db @ [u]\<rparr>"
  by (auto simp: user_create_def Let_def)

lemma register_user_Inr:
  "register_user cr salt e email name pw role db = Inr (u, db') \<Longrightarrow>
     user_create e 0 email name (hash_password cr salt pw) role db = Inr (u, db')"
  by (auto simp: register_user_def split: option.splits sum.splits auth_exn.splits)

lemma create_token_decoded:
  assumes "jwt_documented st cr now'" "now \<le> now'" "now' < now + ttl"
  shows "decode_token st (create_token cr now i role ty (jw_secret st) (jw_issuer st) ttl) =
    Some [(''sub'', JStr (uuid_str i)), (''role'', JStr role), (''type'', JStr ty),
          (''iss'', JStr (jw_issuer st)), (''iat'', JInt now), (''exp'', JInt (now + ttl))]"
  using assms by (simp add: jwt_documented_def decode_token_def create_token_def Let_def)

lemma register_route_users:
  assumes "register_route w ev salt e parse rq db = (r, db')"
  shows "adb_users db' = adb_users db \<or>
    (\<exists>u. us_role u \<in> {''renter'', ''host''} \<and>
       us_id u \<notin> us_id ` set (adb_users db) \<and> us_email u \<notin> us_email ` set (adb_users db) \<and>
       adb_users db' = adb_users db @ [u])"
proof -
  have "adb_users db' = adb_users db \<or>
    (\<exists>p s session. register_valid ev p \<and> register_build w salt e p db = Inr (s, session) \<and>
       adb_users db' = adb_users session)"
    using assms
    by (auto simp: register_route_def respond_idempotently_def validated_def
        split: sum.splits option.splits if_splits prod.splits)
  then show ?thesis
  proof
    assume "\<exists>p s session. register_valid ev p \<and> register_build w salt e p db = Inr (s, session) \<and>
       adb_users db' = adb_users session"
    then obtain p s session u where "register_valid ev p" "adb_users db' = adb_users session"
      "user_create e 0 (rp_email p) (rp_name p) (hash_password (aw_crypto w) salt (rp_password p)) (rp_role p) db = Inr (u, session)"
      by (auto simp: register_build_def result_simps dest!: register_user_Inr)
    then show ?thesis by (auto simp: user_create_Inr register_valid_def)
  qed simp
qed

lemma auth_inv_new:
  "auth_inv db \<Longrightarrow> us_role u \<in> {''renter'', ''host''} \<Longrightarrow> us_id u \<notin> us_id ` set (adb_users db) \<Longrightarrow>
     us_email u \<notin> us_email ` set (adb_users db) \<Longrightarrow> adb_users db' = adb_users db @ [u] \<Longrightarrow> auth_inv db'"
  unfolding auth_inv_def by simp

lemma auth_reachable_inv: "auth_reachable db \<Longrightarrow> auth_inv db"
proof (induction rule: auth_reachable.induct)
  case (register db w ev salt e parse rq r db')
  from register_route_users [OF register(2)] show ?case
  proof
    assume "adb_users db' = adb_users db"
    with register(3) show ?case by (simp add: auth_inv_def)
  qed (use auth_inv_new [OF register(3)] in blast)
qed (simp_all add: auth_inv_def empty_auth_db_def)

end
