(* ===== verification/Redis.thy ===== *)
theory Redis
  imports Uuid
begin

text \<open>
  Redis as the services use it, and the kill switch that the admin service writes and the telemetry
  service reads (\<^verbatim>\<open>shared/kill_switch.py\<close>).  Redis is a parameter: a record of the commands on a
  state of unknown type, each with the time it is executed.  What the code relies on is
  \<open>redis_documented\<close>; \<open>redis_laws\<close> are its parts.
\<close>

text \<open>
  \<^verbatim>\<open>SET key value NX EX ttl\<close>, \<^verbatim>\<open>GET key\<close>, \<^verbatim>\<open>SET key value EX ttl\<close>, \<^verbatim>\<open>SET key value\<close>, \<^verbatim>\<open>DEL key\<close> and
  \<^verbatim>\<open>EXISTS key\<close>.
\<close>

record 'rd redis =
  rd_set_nx :: "int \<Rightarrow> string \<Rightarrow> string \<Rightarrow> int \<Rightarrow> 'rd \<Rightarrow> bool \<times> 'rd"
  rd_get :: "int \<Rightarrow> string \<Rightarrow> 'rd \<Rightarrow> string option"
  rd_set :: "int \<Rightarrow> string \<Rightarrow> string \<Rightarrow> int \<Rightarrow> 'rd \<Rightarrow> 'rd"
  rd_put :: "int \<Rightarrow> string \<Rightarrow> string \<Rightarrow> 'rd \<Rightarrow> 'rd"
  rd_delete :: "int \<Rightarrow> string \<Rightarrow> 'rd \<Rightarrow> 'rd"
  rd_exists :: "int \<Rightarrow> string \<Rightarrow> 'rd \<Rightarrow> bool"

section \<open>The kill switch\<close>

definition kill_switch_key :: "string \<Rightarrow> string" where
  "kill_switch_key vehicle_id = ''kill-switch:'' @ vehicle_id"

definition kill_switch_activate :: "'rd redis \<Rightarrow> int \<Rightarrow> string \<Rightarrow> 'rd \<Rightarrow> 'rd" where
  "kill_switch_activate R now vehicle_id rd = rd_put R now (kill_switch_key vehicle_id) ''1'' rd"

definition kill_switch_deactivate :: "'rd redis \<Rightarrow> int \<Rightarrow> string \<Rightarrow> 'rd \<Rightarrow> 'rd" where
  "kill_switch_deactivate R now vehicle_id rd = rd_delete R now (kill_switch_key vehicle_id) rd"

definition kill_switch_is_active :: "'rd redis \<Rightarrow> int \<Rightarrow> string \<Rightarrow> 'rd \<Rightarrow> bool" where
  "kill_switch_is_active R now vehicle_id rd = rd_exists R now (kill_switch_key vehicle_id) rd"

section \<open>What the services rely on\<close>

text \<open>
  A key that was set is there until its time to live is over, a \<^verbatim>\<open>SET ... NX\<close> succeeds exactly
  if the key is not there, a deleted key is gone, and other keys are left alone.
\<close>

definition redis_documented :: "'rd redis \<Rightarrow> bool" where
  "redis_documented R \<longleftrightarrow>
     (\<forall>t k v ttl rd. fst (rd_set_nx R t k v ttl rd) \<longleftrightarrow> rd_get R t k rd = None) \<and>
     (\<forall>t t' k k' v ttl rd. t \<le> t' \<longrightarrow> rd_get R t' k' (snd (rd_set_nx R t k v ttl rd)) =
        (if k' = k \<and> rd_get R t k rd = None then (if t' < t + ttl then Some v else None) else rd_get R t' k' rd)) \<and>
     (\<forall>t t' k k' v ttl rd. t \<le> t' \<longrightarrow> rd_get R t' k' (rd_set R t k v ttl rd) =
        (if k' = k then (if t' < t + ttl then Some v else None) else rd_get R t' k' rd)) \<and>
     (\<forall>t t' k k' v rd. t \<le> t' \<longrightarrow> rd_get R t' k' (rd_put R t k v rd) = (if k' = k then Some v else rd_get R t' k' rd)) \<and>
     (\<forall>t t' k k' rd. t \<le> t' \<longrightarrow> rd_get R t' k' (rd_delete R t k rd) = (if k' = k then None else rd_get R t' k' rd)) \<and>
     (\<forall>t k rd. rd_exists R t k rd \<longleftrightarrow> rd_get R t k rd \<noteq> None)"

lemma redis_laws:
  assumes "redis_documented R"
  shows "fst (rd_set_nx R t k v ttl rd) \<longleftrightarrow> rd_get R t k rd = None"
    "t \<le> t' \<Longrightarrow> rd_get R t' k' (snd (rd_set_nx R t k v ttl rd)) =
        (if k' = k \<and> rd_get R t k rd = None then (if t' < t + ttl then Some v else None) else rd_get R t' k' rd)"
    "t \<le> t' \<Longrightarrow> rd_get R t' k' (rd_set R t k v ttl rd) =
        (if k' = k then (if t' < t + ttl then Some v else None) else rd_get R t' k' rd)"
    "t \<le> t' \<Longrightarrow> rd_get R t' k' (rd_put R t k v rd) = (if k' = k then Some v else rd_get R t' k' rd)"
    "t \<le> t' \<Longrightarrow> rd_get R t' k' (rd_delete R t k rd) = (if k' = k then None else rd_get R t' k' rd)"
    "rd_exists R t k rd \<longleftrightarrow> rd_get R t k rd \<noteq> None"
  using assms by (simp_all add: redis_documented_def)

lemma kill_switch_key_inject [simp]: "kill_switch_key a = kill_switch_key b \<longleftrightarrow> a = b"
  by (simp add: kill_switch_key_def)

lemma kill_switch_laws:
  assumes "redis_documented R" "t \<le> t'"
  shows "kill_switch_is_active R t' b (kill_switch_activate R t a rd) \<longleftrightarrow> b = a \<or> kill_switch_is_active R t' b rd"
    "kill_switch_is_active R t' b (kill_switch_deactivate R t a rd) \<longleftrightarrow> b \<noteq> a \<and> kill_switch_is_active R t' b rd"
  using redis_laws(4,5) [OF assms] redis_laws(6) [OF assms(1)]
  by (simp_all add: kill_switch_is_active_def kill_switch_activate_def kill_switch_deactivate_def)

text \<open>A map with expiry times meets the documentation.\<close>

definition map_redis_get :: "int \<Rightarrow> string \<Rightarrow> (string \<rightharpoonup> string \<times> int option) \<Rightarrow> string option" where
  "map_redis_get t k rd =
     (case rd k of None \<Rightarrow> None
      | Some (v, None) \<Rightarrow> Some v
      | Some (v, Some expires) \<Rightarrow> if t < expires then Some v else None)"

definition map_redis :: "(string \<rightharpoonup> string \<times> int option) redis" where
  "map_redis =
     \<lparr>rd_set_nx = (\<lambda>t k v ttl rd. if map_redis_get t k rd = None then (True, rd(k \<mapsto> (v, Some (t + ttl)))) else (False, rd)),
      rd_get = map_redis_get, rd_set = (\<lambda>t k v ttl rd. rd(k \<mapsto> (v, Some (t + ttl)))),
      rd_put = (\<lambda>t k v rd. rd(k \<mapsto> (v, None))), rd_delete = (\<lambda>t k rd. rd(k := None)),
      rd_exists = (\<lambda>t k rd. map_redis_get t k rd \<noteq> None)\<rparr>"

lemma map_redis_documented: "redis_documented map_redis"
  by (auto simp: redis_documented_def map_redis_def map_redis_get_def split: option.splits if_splits)

end
