(* ===== verification/Search.thy ===== *)
theory Search
  imports Listing_Routes Auth Redis
begin

text \<open>
  The search service (\<^verbatim>\<open>services/search/\<close>): the read model it keeps in Elasticsearch, the consumer of
  the listing's vehicle events with its Redis claim, the query it builds, the cached search
  endpoint and the backfill job.  Elasticsearch and Redis are parameters: a record of the calls
  the code makes on a state of unknown type.  What the code relies on is stated as
  \<open>es_documented\<close>, \<open>es_available\<close> and \<open>redis_documented\<close>.
\<close>

section \<open>Elasticsearch and Redis\<close>

datatype search_exn =
    SearchPy py_exn
  | EsNotFoundError
  | EsTransportError
  | SearchHTTPStatusError int
  | InvalidSearchQueryError string

text \<open>
  \<open>es_search query sort from_ size\<close> answers with the \<^verbatim>\<open>_source\<close> of each hit.
\<close>

record 'es es_client =
  es_index :: "string \<Rightarrow> dict \<Rightarrow> 'es \<Rightarrow> search_exn + 'es"
  es_delete :: "string \<Rightarrow> 'es \<Rightarrow> search_exn + 'es"
  es_search :: "json \<Rightarrow> json \<Rightarrow> int \<Rightarrow> int \<Rightarrow> 'es \<Rightarrow> search_exn + dict list"
  es_index_exists :: "'es \<Rightarrow> bool"
  es_index_create :: "json \<Rightarrow> 'es \<Rightarrow> search_exn + 'es"

definition INDEX_MAPPING :: json where
  "INDEX_MAPPING = JObj [(''properties'', JObj
     [(''vehicle_id'', JObj [(''type'', JStr ''keyword'')]),
      (''host_id'', JObj [(''type'', JStr ''keyword'')]),
      (''make'', JObj [(''type'', JStr ''keyword'')]),
      (''model'', JObj [(''type'', JStr ''keyword'')]),
      (''year'', JObj [(''type'', JStr ''integer'')]),
      (''daily_price_cents'', JObj [(''type'', JStr ''integer'')]),
      (''daily_mileage_limit'', JObj [(''type'', JStr ''integer'')]),
      (''booking_mode'', JObj [(''type'', JStr ''keyword'')]),
      (''location'', JObj [(''type'', JStr ''geo_point'')])])]"

definition ensure_index :: "'es es_client \<Rightarrow> 'es \<Rightarrow> search_exn + 'es" where
  "ensure_index E es = (if \<not> es_index_exists E es then es_index_create E INDEX_MAPPING es else Inr es)"

section \<open>Documents\<close>

definition vehicle_to_document :: "dict \<Rightarrow> py_exn + dict" where
  "vehicle_to_document data =
     bindE (dict_item data ''vehicle_id'') (\<lambda>vehicle_id.
     bindE (dict_item data ''host_id'') (\<lambda>host_id.
     bindE (dict_item data ''make'') (\<lambda>mk.
     bindE (dict_item data ''model'') (\<lambda>model.
     bindE (dict_item data ''year'') (\<lambda>year.
     bindE (dict_item data ''daily_price_cents'') (\<lambda>daily_price_cents.
     bindE (dict_item data ''daily_mileage_limit'') (\<lambda>daily_mileage_limit.
     bindE (dict_item data ''booking_mode'') (\<lambda>booking_mode.
     bindE (dict_item data ''latitude'') (\<lambda>latitude.
     bindE (dict_item data ''longitude'') (\<lambda>longitude.
     Inr [(''vehicle_id'', vehicle_id), (''host_id'', host_id), (''make'', mk), (''model'', model),
          (''year'', year), (''daily_price_cents'', daily_price_cents),
          (''daily_mileage_limit'', daily_mileage_limit), (''booking_mode'', booking_mode),
          (''location'', JObj [(''lat'', latitude), (''lon'', longitude)])]))))))))))"

text \<open>
  \<open>pydantic\<close> is how Pydantic turns a JSON value into a field of the response model.
\<close>

record pydantic =
  pd_str :: "json \<Rightarrow> py_exn + string"
  pd_int :: "json \<Rightarrow> py_exn + int"
  pd_float :: "json \<Rightarrow> py_exn + pyfloat"

record vehicle_search_result =
  sr_vehicle_id :: string
  sr_host_id :: string
  sr_make :: string
  sr_model :: string
  sr_year :: int
  sr_daily_price_cents :: int
  sr_daily_mileage_limit :: int
  sr_booking_mode :: string
  sr_latitude :: pyfloat
  sr_longitude :: pyfloat

definition document_to_result :: "pydantic \<Rightarrow> dict \<Rightarrow> py_exn + vehicle_search_result" where
  "document_to_result P document =
     bindE (bindE (dict_item document ''vehicle_id'') (pd_str P)) (\<lambda>vehicle_id.
     bindE (bindE (dict_item document ''host_id'') (pd_str P)) (\<lambda>host_id.
     bindE (bindE (dict_item document ''make'') (pd_str P)) (\<lambda>mk.
     bindE (bindE (dict_item document ''model'') (pd_str P)) (\<lambda>model.
     bindE (bindE (dict_item document ''year'') (pd_int P)) (\<lambda>year.
     bindE (bindE (dict_item document ''daily_price_cents'') (pd_int P)) (\<lambda>daily_price_cents.
     bindE (bindE (dict_item document ''daily_mileage_limit'') (pd_int P)) (\<lambda>daily_mileage_limit.
     bindE (bindE (dict_item document ''booking_mode'') (pd_str P)) (\<lambda>booking_mode.
     bindE (bindE (dict_item document ''location'') json_dict) (\<lambda>location.
     bindE (bindE (dict_item location ''lat'') (pd_float P)) (\<lambda>latitude.
     bindE (bindE (dict_item location ''lon'') (pd_float P)) (\<lambda>longitude.
     Inr \<lparr>sr_vehicle_id = vehicle_id, sr_host_id = host_id, sr_make = mk, sr_model = model, sr_year = year,
          sr_daily_price_cents = daily_price_cents, sr_daily_mileage_limit = daily_mileage_limit,
          sr_booking_mode = booking_mode, sr_latitude = latitude, sr_longitude = longitude\<rparr>)))))))))))"

section \<open>Events\<close>

definition upsert_vehicle :: "'es es_client \<Rightarrow> string \<Rightarrow> dict \<Rightarrow> 'es \<Rightarrow> search_exn + 'es" where
  "upsert_vehicle E vehicle_id document es = es_index E vehicle_id document es"

definition delete_vehicle :: "'es es_client \<Rightarrow> string \<Rightarrow> 'es \<Rightarrow> search_exn + 'es" where
  "delete_vehicle E vehicle_id es =
     (case es_delete E vehicle_id es of Inl EsNotFoundError \<Rightarrow> Inr es | r \<Rightarrow> r)"

definition handle_vehicle_event :: "'es es_client \<Rightarrow> dict \<Rightarrow> 'es \<Rightarrow> search_exn + 'es" where
  "handle_vehicle_event E data es =
     (if dict_get data ''approval_status'' = Some (JStr ''approved'')
      then bindE (mapErr SearchPy (str_item data ''vehicle_id'')) (\<lambda>vehicle_id.
           bindE (mapErr SearchPy (vehicle_to_document data)) (\<lambda>document.
           upsert_vehicle E vehicle_id document es))
      else bindE (mapErr SearchPy (str_item data ''vehicle_id'')) (\<lambda>vehicle_id.
           delete_vehicle E vehicle_id es))"

definition LISTING_EVENT_TYPES :: "string set" where
  "LISTING_EVENT_TYPES = {''vehicle_approved'', ''vehicle_updated''}"

definition search_claim_event :: "'rd redis \<Rightarrow> int \<Rightarrow> string \<Rightarrow> int \<Rightarrow> 'rd \<Rightarrow> bool \<times> 'rd" where
  "search_claim_event R now event_id ttl_seconds rd =
     rd_set_nx R now (''processed-event:'' @ event_id) ''1'' ttl_seconds rd"

text \<open>
  The claim and the effect are not one transaction: the second component is what both stores
  hold afterwards, also when the first is an exception.
\<close>

definition build_listing_event_processor ::
  "'rd redis \<Rightarrow> 'es es_client \<Rightarrow> int \<Rightarrow> int \<Rightarrow> string \<Rightarrow> string \<Rightarrow> dict \<Rightarrow> 'rd \<times> 'es \<Rightarrow> (search_exn + unit) \<times> ('rd \<times> 'es)"
where
  "build_listing_event_processor R E dedup_ttl_seconds now event_id event_type data st =
     (let (rd, es) = st
      in if event_type \<notin> LISTING_EVENT_TYPES then (Inr (), st)
         else let (claimed, rd') = search_claim_event R now event_id dedup_ttl_seconds rd
              in if \<not> claimed then (Inr (), (rd', es))
                 else case handle_vehicle_event E data es of
                        Inl x \<Rightarrow> (Inl x, (rd', es))
                      | Inr es' \<Rightarrow> (Inr (), (rd', es')))"

text \<open>
  The consumer loop of \<^verbatim>\<open>shared/kafka_consumer.py\<close> around this processor, over the records of the
  topic with the time each is processed; it stops at the first exception.
\<close>

fun run_search_consumer ::
  "'rd redis \<Rightarrow> 'es es_client \<Rightarrow> (int \<times> json) list \<Rightarrow> nat \<Rightarrow> 'rd \<times> 'es \<Rightarrow> nat \<times> ('rd \<times> 'es) \<times> search_exn option"
where
  "run_search_consumer R E [] committed st = (committed, st, None)"
| "run_search_consumer R E ((now, envelope) # rs) committed st =
     (case mapErr SearchPy (envelope_fields envelope) of
        Inl x \<Rightarrow> (committed, st, Some x)
      | Inr (event_id, event_type, data) \<Rightarrow>
          (case build_listing_event_processor R E 86400 now event_id event_type data st of
             (Inl x, st') \<Rightarrow> (committed, st', Some x)
           | (Inr _, st') \<Rightarrow> run_search_consumer R E rs (Suc committed) st'))"

section \<open>Queries\<close>

record search_params =
  sp_make :: "string option"
  sp_booking_mode :: "string option"
  sp_min_price_cents :: "int option"
  sp_max_price_cents :: "int option"
  sp_lat :: "pyfloat option"
  sp_lon :: "pyfloat option"
  sp_radius_km :: "pyfloat option"
  sp_sort :: string
  sp_limit :: int
  sp_offset :: int

definition opt_list :: "('a \<Rightarrow> 'b) \<Rightarrow> 'a option \<Rightarrow> 'b list" where
  "opt_list f x = (case x of None \<Rightarrow> [] | Some a \<Rightarrow> [f a])"

definition location_json :: "pyfloat option \<Rightarrow> pyfloat option \<Rightarrow> json" where
  "location_json lat lon =
     JObj [(''lat'', case lat of None \<Rightarrow> JNull | Some f \<Rightarrow> JFloat f), (''lon'', case lon of None \<Rightarrow> JNull | Some f \<Rightarrow> JFloat f)]"

text \<open>\<open>float_str\<close> prints a float as an f-string does.\<close>

definition price_range :: "search_params \<Rightarrow> dict" where
  "price_range p =
     opt_list (\<lambda>i. (''gte'', JInt i)) (sp_min_price_cents p) @ opt_list (\<lambda>i. (''lte'', JInt i)) (sp_max_price_cents p)"

definition search_filters :: "(pyfloat \<Rightarrow> string) \<Rightarrow> search_params \<Rightarrow> json list" where
  "search_filters float_str p =
     opt_list (\<lambda>m. JObj [(''term'', JObj [(''make'', JStr m)])]) (sp_make p) @
     opt_list (\<lambda>m. JObj [(''term'', JObj [(''booking_mode'', JStr m)])]) (sp_booking_mode p) @
     (if price_range p \<noteq> [] then [JObj [(''range'', JObj [(''daily_price_cents'', JObj (price_range p))])]] else []) @
     (if sp_lat p \<noteq> None \<and> sp_lon p \<noteq> None
      then opt_list (\<lambda>r. JObj [(''geo_distance'', JObj [(''distance'', JStr (float_str r @ ''km'')),
                                                     (''location'', location_json (sp_lat p) (sp_lon p))])])
             (sp_radius_km p)
      else [])"

definition search_query :: "json list \<Rightarrow> json" where
  "search_query filters =
     (if filters \<noteq> [] then JObj [(''bool'', JObj [(''filter'', JArr filters)])] else JObj [(''match_all'', JObj [])])"

definition sort_clause :: "search_params \<Rightarrow> json" where
  "sort_clause p =
     (if sp_sort p = ''distance''
      then JArr [JObj [(''_geo_distance'', JObj [(''location'', location_json (sp_lat p) (sp_lon p)),
                                               (''order'', JStr ''asc''), (''unit'', JStr ''km'')])]]
      else if sp_sort p = ''price_desc'' then JArr [JObj [(''daily_price_cents'', JStr ''desc'')]]
      else JArr [JObj [(''daily_price_cents'', JStr ''asc'')]])"

definition repo_search :: "'es es_client \<Rightarrow> (pyfloat \<Rightarrow> string) \<Rightarrow> search_params \<Rightarrow> 'es \<Rightarrow> search_exn + dict list" where
  "repo_search E float_str p es =
     (case es_search E (search_query (search_filters float_str p)) (sort_clause p) (sp_offset p) (sp_limit p) es of
        Inl EsNotFoundError \<Rightarrow> Inr []
      | r \<Rightarrow> r)"

definition search_vehicles :: "'es es_client \<Rightarrow> (pyfloat \<Rightarrow> string) \<Rightarrow> search_params \<Rightarrow> 'es \<Rightarrow> search_exn + dict list" where
  "search_vehicles E float_str p es =
     (if sp_sort p = ''distance'' \<and> (sp_lat p = None \<or> sp_lon p = None)
      then Inl (InvalidSearchQueryError ''sort=distance requires lat and lon'')
      else if sp_radius_km p \<noteq> None \<and> (sp_lat p = None \<or> sp_lon p = None)
      then Inl (InvalidSearchQueryError ''radius_km requires lat and lon'')
      else repo_search E float_str p es)"

section \<open>The endpoint\<close>

text \<open>The constraints of the query parameters.\<close>

definition search_params_valid :: "search_params \<Rightarrow> bool" where
  "search_params_valid p \<longleftrightarrow>
     pred_option (\<lambda>i. 0 \<le> i) (sp_min_price_cents p) \<and> pred_option (\<lambda>i. 0 \<le> i) (sp_max_price_cents p) \<and>
     pred_option latitude_valid (sp_lat p) \<and> pred_option longitude_valid (sp_lon p) \<and>
     pred_option (\<lambda>r. float_le (Finite 0) r \<and> \<not> float_le r (Finite 0)) (sp_radius_km p) \<and>
     0 < sp_limit p \<and> sp_limit p \<le> 100 \<and> 0 \<le> sp_offset p"

text \<open>The dictionary that is printed with sorted keys.\<close>

definition json_float_opt :: "pyfloat option \<Rightarrow> json" where
  "json_float_opt x = (case x of None \<Rightarrow> JNull | Some f \<Rightarrow> JFloat f)"

definition params_json :: "search_params \<Rightarrow> dict" where
  "params_json p =
     [(''make'', case sp_make p of None \<Rightarrow> JNull | Some s \<Rightarrow> JStr s),
      (''booking_mode'', case sp_booking_mode p of None \<Rightarrow> JNull | Some s \<Rightarrow> JStr s),
      (''min_price_cents'', case sp_min_price_cents p of None \<Rightarrow> JNull | Some i \<Rightarrow> JInt i),
      (''max_price_cents'', case sp_max_price_cents p of None \<Rightarrow> JNull | Some i \<Rightarrow> JInt i),
      (''lat'', json_float_opt (sp_lat p)), (''lon'', json_float_opt (sp_lon p)),
      (''radius_km'', json_float_opt (sp_radius_km p)), (''sort'', JStr (sp_sort p)),
      (''limit'', JInt (sp_limit p)), (''offset'', JInt (sp_offset p))]"

record search_web =
  sw_dumps_sorted :: "dict \<Rightarrow> string"
  sw_sha256_hex :: "string \<Rightarrow> string"
  sw_float_str :: "pyfloat \<Rightarrow> string"
  sw_pydantic :: pydantic
  sw_dump_response :: "vehicle_search_result list \<Rightarrow> string"
  sw_load_response :: "string \<Rightarrow> vehicle_search_result list option"
  sw_query_cache_ttl_seconds :: int

definition search_cache_key :: "search_web \<Rightarrow> dict \<Rightarrow> string" where
  "search_cache_key w params = ''search-query:'' @ sw_sha256_hex w (sw_dumps_sorted w params)"

fun result_list :: "pydantic \<Rightarrow> dict list \<Rightarrow> py_exn + vehicle_search_result list" where
  "result_list P [] = Inr []"
| "result_list P (d # ds) =
     bindE (document_to_result P d) (\<lambda>r. bindE (result_list P ds) (\<lambda>rs. Inr (r # rs)))"

definition search_route ::
  "search_web \<Rightarrow> 'rd redis \<Rightarrow> 'es es_client \<Rightarrow> int \<Rightarrow> search_params \<Rightarrow> 'rd \<times> 'es
     \<Rightarrow> (search_exn + vehicle_search_result list) \<times> ('rd \<times> 'es)"
where
  "search_route w R E now p st =
     (let (rd, es) = st; cache_key = search_cache_key w (params_json p)
      in if \<not> search_params_valid p then (Inl (SearchPy validation_error), st)
         else case rd_get R now cache_key rd of
           Some cached \<Rightarrow>
             (case sw_load_response w cached of
                None \<Rightarrow> (Inl (SearchPy ValueError), st)
              | Some items \<Rightarrow> (Inr items, st))
         | None \<Rightarrow>
             (case search_vehicles E (sw_float_str w) p es of
                Inl (InvalidSearchQueryError m) \<Rightarrow> (Inl (SearchPy (HTTPException 400 m)), st)
              | Inl x \<Rightarrow> (Inl x, st)
              | Inr documents \<Rightarrow>
                  (case result_list (sw_pydantic w) documents of
                     Inl x \<Rightarrow> (Inl (SearchPy x), st)
                   | Inr items \<Rightarrow>
                       (Inr items,
                        (rd_set R now cache_key (sw_dump_response w items) (sw_query_cache_ttl_seconds w) rd, es)))))"

section \<open>Backfill\<close>

definition PAGE_SIZE :: int where
  "PAGE_SIZE = 100"

definition backfill_event_data :: "dict \<Rightarrow> py_exn + dict" where
  "backfill_event_data vehicle =
     bindE (dict_item vehicle ''id'') (\<lambda>id.
     bindE (dict_item vehicle ''host_id'') (\<lambda>host_id.
     bindE (dict_item vehicle ''make'') (\<lambda>mk.
     bindE (dict_item vehicle ''model'') (\<lambda>model.
     bindE (dict_item vehicle ''year'') (\<lambda>year.
     bindE (dict_item vehicle ''daily_price_cents'') (\<lambda>daily_price_cents.
     bindE (dict_item vehicle ''daily_mileage_limit'') (\<lambda>daily_mileage_limit.
     bindE (dict_item vehicle ''booking_mode'') (\<lambda>booking_mode.
     bindE (dict_item vehicle ''approval_status'') (\<lambda>approval_status.
     bindE (dict_item vehicle ''latitude'') (\<lambda>latitude.
     bindE (dict_item vehicle ''longitude'') (\<lambda>longitude.
     Inr [(''vehicle_id'', id), (''host_id'', host_id), (''make'', mk), (''model'', model), (''year'', year),
          (''daily_price_cents'', daily_price_cents), (''daily_mileage_limit'', daily_mileage_limit),
          (''booking_mode'', booking_mode), (''approval_status'', approval_status),
          (''latitude'', latitude), (''longitude'', longitude)])))))))))))"

text \<open>The inner loop over the items of a page.\<close>

fun backfill_items :: "'es es_client \<Rightarrow> json list \<Rightarrow> int \<Rightarrow> 'es \<Rightarrow> search_exn + (int \<times> 'es)" where
  "backfill_items E [] indexed es = Inr (indexed, es)"
| "backfill_items E (item # items) indexed es =
     bindE (mapErr SearchPy (bindE (json_dict item) backfill_event_data)) (\<lambda>data.
     bindE (handle_vehicle_event E data es) (\<lambda>es.
     backfill_items E items (indexed + 1) es))"

fun json_list :: "json \<Rightarrow> py_exn + json list" where
  "json_list (JArr xs) = Inr xs"
| "json_list _ = Inl TypeError"

text \<open>
  \<open>fetch authorization approval_status limit offset\<close> is the answer to \<^verbatim>\<open>GET /listing/vehicles\<close>: its
  status code and JSON body.  The loop runs as long as the answers name a next page, so it is a
  partial function: \<open>None\<close> means that it never ends.
\<close>

type_synonym page_fetch = "string \<Rightarrow> string \<Rightarrow> int \<Rightarrow> int \<Rightarrow> int \<times> json option"

definition backfill_page ::
  "page_fetch \<Rightarrow> 'es es_client \<Rightarrow> string \<Rightarrow> int \<Rightarrow> int \<Rightarrow> 'es \<Rightarrow> search_exn + (int option \<times> int \<times> 'es)"
where
  "backfill_page fetch E authorization offset indexed es =
     (let (code, body) = fetch authorization ''approved'' PAGE_SIZE offset
      in if \<not> (200 \<le> code \<and> code < 300) then Inl (SearchHTTPStatusError code)
         else bindE (mapErr SearchPy (case body of None \<Rightarrow> Inl ValueError | Some j \<Rightarrow> json_dict j)) (\<lambda>body.
              bindE (mapErr SearchPy (bindE (dict_item body ''items'') json_list)) (\<lambda>items.
              bindE (backfill_items E items indexed es) (\<lambda>(indexed, es).
              bindE (mapErr SearchPy (dict_item body ''next_offset'')) (\<lambda>next_offset.
              if next_offset = JNull then Inr (None, indexed, es)
              else bindE (mapErr SearchPy (json_int next_offset)) (\<lambda>offset. Inr (Some offset, indexed, es)))))))"

partial_function (option) backfill_loop ::
  "page_fetch \<Rightarrow> 'es es_client \<Rightarrow> string \<Rightarrow> int \<Rightarrow> int \<Rightarrow> 'es \<Rightarrow> (search_exn + (int \<times> 'es)) option"
where
  "backfill_loop fetch E authorization offset indexed es =
     (case backfill_page fetch E authorization offset indexed es of
        Inl x \<Rightarrow> Some (Inl x)
      | Inr (None, indexed, es) \<Rightarrow> Some (Inr (indexed, es))
      | Inr (Some offset, indexed, es) \<Rightarrow> backfill_loop fetch E authorization offset indexed es)"

text \<open>The token the job mints for itself is an administrator's access token.\<close>

definition run_backfill ::
  "crypto \<Rightarrow> jwt_settings \<Rightarrow> env \<Rightarrow> page_fetch \<Rightarrow> 'es es_client \<Rightarrow> 'es \<Rightarrow> (search_exn + (int \<times> 'es)) option"
where
  "run_backfill cr st e fetch E es =
     (case ensure_index E es of
        Inl x \<Rightarrow> Some (Inl x)
      | Inr es \<Rightarrow>
          let token = create_token cr (env_now e) (env_uuid4 e 0) ''admin'' ''access'' (jw_secret st) (jw_issuer st) 300
          in backfill_loop fetch E (''Bearer '' @ token) 0 0 es)"

section \<open>What the service relies on\<close>

text \<open>
  Elasticsearch keeps one document per identifier: \<open>docs\<close> reads it.  Indexing replaces the document,
  deleting removes it or reports that there is none, a new index is empty.
\<close>

definition es_documented :: "'es es_client \<Rightarrow> ('es \<Rightarrow> string \<Rightarrow> dict option) \<Rightarrow> bool" where
  "es_documented E docs \<longleftrightarrow>
     (\<forall>i d es es'. es_index E i d es = Inr es' \<longrightarrow> docs es' = (docs es)(i \<mapsto> d)) \<and>
     (\<forall>i es es'. es_delete E i es = Inr es' \<longrightarrow> docs es' = (docs es)(i := None)) \<and>
     (\<forall>i es. es_delete E i es = Inl EsNotFoundError \<longrightarrow> docs es i = None) \<and>
     (\<forall>m es es'. es_index_create E m es = Inr es' \<longrightarrow> docs es' = Map.empty)"

text \<open>No call fails for another reason than a missing document.\<close>

definition es_available :: "'es es_client \<Rightarrow> bool" where
  "es_available E \<longleftrightarrow>
     (\<forall>i d es. \<exists>es'. es_index E i d es = Inr es') \<and>
     (\<forall>i es. es_delete E i es = Inl EsNotFoundError \<or> (\<exists>es'. es_delete E i es = Inr es')) \<and>
     (\<forall>m es. \<exists>es'. es_index_create E m es = Inr es')"

text \<open>Pydantic keeps a value that has the type of the field.\<close>

definition pydantic_documented :: "pydantic \<Rightarrow> bool" where
  "pydantic_documented P \<longleftrightarrow>
     (\<forall>s. pd_str P (JStr s) = Inr s) \<and> (\<forall>i. pd_int P (JInt i) = Inr i) \<and> (\<forall>f. pd_float P (JFloat f) = Inr f)"

section \<open>The read model\<close>

text \<open>
  \<open>document_of v\<close> is the document of a vehicle, \<open>indexed_as v\<close> what the index should hold for it, and
  \<open>indexes m db\<close> says that the index \<open>m\<close> is exactly the approved vehicles of the listing database.
\<close>

definition document_of :: "vehicle \<Rightarrow> dict" where
  "document_of v =
     [(''vehicle_id'', JStr (uuid_str (vl_id v))), (''host_id'', JStr (uuid_str (vl_host_id v))),
      (''make'', JStr (vl_make v)), (''model'', JStr (vl_model v)), (''year'', JInt (vl_year v)),
      (''daily_price_cents'', JInt (vl_daily_price_cents v)),
      (''daily_mileage_limit'', JInt (vl_daily_mileage_limit v)), (''booking_mode'', JStr (vl_booking_mode v)),
      (''location'', JObj [(''lat'', JFloat (vl_latitude v)), (''lon'', JFloat (vl_longitude v))])]"

definition indexed_as :: "vehicle \<Rightarrow> dict option" where
  "indexed_as v = (if vl_approval_status v = ''approved'' then Some (document_of v) else None)"

definition indexes :: "(string \<rightharpoonup> dict) \<Rightarrow> listing_db \<Rightarrow> bool" where
  "indexes m db \<longleftrightarrow>
     (\<forall>i. m (uuid_str i) = Option.bind (vehicle_by_id i db) indexed_as) \<and> dom m \<subseteq> range uuid_str"

definition project_vehicle :: "vehicle \<Rightarrow> (string \<rightharpoonup> dict) \<Rightarrow> (string \<rightharpoonup> dict)" where
  "project_vehicle v m = m(uuid_str (vl_id v) := indexed_as v)"

text \<open>The outbox rows \<open>rows\<close> are snapshots of the vehicles \<open>vs\<close>, with distinct identifiers.\<close>

definition published :: "outbox_row list \<Rightarrow> vehicle list \<Rightarrow> bool" where
  "published rows vs \<longleftrightarrow> distinct (map ob_id rows) \<and>
     list_all2 (\<lambda>r v. \<exists>ty \<in> LISTING_EVENT_TYPES.
       envelope_fields (ob_payload r) = Inr (uuid_str (ob_id r), ty, vehicle_snapshot v)) rows vs"

section \<open>Lemmas\<close>

lemma snapshot_fields [simp]:
  "vehicle_to_document (vehicle_snapshot v) = Inr (document_of v)"
  "str_item (vehicle_snapshot v) ''vehicle_id'' = Inr (uuid_str (vl_id v))"
  "dict_get (vehicle_snapshot v) ''approval_status'' = Some (JStr (vl_approval_status v))"
  by (simp_all add: vehicle_to_document_def vehicle_snapshot_def document_of_def str_item_def)

lemma handle_snapshot:
  assumes "es_documented E docs" "es_available E"
  shows "\<exists>es'. handle_vehicle_event E (vehicle_snapshot v) es = Inr es' \<and> docs es' = project_vehicle v (docs es)"
proof (cases "vl_approval_status v = ''approved''")
  case True
  obtain es' where "es_index E (uuid_str (vl_id v)) (document_of v) es = Inr es'"
    using assms(2) unfolding es_available_def by blast
  then show ?thesis
    using assms(1) True by (auto simp: handle_vehicle_event_def upsert_vehicle_def es_documented_def project_vehicle_def indexed_as_def)
next
  case False
  then have h: "handle_vehicle_event E (vehicle_snapshot v) es = delete_vehicle E (uuid_str (vl_id v)) es"
    by (simp add: handle_vehicle_event_def)
  consider "es_delete E (uuid_str (vl_id v)) es = Inl EsNotFoundError" | es' where "es_delete E (uuid_str (vl_id v)) es = Inr es'"
    using assms(2) unfolding es_available_def by blast
  then show ?thesis
  proof cases
    case 1
    then have "docs es (uuid_str (vl_id v)) = None" using assms(1) by (simp add: es_documented_def)
    then have "project_vehicle v (docs es) = docs es" using False by (auto simp: project_vehicle_def indexed_as_def)
    with 1 h show ?thesis by (simp add: delete_vehicle_def)
  next
    case 2
    then have "docs es' = project_vehicle v (docs es)"
      using assms(1) False by (simp add: es_documented_def project_vehicle_def indexed_as_def)
    with 2 h show ?thesis by (simp add: delete_vehicle_def)
  qed
qed

subsection \<open>The events of the listing are the history of its vehicles\<close>

lemma published_Nil: "published [] []"
  by (simp add: published_def)

lemma published_emitted:
  assumes "published rows vs" "emitted (map (\<lambda>ty. (ty, vehicle_snapshot v)) types) rows rows'"
    and "set types \<subseteq> LISTING_EVENT_TYPES"
  shows "published rows' (vs @ replicate (length types) v)"
proof -
  obtain new where new: "rows' = rows @ new"
    "list_all2 (\<lambda>r (ty, d). envelope_fields (ob_payload r) = Inr (uuid_str (ob_id r), ty, d) \<and>
       ob_id r \<notin> ob_id ` set rows) new (map (\<lambda>ty. (ty, vehicle_snapshot v)) types)"
    using assms(2) unfolding emitted_def by blast
  have "list_all2 (\<lambda>r v. \<exists>ty \<in> LISTING_EVENT_TYPES.
      envelope_fields (ob_payload r) = Inr (uuid_str (ob_id r), ty, vehicle_snapshot v)) new (replicate (length types) v)"
    using new(2) assms(3) by (auto simp: list_all2_conv_all_nth)
  then show ?thesis
    using assms(1) emitted_distinct [OF assms(2)] new(1) by (auto simp: published_def intro: list_all2_appendI)
qed

lemma fold_project_same: "fold project_vehicle (replicate n v) m = (if n = 0 then m else project_vehicle v m)"
  by (induction n arbitrary: m) (auto simp: project_vehicle_def)

lemma indexes_changed:
  assumes "indexes m db" "vehicle_changed db v types v' db'"
  shows "indexes (fold project_vehicle (replicate (length types) v') m) db'"
proof (cases "types = []")
  case True
  have "Option.bind (vehicle_by_id i db') indexed_as = Option.bind (vehicle_by_id i db) indexed_as" for i
    using assms(2) True unfolding vehicle_by_id_changed [OF assms(2)] by (auto simp: vehicle_changed_def indexed_as_def)
  with True assms(1) show ?thesis by (simp add: indexes_def)
next
  case False
  have "vl_id v' = vl_id v" using assms(2) by (simp add: vehicle_changed_def)
  with False assms(1) show ?thesis
    unfolding indexes_def fold_project_same vehicle_by_id_changed [OF assms(2)]
    by (auto simp: project_vehicle_def split: if_splits)
qed

lemma indexes_added:
  assumes "indexes m db" "vehicle_added db v db'"
  shows "indexes m db'"
proof -
  have "vehicle_by_id (vl_id v) db = None" "indexed_as v = None"
    using assms(2) by (simp_all add: vehicle_added_def vehicle_by_id_def find_row_None_iff indexed_as_def)
  with assms(1) show ?thesis unfolding indexes_def vehicle_by_id_added [OF assms(2)] by simp
qed

lemma listing_history:
  "listing_reachable db \<Longrightarrow>
     \<exists>vs. published (ldb_outbox db) vs \<and> indexes (fold project_vehicle vs Map.empty) db"
proof (induction rule: listing_reachable.induct)
  case empty
  then show ?case
    by (intro exI [of _ "[]"]) (simp add: published_Nil indexes_def empty_listing_db_def vehicle_by_id_def)
next
  case (step db db')
  then obtain vs where vs: "published (ldb_outbox db) vs" "indexes (fold project_vehicle vs Map.empty) db" by blast
  from step(2) show ?case
  proof (cases rule: listing_step_cases)
    case (added v)
    then show ?thesis using vs indexes_added [OF vs(2) added] by (auto simp: vehicle_added_def)
  next
    case (changed v types v')
    have "published (ldb_outbox db') (vs @ replicate (length types) v')"
      using changed by (intro published_emitted [OF vs(1)]) (auto simp: vehicle_changed_def LISTING_EVENT_TYPES_def)
    moreover have "indexes (fold project_vehicle (vs @ replicate (length types) v') Map.empty) db'"
      using indexes_changed [OF vs(2) changed] by simp
    ultimately show ?thesis by blast
  next
    case (blocked b)
    then show ?thesis using vs by (auto simp: block_added_def indexes_def vehicle_by_id_def)
  next
    case keys
    then show ?thesis using vs by (auto simp: indexes_def vehicle_by_id_def)
  qed
qed

subsection \<open>The consumer follows the history\<close>

text \<open>No event of \<open>rows\<close> is claimed, now or later.\<close>

definition unclaimed :: "'rd redis \<Rightarrow> int \<Rightarrow> outbox_row list \<Rightarrow> 'rd \<Rightarrow> bool" where
  "unclaimed R t0 rows rd \<longleftrightarrow>
     (\<forall>t \<ge> t0. \<forall>r \<in> set rows. rd_get R t (''processed-event:'' @ uuid_str (ob_id r)) rd = None)"

lemma claim_unclaimed:
  assumes "redis_documented R" "unclaimed R t0 (r # rows) rd" "ob_id r \<notin> ob_id ` set rows" "t0 \<le> t"
  shows "\<exists>rd'. search_claim_event R t (uuid_str (ob_id r)) ttl rd = (True, rd') \<and> unclaimed R t rows rd'"
proof -
  let ?k = "\<lambda>r. ''processed-event:'' @ uuid_str (ob_id r)"
  have free: "rd_get R t (?k r) rd = None" using assms(2,4) unfolding unclaimed_def by simp
  have claim: "fst (rd_set_nx R t (?k r) ''1'' ttl rd)" using redis_laws(1) [OF assms(1)] free by simp
  have "rd_get R t' (?k x) (snd (rd_set_nx R t (?k r) ''1'' ttl rd)) = rd_get R t' (?k x) rd"
    if "x \<in> set rows" "t \<le> t'" for x t'
  proof -
    have "ob_id x \<noteq> ob_id r" using that(1) assms(3) by (metis image_eqI)
    then have "?k x \<noteq> ?k r" by simp
    then show ?thesis using redis_laws(2) [OF assms(1) that(2)] by simp
  qed
  then have "unclaimed R t rows (snd (rd_set_nx R t (?k r) ''1'' ttl rd))"
    using assms(2,4) unfolding unclaimed_def by fastforce
  with claim show ?thesis unfolding search_claim_event_def by (metis (full_types) surjective_pairing)
qed

lemma consumer_follows:
  assumes "es_documented E docs" "es_available E" "redis_documented R"
    and "published rows vs" "length ts = length rows" "sorted (t0 # ts)" "unclaimed R t0 rows rd"
  shows "\<exists>rd' es'. run_search_consumer R E (zip ts (map ob_payload rows)) n (rd, es) = (n + length rows, (rd', es'), None) \<and>
     docs es' = fold project_vehicle vs (docs es)"
  using assms(4-7)
proof (induction rows arbitrary: vs ts t0 rd es n)
  case Nil
  then show ?case by (simp add: published_def)
next
  case (Cons r rows)
  then obtain v vs' t ts' where c: "vs = v # vs'" "ts = t # ts'"
    by (cases vs; cases ts) (auto simp: published_def)
  then obtain ty where ty: "ty \<in> LISTING_EVENT_TYPES" "published rows vs'" "ob_id r \<notin> ob_id ` set rows"
    "envelope_fields (ob_payload r) = Inr (uuid_str (ob_id r), ty, vehicle_snapshot v)"
    using Cons.prems(1) by (auto simp: published_def)
  obtain rd1 where rd1: "search_claim_event R t (uuid_str (ob_id r)) 86400 rd = (True, rd1)" "unclaimed R t rows rd1"
    using claim_unclaimed [OF assms(3) Cons.prems(4) ty(3)] Cons.prems(3) c(2) by (metis (no_types) sorted2)
  obtain es1 where es1: "handle_vehicle_event E (vehicle_snapshot v) es = Inr es1" "docs es1 = project_vehicle v (docs es)"
    using handle_snapshot [OF assms(1,2)] by blast
  have p: "build_listing_event_processor R E 86400 t (uuid_str (ob_id r)) ty (vehicle_snapshot v) (rd, es) =
      (Inr (), (rd1, es1))"
    using ty(1) rd1(1) es1(1) by (simp add: build_listing_event_processor_def)
  obtain rd2 es2 where "run_search_consumer R E (zip ts' (map ob_payload rows)) (Suc n) (rd1, es1) =
      (Suc n + length rows, (rd2, es2), None)" "docs es2 = fold project_vehicle vs' (docs es1)"
    using Cons.IH [OF ty(2) _ _ rd1(2), of ts' "Suc n" es1] Cons.prems(2,3) c(2) by auto
  then show ?case using c ty(4) p es1(2) by simp
qed

subsection \<open>The backfill pages through the approved vehicles\<close>

lemma backfill_event_data_response:
  "bindE (json_dict (vehicle_response v)) backfill_event_data = Inr (vehicle_snapshot v)"
  by (simp add: vehicle_response_def backfill_event_data_def vehicle_snapshot_def)

lemma backfill_items_vehicles:
  assumes "es_documented E docs" "es_available E"
  shows "\<exists>es'. backfill_items E (map vehicle_response vs) n es = Inr (n + int (length vs), es') \<and>
     docs es' = fold project_vehicle vs (docs es)"
proof (induction vs arbitrary: n es)
  case (Cons v vs)
  obtain es1 where es1: "handle_vehicle_event E (vehicle_snapshot v) es = Inr es1" "docs es1 = project_vehicle v (docs es)"
    using handle_snapshot [OF assms] by blast
  obtain es2 where "backfill_items E (map vehicle_response vs) (n + 1) es1 = Inr (n + 1 + int (length vs), es2)"
    "docs es2 = fold project_vehicle vs (docs es1)" using Cons.IH by blast
  then show ?case using es1 backfill_event_data_response [of v] by simp
qed simp

text \<open>A fetch that answers with the pages of \<open>vs\<close>, as the listing's endpoint does.\<close>

definition serves_pages :: "page_fetch \<Rightarrow> string \<Rightarrow> vehicle list \<Rightarrow> bool" where
  "serves_pages fetch authorization vs \<longleftrightarrow>
     (\<forall>offset \<ge> 0. fetch authorization ''approved'' PAGE_SIZE offset = (200, Some (JObj
       [(''items'', JArr (map vehicle_response (take (nat PAGE_SIZE) (drop (nat offset) vs)))),
        (''next_offset'', if offset + PAGE_SIZE < int (length vs) then JInt (offset + PAGE_SIZE) else JNull)])))"

lemma backfill_loop_pages:
  assumes "es_documented E docs" "es_available E" "serves_pages fetch a vs" "0 \<le> offset"
  shows "\<exists>es'. backfill_loop fetch E a offset n es = Some (Inr (n + int (length (drop (nat offset) vs)), es')) \<and>
     docs es' = fold project_vehicle (drop (nat offset) vs) (docs es)"
  using assms(4)
proof (induction "length vs - nat offset" arbitrary: offset n es rule: less_induct)
  case less
  define page where "page = take (nat PAGE_SIZE) (drop (nat offset) vs)"
  define rest where "rest = drop (nat (offset + PAGE_SIZE)) vs"
  obtain es1 where es1: "backfill_items E (map vehicle_response page) n es = Inr (n + int (length page), es1)"
    "docs es1 = fold project_vehicle page (docs es)" using backfill_items_vehicles [OF assms(1,2)] by blast
  have split: "drop (nat offset) vs = page @ rest"
    using less.prems append_take_drop_id [of "nat PAGE_SIZE" "drop (nat offset) vs"]
    by (simp add: page_def rest_def PAGE_SIZE_def nat_add_distrib add.commute)
  have step: "backfill_page fetch E a offset n es =
      Inr (if offset + PAGE_SIZE < int (length vs) then Some (offset + PAGE_SIZE) else None, n + int (length page), es1)"
    using assms(3) less.prems es1(1) by (simp add: backfill_page_def serves_pages_def page_def)
  show ?case
  proof (cases "offset + PAGE_SIZE < int (length vs)")
    case True
    then have "length vs - nat (offset + PAGE_SIZE) < length vs - nat offset" "0 \<le> offset + PAGE_SIZE"
      using less.prems by (simp_all add: PAGE_SIZE_def)
    from less.hyps [OF this, of "n + int (length page)" es1] obtain es2 where
      "backfill_loop fetch E a (offset + PAGE_SIZE) (n + int (length page)) es1 =
         Some (Inr (n + int (length page) + int (length rest), es2))"
      "docs es2 = fold project_vehicle rest (docs es1)" unfolding rest_def by blast
    with True step es1(2) show ?thesis
      unfolding split by (subst backfill_loop.simps) simp
  next
    case False
    then have "rest = []" using less.prems by (simp add: rest_def PAGE_SIZE_def)
    with False step es1(2) show ?thesis
      unfolding split by (subst backfill_loop.simps) simp
  qed
qed

lemma fold_project_distinct:
  "distinct (map vl_id vs) \<Longrightarrow>
     fold project_vehicle vs m (uuid_str i) = (case find_row vl_id i vs of None \<Rightarrow> m (uuid_str i) | Some v \<Rightarrow> indexed_as v)"
proof (induction vs arbitrary: m)
  case (Cons v vs)
  have "find_row vl_id i vs = None" if "vl_id v = i" using Cons.prems that by (auto simp: find_row_None_iff)
  with Cons show ?case by (auto simp: project_vehicle_def split: option.split)
qed simp

lemma dom_fold_project: "dom m \<subseteq> range uuid_str \<Longrightarrow> dom (fold project_vehicle vs m) \<subseteq> range uuid_str"
proof (induction vs arbitrary: m)
  case (Cons v vs)
  have "dom (project_vehicle v m) \<subseteq> range uuid_str"
    using Cons.prems by (auto simp: project_vehicle_def split: if_splits)
  from Cons.IH [OF this] show ?case by simp
qed simp

definition approved_vehicles :: "listing_db \<Rightarrow> vehicle list" where
  "approved_vehicles db =
     sort_key (\<lambda>v. (vl_created_at v, vl_id v)) (filter (\<lambda>v. vl_approval_status v = ''approved'') (ldb_vehicles db))"

lemma approved_vehicles_index:
  assumes "listing_inv db"
  shows "indexes (fold project_vehicle (approved_vehicles db) Map.empty) db"
proof -
  have set: "set (approved_vehicles db) = {v \<in> set (ldb_vehicles db). vl_approval_status v = ''approved''}"
    by (simp add: approved_vehicles_def)
  have inj: "inj_on vl_id (set (ldb_vehicles db))" and d: "distinct (ldb_vehicles db)"
    using assms by (simp_all add: listing_inv_def distinct_map)
  have "distinct (map vl_id (approved_vehicles db))"
    using d by (auto simp: distinct_map approved_vehicles_def intro: inj_on_subset [OF inj])
  note fold = fold_project_distinct [OF this]
  have "fold project_vehicle (approved_vehicles db) Map.empty (uuid_str i) = Option.bind (vehicle_by_id i db) indexed_as" for i
  proof (cases "find_row vl_id i (approved_vehicles db)")
    case None
    then have "i \<notin> vl_id ` {v \<in> set (ldb_vehicles db). vl_approval_status v = ''approved''}"
      using set by (simp add: find_row_None_iff)
    then have "Option.bind (vehicle_by_id i db) indexed_as = None"
      by (cases "vehicle_by_id i db") (auto simp: indexed_as_def dest!: vehicle_by_id_SomeD)
    with None show ?thesis by (simp add: fold)
  next
    case (Some v)
    then have v: "v \<in> set (ldb_vehicles db)" "vl_id v = i" using find_row_SomeD [OF Some] set by auto
    then have "vehicle_by_id i db = Some v"
      using find_row_distinct [of vl_id "ldb_vehicles db" v] assms by (simp add: vehicle_by_id_def listing_inv_def)
    with Some show ?thesis by (simp add: fold)
  qed
  then show ?thesis using dom_fold_project [of Map.empty] by (simp add: indexes_def)
qed

end
