(* ===== verification/Vehicle_Source.thy ===== *)
theory Vehicle_Source
  imports Booking_Service Listing_Routes
begin

text \<open>
  The call from the booking service to the listing service.  The locale \<open>vehicle_source\<close> is what
  the booking service relies on: a vehicle that \<^verbatim>\<open>ListingClient.get_vehicle\<close> returns is the one the
  listing currently has.  The interpretation \<open>listing_api\<close> discharges it for the listing service's
  own endpoint, reached through HTTP: the JSON one side prints is what the other side reads.
\<close>

section \<open>The listing service as an HTTP server\<close>

text \<open>FastAPI's answer: the body of the endpoint, the \<^verbatim>\<open>HTTPException\<close>, or 500.\<close>

fun http_answer :: "listing_exn + json \<Rightarrow> http_response" where
  "http_answer (Inr body) = \<lparr>hr_status_code = 200, hr_json = Some body\<rparr>"
| "http_answer (Inl (ListingPy (HTTPException code detail))) =
     \<lparr>hr_status_code = code, hr_json = Some (JObj [(''detail'', JStr detail)])\<rparr>"
| "http_answer (Inl _) = \<lparr>hr_status_code = 500, hr_json = None\<rparr>"

text \<open>
  \<^verbatim>\<open>GET {base_url}/listing/vehicles/{vehicle_id}\<close>; the path parameter is parsed as a UUID before
  the endpoint runs.
\<close>

definition listing_server :: "listing_web \<Rightarrow> string \<Rightarrow> listing_db \<Rightarrow> http_get" where
  "listing_server w base_url db url authorization =
     (let prefix = rstrip_slash base_url @ ''/listing/vehicles/''
      in if take (length prefix) url = prefix
         then (case uuid_parse (drop (length prefix) url) of
                 None \<Rightarrow> \<lparr>hr_status_code = 422, hr_json = None\<rparr>
               | Some vehicle_id \<Rightarrow> http_answer (get_vehicle_route w (Some authorization) vehicle_id db))
         else \<lparr>hr_status_code = 404, hr_json = None\<rparr>)"

text \<open>What the client keeps of a vehicle.\<close>

definition info_of :: "vehicle \<Rightarrow> vehicle_info" where
  "info_of v =
     \<lparr>vi_id = vl_id v, vi_host_id = vl_host_id v, vi_daily_price_cents = vl_daily_price_cents v,
      vi_daily_mileage_limit = vl_daily_mileage_limit v, vi_booking_mode = vl_booking_mode v,
      vi_approval_status = vl_approval_status v\<rparr>"

section \<open>What the booking service relies on\<close>

locale vehicle_source =
  fixes http :: http_get
    and base :: string
    and current :: "uuid \<Rightarrow> vehicle_info option"
  assumes get_vehicle_current: "get_vehicle http base i token = Inr vi \<Longrightarrow> current i = Some vi"
begin

text \<open>A new booking copies its terms from the vehicle as it is listed, and only approved vehicles are booked.\<close>

lemma request_copies_terms:
  assumes "request_booking e http base r i sd ed token db = Inr (b, db')"
  shows "\<exists>vi. current i = Some vi \<and> vi_approval_status vi = ''approved'' \<and> bk_vehicle_id b = i \<and>
    bk_host_id b = vi_host_id vi \<and> bk_daily_price_cents b = vi_daily_price_cents vi \<and>
    bk_daily_mileage_limit b = vi_daily_mileage_limit vi \<and> bk_booking_mode b = vi_booking_mode vi"
  using assms
proof (cases rule: request_booking_created)
  case (1 vi)
  then show ?thesis using get_vehicle_current [of i token vi] by simp
qed

lemma unlisted_not_booked:
  "current i = None \<Longrightarrow> \<exists>x. request_booking e http base r i sd ed token db = Inl x"
  using request_copies_terms by (cases "request_booking e http base r i sd ed token db") fastforce+

end

section \<open>The listing service provides it\<close>

lemma listing_server_url [simp]:
  "listing_server w base db (rstrip_slash base @ ''/listing/vehicles/'' @ uuid_str i) authorization =
     http_answer (get_vehicle_route w (Some authorization) i db)"
  by (simp add: listing_server_def)

lemma get_vehicle_server:
  "get_vehicle (listing_server w base db) base i token =
     get_vehicle (\<lambda>_ _. http_answer (get_vehicle_route w (Some (''Bearer '' @ token)) i db)) base i token"
  by (simp only: get_vehicle_def listing_server_url)

text \<open>The client reads back what the server printed, and an error answer is never read as a vehicle.\<close>

lemma read_vehicle_response:
  "get_vehicle (\<lambda>_ _. http_answer (Inr (vehicle_response v))) base i token = Inr (info_of v)"
  by (simp add: get_vehicle_def response_json_def vehicle_response_def uuid_item_def int_item_def str_item_def info_of_def)

lemma read_error_answer:
  "get_vehicle (\<lambda>_ _. http_answer (Inl x)) base i token \<noteq> Inr vi"
  by (cases "Inl x :: listing_exn + json" rule: http_answer.cases)
    (auto simp: get_vehicle_def response_json_def uuid_item_def Let_def)

lemma get_vehicle_route_Inr:
  "get_vehicle_route w a i db = Inr body \<Longrightarrow> \<exists>v. vehicle_by_id i db = Some v \<and> body = vehicle_response v"
  by (auto simp: get_vehicle_route_def get_vehicle_for_viewer_def Let_def result_simps split: option.splits if_splits)

lemma listing_current:
  assumes "get_vehicle (listing_server w base db) base i token = Inr vi"
  shows "map_option info_of (vehicle_by_id i db) = Some vi"
proof (cases "get_vehicle_route w (Some (''Bearer '' @ token)) i db")
  case (Inl x)
  then show ?thesis using assms read_error_answer unfolding get_vehicle_server Inl by metis
next
  case (Inr body)
  with get_vehicle_route_Inr obtain v where v: "vehicle_by_id i db = Some v" "body = vehicle_response v" by blast
  then show ?thesis using assms unfolding get_vehicle_server Inr v(2) read_vehicle_response by simp
qed

interpretation listing_api: vehicle_source "listing_server w base db" base "\<lambda>i. map_option info_of (vehicle_by_id i db)"
  for w base db
  by unfold_locales (rule listing_current)

end
