(* ===== verification/Listing_Properties.thy ===== *)
theory Listing_Properties
  imports Vehicle_Source Booking_Properties
begin

text \<open>
  Properties of the listing service over all databases it can reach, and of the bookings that are
  made from its vehicles, each with a concrete run on which its hypotheses hold.
\<close>

section \<open>A sample run\<close>

text \<open>Host 5 lists a vehicle, which an administrator approves; the host then blocks a week.\<close>

definition sample_added :: listing_db where
  "sample_added = after empty_listing_db
     (create_vehicle (sample_env 1) 5 ''VW'' ''Golf'' 2020 4000 100 ''instant'' (Finite 52) (Finite 13) empty_listing_db)"

definition sample_approved :: listing_db where
  "sample_approved = after sample_added (approve_vehicle (sample_env 11) 1 sample_added)"

definition sample_blocked :: listing_db where
  "sample_blocked = after sample_approved (add_availability_block (sample_env 21) 1 5 10 16 sample_approved)"

definition sample_listed :: vehicle where
  "sample_listed =
     \<lparr>vl_id = 1, vl_host_id = 5, vl_make = ''VW'', vl_model = ''Golf'', vl_year = 2020, vl_daily_price_cents = 4000,
      vl_daily_mileage_limit = 100, vl_booking_mode = ''instant'', vl_approval_status = ''approved'',
      vl_latitude = Finite 52, vl_longitude = Finite 13, vl_created_at = 0\<rparr>"

lemmas listing_run_simps =
  create_vehicle_def vehicle_create_def approve_vehicle_def vehicle_save_def vehicle_outbox_event_def
  add_availability_block_def get_owned_vehicle_def block_create_def blocks_overlap_def vehicle_by_id_def
  vehicle_columns_ok_def vehicle_checks_ok_def varchar_ok_def int4_ok_def write_outbox_event_def
  update_row_def empty_listing_db_def Let_def after_def

lemma sample_added_run:
  "create_vehicle (sample_env 1) 5 ''VW'' ''Golf'' 2020 4000 100 ''instant'' (Finite 52) (Finite 13) empty_listing_db =
     Inr (sample_listed\<lparr>vl_approval_status := ''pending''\<rparr>, sample_added)"
  "ldb_vehicles sample_added = [sample_listed\<lparr>vl_approval_status := ''pending''\<rparr>]"
  "ldb_outbox sample_added = []" "ldb_blocks sample_added = []" "ldb_idem sample_added = []"
  by (simp_all add: sample_added_def sample_listed_def listing_run_simps)

lemma sample_approved_run:
  "approve_vehicle (sample_env 11) 1 sample_added = Inr (sample_listed, sample_approved)"
  "ldb_vehicles sample_approved = [sample_listed]" "ldb_blocks sample_approved = []" "ldb_idem sample_approved = []"
  "ldb_outbox sample_approved =
     [\<lparr>ob_id = 11, ob_aggregatetype = ''vehicle'', ob_aggregateid = uuid_str 1, ob_type = ''vehicle_approved'',
       ob_payload = JObj (outbox_envelope (sample_env 11) 11 ''vehicle_approved'' (vehicle_snapshot sample_listed))\<rparr>]"
  by (simp_all add: sample_approved_def sample_added_run sample_listed_def listing_run_simps)

lemma sample_blocked_run:
  "add_availability_block (sample_env 21) 1 5 10 16 sample_approved =
     Inr (\<lparr>ab_id = 21, ab_vehicle_id = 1, ab_start_date = 10, ab_end_date = 16\<rparr>, sample_blocked)"
  "ldb_vehicles sample_blocked = [sample_listed]"
  "ldb_blocks sample_blocked = [\<lparr>ab_id = 21, ab_vehicle_id = 1, ab_start_date = 10, ab_end_date = 16\<rparr>]"
  by (simp_all add: sample_blocked_def sample_approved_run sample_listed_def listing_run_simps)

lemma sample_listing_reachable:
  "listing_reachable sample_added" "listing_reachable sample_approved" "listing_reachable sample_blocked"
  "listing_step sample_approved sample_blocked"
proof -
  show 1: "listing_reachable sample_added"
    by (rule listing_reachable.step [OF listing_reachable.empty listing_step.create [OF sample_added_run(1)]])
  show 2: "listing_reachable sample_approved"
    by (rule listing_reachable.step [OF 1 listing_step.approve [OF sample_approved_run(1)]])
  show 3: "listing_step sample_approved sample_blocked" by (rule listing_step.block [OF sample_blocked_run(1)])
  show "listing_reachable sample_blocked" by (rule listing_reachable.step [OF 2 3])
qed

lemma sample_vehicle_approved: "vehicle_by_id 1 sample_approved = Some sample_listed"
  by (simp add: vehicle_by_id_def sample_approved_run) (simp add: sample_listed_def)

section \<open>Approval\<close>

text \<open>
  Whatever the listing service does afterwards, a vehicle keeps its owner, and once it is approved
  or rejected it stays so; no vehicle ever disappears.
\<close>

theorem approval_final:
  assumes "listing_step\<^sup>*\<^sup>* db db'" "vehicle_by_id i db = Some v"
  shows "\<exists>v'. vehicle_by_id i db' = Some v' \<and> vl_host_id v' = vl_host_id v \<and>
    approval_step (vl_approval_status v) (vl_approval_status v')"
  using assms(1)
proof (induction rule: rtranclp_induct)
  case (step db1 db2)
  then obtain v1 where v1: "vehicle_by_id i db1 = Some v1" "vl_host_id v1 = vl_host_id v"
    "approval_step (vl_approval_status v) (vl_approval_status v1)" by blast
  from listing_step_vehicle [OF step(2) v1(1)] obtain v2 where "vehicle_by_id i db2 = Some v2"
    "vl_host_id v2 = vl_host_id v1" "approval_step (vl_approval_status v1) (vl_approval_status v2)" by blast
  with v1 show ?case by (auto simp: approval_step_def)
qed (use assms(2) in simp)

theorem approval_final_witness:
  "\<exists>v'. vehicle_by_id 1 sample_blocked = Some v' \<and> vl_host_id v' = 5 \<and> vl_approval_status v' = ''approved''"
  using approval_final [of sample_approved sample_blocked, OF r_into_rtranclp sample_vehicle_approved,
      OF sample_listing_reachable(4)]
  by (simp add: sample_listed_def approval_step_def)


text \<open>A client of the listing service with a fixed role and subject.\<close>

definition listing_client :: "string \<Rightarrow> uuid \<Rightarrow> listing_web" where
  "listing_client role sub =
     \<lparr>wb_jwt = \<lparr>jw_decode = (\<lambda>token secret algs issuer. Some [(''type'', JStr ''access''), (''role'', JStr role),
                                                          (''sub'', JStr (uuid_str sub))]),
               jw_secret = ''s'', jw_issuer = ''carflow-auth''\<rparr>,
      wb_sha256_hex = (\<lambda>body. body), wb_dumps = (\<lambda>j. ''{}''), lw_isoformat = (\<lambda>d. ''d'')\<rparr>"

definition listing_rq :: http_request where
  "listing_rq = \<lparr>rq_authorization = Some ''bearer t'', rq_idempotency_key = Some ''k1'', rq_body = ''''\<rparr>"

lemma listing_client_claims [simp]:
  "claims_dependency (wb_jwt (web.truncate (listing_client role sub))) ''access'' (rq_authorization listing_rq) =
     Inr [(''type'', JStr ''access''), (''role'', JStr role), (''sub'', JStr (uuid_str sub))]"
  "consumer_id_resolver (wb_jwt (web.truncate (listing_client role sub))) (rq_authorization listing_rq) = uuid_str sub"
  by (simp_all add: claims_dependency_def consumer_id_resolver_def bearer_token_def after_space_def decode_token_def
      listing_client_def listing_rq_def char_lower_def web.defs)

lemma listing_guard:
  "find_idem c ''k1'' rows = None \<Longrightarrow> idempotency_guard_dependency sha (rq_idempotency_key listing_rq) c body rows =
     Inr \<lparr>ig_consumer_id = c, ig_key = ''k1'', ig_request_hash = sha body, ig_replay_body = None, ig_replay_status = None\<rparr>"
  by (simp add: idempotency_guard_dependency_def listing_rq_def hash_request_body_def)



section \<open>Availability blocks\<close>

text \<open>
  C24: no day of a vehicle is covered by two availability blocks, and every block belongs to a
  vehicle of the table and has its dates in order.
\<close>

theorem availability_blocks_disjoint:
  assumes "listing_reachable db" "a \<in> set (ldb_blocks db)" "b \<in> set (ldb_blocks db)"
  shows "ab_start_date a \<le> ab_end_date a \<and> (\<exists>v. vehicle_by_id (ab_vehicle_id a) db = Some v) \<and>
    (a \<noteq> b \<and> ab_vehicle_id a = ab_vehicle_id b \<longrightarrow>
       \<not> (\<exists>day. ab_start_date a \<le> day \<and> day \<le> ab_end_date a \<and> ab_start_date b \<le> day \<and> day \<le> ab_end_date b))"
proof -
  from listing_reachable_inv [OF assms(1)] have inv:
    "ab_start_date a \<le> ab_end_date a" "ab_vehicle_id a \<in> vl_id ` set (ldb_vehicles db)"
    "a \<noteq> b \<longrightarrow> \<not> blocks_overlap a b"
    using assms(2,3) unfolding listing_inv_def by blast+
  then have "vehicle_by_id (ab_vehicle_id a) db \<noteq> None" by (simp add: vehicle_by_id_def find_row_None_iff)
  with inv show ?thesis by (auto simp: blocks_overlap_def)
qed

theorem availability_blocks_disjoint_witness:
  "ldb_blocks sample_blocked = [\<lparr>ab_id = 21, ab_vehicle_id = 1, ab_start_date = 10, ab_end_date = 16\<rparr>] \<and>
   (\<exists>v. vehicle_by_id 1 sample_blocked = Some v)"
  using availability_blocks_disjoint [OF sample_listing_reachable(3), of "hd (ldb_blocks sample_blocked)" "hd (ldb_blocks sample_blocked)"]
  by (simp add: sample_blocked_run(3))

section \<open>Bookings are made from the listed vehicle\<close>

text \<open>
  C22: a booking made through the listing service's own endpoint has the owner, price, mileage limit
  and booking mode that the vehicle has in the listing database at that moment, and the vehicle
  is approved there; a vehicle the listing does not have cannot be booked.
\<close>

theorem booking_copies_listing:
  "(request_booking e (listing_server w base ldb) base renter i sd ed token db = Inr (b, db') \<longrightarrow>
     (\<exists>v. vehicle_by_id i ldb = Some v \<and> vl_approval_status v = ''approved'' \<and> bk_vehicle_id b = i \<and>
        bk_host_id b = vl_host_id v \<and> bk_daily_price_cents b = vl_daily_price_cents v \<and>
        bk_daily_mileage_limit b = vl_daily_mileage_limit v \<and> bk_booking_mode b = vl_booking_mode v)) \<and>
   (vehicle_by_id i ldb = None \<longrightarrow>
     (\<exists>x. request_booking e (listing_server w base ldb) base renter i sd ed token db = Inl x))"
proof (intro conjI impI)
  assume "request_booking e (listing_server w base ldb) base renter i sd ed token db = Inr (b, db')"
  from listing_api.request_copies_terms [OF this]
  show "\<exists>v. vehicle_by_id i ldb = Some v \<and> vl_approval_status v = ''approved'' \<and> bk_vehicle_id b = i \<and>
        bk_host_id b = vl_host_id v \<and> bk_daily_price_cents b = vl_daily_price_cents v \<and>
        bk_daily_mileage_limit b = vl_daily_mileage_limit v \<and> bk_booking_mode b = vl_booking_mode v"
    by (auto simp: info_of_def)
next
  assume "vehicle_by_id i ldb = None"
  then show "\<exists>x. request_booking e (listing_server w base ldb) base renter i sd ed token db = Inl x"
    using listing_api.unlisted_not_booked by simp
qed

lemma sample_get_vehicle:
  "get_vehicle (listing_server (listing_client ''renter'' 7) ''http://l'' sample_approved) ''http://l'' 1 ''t'' =
     Inr (info_of sample_listed)"
proof -
  have "get_vehicle_route (listing_client ''renter'' 7) (Some (''Bearer '' @ ''t'')) 1 sample_approved =
      Inr (vehicle_response sample_listed)"
    using sample_vehicle_approved unfolding get_vehicle_route_def claims_dependency_Bearer
    by (simp add: decode_token_def listing_client_def subject_def uuid_item_def get_vehicle_for_viewer_def Let_def
        sample_listed_def)
  then show ?thesis by (simp only: get_vehicle_server read_vehicle_response)
qed

theorem booking_copies_listing_witness:
  "\<exists>b db' v. request_booking (sample_env 31) (listing_server (listing_client ''renter'' 7) ''http://l'' sample_approved)
      ''http://l'' 7 1 20 22 ''t'' empty_booking_db = Inr (b, db') \<and>
    vehicle_by_id 1 sample_approved = Some v \<and> bk_daily_price_cents b = vl_daily_price_cents v"
proof -
  obtain b db' where r: "request_booking (sample_env 31) (listing_server (listing_client ''renter'' 7) ''http://l'' sample_approved)
      ''http://l'' 7 1 20 22 ''t'' empty_booking_db = Inr (b, db')"
    by (simp add: booking_run_simps sample_get_vehicle info_of_def sample_listed_def)
  with booking_copies_listing [of "sample_env 31" "listing_client ''renter'' 7" "''http://l''" sample_approved 7 1 20 22 "''t''"
      empty_booking_db b db']
  show ?thesis by metis
qed

section \<open>Two concurrent requests with one key\<close>

text \<open>
  C25: the idempotency key does not protect against two requests in flight at the same time: when the
  second request looked up its key before the first one committed, it still runs its endpoint,
  commits a second vehicle, and answers with the first one's stored response, so its caller never
  learns of it.
\<close>

theorem concurrent_key_two_vehicles:
  assumes first: "create_vehicle_route w e parse rq db = (Inr r, db1)"
    and early: "idempotency_guard_dependency (wb_sha256_hex (web.truncate w)) (rq_idempotency_key rq)
      (consumer_id_resolver (wb_jwt (web.truncate w)) (rq_authorization rq)) (rq_body rq) (ldb_idem db) = Inr g"
    and fresh: "\<not> is_replay g"
    and second: "create_vehicle_build w e' claims p db1 = Inr (s, session)"
  shows "\<exists>v. respond_idempotently ldb_idem (\<lambda>rows db. db\<lparr>ldb_idem := rows\<rparr>) ListingPy now g 201
       (create_vehicle_build w e' claims p) db1 = (Inr r, db1\<lparr>ldb_vehicles := ldb_vehicles db1 @ [v]\<rparr>)"
proof -
  obtain cl pl where req: "listing_keys.request (wb_sha256_hex (web.truncate w)) (env_now e) (rq_idempotency_key rq)
      (consumer_id_resolver (wb_jwt (web.truncate w)) (rq_authorization rq)) (rq_body rq) 201
      (create_vehicle_build w e cl pl) db = (Inr r, db1)"
    using listing_keys.route_answered [OF first [unfolded create_vehicle_route_def]] by blast
  obtain v where v: "session = db1\<lparr>ldb_vehicles := ldb_vehicles db1 @ [v]\<rparr>"
    using second by (auto simp: create_vehicle_build_def result_simps vehicle_added_def dest!: create_vehicle_added)
  from guard_dependency_Inr_key [OF early] fresh obtain key where g: "rq_idempotency_key rq = Some key"
    "ig_consumer_id g = consumer_id_resolver (wb_jwt (web.truncate w)) (rq_authorization rq)" "ig_key g = key"
    "ig_request_hash g = wb_sha256_hex (web.truncate w) (rq_body rq)" by auto
  have "\<exists>row. find_idem (ig_consumer_id g) key (ldb_idem db1) = Some row \<and> ir_request_hash row = ig_request_hash g \<and>
      r = \<lparr>rsp_content = ir_response_body row, rsp_status_code = ir_status_code row\<rparr>"
    using req listing_builds_keep_idem(1) by (cases rule: listing_keys.request_effect) (use g in auto)
  then show ?thesis
    using v fresh second g(3)
    by (auto simp: respond_idempotently_def guard_store_def is_replay_def replay_response_def)
qed

definition sample_payload :: create_vehicle_payload where
  "sample_payload =
     \<lparr>cv_make = ''VW'', cv_model = ''Golf'', cv_year = 2020, cv_daily_price_cents = 4000, cv_daily_mileage_limit = 100,
      cv_booking_mode = ''instant'', cv_latitude = Finite 52, cv_longitude = Finite 13\<rparr>"

lemma sample_payload_valid: "validated create_vehicle_valid (\<lambda>_. Some sample_payload) body = Some sample_payload"
  by (simp add: validated_def create_vehicle_valid_def sample_payload_def name_valid_def year_valid_def mode_valid_def
      latitude_valid_def longitude_valid_def)

lemma sample_create_build:
  "create_vehicle_build (listing_client ''host'' 5) (sample_env 1)
     [(''type'', JStr ''access''), (''role'', JStr ''host''), (''sub'', JStr (uuid_str 5))] sample_payload empty_listing_db =
   Inr (''{}'', sample_added)"
  using sample_added_run(1)
  by (simp add: create_vehicle_build_def subject_def uuid_item_def vehicle_result_def sample_payload_def)
    (simp add: listing_client_def)

theorem concurrent_key_two_vehicles_witness:
  "\<exists>r db1 g v. create_vehicle_route (listing_client ''host'' 5) (sample_env 1) (\<lambda>_. Some sample_payload) listing_rq
      empty_listing_db = (Inr r, db1) \<and>
    respond_idempotently ldb_idem (\<lambda>rows db. db\<lparr>ldb_idem := rows\<rparr>) ListingPy 0 g 201
       (create_vehicle_build (listing_client ''host'' 5) (sample_env 51)
          [(''type'', JStr ''access''), (''role'', JStr ''host''), (''sub'', JStr (uuid_str 5))] sample_payload) db1 =
      (Inr r, db1\<lparr>ldb_vehicles := ldb_vehicles db1 @ [v]\<rparr>)"
proof -
  let ?w = "listing_client ''host'' 5"
  let ?cl = "[(''type'', JStr ''access''), (''role'', JStr ''host''), (''sub'', JStr (uuid_str 5))]"
  define g where "g = \<lparr>ig_consumer_id = uuid_str 5, ig_key = ''k1'', ig_request_hash = wb_sha256_hex (web.truncate ?w) (rq_body listing_rq),
    ig_replay_body = None, ig_replay_status = None\<rparr>"
  have none: "find_idem (uuid_str 5) ''k1'' (ldb_idem empty_listing_db) = None"
    by (simp add: empty_listing_db_def find_idem_def)
  obtain r db1 where first: "create_vehicle_route ?w (sample_env 1) (\<lambda>_. Some sample_payload) listing_rq empty_listing_db = (Inr r, db1)"
    and rows: "ldb_vehicles db1 = ldb_vehicles sample_added"
    by (simp add: create_vehicle_route_def idempotent_route_def listing_guard [OF none] require_role_def sample_payload_valid
        respond_idempotently_def is_replay_def sample_create_build [simplified] guard_store_def sample_added_run(5) find_idem_def)
  have early: "idempotency_guard_dependency (wb_sha256_hex (web.truncate ?w)) (rq_idempotency_key listing_rq)
      (consumer_id_resolver (wb_jwt (web.truncate ?w)) (rq_authorization listing_rq)) (rq_body listing_rq)
      (ldb_idem empty_listing_db) = Inr g" by (simp add: listing_guard [OF none] g_def)
  obtain s session where "create_vehicle_build ?w (sample_env 51) ?cl sample_payload db1 = Inr (s, session)"
    by (simp add: create_vehicle_build_def subject_def uuid_item_def vehicle_result_def sample_payload_def listing_run_simps
        rows sample_added_run sample_listed_def)
  from concurrent_key_two_vehicles [OF first early _ this, of 0] first show ?thesis
    by (auto simp: g_def is_replay_def)
qed

end
