(* ===== verification/Auth_Properties.thy ===== *)
theory Auth_Properties
  imports Auth Booking_Properties
begin

text \<open>
  Properties of the auth service: who can become what, and that the tokens it issues are the ones the
  other services accept.
\<close>

section \<open>A sample registration\<close>

text \<open>
  Libraries on which the hypotheses hold: a password hasher that returns the password itself, and
  a token format that writes the number of a payload in unary.
\<close>

definition plain_crypto :: crypto where
  "plain_crypto =
     \<lparr>cr_hash = (\<lambda>salt p. p), cr_verify = (\<lambda>h p. Some (h = p)),
      cr_encode = (\<lambda>payload secret alg. replicate (to_nat payload) (CHR ''a''))\<rparr>"

definition plain_jwt :: jwt_settings where
  "plain_jwt =
     \<lparr>jw_decode = (\<lambda>token secret algs issuer. Some (from_nat (length token))), jw_secret = ''s'', jw_issuer = ''carflow-auth''\<rparr>"

definition auth_sample :: auth_web where
  "auth_sample =
     \<lparr>wb_jwt = plain_jwt, wb_sha256_hex = (\<lambda>body. body), wb_dumps = (\<lambda>j. ''{}''), aw_crypto = plain_crypto,
      aw_access_token_ttl_seconds = 900, aw_refresh_token_ttl_seconds = 604800\<rparr>"

lemma plain_documented: "hasher_documented plain_crypto" "jwt_documented plain_jwt plain_crypto now"
  by (simp_all add: hasher_documented_def jwt_documented_def plain_crypto_def plain_jwt_def)

definition sample_user_payload :: register_payload where
  "sample_user_payload = \<lparr>rp_email = ''a@b.de'', rp_name = ''A'', rp_password = ''password'', rp_role = ''host''\<rparr>"

definition sample_register_rq :: http_request where
  "sample_register_rq = \<lparr>rq_authorization = None, rq_idempotency_key = Some ''k'', rq_body = ''''\<rparr>"

definition sample_registered :: auth_db where
  "sample_registered = snd (register_route auth_sample (\<lambda>_. True) 0 (sample_env 1) (\<lambda>_. Some sample_user_payload)
     sample_register_rq empty_auth_db)"

lemma sample_registered_users:
  "adb_users sample_registered =
     [\<lparr>us_id = 1, us_email = ''a@b.de'', us_name = ''A'', us_password_hash = ''password'', us_role = ''host''\<rparr>]"
  "auth_reachable sample_registered"
proof -
  show "adb_users sample_registered =
     [\<lparr>us_id = 1, us_email = ''a@b.de'', us_name = ''A'', us_password_hash = ''password'', us_role = ''host''\<rparr>]"
    by (simp add: sample_registered_def register_route_def idempotency_guard_dependency_def sample_register_rq_def
        empty_auth_db_def find_idem_def hash_request_body_def validated_def register_valid_def sample_user_payload_def
        respond_idempotently_def is_replay_def register_build_def register_user_def user_by_email_def user_create_def
        user_columns_ok_def varchar_ok_def auth_roles_def guard_store_def hash_password_def Let_def auth_sample_def
        plain_crypto_def)
  show "auth_reachable sample_registered"
    unfolding sample_registered_def
    by (rule auth_reachable.register [OF auth_reachable.empty]) (rule surjective_pairing)
qed

section \<open>Accounts\<close>



section \<open>Tokens\<close>

text \<open>
  C26: what the auth service issues is what every service accepts: after a login, the access token
  passes the token check at any time until it expires and carries the user's identifier and role;
  the refresh token is refused there, but the refresh endpoint takes it until it expires and
  issues a new pair for the same user.
\<close>

theorem login_token_accepted:
  assumes "login_route w now email password db = Inr (access, refresh)"
    and "jwt_documented (wb_jwt w) (aw_crypto w) now'" "now \<le> now'" "auth_inv db"
  shows "\<exists>u. user_by_email email db = Some u \<and>
    (now' < now + aw_access_token_ttl_seconds w \<longrightarrow>
      (\<exists>claims. claims_dependency (wb_jwt w) ''access'' (Some (''Bearer '' @ access)) = Inr claims \<and>
         subject claims = Inr (us_id u) \<and> (\<forall>r. require_role claims [r] = Inr () \<longleftrightarrow> r = us_role u))) \<and>
    (now' < now + aw_refresh_token_ttl_seconds w \<longrightarrow>
      claims_dependency (wb_jwt w) ''access'' (Some (''Bearer '' @ refresh)) =
        Inl (HTTPException 401 ''expected a access token'') \<and>
      refresh_route w now' refresh db = Inr (issue_token_pair w now' u))"
proof -
  obtain u where u: "user_by_email email db = Some u" "(access, refresh) = issue_token_pair w now u"
    using assms(1)
    by (auto simp: login_route_def authenticate_user_def bindE_eq_Inr mapErr_eq_Inr
        split: option.splits sum.splits auth_exn.splits if_splits)
  have found: "user_by_id (us_id u) db = Some u"
    using find_row_distinct [of us_id "adb_users db" u] find_row_SomeD [OF u(1) [unfolded user_by_email_def]] assms(4)
    by (simp add: user_by_id_def auth_inv_def)
  note dec = create_token_decoded [OF assms(2,3)]
  have toks: "access = create_token (aw_crypto w) now (us_id u) (us_role u) ''access'' (jw_secret (wb_jwt w)) (jw_issuer (wb_jwt w)) (aw_access_token_ttl_seconds w)"
    "refresh = create_token (aw_crypto w) now (us_id u) (us_role u) ''refresh'' (jw_secret (wb_jwt w)) (jw_issuer (wb_jwt w)) (aw_refresh_token_ttl_seconds w)"
    using u(2) by (simp_all add: issue_token_pair_def)
  show ?thesis
    unfolding claims_dependency_Bearer
    using u(1) found
    by (auto simp: toks dec subject_def uuid_item_def require_role_def refresh_route_def requireE_def)
qed

theorem login_token_accepted_witness:
  "\<exists>access refresh claims. login_route auth_sample 0 ''a@b.de'' ''password'' sample_registered = Inr (access, refresh) \<and>
     claims_dependency (wb_jwt auth_sample) ''access'' (Some (''Bearer '' @ access)) = Inr claims \<and>
     subject claims = Inr 1 \<and> require_role claims [''host''] = Inr ()"
proof -
  let ?u = "\<lparr>us_id = 1, us_email = ''a@b.de'', us_name = ''A'', us_password_hash = ''password'', us_role = ''host''\<rparr>"
  have found: "user_by_email ''a@b.de'' sample_registered = Some ?u"
    by (simp add: user_by_email_def sample_registered_users(1))
  obtain access refresh where l: "login_route auth_sample 0 ''a@b.de'' ''password'' sample_registered = Inr (access, refresh)"
    by (simp add: login_route_def authenticate_user_def found verify_password_def issue_token_pair_def)
      (simp add: auth_sample_def plain_crypto_def)
  have doc: "jwt_documented (wb_jwt auth_sample) (aw_crypto auth_sample) 5"
    by (simp add: auth_sample_def plain_documented)
  have "\<exists>claims. claims_dependency (wb_jwt auth_sample) ''access'' (Some (''Bearer '' @ access)) = Inr claims \<and>
         subject claims = Inr (us_id ?u) \<and> (\<forall>r. require_role claims [r] = Inr () \<longleftrightarrow> r = us_role ?u)"
    using login_token_accepted [OF l doc _ auth_reachable_inv [OF sample_registered_users(2)]] unfolding found
    by (auto simp: auth_sample_def)
  with l show ?thesis by auto
qed

end
