(* ===== verification/Search_Properties.thy ===== *)
theory Search_Properties
  imports Search Listing_Properties Auth_Properties
begin

text \<open>
  Properties of the search service together with the listing service it mirrors: the index follows
  the listing's events, the backfill builds the same index, and a search finds what was asked for.
  The witnesses use an association list as Elasticsearch and a map with expiry times as Redis.
\<close>

section \<open>Stores on which the hypotheses hold\<close>

text \<open>The meaning of the queries the service builds, with the geographic filter left open.\<close>

fun bound_holds :: "int \<Rightarrow> string \<times> json \<Rightarrow> bool" where
  "bound_holds i (op, JInt j) = (if op = ''gte'' then j \<le> i else op = ''lte'' \<and> i \<le> j)"
| "bound_holds i _ = False"

definition filter_matches :: "(dict \<Rightarrow> json \<Rightarrow> bool) \<Rightarrow> dict \<Rightarrow> json \<Rightarrow> bool" where
  "filter_matches near doc f =
     (case f of
        JObj [(kind, JObj arg)] \<Rightarrow>
          if kind = ''term'' then (\<forall>(k, v) \<in> set arg. dict_get doc k = Some v)
          else if kind = ''range''
          then (\<forall>(k, r) \<in> set arg. case (dict_get doc k, r) of
                  (Some (JInt i), JObj bounds) \<Rightarrow> \<forall>b \<in> set bounds. bound_holds i b | _ \<Rightarrow> False)
          else kind = ''geo_distance'' \<and> near doc (JObj arg)
      | _ \<Rightarrow> False)"

definition query_matches :: "(dict \<Rightarrow> json \<Rightarrow> bool) \<Rightarrow> dict \<Rightarrow> json \<Rightarrow> bool" where
  "query_matches near doc q =
     (case q of
        JObj [(kind, JObj arg)] \<Rightarrow>
          kind = ''match_all'' \<or>
          kind = ''bool'' \<and> (case dict_get arg ''filter'' of Some (JArr fs) \<Rightarrow> \<forall>f \<in> set fs. filter_matches near doc f | _ \<Rightarrow> False)
      | _ \<Rightarrow> False)"

text \<open>Elasticsearch answers a query with at most \<open>size\<close> documents of the index that match it.\<close>

definition es_search_documented ::
  "'es es_client \<Rightarrow> ('es \<Rightarrow> string \<Rightarrow> dict option) \<Rightarrow> (dict \<Rightarrow> json \<Rightarrow> bool) \<Rightarrow> bool"
where
  "es_search_documented E docs near \<longleftrightarrow>
     (\<forall>q sort from size es hits. es_search E q sort from size es = Inr hits \<longrightarrow>
        length hits \<le> nat size \<and> (\<forall>d \<in> set hits. (\<exists>i. docs es i = Some d) \<and> query_matches near d q))"

definition alist_es :: "(dict \<Rightarrow> json \<Rightarrow> bool) \<Rightarrow> (string \<times> dict) list es_client" where
  "alist_es near =
     \<lparr>es_index = (\<lambda>i d es. Inr ((i, d) # es)),
      es_delete = (\<lambda>i es. if map_of es i = None then Inl EsNotFoundError else Inr (filter (\<lambda>(k, _). k \<noteq> i) es)),
      es_search = (\<lambda>q sort from size es. Inr (take (nat size) (filter (\<lambda>d. query_matches near d q)
                      (map snd (filter (\<lambda>(k, d). map_of es k = Some d) es))))),
      es_index_exists = (\<lambda>es. True), es_index_create = (\<lambda>m es. Inr [])\<rparr>"

lemma map_of_filter_key: "map_of (filter (\<lambda>(k, _). k \<noteq> i) es) = (map_of es)(i := None)"
  by (induction es) (auto simp: fun_eq_iff)

lemma alist_es_documented:
  "es_documented (alist_es near) map_of" "es_available (alist_es near)" "es_search_documented (alist_es near) map_of near"
proof -
  show "es_documented (alist_es near) map_of" "es_available (alist_es near)"
    by (auto simp: es_documented_def es_available_def alist_es_def map_of_filter_key split: if_splits)
  show "es_search_documented (alist_es near) map_of near"
    unfolding es_search_documented_def alist_es_def
    by (auto dest!: in_set_takeD) blast
qed

definition plain_pydantic :: pydantic where
  "plain_pydantic = \<lparr>pd_str = json_str, pd_int = json_int, pd_float = json_float\<rparr>"

lemma plain_pydantic_documented: "pydantic_documented plain_pydantic"
  by (simp add: pydantic_documented_def plain_pydantic_def)

section \<open>The index follows the listing\<close>

text \<open>
  C28: the search index is a projection of the listing database: when the consumer has processed all
  events the listing service ever wrote, in order, the index holds exactly the documents of the
  approved vehicles, as they are in the listing database now.
\<close>

theorem search_index_follows_listing:
  assumes "listing_reachable db" "es_documented E docs" "es_available E" "redis_documented R"
    and "docs es = Map.empty" "\<forall>t k. rd_get R t k rd = None"
    and "length ts = length (ldb_outbox db)" "sorted ts"
  shows "\<exists>rd' es'. run_search_consumer R E (zip ts (map ob_payload (ldb_outbox db))) 0 (rd, es) =
      (length (ldb_outbox db), (rd', es'), None) \<and> indexes (docs es') db"
proof -
  obtain vs where vs: "published (ldb_outbox db) vs" "indexes (fold project_vehicle vs Map.empty) db"
    using listing_history [OF assms(1)] by blast
  obtain t0 where s: "sorted (t0 # ts)" using assms(8) by (cases ts) auto
  have u: "unclaimed R t0 (ldb_outbox db) rd" using assms(6) by (simp add: unclaimed_def)
  from consumer_follows [OF assms(2-4) vs(1) assms(7) s u, of 0 es] vs(2) assms(5)
  show ?thesis by auto
qed

theorem search_index_follows_listing_witness:
  "\<exists>rd' es'. run_search_consumer map_redis (alist_es (\<lambda>_ _. True)) (zip [5] (map ob_payload (ldb_outbox sample_approved))) 0
      (Map.empty, []) = (1, (rd', es'), None) \<and> map_of es' (uuid_str 1) = Some (document_of sample_listed)"
proof -
  have "\<forall>t k. rd_get map_redis t k Map.empty = None" by (simp add: map_redis_def map_redis_get_def)
  then obtain rd' es' where "run_search_consumer map_redis (alist_es (\<lambda>_ _. True))
      (zip [5] (map ob_payload (ldb_outbox sample_approved))) 0 (Map.empty, []) =
      (length (ldb_outbox sample_approved), (rd', es'), None)" "indexes (map_of es') sample_approved"
    using search_index_follows_listing [OF sample_listing_reachable(2) alist_es_documented(1) [of "\<lambda>_ _. True"]
        alist_es_documented(2) map_redis_documented, of "[]" Map.empty "[5]"]
    by (auto simp: sample_approved_run(5))
  moreover from this(2) have "map_of es' (uuid_str 1) = Some (document_of sample_listed)"
    by (simp add: indexes_def sample_vehicle_approved indexed_as_def) (simp add: sample_listed_def)
  ultimately show ?thesis by (simp add: sample_approved_run(5))
qed





section \<open>Searching\<close>

text \<open>
  What a host enters is what a renter is shown: the search result made from the indexed document
  of a vehicle's event has exactly the vehicle's data, its location taken apart and put together
  again.
\<close>

theorem search_result_roundtrip:
  assumes "pydantic_documented P"
  shows "bindE (vehicle_to_document (vehicle_snapshot v)) (document_to_result P) =
    Inr \<lparr>sr_vehicle_id = uuid_str (vl_id v), sr_host_id = uuid_str (vl_host_id v), sr_make = vl_make v,
         sr_model = vl_model v, sr_year = vl_year v, sr_daily_price_cents = vl_daily_price_cents v,
         sr_daily_mileage_limit = vl_daily_mileage_limit v, sr_booking_mode = vl_booking_mode v,
         sr_latitude = vl_latitude v, sr_longitude = vl_longitude v\<rparr>"
  using assms by (simp add: document_to_result_def document_of_def pydantic_documented_def)

theorem search_result_roundtrip_witness:
  "\<exists>r. bindE (vehicle_to_document (vehicle_snapshot sample_listed)) (document_to_result plain_pydantic) = Inr r \<and>
     sr_make r = ''VW'' \<and> sr_latitude r = Finite 52"
  unfolding search_result_roundtrip [OF plain_pydantic_documented] by (simp add: sample_listed_def)

lemma filter_term [simp]:
  "filter_matches near d (JObj [(''term'', JObj [(k, v)])]) \<longleftrightarrow> dict_get d k = Some v"
  by (simp add: filter_matches_def)

lemma filter_range:
  "filter_matches near (document_of v) (JObj [(''range'', JObj [(''daily_price_cents'', JObj bounds)])]) \<longleftrightarrow>
     (\<forall>b \<in> set bounds. bound_holds (vl_daily_price_cents v) b)"
  by (simp add: filter_matches_def document_of_def)

lemma filter_geo [simp]:
  "filter_matches near d (JObj [(''geo_distance'', JObj arg)]) \<longleftrightarrow> near d (JObj arg)"
  by (simp add: filter_matches_def)

lemma query_filters:
  "query_matches near d (search_query fs) \<longleftrightarrow> (\<forall>f \<in> set fs. filter_matches near d f)"
  by (simp add: query_matches_def search_query_def)

lemma ball_opt_list [simp]: "(\<forall>b \<in> set (opt_list f x). Q b) \<longleftrightarrow> pred_option (\<lambda>a. Q (f a)) x"
  by (cases x) (simp_all add: opt_list_def)

lemma price_bounds:
  "(\<forall>b \<in> set (price_range p). bound_holds i b) \<longleftrightarrow>
     pred_option (\<lambda>lo. lo \<le> i) (sp_min_price_cents p) \<and> pred_option (\<lambda>hi. i \<le> hi) (sp_max_price_cents p)"
  by (simp add: price_range_def ball_Un)

lemma filters_met:
  assumes "\<forall>f \<in> set (search_filters fstr p). filter_matches near (document_of v) f"
  shows "pred_option (\<lambda>m. vl_make v = m) (sp_make p)" "pred_option (\<lambda>m. vl_booking_mode v = m) (sp_booking_mode p)"
    "pred_option (\<lambda>lo. lo \<le> vl_daily_price_cents v) (sp_min_price_cents p)"
    "pred_option (\<lambda>hi. vl_daily_price_cents v \<le> hi) (sp_max_price_cents p)"
    "sp_lat p \<noteq> None \<Longrightarrow> sp_lon p \<noteq> None \<Longrightarrow> sp_radius_km p = Some r \<Longrightarrow>
       near (document_of v) (JObj [(''distance'', JStr (fstr r @ ''km'')), (''location'', location_json (sp_lat p) (sp_lon p))])"
proof -
  have get: "dict_get (document_of v) ''make'' = Some (JStr (vl_make v))"
    "dict_get (document_of v) ''booking_mode'' = Some (JStr (vl_booking_mode v))" by (simp_all add: document_of_def)
  show "pred_option (\<lambda>m. vl_make v = m) (sp_make p)" "pred_option (\<lambda>m. vl_booking_mode v = m) (sp_booking_mode p)"
    using assms get by (simp_all add: search_filters_def ball_Un)
  have "\<forall>b \<in> set (price_range p). bound_holds (vl_daily_price_cents v) b"
    using assms by (cases "price_range p = []") (simp_all add: search_filters_def filter_range ball_Un)
  then show "pred_option (\<lambda>lo. lo \<le> vl_daily_price_cents v) (sp_min_price_cents p)"
    "pred_option (\<lambda>hi. vl_daily_price_cents v \<le> hi) (sp_max_price_cents p)" unfolding price_bounds by blast+
  show "near (document_of v) (JObj [(''distance'', JStr (fstr r @ ''km'')), (''location'', location_json (sp_lat p) (sp_lon p))])"
    if "sp_lat p \<noteq> None" "sp_lon p \<noteq> None" "sp_radius_km p = Some r"
    using assms that by (simp add: search_filters_def ball_Un)
qed

text \<open>
  With an index that mirrors the listing, every document a search returns is an approved vehicle
  of the listing database that meets all the criteria given: make, booking mode, price range and
  radius around the point; there are at most \<open>limit\<close> of them, and a radius or a sorting by
  distance without a point is refused.
\<close>

theorem search_results_match:
  assumes "search_vehicles E fstr p es = Inr hits" "es_search_documented E docs near" "indexes (docs es) db"
  shows "length hits \<le> nat (sp_limit p) \<and>
    (sp_radius_km p \<noteq> None \<or> sp_sort p = ''distance'' \<longrightarrow> sp_lat p \<noteq> None \<and> sp_lon p \<noteq> None) \<and>
    (\<forall>d \<in> set hits. \<exists>i v. vehicle_by_id i db = Some v \<and> vl_approval_status v = ''approved'' \<and> d = document_of v \<and>
       pred_option (\<lambda>m. vl_make v = m) (sp_make p) \<and> pred_option (\<lambda>m. vl_booking_mode v = m) (sp_booking_mode p) \<and>
       pred_option (\<lambda>lo. lo \<le> vl_daily_price_cents v) (sp_min_price_cents p) \<and>
       pred_option (\<lambda>hi. vl_daily_price_cents v \<le> hi) (sp_max_price_cents p) \<and>
       (\<forall>r. sp_radius_km p = Some r \<longrightarrow>
          near d (JObj [(''distance'', JStr (fstr r @ ''km'')), (''location'', location_json (sp_lat p) (sp_lon p))])))"
proof -
  have point: "sp_radius_km p \<noteq> None \<or> sp_sort p = ''distance'' \<longrightarrow> sp_lat p \<noteq> None \<and> sp_lon p \<noteq> None"
    and found: "repo_search E fstr p es = Inr hits"
    using assms(1) by (auto simp: search_vehicles_def split: if_splits)
  have hits: "hits = [] \<or> es_search E (search_query (search_filters fstr p)) (sort_clause p) (sp_offset p) (sp_limit p) es = Inr hits"
    using found by (auto simp: repo_search_def split: sum.splits search_exn.splits)
  then have docs: "length hits \<le> nat (sp_limit p)"
    "\<forall>d \<in> set hits. (\<exists>i. docs es i = Some d) \<and> query_matches near d (search_query (search_filters fstr p))"
    using assms(2) unfolding es_search_documented_def by fastforce+
  show ?thesis
  proof (intro conjI ballI docs(1) point)
    fix d
    assume d: "d \<in> set hits"
    obtain s where s: "docs es s = Some d" using docs(2) d by blast
    then obtain i where "s = uuid_str i" using assms(3) unfolding indexes_def by blast
    then have "Option.bind (vehicle_by_id i db) indexed_as = Some d" using s assms(3) by (simp add: indexes_def)
    then obtain v where v: "vehicle_by_id i db = Some v" "indexed_as v = Some d" by (auto simp: bind_eq_Some_conv)
    then have v2: "vl_approval_status v = ''approved''" "d = document_of v" by (auto simp: indexed_as_def split: if_splits)
    have "\<forall>f \<in> set (search_filters fstr p). filter_matches near (document_of v) f"
      using d docs(2) v2(2) unfolding query_filters by blast
    note met = filters_met [OF this]
    show "\<exists>i v. vehicle_by_id i db = Some v \<and> vl_approval_status v = ''approved'' \<and> d = document_of v \<and>
       pred_option (\<lambda>m. vl_make v = m) (sp_make p) \<and> pred_option (\<lambda>m. vl_booking_mode v = m) (sp_booking_mode p) \<and>
       pred_option (\<lambda>lo. lo \<le> vl_daily_price_cents v) (sp_min_price_cents p) \<and>
       pred_option (\<lambda>hi. vl_daily_price_cents v \<le> hi) (sp_max_price_cents p) \<and>
       (\<forall>r. sp_radius_km p = Some r \<longrightarrow>
          near d (JObj [(''distance'', JStr (fstr r @ ''km'')), (''location'', location_json (sp_lat p) (sp_lon p))]))"
      using point met(5) by (intro exI [of _ i] exI [of _ v] conjI allI impI v(1) v2 met(1-4)) (simp add: v2(2))
  qed
qed

definition sample_query :: search_params where
  "sample_query =
     \<lparr>sp_make = Some ''VW'', sp_booking_mode = None, sp_min_price_cents = None, sp_max_price_cents = Some 5000,
      sp_lat = None, sp_lon = None, sp_radius_km = None, sp_sort = ''price_asc'', sp_limit = 20, sp_offset = 0\<rparr>"

theorem search_results_match_witness:
  "\<exists>hits es. search_vehicles (alist_es (\<lambda>_ _. True)) (\<lambda>_. ''1.0'') sample_query es = Inr hits \<and>
     indexes (map_of es) sample_approved \<and> length hits \<le> 20 \<and>
     list_all (\<lambda>d. \<exists>v. d = document_of v \<and> vl_make v = ''VW'' \<and> vl_daily_price_cents v \<le> 5000) hits"
proof -
  let ?es = "[(uuid_str 1, document_of sample_listed)]"
  have ix: "indexes (map_of ?es) sample_approved"
    using sample_approved_run(2)
    by (auto simp: indexes_def vehicle_by_id_def indexed_as_def) (simp_all add: sample_listed_def)
  obtain hits where h: "search_vehicles (alist_es (\<lambda>_ _. True)) (\<lambda>_. ''1.0'') sample_query ?es = Inr hits"
    by (simp add: search_vehicles_def sample_query_def repo_search_def alist_es_def)
  from search_results_match [OF h alist_es_documented(3) ix] have "length hits \<le> 20"
    "\<forall>d \<in> set hits. \<exists>v. d = document_of v \<and> vl_make v = ''VW'' \<and> vl_daily_price_cents v \<le> 5000"
    by (auto simp: sample_query_def)
  with h ix show ?thesis unfolding list_all_iff by blast
qed

section \<open>Failures\<close>

text \<open>
  C30: the claim is made before the effect and is not undone: when the index cannot be written, the
  record is redelivered but, for the next 24 hours, skipped as already processed, even though
  Elasticsearch is available again; the vehicle stays out of the index.
\<close>

theorem failed_event_lost:
  assumes "build_listing_event_processor R E 86400 now event_id event_type data (rd, es) = (Inl x, st')"
    and "redis_documented R" "now \<le> now'" "now' < now + 86400"
  shows "snd st' = es \<and>
    (\<exists>rd'. build_listing_event_processor R E' 86400 now' event_id event_type data st' = (Inr (), (rd', es)))"
proof -
  let ?k = "''processed-event:'' @ event_id"
  obtain rd1 where rd1: "rd_set_nx R now ?k ''1'' 86400 rd = (True, rd1)" "st' = (rd1, es)" "event_type \<in> LISTING_EVENT_TYPES"
    using assms(1)
    by (auto simp: build_listing_event_processor_def search_claim_event_def split: if_splits sum.splits prod.splits)
  have free: "rd_get R now ?k rd = None" using redis_laws(1) [OF assms(2), of now ?k "''1''" 86400 rd] rd1(1) by simp
  have held: "rd_get R now' ?k rd1 = Some ''1''"
    using redis_laws(2) [OF assms(2,3), of ?k ?k "''1''" 86400 rd] rd1(1) free assms(4) by simp
  have "\<not> fst (rd_set_nx R now' ?k ''1'' 86400 rd1)"
    using redis_laws(1) [OF assms(2), of now' ?k "''1''" 86400 rd1] held by simp
  then obtain rd2 where rd2: "rd_set_nx R now' ?k ''1'' 86400 rd1 = (False, rd2)" by (metis (full_types) surjective_pairing)
  have "build_listing_event_processor R E' 86400 now' event_id event_type data st' = (Inr (), (rd2, es))"
    using rd1(2,3) rd2 unfolding build_listing_event_processor_def search_claim_event_def by simp
  then show ?thesis using rd1(2) by auto
qed

definition down_es :: "(string \<times> dict) list es_client" where
  "down_es = (alist_es (\<lambda>_ _. True))\<lparr>es_index := (\<lambda>i d es. Inl EsTransportError)\<rparr>"

theorem failed_event_lost_witness:
  "\<exists>st' rd'. build_listing_event_processor map_redis down_es 86400 0 ''e1'' ''vehicle_approved'' (vehicle_snapshot sample_listed)
      (Map.empty, []) = (Inl EsTransportError, st') \<and>
    build_listing_event_processor map_redis (alist_es (\<lambda>_ _. True)) 86400 60 ''e1'' ''vehicle_approved''
      (vehicle_snapshot sample_listed) st' = (Inr (), (rd', []))"
proof -
  obtain st' where f: "build_listing_event_processor map_redis down_es 86400 0 ''e1'' ''vehicle_approved''
      (vehicle_snapshot sample_listed) (Map.empty, []) = (Inl EsTransportError, st')"
    by (simp add: build_listing_event_processor_def LISTING_EVENT_TYPES_def search_claim_event_def map_redis_def map_redis_get_def Let_def
        handle_vehicle_event_def upsert_vehicle_def down_es_def sample_listed_def)
  from failed_event_lost [OF f map_redis_documented, of 60 "alist_es (\<lambda>_ _. True)"] f show ?thesis by auto
qed

end
