(* ===== verification/Admin.thy ===== *)
theory Admin
  imports Http Redis
begin

text \<open>
  The admin service (\<^verbatim>\<open>services/admin/\<close>): the audit trail, the calls it forwards to the listing and
  booking services, and the kill switch.  The other services are reached through HTTP clients,
  which are parameters; a \<^verbatim>\<open>POST\<close> may change the state \<open>io\<close> of the service it reaches.
\<close>

section \<open>Audit trail\<close>

record admin_action =
  ac_id :: uuid
  ac_admin_id :: uuid
  ac_action_type :: string
  ac_target_type :: string
  ac_target_id :: string
  ac_payload :: dict
  ac_created_at :: int

record admin_db =
  xdb_actions :: "admin_action list"
  xdb_idem :: "idem_row list"

definition empty_admin_db :: admin_db where
  "empty_admin_db = \<lparr>xdb_actions = [], xdb_idem = []\<rparr>"

datatype admin_exn =
    AdminPy py_exn
  | UpstreamError int string

definition action_columns_ok :: "admin_action \<Rightarrow> bool" where
  "action_columns_ok a \<longleftrightarrow>
     varchar_ok 64 (ac_action_type a) \<and> varchar_ok 32 (ac_target_type a) \<and> varchar_ok 64 (ac_target_id a)"

definition record_action ::
  "env \<Rightarrow> nat \<Rightarrow> uuid \<Rightarrow> string \<Rightarrow> string \<Rightarrow> string \<Rightarrow> dict option \<Rightarrow> admin_db \<Rightarrow> admin_exn + (admin_action \<times> admin_db)"
where
  "record_action e k admin_id action_type target_type target_id payload db =
     (let action =
            \<lparr>ac_id = env_uuid4 e k, ac_admin_id = admin_id, ac_action_type = action_type,
             ac_target_type = target_type, ac_target_id = target_id,
             ac_payload = (case payload of None \<Rightarrow> [] | Some d \<Rightarrow> d), ac_created_at = env_now e\<rparr>
      in if \<not> action_columns_ok action then Inl (AdminPy DataError)
         else if ac_id action \<in> ac_id ` set (xdb_actions db) then Inl (AdminPy IntegrityError)
         else Inr (action, db\<lparr>xdb_actions := xdb_actions db @ [action]\<rparr>))"

text \<open>
  Newest first.  Postgres leaves the order of rows with equal time stamps open; here it is the
  order of insertion.
\<close>

definition list_recent :: "int \<Rightarrow> int \<Rightarrow> admin_db \<Rightarrow> admin_exn + admin_action list" where
  "list_recent limit offset db = mapErr AdminPy (sql_page (\<lambda>a. - ac_created_at a) limit offset (xdb_actions db))"

section \<open>Clients of the other services\<close>

record upstream_response =
  ur_status_code :: int
  ur_text :: string
  ur_json :: "json option"

definition upstream_result :: "upstream_response \<Rightarrow> admin_exn + json" where
  "upstream_result r =
     (if 400 \<le> ur_status_code r then Inl (UpstreamError (ur_status_code r) (ur_text r))
      else case ur_json r of None \<Rightarrow> Inl (AdminPy ValueError) | Some j \<Rightarrow> Inr j)"

text \<open>\<open>http_post url authorization idempotency_key io\<close> and \<open>http_get url limit offset authorization\<close>.\<close>

type_synonym 'io http_post = "string \<Rightarrow> string \<Rightarrow> string \<Rightarrow> 'io \<Rightarrow> upstream_response \<times> 'io"

definition strip_slashes :: "string \<Rightarrow> string" where
  "strip_slashes s = rev (dropWhile (\<lambda>c. c = CHR ''/'') (rev s))"

definition client_approve_vehicle ::
  "env \<Rightarrow> 'io http_post \<Rightarrow> string \<Rightarrow> uuid \<Rightarrow> string \<Rightarrow> 'io \<Rightarrow> (admin_exn + json) \<times> 'io"
where
  "client_approve_vehicle e http_post base_url vehicle_id bearer io =
     (let (response, io') = http_post (strip_slashes base_url @ ''/listing/vehicles/'' @ uuid_str vehicle_id @ ''/approve'')
                              (''Bearer '' @ bearer) (uuid_str (env_uuid4 e 0)) io
      in (upstream_result response, io'))"

definition client_reject_vehicle ::
  "env \<Rightarrow> 'io http_post \<Rightarrow> string \<Rightarrow> uuid \<Rightarrow> string \<Rightarrow> 'io \<Rightarrow> (admin_exn + json) \<times> 'io"
where
  "client_reject_vehicle e http_post base_url vehicle_id bearer io =
     (let (response, io') = http_post (strip_slashes base_url @ ''/listing/vehicles/'' @ uuid_str vehicle_id @ ''/reject'')
                              (''Bearer '' @ bearer) (uuid_str (env_uuid4 e 0)) io
      in (upstream_result response, io'))"

definition client_list_bookings ::
  "(string \<Rightarrow> int \<Rightarrow> int \<Rightarrow> string \<Rightarrow> upstream_response) \<Rightarrow> string \<Rightarrow> string \<Rightarrow> int \<Rightarrow> int \<Rightarrow> admin_exn + json"
where
  "client_list_bookings http_get base_url bearer limit offset =
     upstream_result (http_get (strip_slashes base_url @ ''/booking/bookings'') limit offset (''Bearer '' @ bearer))"

section \<open>Use cases\<close>

definition admin_approve_vehicle ::
  "env \<Rightarrow> 'io http_post \<Rightarrow> string \<Rightarrow> uuid \<Rightarrow> uuid \<Rightarrow> string \<Rightarrow> admin_db \<Rightarrow> 'io
     \<Rightarrow> (admin_exn + (json \<times> admin_db)) \<times> 'io"
where
  "admin_approve_vehicle e http_post base_url admin_id vehicle_id bearer db io =
     (let (r, io') = client_approve_vehicle e http_post base_url vehicle_id bearer io
      in (bindE r (\<lambda>vehicle.
          bindE (record_action e 1 admin_id ''vehicle_approved'' ''vehicle'' (uuid_str vehicle_id) None db) (\<lambda>(_, db).
          Inr (vehicle, db))), io'))"

definition admin_reject_vehicle ::
  "env \<Rightarrow> 'io http_post \<Rightarrow> string \<Rightarrow> uuid \<Rightarrow> uuid \<Rightarrow> string \<Rightarrow> admin_db \<Rightarrow> 'io
     \<Rightarrow> (admin_exn + (json \<times> admin_db)) \<times> 'io"
where
  "admin_reject_vehicle e http_post base_url admin_id vehicle_id bearer db io =
     (let (r, io') = client_reject_vehicle e http_post base_url vehicle_id bearer io
      in (bindE r (\<lambda>vehicle.
          bindE (record_action e 1 admin_id ''vehicle_rejected'' ''vehicle'' (uuid_str vehicle_id) None db) (\<lambda>(_, db).
          Inr (vehicle, db))), io'))"

definition activate_kill_switch ::
  "'rd redis \<Rightarrow> env \<Rightarrow> uuid \<Rightarrow> uuid \<Rightarrow> admin_db \<Rightarrow> 'rd \<Rightarrow> (admin_exn + admin_db) \<times> 'rd"
where
  "activate_kill_switch R e admin_id vehicle_id db rd =
     (let rd' = kill_switch_activate R (env_now e) (uuid_str vehicle_id) rd
      in (bindE (record_action e 0 admin_id ''kill_switch_activated'' ''vehicle'' (uuid_str vehicle_id) None db)
            (\<lambda>(_, db). Inr db), rd'))"

definition deactivate_kill_switch ::
  "'rd redis \<Rightarrow> env \<Rightarrow> uuid \<Rightarrow> uuid \<Rightarrow> admin_db \<Rightarrow> 'rd \<Rightarrow> (admin_exn + admin_db) \<times> 'rd"
where
  "deactivate_kill_switch R e admin_id vehicle_id db rd =
     (let rd' = kill_switch_deactivate R (env_now e) (uuid_str vehicle_id) rd
      in (bindE (record_action e 0 admin_id ''kill_switch_deactivated'' ''vehicle'' (uuid_str vehicle_id) None db)
            (\<lambda>(_, db). Inr db), rd'))"

section \<open>Endpoints\<close>

record admin_web = web +
  xw_listing_base_url :: string
  xw_booking_base_url :: string

fun upstream_errors :: "admin_exn \<Rightarrow> admin_exn" where
  "upstream_errors (UpstreamError code text) = AdminPy (HTTPException code text)"
| "upstream_errors x = x"

abbreviation admin_route ::
  "admin_web \<Rightarrow> int \<Rightarrow> http_request \<Rightarrow> int \<Rightarrow> (dict \<Rightarrow> unit \<Rightarrow> admin_db \<Rightarrow> 'io \<Rightarrow> (admin_exn + (string \<times> admin_db)) \<times> 'io)
     \<Rightarrow> admin_db \<Rightarrow> 'io \<Rightarrow> ((admin_exn + response) \<times> admin_db) \<times> 'io" where
  "admin_route w now rq status build \<equiv>
     idempotent_route_io xdb_idem (\<lambda>rows db. db\<lparr>xdb_idem := rows\<rparr>) AdminPy (web.truncate w) now rq ''admin'' status (Some ()) build"

text \<open>The subject of the token and the token itself, as the forwarding endpoints read them.\<close>

definition caller :: "http_request \<Rightarrow> dict \<Rightarrow> admin_exn + (uuid \<times> string)" where
  "caller rq claims =
     mapErr AdminPy (
       bindE (subject claims) (\<lambda>admin_id.
       bindE (case rq_authorization rq of None \<Rightarrow> Inl validation_error | Some a \<Rightarrow> after_space a) (\<lambda>bearer.
       Inr (admin_id, bearer))))"

definition vehicle_answer ::
  "admin_web \<Rightarrow> (admin_exn + (json \<times> admin_db)) \<times> 'io \<Rightarrow> (admin_exn + (string \<times> admin_db)) \<times> 'io"
where
  "vehicle_answer w r =
     (bindE (mapErr upstream_errors (fst r)) (\<lambda>(vehicle, db). Inr (wb_dumps w vehicle, db)), snd r)"

definition admin_approve_build ::
  "admin_web \<Rightarrow> env \<Rightarrow> 'io http_post \<Rightarrow> uuid \<Rightarrow> http_request \<Rightarrow> dict \<Rightarrow> unit \<Rightarrow> admin_db \<Rightarrow> 'io
     \<Rightarrow> (admin_exn + (string \<times> admin_db)) \<times> 'io"
where
  "admin_approve_build w e http_post vehicle_id rq claims _ db io =
     (case caller rq claims of
        Inl x \<Rightarrow> (Inl x, io)
      | Inr (admin_id, bearer) \<Rightarrow>
          vehicle_answer w (admin_approve_vehicle e http_post (xw_listing_base_url w) admin_id vehicle_id bearer db io))"

definition admin_approve_route ::
  "admin_web \<Rightarrow> env \<Rightarrow> 'io http_post \<Rightarrow> uuid \<Rightarrow> http_request \<Rightarrow> admin_db \<Rightarrow> 'io
     \<Rightarrow> ((admin_exn + response) \<times> admin_db) \<times> 'io"
where
  "admin_approve_route w e http_post vehicle_id rq db io =
     admin_route w (env_now e) rq 200 (admin_approve_build w e http_post vehicle_id rq) db io"

definition admin_reject_build ::
  "admin_web \<Rightarrow> env \<Rightarrow> 'io http_post \<Rightarrow> uuid \<Rightarrow> http_request \<Rightarrow> dict \<Rightarrow> unit \<Rightarrow> admin_db \<Rightarrow> 'io
     \<Rightarrow> (admin_exn + (string \<times> admin_db)) \<times> 'io"
where
  "admin_reject_build w e http_post vehicle_id rq claims _ db io =
     (case caller rq claims of
        Inl x \<Rightarrow> (Inl x, io)
      | Inr (admin_id, bearer) \<Rightarrow>
          vehicle_answer w (admin_reject_vehicle e http_post (xw_listing_base_url w) admin_id vehicle_id bearer db io))"

definition admin_reject_route ::
  "admin_web \<Rightarrow> env \<Rightarrow> 'io http_post \<Rightarrow> uuid \<Rightarrow> http_request \<Rightarrow> admin_db \<Rightarrow> 'io
     \<Rightarrow> ((admin_exn + response) \<times> admin_db) \<times> 'io"
where
  "admin_reject_route w e http_post vehicle_id rq db io =
     admin_route w (env_now e) rq 200 (admin_reject_build w e http_post vehicle_id rq) db io"

definition admin_bookings_route ::
  "admin_web \<Rightarrow> (string \<Rightarrow> int \<Rightarrow> int \<Rightarrow> string \<Rightarrow> upstream_response) \<Rightarrow> string option \<Rightarrow> int \<Rightarrow> int \<Rightarrow> admin_exn + json"
where
  "admin_bookings_route w http_get authorization limit offset =
     bindE (mapErr AdminPy (claims_dependency (wb_jwt w) ''access'' authorization)) (\<lambda>claims.
     bindE (mapErr AdminPy (require_role claims [''admin''])) (\<lambda>_.
     bindE (mapErr AdminPy (case authorization of None \<Rightarrow> Inl validation_error | Some a \<Rightarrow> after_space a)) (\<lambda>bearer.
     mapErr upstream_errors (client_list_bookings http_get (xw_booking_base_url w) bearer limit offset))))"

definition enable_kill_switch_build ::
  "'rd redis \<Rightarrow> env \<Rightarrow> uuid \<Rightarrow> dict \<Rightarrow> unit \<Rightarrow> admin_db \<Rightarrow> 'rd \<Rightarrow> (admin_exn + (string \<times> admin_db)) \<times> 'rd"
where
  "enable_kill_switch_build R e vehicle_id claims _ db rd =
     (case subject claims of
        Inl x \<Rightarrow> (Inl (AdminPy x), rd)
      | Inr admin_id \<Rightarrow>
          (let (r, rd') = activate_kill_switch R e admin_id vehicle_id db rd
           in (bindE r (\<lambda>db. Inr ('''', db)), rd')))"

definition enable_kill_switch_route ::
  "admin_web \<Rightarrow> 'rd redis \<Rightarrow> env \<Rightarrow> uuid \<Rightarrow> http_request \<Rightarrow> admin_db \<Rightarrow> 'rd
     \<Rightarrow> ((admin_exn + response) \<times> admin_db) \<times> 'rd"
where
  "enable_kill_switch_route w R e vehicle_id rq db rd =
     admin_route w (env_now e) rq 204 (enable_kill_switch_build R e vehicle_id) db rd"

definition disable_kill_switch_build ::
  "'rd redis \<Rightarrow> env \<Rightarrow> uuid \<Rightarrow> dict \<Rightarrow> unit \<Rightarrow> admin_db \<Rightarrow> 'rd \<Rightarrow> (admin_exn + (string \<times> admin_db)) \<times> 'rd"
where
  "disable_kill_switch_build R e vehicle_id claims _ db rd =
     (case subject claims of
        Inl x \<Rightarrow> (Inl (AdminPy x), rd)
      | Inr admin_id \<Rightarrow>
          (let (r, rd') = deactivate_kill_switch R e admin_id vehicle_id db rd
           in (bindE r (\<lambda>db. Inr ('''', db)), rd')))"

definition disable_kill_switch_route ::
  "admin_web \<Rightarrow> 'rd redis \<Rightarrow> env \<Rightarrow> uuid \<Rightarrow> http_request \<Rightarrow> admin_db \<Rightarrow> 'rd
     \<Rightarrow> ((admin_exn + response) \<times> admin_db) \<times> 'rd"
where
  "disable_kill_switch_route w R e vehicle_id rq db rd =
     admin_route w (env_now e) rq 204 (disable_kill_switch_build R e vehicle_id) db rd"

definition action_response :: "(int \<Rightarrow> string) \<Rightarrow> admin_action \<Rightarrow> json" where
  "action_response isoformat action = JObj
     [(''id'', JStr (uuid_str (ac_id action))), (''admin_id'', JStr (uuid_str (ac_admin_id action))),
      (''action_type'', JStr (ac_action_type action)), (''target_type'', JStr (ac_target_type action)),
      (''target_id'', JStr (ac_target_id action)), (''payload'', JObj (ac_payload action)),
      (''created_at'', JStr (isoformat (ac_created_at action)))]"

definition list_actions_route ::
  "admin_web \<Rightarrow> (int \<Rightarrow> string) \<Rightarrow> string option \<Rightarrow> int \<Rightarrow> int \<Rightarrow> admin_db \<Rightarrow> admin_exn + json"
where
  "list_actions_route w isoformat authorization limit offset db =
     bindE (mapErr AdminPy (claims_dependency (wb_jwt w) ''access'' authorization)) (\<lambda>claims.
     bindE (mapErr AdminPy (require_role claims [''admin''])) (\<lambda>_.
     bindE (list_recent limit offset db) (\<lambda>actions.
     Inr (JObj [(''items'', JArr (map (action_response isoformat) actions))]))))"

section \<open>Lemmas\<close>

interpretation admin_keys: idempotent_routes xdb_idem "\<lambda>rows db. db\<lparr>xdb_idem := rows\<rparr>" AdminPy
  by unfold_locales simp

text \<open>The columns are wide enough for every action the service records.\<close>

lemma kill_switch_action_columns:
  "action_columns_ok \<lparr>ac_id = i, ac_admin_id = a, ac_action_type = ''kill_switch_activated'', ac_target_type = ''vehicle'',
     ac_target_id = uuid_str v, ac_payload = p, ac_created_at = t\<rparr>"
  "action_columns_ok \<lparr>ac_id = i, ac_admin_id = a, ac_action_type = ''kill_switch_deactivated'', ac_target_type = ''vehicle'',
     ac_target_id = uuid_str v, ac_payload = p, ac_created_at = t\<rparr>"
  by (simp_all add: action_columns_ok_def varchar_ok_def)

text \<open>
  A request to the kill switch that is answered either ran, and then Redis has the switch set and
  the audit trail one more entry by the caller, or was answered before.
\<close>

lemma enable_kill_switch_effect:
  assumes "enable_kill_switch_route w R e v rq db rd = ((Inr r, db'), rd')"
  shows "\<exists>claims admin_id. claims_dependency (wb_jwt (web.truncate w)) ''access'' (rq_authorization rq) = Inr claims \<and>
    dict_get claims ''role'' = Some (JStr ''admin'') \<and>
    (rd' = kill_switch_activate R (env_now e) (uuid_str v) rd \<and> subject claims = Inr admin_id \<and>
       (\<exists>a. xdb_actions db' = xdb_actions db @ [a] \<and> ac_admin_id a = admin_id \<and>
            ac_action_type a = ''kill_switch_activated'' \<and> ac_target_id a = uuid_str v)
     \<or> rd' = rd \<and> db' = db)"
  using assms
  by (auto simp: enable_kill_switch_route_def idempotent_route_io_def idempotent_route_def respond_idempotently_def
      require_role_def requireE_def enable_kill_switch_build_def activate_kill_switch_def record_action_def Let_def
      result_simps split: sum.splits option.splits if_splits prod.splits)

end
