(* ===== verification/Telemetry.thy ===== *)
theory Telemetry
  imports Http Redis
begin

text \<open>
  The telemetry service (\<^verbatim>\<open>services/telemetry/\<close>): the WebSocket that takes packets from a vehicle and
  publishes them to Kafka with the kill switch applied, the batching consumer that stores them in
  MongoDB and keeps the latest position in Redis, and the endpoint that reads it.  Pydantic's
  reading of a packet, \<^verbatim>\<open>json.dumps\<close> and \<^verbatim>\<open>json.loads\<close> are parameters; a topic is the list of its
  records, a collection the list of its documents.
\<close>

section \<open>Ingest\<close>

record telemetry_packet =
  tp_lat :: pyfloat
  tp_lng :: pyfloat
  tp_speed_kph :: pyfloat
  tp_recorded_at :: int

definition packet_valid :: "telemetry_packet \<Rightarrow> bool" where
  "packet_valid p \<longleftrightarrow>
     float_le (Finite (- 90)) (tp_lat p) \<and> float_le (tp_lat p) (Finite 90) \<and>
     float_le (Finite (- 180)) (tp_lng p) \<and> float_le (tp_lng p) (Finite 180) \<and>
     float_le (Finite 0) (tp_speed_kph p) \<and> float_le (tp_speed_kph p) (Finite 400)"

record telemetry_web =
  tw_jwt :: jwt_settings
  tw_parse :: "string \<Rightarrow> telemetry_packet option"
  tw_isoformat :: "int \<Rightarrow> string"
  tw_dumps :: "json \<Rightarrow> string"
  tw_loads :: "string \<Rightarrow> json option"

text \<open>\<open>None\<close> is the \<^verbatim>\<open>InvalidPacketError\<close>.\<close>

definition parse_packet :: "telemetry_web \<Rightarrow> string \<Rightarrow> telemetry_packet option" where
  "parse_packet w raw = validated packet_valid (tw_parse w) raw"

definition apply_kill_switch :: "telemetry_packet \<Rightarrow> bool \<Rightarrow> telemetry_packet" where
  "apply_kill_switch packet active = (if \<not> active then packet else packet\<lparr>tp_speed_kph := Finite 0\<rparr>)"

definition packet_message :: "telemetry_web \<Rightarrow> string \<Rightarrow> telemetry_packet \<Rightarrow> json" where
  "packet_message w vehicle_id packet = JObj
     [(''vehicle_id'', JStr vehicle_id), (''lat'', JFloat (tp_lat packet)), (''lng'', JFloat (tp_lng packet)),
      (''speed_kph'', JFloat (tp_speed_kph packet)), (''recorded_at'', JStr (tw_isoformat w (tp_recorded_at packet)))]"

text \<open>A record is its key and its value.\<close>

definition publish_packet ::
  "telemetry_web \<Rightarrow> string \<Rightarrow> telemetry_packet \<Rightarrow> (string \<times> string) list \<Rightarrow> (string \<times> string) list"
where
  "publish_packet w vehicle_id packet topic = topic @ [(vehicle_id, tw_dumps w (packet_message w vehicle_id packet))]"

text \<open>
  The receive loop, over the texts received until the client disconnects, each with the time and
  the state of Redis it meets; \<open>True\<close> is the reply \<^verbatim>\<open>ok\<close>, \<open>False\<close> the reply \<^verbatim>\<open>rejected\<close>.
\<close>

fun ingest_loop ::
  "telemetry_web \<Rightarrow> 'rd redis \<Rightarrow> string \<Rightarrow> (int \<times> 'rd \<times> string) list \<Rightarrow> (string \<times> string) list
     \<Rightarrow> bool list \<times> (string \<times> string) list"
where
  "ingest_loop w R vehicle_id [] topic = ([], topic)"
| "ingest_loop w R vehicle_id ((now, rd, raw) # received) topic =
     (case parse_packet w raw of
        None \<Rightarrow> (let (replies, topic') = ingest_loop w R vehicle_id received topic in (False # replies, topic'))
      | Some packet \<Rightarrow>
          let active = kill_switch_is_active R now vehicle_id rd;
              packet = apply_kill_switch packet active;
              (replies, topic') = ingest_loop w R vehicle_id received (publish_packet w vehicle_id packet topic)
          in (True # replies, topic'))"

text \<open>The endpoint: a bad token closes the socket with code 4401 (\<open>Inl\<close>).\<close>

definition ingest ::
  "telemetry_web \<Rightarrow> 'rd redis \<Rightarrow> string \<Rightarrow> string option \<Rightarrow> (int \<times> 'rd \<times> string) list \<Rightarrow> (string \<times> string) list
     \<Rightarrow> int + (bool list \<times> (string \<times> string) list)"
where
  "ingest w R vehicle_id token received topic =
     (case decode_token (tw_jwt w) (case token of None \<Rightarrow> '''' | Some t \<Rightarrow> t) of
        None \<Rightarrow> Inl 4401
      | Some _ \<Rightarrow> Inr (ingest_loop w R vehicle_id received topic))"

section \<open>The batching consumer\<close>

text \<open>\<^verbatim>\<open>d[k] = v\<close> on a dictionary that keeps its insertion order.\<close>

fun dict_put :: "'k \<Rightarrow> 'v \<Rightarrow> ('k \<times> 'v) list \<Rightarrow> ('k \<times> 'v) list" where
  "dict_put k v [] = [(k, v)]"
| "dict_put k v ((k', v') # d) = (if k' = k then (k, v) # d else (k', v') # dict_put k v d)"

fun build_batch_from ::
  "telemetry_web \<Rightarrow> string list \<Rightarrow> dict list \<Rightarrow> (string \<times> dict) list \<Rightarrow> py_exn + (dict list \<times> (string \<times> dict) list)"
where
  "build_batch_from w [] documents latest = Inr (documents, latest)"
| "build_batch_from w (raw # raws) documents latest =
     bindE (case tw_loads w raw of None \<Rightarrow> Inl ValueError | Some j \<Rightarrow> json_dict j) (\<lambda>packet.
     bindE (str_item packet ''vehicle_id'') (\<lambda>vehicle_id.
     build_batch_from w raws (documents @ [packet]) (dict_put vehicle_id packet latest)))"

definition build_batch :: "telemetry_web \<Rightarrow> string list \<Rightarrow> py_exn + (dict list \<times> (string \<times> dict) list)" where
  "build_batch w raw_records = build_batch_from w raw_records [] []"

definition write_batch :: "dict list \<Rightarrow> dict list \<Rightarrow> dict list" where
  "write_batch packets documents = (if documents \<noteq> [] then packets @ documents else packets)"

definition location_key :: "string \<Rightarrow> string" where
  "location_key vehicle_id = ''vehicle-location:'' @ vehicle_id"

definition write_latest_position ::
  "telemetry_web \<Rightarrow> 'rd redis \<Rightarrow> int \<Rightarrow> string \<Rightarrow> json \<Rightarrow> json \<Rightarrow> json \<Rightarrow> int \<Rightarrow> 'rd \<Rightarrow> 'rd"
where
  "write_latest_position w R now vehicle_id lat lng recorded_at ttl_seconds rd =
     rd_set R now (location_key vehicle_id)
       (tw_dumps w (JObj [(''lat'', lat), (''lng'', lng), (''recorded_at'', recorded_at)])) ttl_seconds rd"

fun write_positions ::
  "telemetry_web \<Rightarrow> 'rd redis \<Rightarrow> int \<Rightarrow> int \<Rightarrow> (string \<times> dict) list \<Rightarrow> 'rd \<Rightarrow> py_exn option \<times> 'rd"
where
  "write_positions w R now ttl_seconds [] rd = (None, rd)"
| "write_positions w R now ttl_seconds ((vehicle_id, packet) # rest) rd =
     (case bindE (dict_item packet ''lat'') (\<lambda>lat. bindE (dict_item packet ''lng'') (\<lambda>lng.
           bindE (dict_item packet ''recorded_at'') (\<lambda>recorded_at. Inr (lat, lng, recorded_at)))) of
        Inl x \<Rightarrow> (Some x, rd)
      | Inr (lat, lng, recorded_at) \<Rightarrow>
          write_positions w R now ttl_seconds rest
            (write_latest_position w R now vehicle_id lat lng recorded_at ttl_seconds rd))"

text \<open>
  One turn of the consumer loop on the records it polled: the documents go to MongoDB, the positions
  to Redis, then the offset is committed.  An exception ends the loop with what was written
  before it.
\<close>

record 'rd telemetry_state =
  ts_committed :: nat
  ts_packets :: "dict list"
  ts_redis :: 'rd

definition consume_batch ::
  "telemetry_web \<Rightarrow> 'rd redis \<Rightarrow> int \<Rightarrow> int \<Rightarrow> string list \<Rightarrow> 'rd telemetry_state \<Rightarrow> py_exn option \<times> 'rd telemetry_state"
where
  "consume_batch w R now ttl_seconds raw_records st =
     (if raw_records = [] then (None, st)
      else case build_batch w raw_records of
             Inl x \<Rightarrow> (Some x, st)
           | Inr (documents, latest_by_vehicle) \<Rightarrow>
               let st = st\<lparr>ts_packets := write_batch (ts_packets st) documents\<rparr>;
                   (err, rd) = write_positions w R now ttl_seconds latest_by_vehicle (ts_redis st);
                   st = st\<lparr>ts_redis := rd\<rparr>
               in case err of
                    Some x \<Rightarrow> (Some x, st)
                  | None \<Rightarrow> (None, st\<lparr>ts_committed := ts_committed st + length raw_records\<rparr>))"

text \<open>
  The loop, over what the successive calls of \<^verbatim>\<open>getmany\<close> return: the time and, per partition, the
  values of its records.  An exception ends the loop; the offsets of that turn stay uncommitted.
\<close>

fun run_telemetry_consumer ::
  "telemetry_web \<Rightarrow> 'rd redis \<Rightarrow> int \<Rightarrow> (int \<times> string list list) list \<Rightarrow> 'rd telemetry_state
     \<Rightarrow> py_exn option \<times> 'rd telemetry_state"
where
  "run_telemetry_consumer w R redis_ttl_seconds [] st = (None, st)"
| "run_telemetry_consumer w R redis_ttl_seconds ((now, batches) # polls) st =
     (case consume_batch w R now redis_ttl_seconds (concat batches) st of
        (Some x, st') \<Rightarrow> (Some x, st')
      | (None, st') \<Rightarrow> run_telemetry_consumer w R redis_ttl_seconds polls st')"

section \<open>Reading the position\<close>

definition get_latest_position :: "telemetry_web \<Rightarrow> 'rd redis \<Rightarrow> int \<Rightarrow> string \<Rightarrow> 'rd \<Rightarrow> py_exn + json option" where
  "get_latest_position w R now vehicle_id rd =
     (case rd_get R now (location_key vehicle_id) rd of
        None \<Rightarrow> Inr None
      | Some raw \<Rightarrow> (case tw_loads w raw of None \<Rightarrow> Inl ValueError | Some j \<Rightarrow> Inr (Some j)))"

definition get_location_route ::
  "telemetry_web \<Rightarrow> 'rd redis \<Rightarrow> int \<Rightarrow> string option \<Rightarrow> string \<Rightarrow> 'rd \<Rightarrow> py_exn + json"
where
  "get_location_route w R now authorization vehicle_id rd =
     bindE (claims_dependency (tw_jwt w) ''access'' authorization) (\<lambda>_.
     bindE (get_latest_position w R now vehicle_id rd) (\<lambda>position.
     case position of
       None \<Rightarrow> Inl (HTTPException 404 ''no recent location for this vehicle'')
     | Some j \<Rightarrow> bindE (json_dict j) (\<lambda>d. Inr (JObj ((''vehicle_id'', JStr vehicle_id) # d)))))"

section \<open>Lemmas\<close>

text \<open>What a packet becomes on its way to the topic.\<close>

definition enforced :: "telemetry_web \<Rightarrow> 'rd redis \<Rightarrow> string \<Rightarrow> int \<times> 'rd \<times> string \<Rightarrow> telemetry_packet option" where
  "enforced w R vehicle_id x =
     (case x of (now, rd, raw) \<Rightarrow>
        map_option (\<lambda>p. apply_kill_switch p (kill_switch_is_active R now vehicle_id rd)) (parse_packet w raw))"

lemma ingest_loop_topic:
  "ingest_loop w R vid received topic =
     (map (\<lambda>x. enforced w R vid x \<noteq> None) received,
      topic @ map (\<lambda>p. (vid, tw_dumps w (packet_message w vid p))) (List.map_filter (enforced w R vid) received))"
proof (induction received arbitrary: topic)
  case (Cons x received)
  obtain now rd raw where x: "x = (now, rd, raw)" by (cases x) auto
  show ?case
    by (cases "parse_packet w raw")
      (simp_all add: x Cons.IH enforced_def publish_packet_def Let_def List.map_filter_simps)
qed (simp add: List.map_filter_simps)

lemma enforced_speed:
  "enforced w R vid (now, rd, raw) = Some p \<Longrightarrow>
     (kill_switch_is_active R now vid rd \<longrightarrow> tp_speed_kph p = Finite 0) \<and>
     (\<exists>q. parse_packet w raw = Some q \<and> (\<not> kill_switch_is_active R now vid rd \<longrightarrow> p = q))"
  by (auto simp: enforced_def apply_kill_switch_def)

subsection \<open>The last packet of a batch wins\<close>

lemma map_of_dict_put: "map_of (dict_put k v d) = (map_of d)(k \<mapsto> v)"
  by (induction k v d rule: dict_put.induct) (auto simp: fun_eq_iff)

lemma distinct_dict_put: "distinct (map fst d) \<Longrightarrow> distinct (map fst (dict_put k v d))"
proof (induction k v d rule: dict_put.induct)
  case (2 k v k' v' d)
  have "fst ` set (dict_put k v d) = insert k (fst ` set d)" for d :: "('a \<times> 'b) list"
    by (induction k v d rule: dict_put.induct) auto
  with 2 show ?case by auto
qed simp

end
