(* ===== verification/Notification.thy ===== *)
theory Notification
  imports Messaging
begin

text \<open>
  The notification service (\<^verbatim>\<open>services/notification/\<close>): the preferences of the users and the consumer
  of the booking events, which logs a line per channel where a real service would send.  The log
  is not part of the transaction, so an operation is modelled by the lines it logs and its
  result.
\<close>

record notification_preference =
  np_user_id :: uuid
  np_email_enabled :: bool
  np_sms_enabled :: bool

record notification_db =
  ndb_preferences :: "notification_preference list"
  ndb_inbox :: inbox

record resolved_preference =
  rp_email_enabled :: bool
  rp_sms_enabled :: bool

definition resolve_preference :: "uuid \<Rightarrow> notification_db \<Rightarrow> resolved_preference" where
  "resolve_preference user_id db =
     (case find_row np_user_id user_id (ndb_preferences db) of
        None \<Rightarrow> \<lparr>rp_email_enabled = True, rp_sms_enabled = True\<rparr>
      | Some row \<Rightarrow> \<lparr>rp_email_enabled = np_email_enabled row, rp_sms_enabled = np_sms_enabled row\<rparr>)"

record would_send =
  ws_channel :: string
  ws_user_id :: uuid
  ws_event_type :: string
  ws_booking_id :: json

definition notify_user :: "uuid \<Rightarrow> string \<Rightarrow> json \<Rightarrow> notification_db \<Rightarrow> would_send list" where
  "notify_user user_id event_type booking_id db =
     (let preference = resolve_preference user_id db;
          line = (\<lambda>channel. \<lparr>ws_channel = channel, ws_user_id = user_id, ws_event_type = event_type,
                             ws_booking_id = booking_id\<rparr>)
      in (if rp_email_enabled preference then [line ''email''] else []) @
         (if rp_sms_enabled preference then [line ''sms''] else []))"

definition notify_booking_event ::
  "string \<Rightarrow> dict \<Rightarrow> notification_db \<Rightarrow> would_send list \<times> (py_exn + unit)"
where
  "notify_booking_event event_type data db =
     (case dict_item data ''booking_id'' of
        Inl x \<Rightarrow> ([], Inl x)
      | Inr booking_id \<Rightarrow>
          (case uuid_item data ''renter_id'' of
             Inl x \<Rightarrow> ([], Inl x)
           | Inr renter_id \<Rightarrow>
               let lines = notify_user renter_id event_type booking_id db
               in case uuid_item data ''host_id'' of
                    Inl x \<Rightarrow> (lines, Inl x)
                  | Inr host_id \<Rightarrow> (lines @ notify_user host_id event_type booking_id db, Inr ())))"

definition BOOKING_EVENT_TYPES :: "string list" where
  "BOOKING_EVENT_TYPES =
     [''booking_confirmed'', ''booking_cancelled'', ''booking_completed'', ''booking_rejected'',
      ''booking_payment_capture_failed'']"

text \<open>The table of handlers, split into what a handler does to the database and what it logs.\<close>

definition notification_handlers ::
  "unit \<Rightarrow> string \<Rightarrow> (notification_db \<Rightarrow> dict \<Rightarrow> py_exn + notification_db) option"
where
  "notification_handlers _ event_type =
     (if event_type \<in> set BOOKING_EVENT_TYPES
      then Some (\<lambda>db data. bindE (snd (notify_booking_event event_type data db)) (\<lambda>_. Inr db))
      else None)"

definition notification_process ::
  "string \<Rightarrow> string \<Rightarrow> dict \<Rightarrow> notification_db \<Rightarrow> would_send list \<times> (py_exn + notification_db)"
where
  "notification_process event_id event_type data db =
     (if event_id \<notin> ndb_inbox db \<and> event_type \<in> set BOOKING_EVENT_TYPES
      then fst (notify_booking_event event_type data db) else [],
      postgres_inbox_processor ndb_inbox (\<lambda>ib db. db\<lparr>ndb_inbox := ib\<rparr>) (notification_handlers ()) event_id event_type data db)"

interpretation notification_inbox: inbox_consumer ndb_inbox "\<lambda>ib db. db\<lparr>ndb_inbox := ib\<rparr>" notification_handlers loads id
  for loads
  by unfold_locales (auto simp: notification_handlers_def bindE_eq_Inr split: if_splits)

section \<open>Lemmas\<close>

lemma resolve_preference_inbox [simp]: "resolve_preference u (db\<lparr>ndb_inbox := ib\<rparr>) = resolve_preference u db"
  by (simp add: resolve_preference_def)

lemma notify_user_inbox [simp]: "notify_user u ty b (db\<lparr>ndb_inbox := ib\<rparr>) = notify_user u ty b db"
  by (simp add: notify_user_def)

lemma notify_booking_event_inbox [simp]:
  "notify_booking_event ty d (db\<lparr>ndb_inbox := ib\<rparr>) = notify_booking_event ty d db"
  unfolding notify_booking_event_def notify_user_inbox ..

text \<open>Nobody is told anything on a channel he has turned off, and nothing else is logged.\<close>

lemma notify_user_channels:
  "set (notify_user u ty b db) =
     {\<lparr>ws_channel = c, ws_user_id = u, ws_event_type = ty, ws_booking_id = b\<rparr> | c.
        c = ''email'' \<and> rp_email_enabled (resolve_preference u db) \<or>
        c = ''sms'' \<and> rp_sms_enabled (resolve_preference u db)}"
  by (auto simp: notify_user_def Let_def)

end
