(* ===== verification/Operations_Properties.thy ===== *)
theory Operations_Properties
  imports Admin Telemetry Notification Booking_Properties
begin

text \<open>
  Properties of the operational services: the kill switch, from the administrator's request to the
  packets of the vehicle, and the notifications of a booking's parties.
\<close>

section \<open>The kill switch\<close>









section \<open>Notifications\<close>

text \<open>
  C40: every lifecycle event of a booking notifies its renter and its host exactly once, each on the
  channels he has not turned off: the first delivery logs exactly those lines and claims the
  event, and a redelivery logs nothing and changes nothing.
\<close>

theorem booking_parties_notified_once:
  assumes "ty \<in> set BOOKING_EVENT_TYPES" "eid \<notin> ndb_inbox db"
  shows "\<exists>lines. notification_process eid ty (booking_event_data b) db = (lines, Inr (db\<lparr>ndb_inbox := insert eid (ndb_inbox db)\<rparr>)) \<and>
    set lines = {\<lparr>ws_channel = c, ws_user_id = u, ws_event_type = ty, ws_booking_id = JStr (uuid_str (bk_id b))\<rparr> | c u.
      u \<in> {bk_renter_id b, bk_host_id b} \<and>
      (c = ''email'' \<and> rp_email_enabled (resolve_preference u db) \<or> c = ''sms'' \<and> rp_sms_enabled (resolve_preference u db))} \<and>
    (bk_renter_id b \<noteq> bk_host_id b \<longrightarrow> distinct lines) \<and>
    notification_process eid ty (booking_event_data b) (db\<lparr>ndb_inbox := insert eid (ndb_inbox db)\<rparr>) =
      ([], Inr (db\<lparr>ndb_inbox := insert eid (ndb_inbox db)\<rparr>))"
proof -
  let ?id = "JStr (uuid_str (bk_id b))"
  let ?lines = "notify_user (bk_renter_id b) ty ?id db @ notify_user (bk_host_id b) ty ?id db"
  have n: "notify_booking_event ty (booking_event_data b) db' =
      (notify_user (bk_renter_id b) ty ?id db' @ notify_user (bk_host_id b) ty ?id db', Inr ())" for db'
    by (simp add: notify_booking_event_def booking_event_data_def uuid_item_def)
  have "notification_process eid ty (booking_event_data b) db = (?lines, Inr (db\<lparr>ndb_inbox := insert eid (ndb_inbox db)\<rparr>))"
    using assms by (simp add: notification_process_def postgres_inbox_processor_def claim_event_def notification_handlers_def n)
  moreover have "notification_process eid ty (booking_event_data b) (db\<lparr>ndb_inbox := insert eid (ndb_inbox db)\<rparr>) =
      ([], Inr (db\<lparr>ndb_inbox := insert eid (ndb_inbox db)\<rparr>))"
    by (simp add: notification_process_def postgres_inbox_processor_def claim_event_def)
  moreover have "set ?lines = {\<lparr>ws_channel = c, ws_user_id = u, ws_event_type = ty, ws_booking_id = ?id\<rparr> | c u.
      u \<in> {bk_renter_id b, bk_host_id b} \<and>
      (c = ''email'' \<and> rp_email_enabled (resolve_preference u db) \<or> c = ''sms'' \<and> rp_sms_enabled (resolve_preference u db))}"
    unfolding set_append notify_user_channels by blast
  moreover have "bk_renter_id b \<noteq> bk_host_id b \<Longrightarrow> distinct ?lines"
    by (simp add: notify_user_def Let_def)
  ultimately show ?thesis by (intro exI [of _ ?lines]) simp
qed

definition quiet_db :: notification_db where
  "quiet_db = \<lparr>ndb_preferences = [\<lparr>np_user_id = 7, np_email_enabled = True, np_sms_enabled = False\<rparr>], ndb_inbox = {}\<rparr>"

theorem booking_parties_notified_once_witness:
  "\<exists>lines db'. notification_process ''e1'' ''booking_confirmed'' (booking_event_data (sample_booking 1 ''request'' 10 12)) quiet_db =
      (lines, Inr db') \<and>
     \<lparr>ws_channel = ''email'', ws_user_id = 7, ws_event_type = ''booking_confirmed'', ws_booking_id = JStr (uuid_str 1)\<rparr> \<in> set lines \<and>
     notification_process ''e1'' ''booking_confirmed'' (booking_event_data (sample_booking 1 ''request'' 10 12)) db' = ([], Inr db')"
proof -
  let ?b = "sample_booking 1 ''request'' 10 12"
  have t: "''booking_confirmed'' \<in> set BOOKING_EVENT_TYPES" and i: "''e1'' \<notin> ndb_inbox quiet_db"
    by (simp_all add: BOOKING_EVENT_TYPES_def quiet_db_def)
  obtain lines where l: "notification_process ''e1'' ''booking_confirmed'' (booking_event_data ?b) quiet_db =
      (lines, Inr (quiet_db\<lparr>ndb_inbox := insert ''e1'' (ndb_inbox quiet_db)\<rparr>))"
    "set lines = {\<lparr>ws_channel = c, ws_user_id = u, ws_event_type = ''booking_confirmed'', ws_booking_id = JStr (uuid_str (bk_id ?b))\<rparr> | c u.
      u \<in> {bk_renter_id ?b, bk_host_id ?b} \<and>
      (c = ''email'' \<and> rp_email_enabled (resolve_preference u quiet_db) \<or> c = ''sms'' \<and> rp_sms_enabled (resolve_preference u quiet_db))}"
    "notification_process ''e1'' ''booking_confirmed'' (booking_event_data ?b) (quiet_db\<lparr>ndb_inbox := insert ''e1'' (ndb_inbox quiet_db)\<rparr>) =
      ([], Inr (quiet_db\<lparr>ndb_inbox := insert ''e1'' (ndb_inbox quiet_db)\<rparr>))"
    using booking_parties_notified_once [OF t i, of ?b] by (elim exE conjE) (rule that)
  have "rp_email_enabled (resolve_preference u quiet_db)" for u
    by (simp add: resolve_preference_def quiet_db_def)
  then have "\<lparr>ws_channel = ''email'', ws_user_id = 7, ws_event_type = ''booking_confirmed'', ws_booking_id = JStr (uuid_str 1)\<rparr> \<in> set lines"
    unfolding l(2) by (simp add: sample_booking_def)
  with l show ?thesis by blast
qed

end
