(* ===== verification/Telemetry_Properties.thy ===== *)
theory Telemetry_Properties
  imports Telemetry "HOL-Library.Multiset"
begin

text \<open>
  The way of a position: from the socket of the vehicle through Kafka and the batching consumer to
  the endpoint that shows it.  \<open>telemetry_topic\<close> are the topics the sockets can produce; Kafka
  delivers the records of a key in order, which is the hypothesis \<open>delivered\<close>.
\<close>

section \<open>What the pipeline relies on\<close>

text \<open>\<^verbatim>\<open>json.loads(json.dumps(j)) == j\<close>.\<close>

definition json_documented :: "telemetry_web \<Rightarrow> bool" where
  "json_documented w \<longleftrightarrow> (\<forall>j. tw_loads w (tw_dumps w j) = Some j)"

text \<open>The topics that any number of sockets can produce together.\<close>

inductive telemetry_topic :: "telemetry_web \<Rightarrow> 'rd redis \<Rightarrow> (string \<times> string) list \<Rightarrow> bool" for w R where
  empty: "telemetry_topic w R []"
| socket: "telemetry_topic w R topic \<Longrightarrow> ingest w R vid token received topic = Inr (replies, topic') \<Longrightarrow>
     telemetry_topic w R topic'"

text \<open>Per key, the polled records are the records of the topic, in order.\<close>

definition delivered :: "(string \<times> string) list \<Rightarrow> (int \<times> (string \<times> string) list list) list \<Rightarrow> bool" where
  "delivered topic polls \<longleftrightarrow>
     (\<forall>k. filter (\<lambda>r. fst r = k) (concat (map (concat \<circ> snd) polls)) = filter (\<lambda>r. fst r = k) topic)"

definition poll_values :: "(int \<times> (string \<times> string) list list) list \<Rightarrow> (int \<times> string list list) list" where
  "poll_values polls = map (\<lambda>(now, batches). (now, map (map snd) batches)) polls"

section \<open>Batches\<close>

definition packet_doc :: "telemetry_web \<Rightarrow> string \<Rightarrow> telemetry_packet \<Rightarrow> dict" where
  "packet_doc w vid p =
     [(''vehicle_id'', JStr vid), (''lat'', JFloat (tp_lat p)), (''lng'', JFloat (tp_lng p)),
      (''speed_kph'', JFloat (tp_speed_kph p)), (''recorded_at'', JStr (tw_isoformat w (tp_recorded_at p)))]"

definition packet_record :: "telemetry_web \<Rightarrow> string \<times> telemetry_packet \<Rightarrow> string \<times> string" where
  "packet_record w x = (fst x, tw_dumps w (packet_message w (fst x) (snd x)))"

lemma packet_message_doc: "packet_message w vid p = JObj (packet_doc w vid p)"
  by (simp add: packet_message_def packet_doc_def)

lemma fst_packet_record [simp]: "fst (packet_record w x) = fst x"
  by (simp add: packet_record_def)

text \<open>What the sockets publish are valid packets, with the kill switch applied.\<close>

lemma telemetry_topic_packets:
  "telemetry_topic w R topic \<Longrightarrow> \<exists>ps. topic = map (packet_record w) ps"
proof (induction rule: telemetry_topic.induct)
  case (socket topic vid token received replies topic')
  then obtain ps where ps: "topic = map (packet_record w) ps" by blast
  have "topic' = topic @ map (\<lambda>p. (vid, tw_dumps w (packet_message w vid p))) (List.map_filter (enforced w R vid) received)"
    using socket(2) by (auto simp: ingest_def ingest_loop_topic split: option.splits)
  then have "topic' = map (packet_record w) (ps @ map (Pair vid) (List.map_filter (enforced w R vid) received))"
    by (simp add: ps packet_record_def)
  then show ?case ..
qed simp

lemma build_batch_messages:
  assumes "json_documented w"
  shows "build_batch_from w (map (\<lambda>x. snd (packet_record w x)) ps) documents latest =
    Inr (documents @ map (\<lambda>(v, p). packet_doc w v p) ps, fold (\<lambda>(v, p). dict_put v (packet_doc w v p)) ps latest)"
proof (induction ps arbitrary: documents latest)
  case (Cons x ps)
  have "tw_loads w (snd (packet_record w x)) = Some (JObj (packet_doc w (fst x) (snd x)))"
    using assms by (simp add: packet_record_def packet_message_doc json_documented_def)
  moreover have "str_item (packet_doc w v p) ''vehicle_id'' = Inr v" for v p
    by (simp add: str_item_def packet_doc_def)
  ultimately show ?case by (cases x) (simp add: Cons.IH)
qed simp

text \<open>The last packet of a vehicle in a list, and the dictionary of the last packets.\<close>

definition last_packet :: "string \<Rightarrow> (string \<times> telemetry_packet) list \<Rightarrow> telemetry_packet option" where
  "last_packet v ps = map_of (rev ps) v"

definition last_packets :: "(string \<times> telemetry_packet) list \<Rightarrow> (string \<times> telemetry_packet) list" where
  "last_packets ps = fold (\<lambda>(v, p). dict_put v p) ps []"

definition with_doc :: "telemetry_web \<Rightarrow> (string \<times> telemetry_packet) list \<Rightarrow> (string \<times> dict) list" where
  "with_doc w ps = map (\<lambda>(v, p). (v, packet_doc w v p)) ps"

lemma dict_put_doc: "dict_put v (packet_doc w v p) (with_doc w L) = with_doc w (dict_put v p L)"
  by (induction v p L rule: dict_put.induct) (auto simp: with_doc_def)

lemma fold_dict_put_doc:
  "fold (\<lambda>(v, p). dict_put v (packet_doc w v p)) ps (with_doc w L) = with_doc w (fold (\<lambda>(v, p). dict_put v p) ps L)"
  by (induction ps arbitrary: L) (auto simp: dict_put_doc)

lemma map_of_last_packets: "map_of (last_packets ps) v = last_packet v ps"
proof (induction ps rule: rev_induct)
  case (snoc x ps)
  then show ?case by (cases x) (simp add: map_of_dict_put last_packet_def last_packets_def)
qed (simp add: last_packet_def last_packets_def)

lemma distinct_last_packets: "distinct (map fst (last_packets ps))"
proof (induction ps rule: rev_induct)
  case (snoc x ps)
  then show ?case by (cases x) (simp add: last_packets_def distinct_dict_put)
qed (simp add: last_packets_def)

lemma build_batch_docs:
  "json_documented w \<Longrightarrow> build_batch w (map (\<lambda>x. snd (packet_record w x)) ps) =
     Inr (map (\<lambda>(v, p). packet_doc w v p) ps, with_doc w (last_packets ps))"
  unfolding build_batch_def build_batch_messages last_packets_def
  using fold_dict_put_doc [of w ps "[]"] by (simp add: with_doc_def)

section \<open>Positions in Redis\<close>

definition position_fields :: "telemetry_web \<Rightarrow> telemetry_packet \<Rightarrow> dict" where
  "position_fields w p =
     [(''lat'', JFloat (tp_lat p)), (''lng'', JFloat (tp_lng p)), (''recorded_at'', JStr (tw_isoformat w (tp_recorded_at p)))]"

lemma location_key_inject [simp]: "location_key a = location_key b \<longleftrightarrow> a = b"
  by (simp add: location_key_def)

lemma write_positions_get:
  assumes "redis_documented R" "distinct (map fst L)"
  shows "\<exists>rd'. write_positions w R now ttl (with_doc w L) rd = (None, rd') \<and>
    (\<forall>t v. now \<le> t \<longrightarrow> rd_get R t (location_key v) rd' =
      (case map_of L v of None \<Rightarrow> rd_get R t (location_key v) rd
       | Some p \<Rightarrow> if t < now + ttl then Some (tw_dumps w (JObj (position_fields w p))) else None))"
  using assms(2)
proof (induction L arbitrary: rd)
  case (Cons x L)
  obtain v p where x: "x = (v, p)" by (cases x)
  let ?rd = "rd_set R now (location_key v) (tw_dumps w (JObj (position_fields w p))) ttl rd"
  have step: "write_positions w R now ttl (with_doc w (x # L)) rd = write_positions w R now ttl (with_doc w L) ?rd"
    by (simp add: x with_doc_def packet_doc_def write_latest_position_def position_fields_def)
  have new: "map_of L v = None" using Cons.prems by (simp add: x map_of_eq_None_iff)
  from Cons.prems have "distinct (map fst L)" by simp
  from Cons.IH [OF this, of ?rd] obtain rd' where rd': "write_positions w R now ttl (with_doc w L) ?rd = (None, rd')"
    and get: "\<And>t v. now \<le> t \<Longrightarrow> rd_get R t (location_key v) rd' =
      (case map_of L v of None \<Rightarrow> rd_get R t (location_key v) ?rd
       | Some p \<Rightarrow> if t < now + ttl then Some (tw_dumps w (JObj (position_fields w p))) else None)" by blast
  have "rd_get R t (location_key u) rd' =
      (case map_of (x # L) u of None \<Rightarrow> rd_get R t (location_key u) rd
       | Some p \<Rightarrow> if t < now + ttl then Some (tw_dumps w (JObj (position_fields w p))) else None)" if "now \<le> t" for t u
    using new by (simp add: get [OF that] redis_laws(3) [OF assms(1) that] x split: option.split)
  then show ?case unfolding step using rd' by blast
qed (simp add: with_doc_def)

text \<open>One turn of the loop on the messages of a batch.\<close>

lemma consume_batch_messages:
  assumes "redis_documented R" "json_documented w"
  shows "\<exists>rd'. consume_batch w R now ttl (map (\<lambda>x. snd (packet_record w x)) ps) st =
      (None, \<lparr>ts_committed = ts_committed st + length ps,
              ts_packets = ts_packets st @ map (\<lambda>(v, p). packet_doc w v p) ps, ts_redis = rd'\<rparr>) \<and>
    (\<forall>t v. now \<le> t \<longrightarrow> rd_get R t (location_key v) rd' =
      (case last_packet v ps of None \<Rightarrow> rd_get R t (location_key v) (ts_redis st)
       | Some p \<Rightarrow> if t < now + ttl then Some (tw_dumps w (JObj (position_fields w p))) else None))"
proof (cases "ps = []")
  case False
  obtain rd' where rd': "write_positions w R now ttl (with_doc w (last_packets ps)) (ts_redis st) = (None, rd')"
    "\<forall>t v. now \<le> t \<longrightarrow> rd_get R t (location_key v) rd' =
      (case last_packet v ps of None \<Rightarrow> rd_get R t (location_key v) (ts_redis st)
       | Some p \<Rightarrow> if t < now + ttl then Some (tw_dumps w (JObj (position_fields w p))) else None)"
    using write_positions_get [OF assms(1) distinct_last_packets] unfolding map_of_last_packets by metis
  then show ?thesis
    using False by (cases st) (simp add: consume_batch_def build_batch_docs [OF assms(2)] write_batch_def Let_def)
qed (cases st, simp add: consume_batch_def last_packet_def)

section \<open>All polls\<close>

type_synonym packet_polls = "(int \<times> (string \<times> telemetry_packet) list list) list"

definition record_polls :: "telemetry_web \<Rightarrow> packet_polls \<Rightarrow> (int \<times> (string \<times> string) list list) list" where
  "record_polls w polls = map (\<lambda>(now, batches). (now, map (map (packet_record w)) batches)) polls"

definition polled :: "(int \<times> 'a list list) list \<Rightarrow> 'a list" where
  "polled polls = concat (map (concat \<circ> snd) polls)"

lemma polled_simps [simp]:
  "polled [] = []" "polled (x # polls) = concat (snd x) @ polled polls"
  "polled (polls @ polls') = polled polls @ polled polls'"
  "polled (record_polls w pp) = map (packet_record w) (polled pp)"
  by (auto simp: polled_def record_polls_def map_concat o_def split_def)

text \<open>The last poll with a packet of the vehicle, with its time.\<close>

fun last_seen :: "string \<Rightarrow> packet_polls \<Rightarrow> (int \<times> telemetry_packet) option" where
  "last_seen v [] = None"
| "last_seen v ((now, batches) # polls) =
     (case last_seen v polls of None \<Rightarrow> map_option (Pair now) (last_packet v (concat batches)) | Some x \<Rightarrow> Some x)"

lemma run_consumer_packets:
  assumes "redis_documented R" "json_documented w"
  shows "\<exists>rd'. run_telemetry_consumer w R ttl (poll_values (record_polls w pp)) st =
      (None, \<lparr>ts_committed = ts_committed st + length (polled pp),
              ts_packets = ts_packets st @ map (\<lambda>(v, p). packet_doc w v p) (polled pp), ts_redis = rd'\<rparr>) \<and>
    (\<forall>t v. (\<forall>x \<in> set pp. fst x \<le> t) \<longrightarrow> rd_get R t (location_key v) rd' =
      (case last_seen v pp of None \<Rightarrow> rd_get R t (location_key v) (ts_redis st)
       | Some (seen, p) \<Rightarrow> if t < seen + ttl then Some (tw_dumps w (JObj (position_fields w p))) else None))"
proof (induction pp arbitrary: st)
  case Nil
  show ?case by (intro exI [of _ "ts_redis st"]) (simp add: poll_values_def record_polls_def)
next
  case (Cons x pp)
  obtain now batches where x: "x = (now, batches)" by (cases x)
  have flat: "concat (map (map (\<lambda>x. snd (packet_record w x))) batches) = map (\<lambda>x. snd (packet_record w x)) (concat batches)"
    by (simp add: map_concat)
  obtain rd1 where turn: "consume_batch w R now ttl (map (\<lambda>x. snd (packet_record w x)) (concat batches)) st =
      (None, \<lparr>ts_committed = ts_committed st + length (concat batches),
              ts_packets = ts_packets st @ map (\<lambda>(v, p). packet_doc w v p) (concat batches), ts_redis = rd1\<rparr>)" (is "_ = (None, ?st1)")
    and get1: "\<And>t v. now \<le> t \<Longrightarrow> rd_get R t (location_key v) rd1 =
      (case last_packet v (concat batches) of None \<Rightarrow> rd_get R t (location_key v) (ts_redis st)
       | Some p \<Rightarrow> if t < now + ttl then Some (tw_dumps w (JObj (position_fields w p))) else None)"
    using consume_batch_messages [OF assms] by blast
  obtain rd' where rest: "run_telemetry_consumer w R ttl (poll_values (record_polls w pp)) ?st1 =
      (None, \<lparr>ts_committed = ts_committed ?st1 + length (polled pp),
              ts_packets = ts_packets ?st1 @ map (\<lambda>(v, p). packet_doc w v p) (polled pp), ts_redis = rd'\<rparr>)"
    and get: "\<And>t v. (\<forall>x \<in> set pp. fst x \<le> t) \<Longrightarrow> rd_get R t (location_key v) rd' =
      (case last_seen v pp of None \<Rightarrow> rd_get R t (location_key v) (ts_redis ?st1)
       | Some (seen, p) \<Rightarrow> if t < seen + ttl then Some (tw_dumps w (JObj (position_fields w p))) else None)"
    using Cons.IH [of ?st1] by blast
  have "run_telemetry_consumer w R ttl (poll_values (record_polls w (x # pp))) st =
      run_telemetry_consumer w R ttl (poll_values (record_polls w pp)) ?st1"
    using turn flat by (simp add: x poll_values_def record_polls_def o_def)
  then show ?case
    using rest get get1 by (auto simp: x split: option.splits)
qed

text \<open>What was polled from a topic of the sockets are packets.\<close>

lemma delivered_mset: "delivered topic polls \<Longrightarrow> mset (polled polls) = mset topic"
proof (rule multiset_eqI)
  fix r :: "string \<times> string" assume "delivered topic polls"
  then have "filter (\<lambda>x. fst x = fst r) (polled polls) = filter (\<lambda>x. fst x = fst r) topic"
    by (simp add: delivered_def polled_def)
  then have "count (mset (filter (\<lambda>x. fst x = fst r) (polled polls))) r = count (mset (filter (\<lambda>x. fst x = fst r) topic)) r"
    by simp
  then show "count (mset (polled polls)) r = count (mset topic) r" by simp
qed

lemma delivered_packets:
  assumes "telemetry_topic w R topic" "delivered topic polls"
  shows "\<exists>pp. polls = record_polls w pp"
proof -
  have "set (polled polls) = set topic" by (rule mset_eq_setD [OF delivered_mset [OF assms(2)]])
  then have ex: "\<exists>x. packet_record w x = r" if "r \<in> set (polled polls)" for r
    using telemetry_topic_packets [OF assms(1)] that by (metis imageE set_map)
  define g where "g r = (SOME x. packet_record w x = r)" for r
  have g: "packet_record w (g r) = r" if "r \<in> set (polled polls)" for r
    unfolding g_def by (rule someI_ex [OF ex [OF that]])
  have "map (map (packet_record w \<circ> g)) b = b" if "(a, b) \<in> set polls" for a b
    by (intro map_idI) (use g that in \<open>force simp: polled_def intro: map_idI\<close>)
  then have "record_polls w (map (\<lambda>(now, batches). (now, map (map g) batches)) polls) = polls"
    by (auto simp: record_polls_def intro!: map_idI)
  then show ?thesis by metis
qed

text \<open>The message of a packet determines what is shown of it.\<close>

lemma packet_record_fields:
  assumes "json_documented w" "packet_record w (v, p) = packet_record w (v, q)"
  shows "position_fields w p = position_fields w q"
proof -
  have "Some (packet_message w v p) = Some (packet_message w v q)"
    using assms unfolding json_documented_def packet_record_def by (metis snd_conv fst_conv)
  then show ?thesis by (simp add: packet_message_def position_fields_def)
qed

lemma last_packet_append:
  "last_packet v (ps @ qs) = (case last_packet v qs of None \<Rightarrow> last_packet v ps | Some p \<Rightarrow> Some p)"
  by (simp add: last_packet_def map_add_def split: option.split)

lemma last_packet_None: "last_packet v ps = None \<longleftrightarrow> v \<notin> fst ` set ps"
  by (simp add: last_packet_def map_of_eq_None_iff)

lemma last_packet_record:
  assumes "filter (\<lambda>r. fst r = v) (map (packet_record w) ps) = rs @ [packet_record w (v, p)]"
  shows "\<exists>q. last_packet v ps = Some q \<and> packet_record w (v, q) = packet_record w (v, p)"
  using assms
proof (induction ps arbitrary: rs rule: rev_induct)
  case (snoc x ps)
  then show ?case by (cases x) (auto simp: last_packet_def)
qed simp

lemma last_seen_split:
  assumes "last_packet v (concat batches) = Some p" "v \<notin> fst ` set (polled after)"
  shows "last_seen v (before @ (t, batches) # after) = Some (t, p)"
proof -
  have "last_seen v after = None"
    using assms(2)
  proof (induction after)
    case (Cons x after)
    then have "last_seen v after = None" "last_packet v (concat (snd x)) = None"
      by (auto simp: last_packet_None image_Un)
    then show ?case by (cases x) simp
  qed simp
  then show ?thesis using assms(1) by (induction before) auto
qed

lemma last_seen_delivered:
  assumes "json_documented w" "delivered topic polls" "filter (\<lambda>r. fst r = v) topic = rs @ [packet_record w (v, p)]"
    and "polls = record_polls w pp" "polls = before @ (t, batches) # after"
    and "v \<in> fst ` set (concat batches)" "v \<notin> fst ` set (polled after)"
  shows "\<exists>q. last_seen v pp = Some (t, q) \<and> position_fields w q = position_fields w p"
proof -
  obtain before' batches' after' where pp: "pp = before' @ (t, batches') # after'"
    and parts: "before = record_polls w before'" "batches = map (map (packet_record w)) batches'" "after = record_polls w after'"
  proof -
    have "record_polls w pp = before @ (t, batches) # after" using assms(4,5) by simp
    then show ?thesis
      unfolding record_polls_def map_eq_append_conv map_eq_Cons_conv by (auto intro: that simp: record_polls_def)
  qed
  have rec: "concat batches = map (packet_record w) (concat batches')" by (simp add: parts map_concat)
  have absent: "v \<notin> fst ` set (polled after')"
    using assms(7) by (simp add: parts image_image)
  have "filter (\<lambda>r. fst r = v) (polled polls) = rs @ [packet_record w (v, p)]"
    using assms(2,3) by (simp add: delivered_def polled_def)
  then have "filter (\<lambda>r. fst r = v) (map (packet_record w) (polled pp)) = rs @ [packet_record w (v, p)]"
    by (simp add: assms(4))
  from last_packet_record [OF this] obtain q where q: "last_packet v (polled pp) = Some q"
    "packet_record w (v, q) = packet_record w (v, p)" by blast
  have "last_packet v (polled after') = None" using absent by (simp add: last_packet_None)
  moreover have "last_packet v (concat batches') \<noteq> None"
    using assms(6) unfolding last_packet_None rec by (simp add: image_image)
  ultimately have "last_packet v (concat batches') = Some q"
    using q(1) by (auto simp: pp last_packet_append split: option.splits)
  from last_seen_split [OF this absent] show ?thesis
    using packet_record_fields [OF assms(1) q(2)] by (auto simp: pp)
qed

lemma stored_documents:
  assumes "delivered topic polls" "polls = record_polls w pp"
  shows "map (\<lambda>d. tw_dumps w (JObj d)) (filter (\<lambda>d. dict_get d ''vehicle_id'' = Some (JStr v)) (map (\<lambda>(v, p). packet_doc w v p) (polled pp))) =
    map snd (filter (\<lambda>r. fst r = v) topic)"
proof -
  have "filter (\<lambda>r. fst r = v) topic = filter (\<lambda>r. fst r = v) (map (packet_record w) (polled pp))"
    using assms by (simp add: delivered_def polled_def [symmetric])
  moreover have "map (\<lambda>d. tw_dumps w (JObj d)) (filter (\<lambda>d. dict_get d ''vehicle_id'' = Some (JStr v)) (map (\<lambda>(v, p). packet_doc w v p) ps)) =
    map snd (filter (\<lambda>r. fst r = v) (map (packet_record w) ps))" for ps
    by (induction ps) (auto simp: packet_record_def packet_message_doc packet_doc_def)
  ultimately show ?thesis by simp
qed

section \<open>The property\<close>

text \<open>
  C31: the position shown for a vehicle is the one of the last packet its sockets accepted, as soon
  as the consumer has polled it and for exactly \<^verbatim>\<open>redis_position_ttl_seconds\<close> after that; then the
  answer is 404.  The consumer never fails on what the sockets published, commits all of it, and
  stores the packets of each vehicle in the order they were published.
\<close>

theorem location_is_last_packet:
  assumes "redis_documented R" "json_documented w"
    and "telemetry_topic w R topic" "delivered topic polls"
    and "filter (\<lambda>r. fst r = v) topic = rs @ [packet_record w (v, p)]"
    and "polls = before @ (t, batches) # after"
    and "v \<in> fst ` set (concat batches)" "v \<notin> fst ` set (polled after)"
    and "\<forall>poll \<in> set polls. fst poll \<le> now"
    and "claims_dependency (tw_jwt w) ''access'' authorization = Inr claims"
  shows "\<exists>docs rd'. run_telemetry_consumer w R ttl (poll_values polls) st =
      (None, \<lparr>ts_committed = ts_committed st + length topic, ts_packets = ts_packets st @ docs, ts_redis = rd'\<rparr>) \<and>
    map (\<lambda>d. tw_dumps w (JObj d)) (filter (\<lambda>d. dict_get d ''vehicle_id'' = Some (JStr v)) docs) =
      map snd (filter (\<lambda>r. fst r = v) topic) \<and>
    get_location_route w R now authorization v rd' =
      (if now < t + ttl
       then Inr (JObj [(''vehicle_id'', JStr v), (''lat'', JFloat (tp_lat p)), (''lng'', JFloat (tp_lng p)),
                       (''recorded_at'', JStr (tw_isoformat w (tp_recorded_at p)))])
       else Inl (HTTPException 404 ''no recent location for this vehicle''))"
proof -
  obtain pp where pp: "polls = record_polls w pp"
    using delivered_packets [OF assms(3,4)] by blast
  obtain rd' where run: "run_telemetry_consumer w R ttl (poll_values polls) st =
      (None, \<lparr>ts_committed = ts_committed st + length (polled pp),
              ts_packets = ts_packets st @ map (\<lambda>(v, p). packet_doc w v p) (polled pp), ts_redis = rd'\<rparr>)"
    and get: "\<And>t v. (\<forall>x \<in> set pp. fst x \<le> t) \<Longrightarrow> rd_get R t (location_key v) rd' =
      (case last_seen v pp of None \<Rightarrow> rd_get R t (location_key v) (ts_redis st)
       | Some (seen, p) \<Rightarrow> if t < seen + ttl then Some (tw_dumps w (JObj (position_fields w p))) else None)"
    using run_consumer_packets [OF assms(1,2), of ttl pp st] unfolding pp by blast
  have len: "length (polled pp) = length topic"
    using arg_cong [OF delivered_mset [OF assms(4)], of size] by (simp add: pp)
  obtain q where seen: "last_seen v pp = Some (t, q)" and q: "position_fields w q = position_fields w p"
    using last_seen_delivered [OF assms(2,4,5) pp] assms(6-8) by blast
  have "rd_get R now (location_key v) rd' = (if now < t + ttl then Some (tw_dumps w (JObj (position_fields w p))) else None)"
    using get [of now v] assms(9) seen q by (simp add: pp record_polls_def split_def)
  then have "get_location_route w R now authorization v rd' =
      (if now < t + ttl then Inr (JObj ((''vehicle_id'', JStr v) # position_fields w p))
       else Inl (HTTPException 404 ''no recent location for this vehicle''))"
    using assms(2,10) by (simp add: get_location_route_def get_latest_position_def json_documented_def)
  with run len stored_documents [OF assms(4) pp, of v] show ?thesis
    by (intro exI [of _ "map (\<lambda>(v, p). packet_doc w v p) (polled pp)"] exI [of _ rd'] conjI)
      (simp_all add: position_fields_def)
qed

section \<open>A sample run\<close>

text \<open>A printer of JSON values that can be read back: the number of the value, in unary.\<close>

definition pipeline_web :: telemetry_web where
  "pipeline_web =
     \<lparr>tw_jwt = \<lparr>jw_decode = (\<lambda>token secret algs issuer. Some [(''type'', JStr ''access'')]), jw_secret = ''s'', jw_issuer = ''i''\<rparr>,
      tw_parse = (\<lambda>raw. Some \<lparr>tp_lat = Finite (if raw = ''a'' then 52 else 53), tp_lng = Finite 13, tp_speed_kph = Finite 50,
                              tp_recorded_at = 7\<rparr>),
      tw_isoformat = (\<lambda>t. ''1970''), tw_dumps = (\<lambda>j. replicate (to_nat j) (CHR ''1'')),
      tw_loads = (\<lambda>s. Some (from_nat (length s)))\<rparr>"

definition pipeline_packet :: "rat \<Rightarrow> telemetry_packet" where
  "pipeline_packet lat = \<lparr>tp_lat = Finite lat, tp_lng = Finite 13, tp_speed_kph = Finite 50, tp_recorded_at = 7\<rparr>"

lemma pipeline_topic:
  "telemetry_topic pipeline_web map_redis
     [packet_record pipeline_web (''v'', pipeline_packet 52), packet_record pipeline_web (''v'', pipeline_packet 53)]"
proof (rule telemetry_topic.socket [OF telemetry_topic.empty])
  show "ingest pipeline_web map_redis ''v'' None [(0, Map.empty, ''a''), (1, Map.empty, ''b'')] [] =
     Inr ([True, True], [packet_record pipeline_web (''v'', pipeline_packet 52), packet_record pipeline_web (''v'', pipeline_packet 53)])"
    by (simp add: ingest_def decode_token_def pipeline_web_def parse_packet_def validated_def packet_valid_def
        kill_switch_is_active_def map_redis_def map_redis_get_def apply_kill_switch_def publish_packet_def
        packet_record_def pipeline_packet_def)
qed

theorem location_is_last_packet_witness:
  "\<exists>rd'. get_location_route pipeline_web map_redis 25 (Some ''Bearer t'') ''v'' rd' =
     Inr (JObj [(''vehicle_id'', JStr ''v''), (''lat'', JFloat (Finite 53)), (''lng'', JFloat (Finite 13)),
                (''recorded_at'', JStr ''1970'')])"
proof -
  let ?r = "\<lambda>lat. packet_record pipeline_web (''v'', pipeline_packet lat)"
  have doc: "json_documented pipeline_web" by (simp add: json_documented_def pipeline_web_def)
  have del: "delivered [?r 52, ?r 53] [(10, [[?r 52]]), (20, [[], [?r 53]])]"
    by (simp add: delivered_def)
  have tok: "claims_dependency (tw_jwt pipeline_web) ''access'' (Some ''Bearer t'') = Inr [(''type'', JStr ''access'')]"
    using claims_dependency_Bearer [of "tw_jwt pipeline_web" "''access''" "''t''"]
    by (simp add: decode_token_def pipeline_web_def)
  from location_is_last_packet [OF map_redis_documented doc pipeline_topic del, of "''v''" "[?r 52]" "pipeline_packet 53"
      "[(10, [[?r 52]])]" 20 "[[], [?r 53]]" "[]" 25 "Some ''Bearer t''" "[(''type'', JStr ''access'')]" 300
      "\<lparr>ts_committed = 0, ts_packets = [], ts_redis = Map.empty\<rparr>"] tok
  obtain rd' where "get_location_route pipeline_web map_redis 25 (Some ''Bearer t'') ''v'' rd' =
      Inr (JObj [(''vehicle_id'', JStr ''v''), (''lat'', JFloat (tp_lat (pipeline_packet 53))), (''lng'', JFloat (tp_lng (pipeline_packet 53))),
                 (''recorded_at'', JStr (tw_isoformat pipeline_web (tp_recorded_at (pipeline_packet 53))))])"
    by (auto simp: packet_record_def)
  then show ?thesis by (auto simp: pipeline_packet_def pipeline_web_def)
qed

end
