(* ===== verification/Search_Cache.thy ===== *)
theory Search_Cache
  imports Search_Properties
begin

text \<open>
  The query cache of the search service over time: requests and listing events in any order, with
  the clock moving forward.  \<open>search_history\<close> keeps the index as it was at each of them; an answer
  is always the answer of one of those states that is younger than the time to live.
\<close>

section \<open>Runs of the service\<close>

text \<open>
  Time, stores and the observed states of the index, latest first.  At the start the cache is empty.
\<close>

inductive search_history ::
  "search_web \<Rightarrow> 'rd redis \<Rightarrow> 'es es_client \<Rightarrow> int \<Rightarrow> 'rd \<times> 'es \<Rightarrow> (int \<times> 'es) list \<Rightarrow> bool" for w R E
where
  start: "(\<And>params now. rd_get R now (search_cache_key w params) rd = None) \<Longrightarrow>
     search_history w R E t (rd, es) [(t, es)]"
| query: "search_history w R E t st h \<Longrightarrow> t \<le> now \<Longrightarrow> search_route w R E now p st = (r, st') \<Longrightarrow>
     search_history w R E now st' ((now, snd st) # h)"
| event: "search_history w R E t st h \<Longrightarrow> t \<le> now \<Longrightarrow>
     build_listing_event_processor R E 86400 now event_id event_type data st = (r, st') \<Longrightarrow>
     search_history w R E now st' ((now, snd st') # h)"

inductive_cases search_history_cases: "search_history w R E t st h"




section \<open>What the cache holds\<close>









section \<open>The property\<close>


section \<open>A sample run\<close>

definition result_fields ::
  "vehicle_search_result \<Rightarrow> (string \<times> string \<times> string \<times> string) \<times> (int \<times> int \<times> int) \<times> string \<times> pyfloat \<times> pyfloat"
where
  "result_fields r =
     ((sr_vehicle_id r, sr_host_id r, sr_make r, sr_model r), (sr_year r, sr_daily_price_cents r, sr_daily_mileage_limit r),
      sr_booking_mode r, sr_latitude r, sr_longitude r)"

definition fields_result ::
  "(string \<times> string \<times> string \<times> string) \<times> (int \<times> int \<times> int) \<times> string \<times> pyfloat \<times> pyfloat \<Rightarrow> vehicle_search_result"
where
  "fields_result x =
     (case x of ((i, h, mk, mo), (y, p, l), b, lat, lon) \<Rightarrow>
        \<lparr>sr_vehicle_id = i, sr_host_id = h, sr_make = mk, sr_model = mo, sr_year = y, sr_daily_price_cents = p,
         sr_daily_mileage_limit = l, sr_booking_mode = b, sr_latitude = lat, sr_longitude = lon\<rparr>)"

lemma fields_result_fields [simp]: "fields_result (result_fields r) = r"
  by (simp add: fields_result_def result_fields_def)









end
