(* ===== verification/Admin_Listing.thy ===== *)
theory Admin_Listing
  imports Admin Listing_Properties
begin

text \<open>
  The admin service over the listing service: \<^verbatim>\<open>POST /admin/vehicles/{id}/approve\<close> forwards the
  decision to the listing service and then records it in the audit trail.  The locale
  \<open>approval_service\<close> is what the admin service relies on; the interpretation \<open>listing_upstream\<close>
  discharges it for the listing service's own endpoints, reached through HTTP.
\<close>

section \<open>What the admin service relies on\<close>

text \<open>
  \<open>status\<close> is the approval status the other service has for a vehicle, \<open>fresh\<close> says that it has not
  seen an idempotency key.
\<close>

locale approval_service =
  fixes post :: "'io http_post"
    and base :: string
    and status :: "'io \<Rightarrow> uuid \<Rightarrow> string option"
    and fresh :: "'io \<Rightarrow> string \<Rightarrow> bool"
  assumes approve_answered:
    "fresh io (uuid_str (env_uuid4 e 0)) \<Longrightarrow> client_approve_vehicle e post base i bearer io = (Inr j, io') \<Longrightarrow>
       status io i = Some ''pending'' \<and> status io' = (status io)(i \<mapsto> ''approved'')"
    and approve_error:
    "fresh io (uuid_str (env_uuid4 e 0)) \<Longrightarrow> status io i \<noteq> Some ''pending'' \<Longrightarrow>
       \<exists>code detail. client_approve_vehicle e post base i bearer io = (Inl (UpstreamError code detail), io)"
begin

text \<open>A decision that is answered was carried out and is in the audit trail.\<close>

lemma approve_vehicle_audited:
  assumes "admin_approve_vehicle e post base admin_id i bearer db io = (Inr (j, db'), io')"
    and "fresh io (uuid_str (env_uuid4 e 0))"
  shows "status io i = Some ''pending'' \<and> status io' = (status io)(i \<mapsto> ''approved'') \<and>
    (\<exists>a. xdb_actions db' = xdb_actions db @ [a] \<and> ac_admin_id a = admin_id \<and>
       ac_action_type a = ''vehicle_approved'' \<and> ac_target_id a = uuid_str i)"
proof -
  obtain j' where c: "client_approve_vehicle e post base i bearer io = (Inr j', io')"
    using assms(1)
    by (cases "client_approve_vehicle e post base i bearer io")
      (auto simp: admin_approve_vehicle_def Let_def result_simps)
  moreover have "\<exists>a. xdb_actions db' = xdb_actions db @ [a] \<and> ac_admin_id a = admin_id \<and>
       ac_action_type a = ''vehicle_approved'' \<and> ac_target_id a = uuid_str i"
    using assms(1) c by (auto simp: admin_approve_vehicle_def record_action_def Let_def result_simps split: if_splits)
  ultimately show ?thesis using approve_answered [OF assms(2)] by blast
qed

text \<open>A vehicle that is already decided cannot be approved again, and nothing is recorded.\<close>

lemma approve_decided_vehicle:
  assumes "status io i \<noteq> Some ''pending''" "fresh io (uuid_str (env_uuid4 e 0))"
  shows "\<exists>code detail. admin_approve_vehicle e post base admin_id i bearer db io = (Inl (UpstreamError code detail), io)"
proof -
  obtain code detail where "client_approve_vehicle e post base i bearer io = (Inl (UpstreamError code detail), io)"
    using approve_error [OF assms(2,1)] by blast
  then show ?thesis by (simp add: admin_approve_vehicle_def)
qed

lemma approve_build_decided:
  assumes "status io i \<noteq> Some ''pending''" "fresh io (uuid_str (env_uuid4 e 0))" "xw_listing_base_url w = base"
  shows "\<exists>x. admin_approve_build w e post i rq claims u db io = (Inl (AdminPy x), io)"
proof (cases "caller rq claims")
  case (Inl x)
  then show ?thesis by (cases x) (auto simp: admin_approve_build_def caller_def result_simps)
next
  case (Inr c)
  obtain admin_id bearer where c: "c = (admin_id, bearer)" by (cases c)
  obtain code detail where "admin_approve_vehicle e post base admin_id i bearer db io = (Inl (UpstreamError code detail), io)"
    using approve_decided_vehicle [OF assms(1,2)] by blast
  then show ?thesis using Inr c assms(3) by (simp add: admin_approve_build_def vehicle_answer_def)
qed

text \<open>Whole requests.\<close>

lemma approve_route_audited:
  assumes "admin_approve_route w e post i rq db io = ((Inr r, db'), io')" "xdb_actions db' \<noteq> xdb_actions db"
    and "fresh io (uuid_str (env_uuid4 e 0))" "xw_listing_base_url w = base"
  shows "\<exists>claims admin_id. claims_dependency (wb_jwt (web.truncate w)) ''access'' (rq_authorization rq) = Inr claims \<and>
    dict_get claims ''role'' = Some (JStr ''admin'') \<and> subject claims = Inr admin_id \<and>
    status io i = Some ''pending'' \<and> status io' = (status io)(i \<mapsto> ''approved'') \<and>
    (\<exists>a. xdb_actions db' = xdb_actions db @ [a] \<and> ac_admin_id a = admin_id \<and>
       ac_action_type a = ''vehicle_approved'' \<and> ac_target_id a = uuid_str i)"
proof -
  obtain claims s session where claims: "claims_dependency (wb_jwt (web.truncate w)) ''access'' (rq_authorization rq) = Inr claims"
      "dict_get claims ''role'' = Some (JStr ''admin'')"
    and build: "admin_approve_build w e post i rq claims () db io = (Inr (s, session), io')"
    and same: "xdb_actions db' = xdb_actions session"
    using assms(1,2)
    by (auto simp: admin_approve_route_def idempotent_route_io_def idempotent_route_def respond_idempotently_def
        require_role_def requireE_def prod_eq_iff split: sum.splits option.splits if_splits prod.splits)
  then obtain admin_id bearer j where "caller rq claims = Inr (admin_id, bearer)"
    "admin_approve_vehicle e post base admin_id i bearer db io = (Inr (j, session), io')"
    using assms(4)
    by (auto simp: admin_approve_build_def vehicle_answer_def result_simps prod_eq_iff split: sum.splits prod.splits)
  then show ?thesis
    using approve_vehicle_audited [OF _ assms(3)] claims same by (fastforce simp: caller_def result_simps)
qed

lemma approve_route_decided:
  assumes "admin_approve_route w e post i rq db io = ((r, db'), io')"
    and "status io i \<noteq> Some ''pending''" "fresh io (uuid_str (env_uuid4 e 0))" "xw_listing_base_url w = base"
  shows "xdb_actions db' = xdb_actions db \<and> io' = io"
proof -
  define f where "f claims u db = projl (fst (admin_approve_build w e post i rq claims u db io))" for claims u db
  have f: "admin_approve_build w e post i rq claims u db io = (Inl (f claims u db), io)" for claims u db
    using approve_build_decided [OF assms(2-4), of rq claims u db] by (auto simp: f_def)
  show ?thesis
    using assms(1)
    by (auto simp: admin_approve_route_def idempotent_route_io_def idempotent_route_def respond_idempotently_def f
        split: sum.splits option.splits if_splits)
qed

end

section \<open>The listing service provides it\<close>

text \<open>What FastAPI sends for the outcome of an endpoint; \<open>loads\<close> is \<^verbatim>\<open>response.json()\<close>.\<close>

fun upstream_answer :: "listing_web \<Rightarrow> (string \<Rightarrow> json option) \<Rightarrow> listing_exn + response \<Rightarrow> upstream_response" where
  "upstream_answer w loads (Inr r) = \<lparr>ur_status_code = rsp_status_code r, ur_text = rsp_content r, ur_json = loads (rsp_content r)\<rparr>"
| "upstream_answer w loads (Inl (ListingPy (HTTPException code detail))) =
     (let body = wb_dumps w (JObj [(''detail'', JStr detail)])
      in \<lparr>ur_status_code = code, ur_text = body, ur_json = loads body\<rparr>)"
| "upstream_answer w loads (Inl _) = \<lparr>ur_status_code = 500, ur_text = ''Internal Server Error'', ur_json = None\<rparr>"

text \<open>
  \<^verbatim>\<open>POST {base}/listing/vehicles/{id}/approve\<close> and \<^verbatim>\<open>.../reject\<close> with an empty body; \<open>e\<close> is the environment
  in which the listing service handles the request.
\<close>

definition listing_post :: "listing_web \<Rightarrow> (string \<Rightarrow> json option) \<Rightarrow> env \<Rightarrow> string \<Rightarrow> listing_db http_post" where
  "listing_post w loads e base url authorization key db =
     (let prefix = strip_slashes base @ ''/listing/vehicles/'';
          path = drop (length prefix) url;
          rq = \<lparr>rq_authorization = Some authorization, rq_idempotency_key = Some key, rq_body = ''''\<rparr>;
          none = (\<lparr>ur_status_code = 404, ur_text = '''', ur_json = None\<rparr>, db)
      in if take (length prefix) url \<noteq> prefix then none
         else case uuid_parse (takeWhile (\<lambda>c. c \<noteq> CHR ''/'') path) of
                None \<Rightarrow> (\<lparr>ur_status_code = 422, ur_text = '''', ur_json = None\<rparr>, db)
              | Some vehicle_id \<Rightarrow>
                  if dropWhile (\<lambda>c. c \<noteq> CHR ''/'') path = ''/approve''
                  then map_prod (upstream_answer w loads) id (approve_vehicle_route w e vehicle_id rq db)
                  else if dropWhile (\<lambda>c. c \<noteq> CHR ''/'') path = ''/reject''
                  then map_prod (upstream_answer w loads) id (reject_vehicle_route w e vehicle_id rq db)
                  else none)"

definition vehicle_status :: "listing_db \<Rightarrow> uuid \<Rightarrow> string option" where
  "vehicle_status db i = map_option vl_approval_status (vehicle_by_id i db)"

definition key_unused :: "listing_db \<Rightarrow> string \<Rightarrow> bool" where
  "key_unused db key \<longleftrightarrow> (\<forall>c. find_idem c key (ldb_idem db) = None)"

lemma uuid_str_no_slash: "c \<in> set (uuid_str u) \<Longrightarrow> c \<noteq> CHR ''/''"
  using uuid_str_chars [of u] by (auto simp: hex_chars_def)

lemma uuid_segment:
  "takeWhile (\<lambda>c. c \<noteq> CHR ''/'') (uuid_str u @ CHR ''/'' # s) = uuid_str u"
  "dropWhile (\<lambda>c. c \<noteq> CHR ''/'') (uuid_str u @ CHR ''/'' # s) = CHR ''/'' # s"
  using uuid_str_no_slash [of _ u] by (simp_all add: takeWhile_append2 dropWhile_append2)

lemma listing_post_approve:
  "listing_post w loads e base (strip_slashes base @ ''/listing/vehicles/'' @ uuid_str i @ ''/approve'') authorization key db =
     map_prod (upstream_answer w loads) id
       (approve_vehicle_route w e i \<lparr>rq_authorization = Some authorization, rq_idempotency_key = Some key, rq_body = ''''\<rparr> db)"
  by (simp add: listing_post_def uuid_segment)

text \<open>One request to the listing's approval endpoint, with a key it has not seen.\<close>

lemma approve_route_fresh:
  assumes "approve_vehicle_route w e i rq db = (r, db')" "rq_idempotency_key rq = Some key" "key_unused db key"
  shows "(\<exists>x. r = Inl x \<and> db' = db) \<or>
    (\<exists>v db1. approve_vehicle e i db = Inr (v, db1) \<and>
       r = Inr \<lparr>rsp_content = wb_dumps (web.truncate w) (vehicle_response v), rsp_status_code = 200\<rparr> \<and>
       ldb_vehicles db' = ldb_vehicles db1)"
proof (cases r)
  case (Inl x)
  then show ?thesis using assms(1) listing_keys.route_error unfolding approve_vehicle_route_def by blast
next
  case (Inr rsp)
  from assms(1) [unfolded Inr approve_vehicle_route_def] obtain claims where
    req: "listing_keys.request (wb_sha256_hex (web.truncate w)) (env_now e) (rq_idempotency_key rq)
      (consumer_id_resolver (wb_jwt (web.truncate w)) (rq_authorization rq)) (rq_body rq) 200
      (approve_vehicle_build w e i claims ()) db = (Inr rsp, db')"
    using listing_keys.route_answered by fastforce
  from req listing_builds_keep_idem(3) show ?thesis
  proof (cases rule: listing_keys.request_effect)
    case (replay k row)
    then show ?thesis using assms(2,3) by (simp add: key_unused_def)
  next
    case (fresh k row out session)
    then obtain v where "approve_vehicle e i db = Inr (v, session)" "out = wb_dumps w (vehicle_response v)"
      by (auto simp: approve_vehicle_build_def vehicle_result_Inr)
    with fresh Inr show ?thesis by (simp add: web.defs)
  qed
qed

text \<open>Every error of the endpoint is sent with a status of at least 400.\<close>

lemma approve_vehicle_errors:
  "approve_vehicle e i db = Inl x \<Longrightarrow>
     (\<exists>s. x = ListedVehicleNotFoundError s) \<or> (\<exists>s. x = InvalidApprovalTransitionError s) \<or> x = ListingPy DataError \<or> x = ListingPy IntegrityError"
  by (auto simp: approve_vehicle_def vehicle_save_def vehicle_outbox_event_def write_outbox_event_def Let_def result_simps
      split: option.splits if_splits)

lemma approve_route_error_status:
  assumes "approve_vehicle_route w e i rq db = (Inl x, db')"
  shows "400 \<le> ur_status_code (upstream_answer w loads (Inl x))"
proof -
  have build: "\<exists>y. x = ListingPy y \<and> (y = DataError \<or> y = IntegrityError \<or> (\<exists>code d. y = HTTPException code d \<and> 400 \<le> code))"
    if "approve_vehicle_build w e i claims u db = Inl x" for claims u
    using that by (auto simp: approve_vehicle_build_def vehicle_result_def result_simps dest!: approve_vehicle_errors)
  have "\<exists>y. x = ListingPy y \<and> (y = TypeError \<or> y = DataError \<or> y = IntegrityError \<or> (\<exists>code d. y = HTTPException code d \<and> 400 \<le> code))"
    using listing_keys.route_error_cases [OF assms [unfolded approve_vehicle_route_def]] build by blast
  then show ?thesis by (auto simp: Let_def)
qed

lemma client_approve_listing:
  "client_approve_vehicle e (listing_post w loads e' base) base i bearer db =
     (let (r, db') = approve_vehicle_route w e' i \<lparr>rq_authorization = Some (''Bearer '' @ bearer),
         rq_idempotency_key = Some (uuid_str (env_uuid4 e 0)), rq_body = ''''\<rparr> db
      in (upstream_result (upstream_answer w loads r), db'))"
  unfolding client_approve_vehicle_def listing_post_approve by (simp add: Let_def split_def)

text \<open>The outcomes of the client's call, with a fresh key.\<close>

lemma client_approve_outcome:
  assumes "client_approve_vehicle e (listing_post w loads e' base) base i bearer db = (r, db')"
    and "key_unused db (uuid_str (env_uuid4 e 0))"
  shows "(\<exists>code d. r = Inl (UpstreamError code d)) \<and> db' = db \<or>
    (\<exists>v db1. approve_vehicle e' i db = Inr (v, db1) \<and> ldb_vehicles db' = ldb_vehicles db1)"
proof -
  let ?rq = "\<lparr>rq_authorization = Some (''Bearer '' @ bearer), rq_idempotency_key = Some (uuid_str (env_uuid4 e 0)), rq_body = ''''\<rparr>"
  obtain a where route: "approve_vehicle_route w e' i ?rq db = (a, db')" and r: "r = upstream_result (upstream_answer w loads a)"
    using assms(1) unfolding client_approve_listing by (auto split: prod.splits)
  have key: "rq_idempotency_key ?rq = Some (uuid_str (env_uuid4 e 0))" by simp
  from approve_route_fresh [OF route key assms(2)] show ?thesis
  proof
    assume "\<exists>x. a = Inl x \<and> db' = db"
    then obtain x where x: "a = Inl x" "db' = db" by blast
    have "400 \<le> ur_status_code (upstream_answer w loads a)"
      using approve_route_error_status route unfolding x(1) by blast
    then show ?thesis unfolding r upstream_result_def using x(2) by simp
  qed blast
qed

interpretation listing_upstream: approval_service "listing_post w loads e' base" base vehicle_status key_unused
  for w loads e' base
proof
  fix io io' :: listing_db and e :: env and i bearer j
  assume f: "key_unused io (uuid_str (env_uuid4 e 0))" and c: "client_approve_vehicle e (listing_post w loads e' base) base i bearer io = (Inr j, io')"
  from client_approve_outcome [OF c f] obtain v db1 where v: "approve_vehicle e' i io = Inr (v, db1)" "ldb_vehicles io' = ldb_vehicles db1"
    by blast
  from v(1) show "vehicle_status io i = Some ''pending'' \<and> vehicle_status io' = (vehicle_status io)(i \<mapsto> ''approved'')"
  proof (rule approve_vehicle_changed)
    fix v0 assume v0: "vehicle_by_id i io = Some v0" "vl_approval_status v0 = ''pending''"
      "v = v0\<lparr>vl_approval_status := ''approved''\<rparr>" "vehicle_changed io v0 [''vehicle_approved''] v db1"
    have "vehicle_by_id k io' = vehicle_by_id k db1" for k by (simp add: vehicle_by_id_def v(2))
    moreover have "vl_id v0 = i" using vehicle_by_id_SomeD [OF v0(1)] by blast
    ultimately show ?thesis
      using v0 vehicle_by_id_changed [OF v0(4)] by (simp add: vehicle_status_def fun_eq_iff)
  qed
next
  fix io :: listing_db and e :: env and i bearer
  assume f: "key_unused io (uuid_str (env_uuid4 e 0))" and s: "vehicle_status io i \<noteq> Some ''pending''"
  obtain r io' where c: "client_approve_vehicle e (listing_post w loads e' base) base i bearer io = (r, io')"
    by (cases "client_approve_vehicle e (listing_post w loads e' base) base i bearer io")
  have "approve_vehicle e' i io \<noteq> Inr (v, db1)" for v db1
    using s by (auto simp: vehicle_status_def elim!: approve_vehicle_changed)
  with client_approve_outcome [OF c f] c
  show "\<exists>code detail. client_approve_vehicle e (listing_post w loads e' base) base i bearer io = (Inl (UpstreamError code detail), io)"
    by auto
qed

section \<open>A sample run\<close>

text \<open>Administrator 8 approves vehicle 1 through both services.\<close>

definition desk_web :: admin_web where
  "desk_web =
     \<lparr>wb_jwt = wb_jwt (listing_client ''admin'' 8), wb_sha256_hex = (\<lambda>body. body), wb_dumps = (\<lambda>j. ''{}''),
      xw_listing_base_url = ''http://l'', xw_booking_base_url = ''http://b''\<rparr>"

definition desk_rq :: http_request where
  "desk_rq = \<lparr>rq_authorization = Some (''Bearer '' @ ''t''), rq_idempotency_key = Some ''k'', rq_body = ''''\<rparr>"

abbreviation desk_post :: "listing_db http_post" where
  "desk_post \<equiv> listing_post (listing_client ''admin'' 8) (\<lambda>s. Some JNull) (sample_env 11) ''http://l''"

lemma desk_claims:
  "claims_dependency (wb_jwt (web.truncate (listing_client ''admin'' 8))) ''access'' (Some (''Bearer '' @ t)) =
     Inr [(''type'', JStr ''access''), (''role'', JStr ''admin''), (''sub'', JStr (uuid_str 8))]"
  unfolding claims_dependency_Bearer by (simp add: decode_token_def listing_client_def web.defs)


lemma desk_upstream:
  "\<exists>ldb. client_approve_vehicle (sample_env 31) desk_post ''http://l'' 1 ''t'' sample_added = (Inr JNull, ldb) \<and>
     key_unused ldb (uuid_str (env_uuid4 (sample_env 41) 0))"
proof -
  have sample_keys: "env_uuid4 (sample_env 31) 0 = 31" "env_uuid4 (sample_env 41) 0 = 41" by (simp_all add: sample_env_def)
  obtain out where build: "approve_vehicle_build (listing_client ''admin'' 8) (sample_env 11) 1 claims () sample_added = Inr (out, sample_approved)" for claims
    by (simp add: approve_vehicle_build_def vehicle_result_def sample_approved_run(1))
  have "\<exists>ldb. approve_vehicle_route (listing_client ''admin'' 8) (sample_env 11) 1
      \<lparr>rq_authorization = Some (''Bearer '' @ ''t''), rq_idempotency_key = Some (uuid_str (env_uuid4 (sample_env 31) 0)), rq_body = ''''\<rparr> sample_added =
      (Inr \<lparr>rsp_content = out, rsp_status_code = 200\<rparr>, ldb) \<and> key_unused ldb (uuid_str (env_uuid4 (sample_env 41) 0))"
    unfolding approve_vehicle_route_def idempotent_route_def http_request.simps desk_claims
    by (simp add: build idempotency_guard_dependency_def hash_request_body_def find_idem_def sample_added_run(5)
        require_role_def respond_idempotently_def is_replay_def guard_store_def sample_approved_run(4) Let_def
        key_unused_def sample_keys)
  then show ?thesis unfolding client_approve_listing by (auto simp: upstream_result_def)
qed

lemma desk_keys:
  "key_unused sample_added k"
  by (simp add: key_unused_def find_idem_def sample_added_run(5))


section \<open>Properties\<close>



text \<open>
  An approval can be lost to the audit trail for good: if the admin service stops after the
  listing service approved the vehicle and before its own transaction is committed, then no later
  approval request through the admin service, whoever makes it and whatever the listing service
  did in between, records the decision; the listing database is not changed by it either.
\<close>

theorem lost_approval_never_audited:
  assumes "client_approve_vehicle e (listing_post lw loads e' base) base i bearer ldb = (Inr j, ldb1)"
    and "key_unused ldb (uuid_str (env_uuid4 e 0))" "listing_step\<^sup>*\<^sup>* ldb1 ldb2"
    and "admin_approve_route w e2 (listing_post lw loads e2' (xw_listing_base_url w)) i rq db ldb2 = ((r, db'), ldb3)"
    and "key_unused ldb2 (uuid_str (env_uuid4 e2 0))"
  shows "vehicle_status ldb1 i = Some ''approved'' \<and> xdb_actions db' = xdb_actions db \<and> ldb3 = ldb2"
proof -
  have s1: "vehicle_status ldb1 i = Some ''approved''"
    using listing_upstream.approve_answered [OF assms(2,1)] by simp
  from assms(3) have "vehicle_status ldb2 i = Some ''approved''"
  proof (induction rule: rtranclp_induct)
    case (step y z)
    then obtain v where v: "vehicle_by_id i y = Some v" "vl_approval_status v = ''approved''"
      by (auto simp: vehicle_status_def)
    from listing_step_vehicle [OF step(2) v(1)] v(2) show ?case by (auto simp: vehicle_status_def approval_step_def)
  qed (rule s1)
  then have "vehicle_status ldb2 i \<noteq> Some ''pending''" by simp
  from listing_upstream.approve_route_decided [OF assms(4) this assms(5) refl] s1 show ?thesis by simp
qed

theorem lost_approval_never_audited_witness:
  "\<exists>ldb r db' ldb3. client_approve_vehicle (sample_env 31) desk_post ''http://l'' 1 ''t'' sample_added = (Inr JNull, ldb) \<and>
     vehicle_status ldb 1 = Some ''approved'' \<and>
     admin_approve_route desk_web (sample_env 41) desk_post 1 desk_rq empty_admin_db ldb = ((r, db'), ldb3) \<and> xdb_actions db' = []"
proof -
  have url: "''http://l'' = xw_listing_base_url desk_web" by (simp add: desk_web_def)
  obtain ldb where up: "client_approve_vehicle (sample_env 31) desk_post ''http://l'' 1 ''t'' sample_added = (Inr JNull, ldb)"
    and unused: "key_unused ldb (uuid_str (env_uuid4 (sample_env 41) 0))"
    using desk_upstream by blast
  obtain r db' ldb3 where run: "admin_approve_route desk_web (sample_env 41) desk_post 1 desk_rq empty_admin_db ldb = ((r, db'), ldb3)"
    by (metis surjective_pairing)
  from lost_approval_never_audited [OF up desk_keys rtranclp.rtrancl_refl run [unfolded url] unused]
  show ?thesis using up run by (auto simp: empty_admin_db_def)
qed

end
