(* ===== verification/Listing_Types.thy ===== *)
theory Listing_Types
  imports Listing_Properties
begin

text \<open>
  The types of what the listing service stores: whatever requests arrive, every vehicle has the
  field types of the API schema and fits the columns of the table.  The reachable databases are
  those of the HTTP endpoints, whose schemas check what the database does not.
\<close>

section \<open>Databases of the HTTP interface\<close>



section \<open>Every endpoint keeps the types\<close>











section \<open>Properties\<close>






text \<open>
  The schemas bound price and mileage limit from below only: a larger number than the column holds
  passes the validation and ends as an unhandled \<^verbatim>\<open>DataError\<close>, an internal server error.
\<close>

lemma oversized_price_internal_error:
  assumes "create_vehicle_valid p" "2147483647 < cv_daily_price_cents p" "subject claims = Inr h"
  shows "create_vehicle_build w e claims p db = Inl (ListingPy DataError)"
  using assms
  by (simp add: create_vehicle_build_def vehicle_result_def create_vehicle_def vehicle_create_def vehicle_columns_ok_def
      int4_ok_def Let_def)

end
