(* ===== verification/App_Shell.thy ===== *)
theory App_Shell
  imports Http
begin

text \<open>
  What surrounds the endpoints in every service: the log format, the health endpoints and the
  request metrics of \<^verbatim>\<open>shared/telemetry.py\<close>, the exporters of \<^verbatim>\<open>shared/tracing.py\<close>, and the life of
  the process, from the background tasks its lifespan starts to the resources it releases.

  Starlette is a parameter: \<open>st_respond\<close> is the middleware between the metrics and the router,
  which turns an \<^verbatim>\<open>HTTPException\<close> into a response, \<open>st_route\<close> the route it found for a request
  (\<^verbatim>\<open>request.scope["route"].path\<close>).  What the code relies on is \<open>starlette_documented\<close>.
\<close>

section \<open>Logging\<close>

definition format_log_record :: "(json \<Rightarrow> string) \<Rightarrow> string \<Rightarrow> string \<Rightarrow> string" where
  "format_log_record dumps levelname message = dumps (JObj [(''level'', JStr levelname), (''message'', JStr message)])"

section \<open>Health\<close>

definition healthz :: "int \<times> json" where
  "healthz = (200, JObj [(''status'', JStr ''ok'')])"

definition readyz :: "('s \<Rightarrow> bool) option \<Rightarrow> 's \<Rightarrow> int \<times> json" where
  "readyz readiness_check s =
     (let ready = (case readiness_check of None \<Rightarrow> True | Some check \<Rightarrow> check s)
      in (if \<not> ready then 503 else 200, JObj [(''status'', JStr (if ready then ''ok'' else ''not_ready''))]))"

section \<open>Request metrics\<close>

text \<open>\<^verbatim>\<open>str(n)\<close> for a natural number.\<close>

definition digit_char :: "nat \<Rightarrow> char" where
  "digit_char d = ''0123456789'' ! d"

fun nat_str :: "nat \<Rightarrow> string" where
  "nat_str n = (if n < 10 then [digit_char n] else nat_str (n div 10) @ [digit_char (n mod 10)])"

declare nat_str.simps [simp del]

definition int_str :: "int \<Rightarrow> string" where
  "int_str i = (if i < 0 then CHR ''-'' # nat_str (nat (- i)) else nat_str (nat i))"

text \<open>The counter and the histogram, by their labels (service, method, route, status).\<close>

type_synonym count_labels = "string \<times> string \<times> string \<times> string"

record request_metrics =
  REQUEST_COUNT :: "count_labels \<Rightarrow> nat"
  REQUEST_LATENCY :: "string \<times> string \<times> string \<Rightarrow> rat list"

definition no_metrics :: request_metrics where
  "no_metrics = \<lparr>REQUEST_COUNT = (\<lambda>_. 0), REQUEST_LATENCY = (\<lambda>_. [])\<rparr>"

text \<open>
  A request as the middleware sees it: method, path, the times at which it starts and ends, and what
  the endpoint did.
\<close>

record call =
  ca_method :: string
  ca_path :: string
  ca_started :: rat
  ca_ended :: rat
  ca_endpoint :: "py_exn + response"

record starlette =
  st_respond :: "py_exn + response \<Rightarrow> py_exn + response"
  st_route :: "(string \<times> string) list \<Rightarrow> string \<Rightarrow> string \<Rightarrow> string option"

definition route_name :: "starlette \<Rightarrow> (string \<times> string) list \<Rightarrow> call \<Rightarrow> string" where
  "route_name S routes c = (case st_route S routes (ca_method c) (ca_path c) of None \<Rightarrow> ca_path c | Some path \<Rightarrow> path)"

definition metrics_middleware ::
  "starlette \<Rightarrow> (string \<times> string) list \<Rightarrow> string \<Rightarrow> call \<Rightarrow> request_metrics \<Rightarrow> (py_exn + response) \<times> request_metrics"
where
  "metrics_middleware S routes service_name c m =
     (case st_respond S (ca_endpoint c) of
        Inl x \<Rightarrow> (Inl x, m)
      | Inr response \<Rightarrow>
          let labels = (service_name, ca_method c, route_name S routes c);
              key = (service_name, ca_method c, route_name S routes c, int_str (rsp_status_code response))
          in (Inr response,
              m\<lparr>REQUEST_COUNT := (REQUEST_COUNT m)(key := REQUEST_COUNT m key + 1),
                REQUEST_LATENCY := (REQUEST_LATENCY m)(labels := REQUEST_LATENCY m labels @ [ca_ended c - ca_started c])\<rparr>))"

text \<open>The requests of one service, one after the other, and the status each client gets.\<close>

fun serve :: "starlette \<Rightarrow> (string \<times> string) list \<Rightarrow> string \<Rightarrow> call list \<Rightarrow> request_metrics \<Rightarrow> int list \<times> request_metrics" where
  "serve S routes service_name [] m = ([], m)"
| "serve S routes service_name (c # cs) m =
     (let (answer, m') = metrics_middleware S routes service_name c m;
          (statuses, m'') = serve S routes service_name cs m'
      in ((case answer of Inl _ \<Rightarrow> 500 | Inr r \<Rightarrow> rsp_status_code r) # statuses, m''))"

text \<open>
  A response passes, an \<^verbatim>\<open>HTTPException\<close> becomes a response with its status, any other exception is
  raised through the middleware (and answered with 500 outside of it); a request is routed to one of
  the registered paths or to none.
\<close>

definition starlette_documented :: "starlette \<Rightarrow> bool" where
  "starlette_documented S \<longleftrightarrow>
     (\<forall>r. st_respond S (Inr r) = Inr r) \<and>
     (\<forall>code detail. \<exists>r. st_respond S (Inl (HTTPException code detail)) = Inr r \<and> rsp_status_code r = code) \<and>
     (\<forall>x. (\<forall>code detail. x \<noteq> HTTPException code detail) \<longrightarrow> st_respond S (Inl x) = Inl x) \<and>
     (\<forall>routes m path p. st_route S routes m path = Some p \<longrightarrow> p \<in> snd ` set routes)"

section \<open>Exporters\<close>

record telemetry_setup =
  ts_service :: string
  ts_span_exporters :: "string list"
  ts_metric_readers :: "(string \<times> int) list"

definition configure_telemetry :: "string \<Rightarrow> string \<Rightarrow> telemetry_setup" where
  "configure_telemetry service_name otlp_endpoint =
     \<lparr>ts_service = service_name,
      ts_span_exporters = (if otlp_endpoint \<noteq> '''' then [otlp_endpoint] else []),
      ts_metric_readers = (if otlp_endpoint \<noteq> '''' then [(otlp_endpoint, 10000)] else [])\<rparr>"

section \<open>Routes of an application\<close>

text \<open>Method and path template, in the order they are added; \<^verbatim>\<open>FastAPI()\<close> adds the documentation.\<close>

definition fastapi_routes :: "(string \<times> string) list" where
  "fastapi_routes =
     [(''GET'', ''/openapi.json''), (''GET'', ''/docs''), (''GET'', ''/docs/oauth2-redirect''), (''GET'', ''/redoc'')]"

definition health_routes :: "(string \<times> string) list" where
  "health_routes = [(''GET'', ''/healthz''), (''GET'', ''/readyz'')]"

definition metrics_route :: "(string \<times> string) list" where
  "metrics_route = [(''GET'', ''/metrics'')]"

definition include_router :: "string \<Rightarrow> (string \<times> string) list \<Rightarrow> (string \<times> string) list" where
  "include_router prefix routes = map (\<lambda>(m, path). (m, prefix @ path)) routes"

section \<open>The life of a process\<close>

datatype background_task =
    IdempotencyCleanup
  | EventConsumer string string
  | TelemetryConsumer string string

text \<open>
  What \<^verbatim>\<open>create_app\<close> builds: the name, the routes, the readiness check, the background tasks the
  lifespan starts (the consumers with topic and group) and the clients it closes at the end.
\<close>

record 's application =
  ap_service_name :: string
  ap_routes :: "(string \<times> string) list"
  ap_readiness_check :: "('s \<Rightarrow> bool) option"
  ap_tasks :: "background_task list"
  ap_resources :: "string list"
  ap_telemetry :: telemetry_setup

datatype 'x task_state = Running | Returned | Raised 'x

record 'x process =
  pr_up :: bool
  pr_tasks :: "'x task_state list"
  pr_open :: "string list"

definition started :: "'x process application \<Rightarrow> 'x process" where
  "started app = \<lparr>pr_up = True, pr_tasks = map (\<lambda>_. Running) (ap_tasks app), pr_open = ap_resources app\<rparr>"

text \<open>
  The \<^verbatim>\<open>finally\<close> of the lifespan: every task is cancelled, then awaited in turn.  A running task ends
  with \<^verbatim>\<open>CancelledError\<close>, which is caught; awaiting a task that failed before raises its exception,
  and what follows is not reached.
\<close>

fun await_task :: "'x task_state \<Rightarrow> 'x option" where
  "await_task Running = None"
| "await_task Returned = None"
| "await_task (Raised x) = Some x"

fun await_tasks :: "'x task_state list \<Rightarrow> 'x option" where
  "await_tasks [] = None"
| "await_tasks (t # ts) = (case await_task t of Some x \<Rightarrow> Some x | None \<Rightarrow> await_tasks ts)"

definition shutdown :: "'x process \<Rightarrow> 'x option \<times> 'x process" where
  "shutdown p =
     (case await_tasks (pr_tasks p) of
        Some x \<Rightarrow> (Some x, p\<lparr>pr_up := False\<rparr>)
      | None \<Rightarrow> (None, p\<lparr>pr_up := False, pr_open := []\<rparr>))"

text \<open>A task ends when its coroutine returns or raises; cancellation comes from \<open>shutdown\<close> only.\<close>

inductive process_step :: "'x process \<Rightarrow> 'x process \<Rightarrow> bool" where
  task_ends: "pr_up p \<Longrightarrow> i < length (pr_tasks p) \<Longrightarrow> pr_tasks p ! i = Running \<Longrightarrow> t \<noteq> Running \<Longrightarrow>
     process_step p (p\<lparr>pr_tasks := (pr_tasks p)[i := t]\<rparr>)"
| shut_down: "pr_up p \<Longrightarrow> shutdown p = (r, p') \<Longrightarrow> process_step p p'"

inductive_simps process_step_iff: "process_step p p'"

text \<open>The orchestrator's probes: \<^verbatim>\<open>GET /healthz\<close> (liveness) and \<^verbatim>\<open>GET /readyz\<close> (readiness).\<close>

definition probes_pass :: "'x process application \<Rightarrow> 'x process \<Rightarrow> bool" where
  "probes_pass app p \<longleftrightarrow> fst healthz = 200 \<and> fst (readyz (ap_readiness_check app) p) = 200"

section \<open>Lemmas\<close>

lemma starlette_respond:
  assumes "starlette_documented S"
  shows "st_respond S (Inr r) = Inr r" "\<exists>r. st_respond S (Inl (HTTPException code detail)) = Inr r \<and> rsp_status_code r = code"
    "(\<And>code detail. x \<noteq> HTTPException code detail) \<Longrightarrow> st_respond S (Inl x) = Inl x"
    "st_route S routes m path = Some p \<Longrightarrow> p \<in> snd ` set routes"
  using assms by (simp_all add: starlette_documented_def)

text \<open>Decimal printing can be read back.\<close>

definition digit_val :: "char \<Rightarrow> nat" where
  "digit_val c = of_char c - 48"

definition str_nat :: "string \<Rightarrow> nat" where
  "str_nat s = foldl (\<lambda>n c. 10 * n + digit_val c) 0 s"

lemma digit_val_char: "d < 10 \<Longrightarrow> digit_val (digit_char d) = d"
proof -
  assume "d < 10"
  then have "d \<in> set [0..<10]" by simp
  then show ?thesis
    unfolding upt_rec_numeral by (auto simp: digit_val_def digit_char_def nth_Cons numeral_eq_Suc)
qed

lemma str_nat_nat_str [simp]: "str_nat (nat_str n) = n"
proof (induction n rule: nat_str.induct)
  case (1 n)
  then show ?case
    by (subst nat_str.simps) (auto simp: str_nat_def digit_val_char)
qed

lemma nat_str_digits: "set (nat_str n) \<subseteq> digit_char ` {..<10}"
proof (induction n rule: nat_str.induct)
  case (1 n)
  then show ?case by (subst nat_str.simps) auto
qed

lemma nat_str_inject [simp]: "nat_str m = nat_str n \<longleftrightarrow> m = n"
  by (metis str_nat_nat_str)

lemma nat_str_no_sign: "nat_str n \<noteq> CHR ''-'' # s"
proof
  assume "nat_str n = CHR ''-'' # s"
  with nat_str_digits [of n] obtain d where d: "digit_char d = CHR ''-''" "d < 10" by auto
  from d(2) have "d \<in> set [0..<10]" by simp
  with d(1) show False unfolding upt_rec_numeral by (auto simp: digit_char_def nth_Cons numeral_eq_Suc)
qed

lemma int_str_inject [simp]: "int_str i = int_str j \<longleftrightarrow> i = j"
  using nat_str_no_sign nat_str_no_sign [symmetric] by (auto simp: int_str_def)

text \<open>The label of a request that the middleware counts.\<close>

definition counted_as :: "starlette \<Rightarrow> (string \<times> string) list \<Rightarrow> string \<Rightarrow> call \<Rightarrow> count_labels option" where
  "counted_as S routes service_name c =
     (case st_respond S (ca_endpoint c) of
        Inl _ \<Rightarrow> None
      | Inr r \<Rightarrow> Some (service_name, ca_method c, route_name S routes c, int_str (rsp_status_code r)))"

lemma metrics_middleware_count:
  "REQUEST_COUNT (snd (metrics_middleware S routes service_name c m)) k =
     REQUEST_COUNT m k + (if counted_as S routes service_name c = Some k then 1 else 0)"
  by (auto simp: metrics_middleware_def counted_as_def Let_def split: sum.splits)

lemma snd_serve:
  "snd (serve S routes service_name (c # cs) m) =
     snd (serve S routes service_name cs (snd (metrics_middleware S routes service_name c m)))"
  by (simp add: Let_def split_def)

lemma serve_count:
  "REQUEST_COUNT (snd (serve S routes service_name cs m)) k =
     REQUEST_COUNT m k + length (filter (\<lambda>c. counted_as S routes service_name c = Some k) cs)"
proof (induction cs arbitrary: m)
  case (Cons c cs)
  then show ?case unfolding snd_serve Cons.IH metrics_middleware_count by simp
qed simp

lemma await_tasks_None: "await_tasks ts = None \<longleftrightarrow> (\<forall>t \<in> set ts. \<forall>x. t \<noteq> Raised x)"
proof (induction ts)
  case (Cons t ts)
  then show ?case by (cases t) auto
qed simp

lemma process_step_failed:
  assumes "process_step p p'" "i < length (pr_tasks p)" "pr_tasks p ! i = Raised x"
  shows "i < length (pr_tasks p') \<and> pr_tasks p' ! i = Raised x"
  using assms
  by (auto simp: process_step_iff shutdown_def nth_list_update split: option.splits)

lemma steps_failed:
  assumes "process_step\<^sup>*\<^sup>* p p'" "i < length (pr_tasks p)" "pr_tasks p ! i = Raised x"
  shows "i < length (pr_tasks p') \<and> pr_tasks p' ! i = Raised x"
  using assms(1)
proof (induction rule: rtranclp_induct)
  case (step y z)
  then show ?case using process_step_failed [OF step(2)] by simp
qed (simp add: assms(2,3))

end
