(* ===== verification/Apps_Properties.thy ===== *)
theory Apps_Properties
  imports Service_Apps
begin

text \<open>
  Properties of the shell around the services: what the metrics count, what the probes of the
  orchestrator see of a consumer that died, and what a shutdown releases.
\<close>

section \<open>Life of a process\<close>

text \<open>
  C35: a background task that failed goes unnoticed: in every service, whatever happens afterwards, as
  long as the process runs its liveness and readiness probes pass and the task stays dead, so
  the orchestrator has no reason to restart it; when the process is shut down at last, the old
  exception is raised again and none of the clients (Elasticsearch, Redis, the Kafka producer,
  MongoDB) is closed.  Without a failed task all of them are.
\<close>

theorem dead_consumer_unnoticed:
  fixes app :: "'x process application"
  assumes "app \<in> {auth_app a, listing_app l, admin_app x, booking_app b, payment_app p, notification_app n, search_app s, telemetry_app t}"
    and "process_step\<^sup>*\<^sup>* (started app) q" "pr_up q"
  shows "probes_pass app q \<and>
    (\<forall>i y q'. i < length (pr_tasks q) \<and> pr_tasks q ! i = Raised y \<and> process_step\<^sup>*\<^sup>* q q' \<and> pr_up q' \<longrightarrow>
       pr_tasks q' ! i = Raised y \<and> probes_pass app q' \<and>
       (\<exists>z q''. shutdown q' = (Some z, q'') \<and> pr_open q'' = ap_resources app)) \<and>
    ((\<forall>i y. i < length (pr_tasks q) \<longrightarrow> pr_tasks q ! i \<noteq> Raised y) \<longrightarrow>
       (\<exists>q''. shutdown q = (None, q'') \<and> pr_open q'' = []))"
proof -
  have probes: "probes_pass app r" for r
    using assms(1) by (auto simp: probes_pass_def healthz_def readyz_def app_defs)
  have failed: "pr_tasks q' ! i = Raised y \<and> (\<exists>z q''. shutdown q' = (Some z, q'') \<and> pr_open q'' = ap_resources app)"
    if "i < length (pr_tasks q)" "pr_tasks q ! i = Raised y" "process_step\<^sup>*\<^sup>* q q'" "pr_up q'" for i y q'
  proof -
    from steps_failed [OF that(3,1,2)] have r: "i < length (pr_tasks q')" "pr_tasks q' ! i = Raised y" by auto
    then have "Raised y \<in> set (pr_tasks q')" by (metis nth_mem)
    then obtain z where z: "await_tasks (pr_tasks q') = Some z"
      using await_tasks_None [of "pr_tasks q'"] by (cases "await_tasks (pr_tasks q')") auto
    have "pr_open q' = ap_resources app"
      by (rule process_steps_open [OF rtranclp_trans [OF assms(2) that(3)] that(4)])
    with r z show ?thesis by (simp add: shutdown_def)
  qed
  have "\<exists>q''. shutdown q = (None, q'') \<and> pr_open q'' = []" if "\<forall>i y. i < length (pr_tasks q) \<longrightarrow> pr_tasks q ! i \<noteq> Raised y"
  proof -
    have "await_tasks (pr_tasks q) = None"
      using that by (auto simp: await_tasks_None in_set_conv_nth)
    then show ?thesis by (simp add: shutdown_def)
  qed
  with probes failed show ?thesis by blast
qed

definition crashed_search :: "py_exn process" where
  "crashed_search = \<lparr>pr_up = True, pr_tasks = [Raised TypeError], pr_open = [''elasticsearch'', ''redis'']\<rparr>"

lemma crashed_search_reached: "process_step\<^sup>*\<^sup>* (started (search_app SearchSettings)) crashed_search"
proof -
  have "process_step (started (search_app SearchSettings)) ((started (search_app SearchSettings))\<lparr>pr_tasks := (pr_tasks (started (search_app SearchSettings)))[0 := Raised TypeError]\<rparr>)"
    by (rule process_step.task_ends) (simp_all add: started_def app_defs SearchSettings_def)
  moreover have "(started (search_app SearchSettings))\<lparr>pr_tasks := (pr_tasks (started (search_app SearchSettings)))[0 := Raised TypeError]\<rparr> = crashed_search"
    by (simp add: started_def app_defs SearchSettings_def crashed_search_def)
  ultimately show ?thesis by (simp add: r_into_rtranclp)
qed

theorem dead_consumer_unnoticed_witness:
  "\<exists>z q''. probes_pass (search_app SearchSettings) crashed_search \<and> shutdown crashed_search = (Some z, q'') \<and>
     pr_open q'' = [''elasticsearch'', ''redis'']"
proof -
  have app: "search_app SearchSettings \<in> {auth_app a, listing_app l, admin_app x, booking_app b, payment_app p, notification_app n,
      search_app SearchSettings, telemetry_app t}" for a l x b p n t by simp
  have up: "pr_up crashed_search" "0 < length (pr_tasks crashed_search) \<and> pr_tasks crashed_search ! 0 = Raised TypeError"
    by (simp_all add: crashed_search_def)
  note unnoticed = dead_consumer_unnoticed [OF app crashed_search_reached up(1)]
  have "ap_resources (search_app SearchSettings :: py_exn process application) = [''elasticsearch'', ''redis'']"
    by (simp add: app_defs)
  with unnoticed up show ?thesis by (metis rtranclp.rtrancl_refl)
qed

section \<open>Metrics\<close>

text \<open>The statuses an endpoint answers with on purpose.\<close>

fun deliberate_status :: "py_exn + response \<Rightarrow> int option" where
  "deliberate_status (Inr r) = Some (rsp_status_code r)"
| "deliberate_status (Inl (HTTPException code detail)) = Some code"
| "deliberate_status (Inl _) = None"

lemma counted_status:
  assumes "starlette_documented S" "counted_as S routes service c = Some (sv, m, route, st)"
  shows "\<exists>code. deliberate_status (ca_endpoint c) = Some code \<and> st = int_str code"
proof (cases "ca_endpoint c")
  case (Inr r)
  then show ?thesis using assms(2) starlette_respond(1) [OF assms(1)] by (simp add: counted_as_def)
next
  case (Inl e)
  show ?thesis
  proof (cases "\<exists>code detail. e = HTTPException code detail")
    case True
    then obtain code detail where e: "e = HTTPException code detail" by blast
    from starlette_respond(2) [OF assms(1), of code detail] obtain r where "st_respond S (ca_endpoint c) = Inr r" "rsp_status_code r = code"
      unfolding Inl e by blast
    then show ?thesis using assms(2) Inl e by (simp add: counted_as_def)
  next
    case False
    have "st_respond S (ca_endpoint c) = Inl e"
      unfolding Inl by (rule starlette_respond(3) [OF assms(1)]) (use False in simp)
    then show ?thesis using assms(2) by (simp add: counted_as_def)
  qed
qed

text \<open>
  What the request counter counts: exactly the requests whose endpoint answered on purpose (with
  a response or an \<^verbatim>\<open>HTTPException\<close>), once each, under their status.  A request that ends in any
  other exception is answered with 500 and counted nowhere; so in a service whose endpoints use no
  status from 500 on, the error panel (\<^verbatim>\<open>status=~"5.."\<close>) stays at zero however many requests fail.
\<close>

theorem unhandled_errors_uncounted:
  assumes "starlette_documented S"
  shows "(\<forall>k. REQUEST_COUNT (snd (serve S routes service cs m)) k =
      REQUEST_COUNT m k + length (filter (\<lambda>c. counted_as S routes service c = Some k) cs)) \<and>
    ((\<forall>c \<in> set cs. \<forall>code. deliberate_status (ca_endpoint c) = Some code \<longrightarrow> code < 500) \<and> 500 \<le> status \<longrightarrow>
      REQUEST_COUNT (snd (serve S routes service cs m)) (service', verb, route, int_str status) =
        REQUEST_COUNT m (service', verb, route, int_str status))"
proof (intro conjI impI allI; (elim conjE)?)
  show "REQUEST_COUNT (snd (serve S routes service cs m)) k =
      REQUEST_COUNT m k + length (filter (\<lambda>c. counted_as S routes service c = Some k) cs)" for k
    by (simp add: serve_count)
  assume below: "\<forall>c \<in> set cs. \<forall>code. deliberate_status (ca_endpoint c) = Some code \<longrightarrow> code < 500" and "500 \<le> status"
  have "counted_as S routes service c \<noteq> Some (service', verb, route, int_str status)" if "c \<in> set cs" for c
    using counted_status [OF assms, of routes service c service' verb route "int_str status"] below that \<open>500 \<le> status\<close> by fastforce
  then have "filter (\<lambda>c. counted_as S routes service c = Some (service', verb, route, int_str status)) cs = []"
    by (simp add: filter_empty_conv)
  then show "REQUEST_COUNT (snd (serve S routes service cs m)) (service', verb, route, int_str status) =
        REQUEST_COUNT m (service', verb, route, int_str status)"
    by (simp add: serve_count)
qed

text \<open>A middleware that meets the documentation, with a router that knows literal paths only.\<close>

definition plain_starlette :: starlette where
  "plain_starlette =
     \<lparr>st_respond = (\<lambda>r. case r of Inl (HTTPException code detail) \<Rightarrow> Inr \<lparr>rsp_content = detail, rsp_status_code = code\<rparr> | _ \<Rightarrow> r),
      st_route = (\<lambda>routes m path. if (m, path) \<in> set routes then Some path else None)\<rparr>"

lemma plain_starlette_documented: "starlette_documented plain_starlette"
  by (auto simp: starlette_documented_def plain_starlette_def image_iff split: py_exn.splits) force

definition failing_call :: call where
  "failing_call =
     \<lparr>ca_method = ''POST'', ca_path = ''/booking/bookings'', ca_started = 0, ca_ended = 1, ca_endpoint = Inl DataError\<rparr>"

theorem unhandled_errors_uncounted_witness:
  "\<exists>statuses m. serve plain_starlette (ap_routes (booking_app BookingSettings :: py_exn process application)) ''booking'' [failing_call] no_metrics =
       (statuses, m) \<and> statuses = [500] \<and> REQUEST_COUNT m (''booking'', ''POST'', ''/booking/bookings'', int_str 500) = 0"
proof -
  let ?routes = "ap_routes (booking_app BookingSettings :: py_exn process application)"
  obtain statuses m where run: "serve plain_starlette ?routes ''booking'' [failing_call] no_metrics = (statuses, m)"
    by (cases "serve plain_starlette ?routes ''booking'' [failing_call] no_metrics")
  have "statuses = [500]"
    using run by (auto simp: failing_call_def metrics_middleware_def plain_starlette_def)
  moreover have "REQUEST_COUNT m (''booking'', ''POST'', ''/booking/bookings'', int_str 500) = 0"
    using conjunct2 [OF unhandled_errors_uncounted [OF plain_starlette_documented, of ?routes "''booking''" "[failing_call]" no_metrics
        500 "''booking''" "''POST''" "''/booking/bookings''"], THEN mp] run
    by (simp add: failing_call_def no_metrics_def del: serve.simps)
  ultimately show ?thesis using run by simp
qed

text \<open>
  The dashboard's panel ``bookings created per second'' reads the route \<^verbatim>\<open>/bookings\<close>; the router is
  mounted under \<^verbatim>\<open>/booking\<close>, so no request that the gateway forwards is ever counted there.
\<close>

lemma bookings_panel_counts_nothing:
  fixes s :: booking_settings
  defines "routes \<equiv> ap_routes (booking_app s :: py_exn process application)"
  assumes "starlette_documented S" "\<And>c. c \<in> set cs \<Longrightarrow> take 9 (ca_path c) = ''/booking/''"
  shows "REQUEST_COUNT (snd (serve S routes service cs m)) (service, ''POST'', ''/bookings'', status) =
    REQUEST_COUNT m (service, ''POST'', ''/bookings'', status)"
proof -
  have other: "''/bookings'' \<notin> snd ` set routes"
    by (simp add: routes_def app_defs fastapi_routes_def health_routes_def metrics_route_def include_router_def booking_router_def)
  have "route_name S routes c \<noteq> ''/bookings''" if "c \<in> set cs" for c
    using starlette_respond(4) [OF assms(2), of routes "ca_method c" "ca_path c" "''/bookings''"] other assms(3) [OF that]
    by (auto simp: route_name_def split: option.split)
  then have "filter (\<lambda>c. counted_as S routes service c = Some (service, ''POST'', ''/bookings'', status)) cs = []"
    by (auto simp: filter_empty_conv counted_as_def split: sum.split)
  then show ?thesis by (simp add: serve_count)
qed

end
