(* ===== verification/Load_Tools.thy ===== *)
theory Load_Tools
  imports Telemetry Auth
begin

text \<open>
  The clients that put load on the system: the device simulator (\<^verbatim>\<open>services/telemetry/simulator.py\<close>)
  and the telemetry load test (\<^verbatim>\<open>deploy/loadtest/telemetry_load.py\<close>).  A connection is a pair of
  functions on a server state of unknown type: \<open>connect\<close> opens it, \<open>exchange\<close> sends a text and
  receives the reply.  What clock and random generator return at the successive turns of a loop is
  a list of \<open>tick\<close>s; the result \<open>None\<close> means that the loop is still running at the end of the list.
  Adding floats, printing JSON and minting tokens are parameters.
\<close>

datatype tool_exn =
    ZeroDivisionError
  | ConnectionFailed string

record tick =
  tk_time :: rat
  tk_dlat :: pyfloat
  tk_dlng :: pyfloat
  tk_speed_kph :: pyfloat
  tk_recorded_at :: string

type_synonym 'srv connect = "string \<Rightarrow> 'srv \<Rightarrow> (tool_exn + unit) \<times> 'srv"
type_synonym 'srv exchange = "string \<Rightarrow> 'srv \<Rightarrow> (tool_exn + string) \<times> 'srv"

record tool_lib =
  tl_add :: "pyfloat \<Rightarrow> pyfloat \<Rightarrow> pyfloat"
  tl_dumps :: "json \<Rightarrow> string"

definition device_packet :: "pyfloat \<Rightarrow> pyfloat \<Rightarrow> tick \<Rightarrow> json" where
  "device_packet lat lng k = JObj
     [(''lat'', JFloat lat), (''lng'', JFloat lng), (''speed_kph'', JFloat (tk_speed_kph k)), (''recorded_at'', JStr (tk_recorded_at k))]"

definition ingest_uri :: "string \<Rightarrow> string \<Rightarrow> string \<Rightarrow> string" where
  "ingest_uri base_url vehicle_id token = base_url @ ''/telemetry/ingest/'' @ vehicle_id @ ''?token='' @ token"

section \<open>The simulator\<close>

definition mint_token :: "crypto \<Rightarrow> int \<Rightarrow> uuid \<Rightarrow> string \<Rightarrow> string \<Rightarrow> string" where
  "mint_token cr now user_id secret issuer = create_token cr now user_id ''host'' ''access'' secret issuer 3600"

fun stream_one_loop ::
  "tool_lib \<Rightarrow> 'srv exchange \<Rightarrow> rat \<Rightarrow> tick list \<Rightarrow> pyfloat \<Rightarrow> pyfloat \<Rightarrow> nat \<Rightarrow> 'srv \<Rightarrow> ((tool_exn + nat) \<times> 'srv) option"
where
  "stream_one_loop L exchange deadline [] lat lng sent srv = None"
| "stream_one_loop L exchange deadline (k # ticks) lat lng sent srv =
     (if \<not> tk_time k < deadline then Some (Inr sent, srv)
      else
        let lat = tl_add L lat (tk_dlat k);
            lng = tl_add L lng (tk_dlng k)
        in case exchange (tl_dumps L (device_packet lat lng k)) srv of
             (Inl x, srv') \<Rightarrow> Some (Inl x, srv')
           | (Inr _, srv') \<Rightarrow> stream_one_loop L exchange deadline ticks lat lng (sent + 1) srv')"

definition stream_one_vehicle ::
  "tool_lib \<Rightarrow> 'srv connect \<Rightarrow> 'srv exchange \<Rightarrow> string \<Rightarrow> string \<Rightarrow> string \<Rightarrow> rat \<Rightarrow> rat \<Rightarrow> rat \<Rightarrow> tick list \<Rightarrow> 'srv
     \<Rightarrow> ((tool_exn + nat) \<times> 'srv) option"
where
  "stream_one_vehicle L connect exchange base_url vehicle_id token rate_hz now duration_seconds ticks srv =
     (if rate_hz = 0 then Some (Inl ZeroDivisionError, srv)
      else case connect (ingest_uri base_url vehicle_id token) srv of
             (Inl x, srv') \<Rightarrow> Some (Inl x, srv')
           | (Inr _, srv') \<Rightarrow>
               stream_one_loop L exchange (now + duration_seconds) ticks (Finite (407128 / 10000)) (Finite (- 740060 / 10000)) 0 srv')"

text \<open>
  \<^verbatim>\<open>asyncio.gather\<close>: the first task that fails makes it fail.  The vehicles are listed in the order in
  which their tasks finish, each with its identifier, the time it starts, its ticks and its connection;
  they share one token.
\<close>

fun gather :: "(tool_exn + nat) list \<Rightarrow> tool_exn + nat list" where
  "gather [] = Inr []"
| "gather (r # rs) = bindE r (\<lambda>n. bindE (gather rs) (\<lambda>ns. Inr (n # ns)))"

definition run_simulation ::
  "tool_lib \<Rightarrow> (string \<Rightarrow> 'srv connect) \<Rightarrow> 'srv exchange \<Rightarrow> crypto \<Rightarrow> int \<Rightarrow> uuid \<Rightarrow> string \<Rightarrow> string \<Rightarrow> string \<Rightarrow> rat \<Rightarrow> rat
     \<Rightarrow> (string \<times> rat \<times> tick list \<times> 'srv) list \<Rightarrow> (tool_exn + nat) option"
where
  "run_simulation L connect exchange cr now user_id base_url secret issuer rate_hz duration_seconds vehicles =
     (let token = mint_token cr now user_id secret issuer
      in map_option (\<lambda>outcomes. bindE (gather outcomes) (\<lambda>results. Inr (sum_list results)))
           (those (map (\<lambda>(vehicle_id, start, ticks, srv).
              map_option fst (stream_one_vehicle L (connect token) exchange base_url vehicle_id token rate_hz start duration_seconds ticks srv))
              vehicles)))"

section \<open>The telemetry load test\<close>

text \<open>
  \<^verbatim>\<open>getrlimit\<close> gives soft and hard limit; the result is the new soft limit and whether the warning is
  printed.
\<close>

definition raise_open_file_limit :: "int \<Rightarrow> int \<Rightarrow> int \<times> bool" where
  "raise_open_file_limit soft hard =
     (let target = min hard 65536
      in (if soft < target then target else soft, target < 65536))"

record vehicle_report =
  vr_sent :: nat
  vr_errors :: nat
  vr_fatal :: "string option"

text \<open>\<^verbatim>\<open>str(exc)\<close>.\<close>

fun exn_text :: "tool_exn \<Rightarrow> string" where
  "exn_text ZeroDivisionError = ''division by zero''"
| "exn_text (ConnectionFailed s) = s"

text \<open>
  The loop: an exception of one exchange is counted and the loop goes on; the division by the rate
  after it is outside of the inner \<^verbatim>\<open>try\<close>.
\<close>

fun load_loop ::
  "tool_lib \<Rightarrow> 'srv exchange \<Rightarrow> rat \<Rightarrow> rat \<Rightarrow> tick list \<Rightarrow> pyfloat \<Rightarrow> pyfloat \<Rightarrow> nat \<Rightarrow> nat \<Rightarrow> 'srv
     \<Rightarrow> (vehicle_report \<times> 'srv) option"
where
  "load_loop L exchange rate_hz deadline [] lat lng sent errors srv = None"
| "load_loop L exchange rate_hz deadline (k # ticks) lat lng sent errors srv =
     (if \<not> tk_time k < deadline then Some (\<lparr>vr_sent = sent, vr_errors = errors, vr_fatal = None\<rparr>, srv)
      else
        let lat = tl_add L lat (tk_dlat k);
            lng = tl_add L lng (tk_dlng k);
            (reply, srv') = exchange (tl_dumps L (device_packet lat lng k)) srv;
            sent' = (case reply of Inr _ \<Rightarrow> sent + 1 | Inl _ \<Rightarrow> sent);
            errors' = (case reply of Inr _ \<Rightarrow> errors | Inl _ \<Rightarrow> errors + 1)
        in if rate_hz = 0
           then Some (\<lparr>vr_sent = sent', vr_errors = errors', vr_fatal = Some (exn_text ZeroDivisionError)\<rparr>, srv')
           else load_loop L exchange rate_hz deadline ticks lat lng sent' errors' srv')"

definition stream_vehicle ::
  "tool_lib \<Rightarrow> 'srv connect \<Rightarrow> 'srv exchange \<Rightarrow> string \<Rightarrow> string \<Rightarrow> string \<Rightarrow> rat \<Rightarrow> rat \<Rightarrow> rat \<Rightarrow> pyfloat \<Rightarrow> pyfloat
     \<Rightarrow> tick list \<Rightarrow> 'srv \<Rightarrow> (vehicle_report \<times> 'srv) option"
where
  "stream_vehicle L connect exchange ws_url token vehicle_id rate_hz now duration_seconds lat0 lng0 ticks srv =
     (case connect (ingest_uri ws_url vehicle_id token) srv of
        (Inl x, srv') \<Rightarrow> Some (\<lparr>vr_sent = 0, vr_errors = 0, vr_fatal = Some (exn_text x)\<rparr>, srv')
      | (Inr _, srv') \<Rightarrow> load_loop L exchange rate_hz (now + duration_seconds) ticks lat0 lng0 0 0 srv')"

definition start_delay :: "nat \<Rightarrow> nat \<Rightarrow> rat \<Rightarrow> rat" where
  "start_delay i vehicles ramp_seconds = (of_nat i / of_nat (max vehicles 1)) * ramp_seconds"

text \<open>
  The summary that is printed: packets sent, errors, and the vehicles whose \<^verbatim>\<open>fatal\<close> is true in Python's
  sense (neither \<^verbatim>\<open>None\<close> nor the empty text).
\<close>

definition load_summary :: "(string \<times> vehicle_report) list \<Rightarrow> nat \<times> nat \<times> string list" where
  "load_summary results =
     (sum_list (map (\<lambda>(_, r). vr_sent r) results), sum_list (map (\<lambda>(_, r). vr_errors r) results),
      map fst (filter (\<lambda>(_, r). vr_fatal r \<noteq> None \<and> vr_fatal r \<noteq> Some '''') results))"

text \<open>
  The whole run: one entry per vehicle with its identifier, the time it connects, its first position,
  its ticks and its connection.
\<close>

type_synonym 'srv fleet = "(string \<times> rat \<times> pyfloat \<times> pyfloat \<times> tick list \<times> 'srv) list"

definition load_main ::
  "tool_lib \<Rightarrow> 'srv connect \<Rightarrow> 'srv exchange \<Rightarrow> string \<Rightarrow> string \<Rightarrow> rat \<Rightarrow> rat \<Rightarrow> 'srv fleet \<Rightarrow> (nat \<times> nat \<times> string list) option"
where
  "load_main L connect exchange ws_url token rate_hz duration_seconds fleet =
     map_option load_summary (those (map (\<lambda>(vehicle_id, now, lat0, lng0, ticks, srv).
       map_option (\<lambda>(r, _). (vehicle_id, r))
         (stream_vehicle L connect exchange ws_url token vehicle_id rate_hz now duration_seconds lat0 lng0 ticks srv)) fleet))"

text \<open>\<^verbatim>\<open>s.replace(old, new)\<close> for a non-empty \<^verbatim>\<open>old\<close>, and the address that the load test derives from the gateway's.\<close>

function str_replace :: "string \<Rightarrow> string \<Rightarrow> string \<Rightarrow> string" where
  "str_replace old new s =
     (if s = [] then []
      else if old \<noteq> [] \<and> take (length old) s = old then new @ str_replace old new (drop (length old) s)
      else hd s # str_replace old new (tl s))"
  by pat_completeness auto
termination
  by (relation "measure (\<lambda>(old, new, s). length s)") (auto simp: length_greater_0_conv)

declare str_replace.simps [simp del]

definition websocket_url :: "string \<Rightarrow> string" where
  "websocket_url kong_url = str_replace ''https://'' ''wss://'' (str_replace ''http://'' ''ws://'' kong_url)"

section \<open>The service at the other end\<close>

text \<open>
  The ingest socket of the telemetry service as such a server: the state is the time and Redis state
  that each further message will meet (the server goes away when the list is used up) and the
  topic.
\<close>

type_synonym 'rd ingest_state = "(int \<times> 'rd) list \<times> (string \<times> string) list"

definition ingest_connect :: "telemetry_web \<Rightarrow> string \<Rightarrow> 'rd ingest_state connect" where
  "ingest_connect w token uri srv =
     (case decode_token (tw_jwt w) token of
        None \<Rightarrow> (Inl (ConnectionFailed ''server rejected WebSocket connection: HTTP 403''), srv)
      | Some _ \<Rightarrow> (Inr (), srv))"

definition ingest_exchange :: "telemetry_web \<Rightarrow> 'rd redis \<Rightarrow> string \<Rightarrow> 'rd ingest_state exchange" where
  "ingest_exchange w R vehicle_id raw srv =
     (case fst srv of
        [] \<Rightarrow> (Inl (ConnectionFailed ''no close frame received or sent''), srv)
      | (now, rd) # rest \<Rightarrow>
          (let (replies, topic) = ingest_loop w R vehicle_id [(now, rd, raw)] (snd srv)
           in (Inr (if replies = [True] then ''ok'' else ''rejected''), (rest, topic))))"

section \<open>Lemmas\<close>

lemma str_replace_absent: "c \<in> set old \<Longrightarrow> c \<notin> set s \<Longrightarrow> str_replace old new s = s"
proof (induction s)
  case (Cons a s)
  then have "take (length old) (a # s) \<noteq> old"
    by (metis in_set_takeD)
  with Cons show ?case
    by (subst str_replace.simps) simp
qed (simp add: str_replace.simps)

text \<open>The address of a gateway is turned into the one of its sockets, encrypted where the gateway is.\<close>

lemma websocket_url_gateway:
  assumes "CHR ''/'' \<notin> set host"
  shows "websocket_url (''http://'' @ host) = ''ws://'' @ host" "websocket_url (''https://'' @ host) = ''wss://'' @ host"
  using str_replace_absent [of "CHR ''/''" _ host] assms
  by (simp_all add: websocket_url_def str_replace.simps [of _ _ "_ # _"])

text \<open>When every vehicle ends well the simulation returns the sum of the counts.\<close>

lemma gather_Inr: "gather (map Inr ns) = Inr ns"
  by (induction ns) simp_all

lemma those_map_Some: "those (map (\<lambda>x. Some (f x)) xs) = Some (map f xs)"
  by (induction xs) simp_all

lemma run_simulation_total:
  assumes "\<And>v. v \<in> set vehicles \<Longrightarrow> case v of (vehicle_id, start, ticks, srv) \<Rightarrow>
      \<exists>srv'. stream_one_vehicle L (connect (mint_token cr now user_id secret issuer)) exchange base_url vehicle_id
        (mint_token cr now user_id secret issuer) rate_hz start duration ticks srv = Some (Inr (count v), srv')"
  shows "run_simulation L connect exchange cr now user_id base_url secret issuer rate_hz duration vehicles =
    Some (Inr (sum_list (map count vehicles)))"
proof -
  let ?run = "\<lambda>(vehicle_id, start, ticks, srv). map_option fst (stream_one_vehicle L (connect (mint_token cr now user_id secret issuer)) exchange
      base_url vehicle_id (mint_token cr now user_id secret issuer) rate_hz start duration ticks srv)"
  have "map ?run vehicles = map (\<lambda>v. Some (Inr (count v))) vehicles"
    using assms by (force simp: split_def)
  then have "those (map ?run vehicles) = Some (map Inr (map count vehicles))"
    unfolding map_map comp_def by (simp only: those_map_Some)
  then show ?thesis
    unfolding run_simulation_def Let_def by (simp only: option.map gather_Inr bindE_simps)
qed

text \<open>The turns of a loop until the deadline.\<close>

definition turns :: "rat \<Rightarrow> tick list \<Rightarrow> tick list" where
  "turns deadline ticks = takeWhile (\<lambda>k. tk_time k < deadline) ticks"

definition reaches :: "rat \<Rightarrow> tick list \<Rightarrow> bool" where
  "reaches deadline ticks \<longleftrightarrow> (\<exists>k \<in> set ticks. \<not> tk_time k < deadline)"

lemma load_loop_report:
  assumes "rate_hz \<noteq> 0" "reaches deadline ticks"
  shows "\<exists>r srv'. load_loop L exchange rate_hz deadline ticks lat lng sent errors srv = Some (r, srv') \<and>
    vr_fatal r = None \<and> vr_sent r + vr_errors r = sent + errors + length (turns deadline ticks)"
  using assms(2)
proof (induction ticks arbitrary: lat lng sent errors srv)
  case (Cons k ticks)
  show ?case
  proof (cases "tk_time k < deadline")
    case True
    with Cons.prems have "reaches deadline ticks" by (simp add: reaches_def)
    obtain reply srv1 where ex: "exchange (tl_dumps L (device_packet (tl_add L lat (tk_dlat k)) (tl_add L lng (tk_dlng k)) k)) srv = (reply, srv1)"
      by (cases "exchange (tl_dumps L (device_packet (tl_add L lat (tk_dlat k)) (tl_add L lng (tk_dlng k)) k)) srv")
    define sent' where "sent' = (case reply of Inr _ \<Rightarrow> sent + 1 | Inl _ \<Rightarrow> sent)"
    define errors' where "errors' = (case reply of Inr _ \<Rightarrow> errors | Inl _ \<Rightarrow> errors + 1)"
    have one: "sent' + errors' = sent + errors + 1" by (cases reply) (simp_all add: sent'_def errors'_def)
    from Cons.IH [OF \<open>reaches deadline ticks\<close>, of "tl_add L lat (tk_dlat k)" "tl_add L lng (tk_dlng k)" sent' errors' srv1]
    show ?thesis
      using True assms(1) ex one by (simp add: sent'_def errors'_def turns_def Let_def)
  qed (simp add: turns_def)
qed (simp add: reaches_def)

text \<open>The texts a device sends, and what the socket makes of them.\<close>

fun device_messages :: "tool_lib \<Rightarrow> tick list \<Rightarrow> pyfloat \<Rightarrow> pyfloat \<Rightarrow> string list" where
  "device_messages L [] lat lng = []"
| "device_messages L (k # ticks) lat lng =
     (let lat = tl_add L lat (tk_dlat k); lng = tl_add L lng (tk_dlng k)
      in tl_dumps L (device_packet lat lng k) # device_messages L ticks lat lng)"

lemma length_device_messages [simp]: "length (device_messages L ticks lat lng) = length ticks"
  by (induction ticks arbitrary: lat lng) (simp_all add: Let_def)

definition meeting :: "(int \<times> 'rd) list \<Rightarrow> string list \<Rightarrow> (int \<times> 'rd \<times> string) list" where
  "meeting envs raws = map (\<lambda>((now, rd), raw). (now, rd, raw)) (zip envs raws)"

lemma ingest_loop_Cons:
  "snd (ingest_loop w R vid (x # received) topic) = snd (ingest_loop w R vid received (snd (ingest_loop w R vid [x] topic)))"
  by (simp add: ingest_loop_topic List.map_filter_simps split: option.split)

lemma stream_one_loop_ingest:
  assumes "reaches deadline ticks" "length (turns deadline ticks) \<le> length envs"
  shows "stream_one_loop L (ingest_exchange w R vid) deadline ticks lat lng sent (envs, topic) =
    Some (Inr (sent + length (turns deadline ticks)),
      (drop (length (turns deadline ticks)) envs,
       snd (ingest_loop w R vid (meeting envs (device_messages L (turns deadline ticks) lat lng)) topic)))"
  using assms
proof (induction ticks arbitrary: lat lng sent envs topic)
  case (Cons k ticks)
  show ?case
  proof (cases "tk_time k < deadline")
    case True
    with Cons.prems(2) obtain now rd envs' where envs: "envs = (now, rd) # envs'" by (cases envs) (auto simp: turns_def)
    let ?lat = "tl_add L lat (tk_dlat k)" and ?lng = "tl_add L lng (tk_dlng k)"
    let ?raw = "tl_dumps L (device_packet ?lat ?lng k)"
    have ex: "\<exists>reply. ingest_exchange w R vid ?raw (envs, topic) = (Inr reply, (envs', snd (ingest_loop w R vid [(now, rd, ?raw)] topic)))"
      by (cases "ingest_loop w R vid [(now, rd, ?raw)] topic") (simp add: ingest_exchange_def envs del: ingest_loop.simps)
    have "reaches deadline ticks" "length (turns deadline ticks) \<le> length envs'"
      using Cons.prems True envs by (simp_all add: reaches_def turns_def)
    note IH = Cons.IH [OF this, of ?lat ?lng "sent + 1" "snd (ingest_loop w R vid [(now, rd, ?raw)] topic)"]
    have "stream_one_loop L (ingest_exchange w R vid) deadline (k # ticks) lat lng sent (envs, topic) =
        stream_one_loop L (ingest_exchange w R vid) deadline ticks ?lat ?lng (sent + 1) (envs', snd (ingest_loop w R vid [(now, rd, ?raw)] topic))"
      using True ex by (auto simp: Let_def)
    moreover have "meeting envs (device_messages L (turns deadline (k # ticks)) lat lng) =
        (now, rd, ?raw) # meeting envs' (device_messages L (turns deadline ticks) ?lat ?lng)"
      using True by (simp add: meeting_def envs turns_def Let_def)
    ultimately show ?thesis
      unfolding IH using True by (simp only: ingest_loop_Cons [symmetric]) (simp add: envs turns_def)
  qed (simp add: turns_def meeting_def)
qed (simp add: reaches_def)

lemma mint_token_accepted:
  assumes "jwt_documented st cr t" "now \<le> t" "t < now + 3600"
  shows "decode_token st (mint_token cr now i (jw_secret st) (jw_issuer st)) \<noteq> None"
  using create_token_decoded [OF assms] by (simp add: mint_token_def)

lemma length_map_filter_all: "(\<And>x. x \<in> set xs \<Longrightarrow> f x \<noteq> None) \<Longrightarrow> length (List.map_filter f xs) = length xs"
  by (induction xs) (auto simp: List.map_filter_simps split: option.split)

end
