(* ===== verification/Tools_Properties.thy ===== *)
theory Tools_Properties
  imports Load_Tools Auth_Properties
begin

text \<open>Properties of the simulator and of the load test, against the telemetry service.\<close>

section \<open>The simulator\<close>

text \<open>
  A simulated vehicle ends with its time and counts what it published: with a token minted from
  the service's own secret it is let in, it makes one exchange per turn until its deadline, the
  number it returns is the number of turns, and if the service takes all its packets exactly that
  many records with its identifier are added to the topic, in order.
\<close>

theorem simulator_counts_published:
  assumes "jwt_documented (tw_jwt w) cr t" "now \<le> t" "t < now + 3600"
    and "token = mint_token cr now user (jw_secret (tw_jwt w)) (jw_issuer (tw_jwt w))" "rate_hz \<noteq> 0"
    and "reaches (start + duration) ticks" "length (turns (start + duration) ticks) \<le> length envs"
    and "list_all (\<lambda>raw. parse_packet w raw \<noteq> None)
      (device_messages L (turns (start + duration) ticks) (Finite (407128 / 10000)) (Finite (- 740060 / 10000)))"
  shows "\<exists>records. stream_one_vehicle L (ingest_connect w token) (ingest_exchange w R vid) base vid token rate_hz start duration ticks (envs, topic) =
      Some (Inr (length records), (drop (length records) envs, topic @ records)) \<and>
    length records = length (turns (start + duration) ticks) \<and> list_all (\<lambda>r. fst r = vid) records"
proof -
  let ?n = "length (turns (start + duration) ticks)"
  let ?raws = "device_messages L (turns (start + duration) ticks) (Finite (407128 / 10000)) (Finite (- 740060 / 10000))"
  let ?met = "meeting envs ?raws"
  define records where "records = map (\<lambda>p. (vid, tw_dumps w (packet_message w vid p))) (List.map_filter (enforced w R vid) ?met)"
  have "enforced w R vid x \<noteq> None" if "x \<in> set ?met" for x
    using assms(8) that
    by (auto simp: meeting_def enforced_def list_all_iff dest!: set_zip_rightD)
  then have len: "length records = length ?met"
    unfolding records_def length_map by (intro length_map_filter_all) blast
  have met: "length ?met = ?n" using assms(7) by (simp add: meeting_def)
  obtain claims where "decode_token (tw_jwt w) token = Some claims"
    using mint_token_accepted [OF assms(1-3), of user] assms(4) by auto
  then have "stream_one_vehicle L (ingest_connect w token) (ingest_exchange w R vid) base vid token rate_hz start duration ticks (envs, topic) =
      Some (Inr ?n, (drop ?n envs, topic @ records))"
    using assms(5) stream_one_loop_ingest [OF assms(6,7)]
    by (simp add: stream_one_vehicle_def ingest_connect_def ingest_loop_topic records_def)
  then show ?thesis using len met by (intro exI [of _ records]) (simp add: records_def list_all_iff)
qed

definition tool_web :: telemetry_web where
  "tool_web =
     \<lparr>tw_jwt = plain_jwt,
      tw_parse = (\<lambda>raw. Some \<lparr>tp_lat = Finite 40, tp_lng = Finite 0, tp_speed_kph = Finite 50, tp_recorded_at = 7\<rparr>),
      tw_isoformat = (\<lambda>t. ''1970''), tw_dumps = (\<lambda>j. ''{}''), tw_loads = (\<lambda>s. None)\<rparr>"

definition still_lib :: tool_lib where
  "still_lib = \<lparr>tl_add = (\<lambda>a b. a), tl_dumps = (\<lambda>j. ''{}'')\<rparr>"

definition tick_at :: "rat \<Rightarrow> tick" where
  "tick_at t = \<lparr>tk_time = t, tk_dlat = Finite 0, tk_dlng = Finite 0, tk_speed_kph = Finite 50, tk_recorded_at = ''1970''\<rparr>"

lemma sample_turns: "turns (0 + 2) [tick_at 0, tick_at 1, tick_at 2] = [tick_at 0, tick_at 1]" "reaches (0 + 2) [tick_at 0, tick_at 1, tick_at 2]"
  by (simp_all add: turns_def reaches_def tick_at_def)

theorem simulator_counts_published_witness:
  "\<exists>records. stream_one_vehicle still_lib (ingest_connect tool_web (mint_token plain_crypto 0 1 ''s'' ''carflow-auth''))
      (ingest_exchange tool_web map_redis ''v'') ''ws://x'' ''v'' (mint_token plain_crypto 0 1 ''s'' ''carflow-auth'') 1 0 2
      [tick_at 0, tick_at 1, tick_at 2] ([(0, Map.empty), (1, Map.empty)], []) = Some (Inr 2, ([], records)) \<and> length records = 2"
proof -
  have doc: "jwt_documented (tw_jwt tool_web) plain_crypto 5" by (simp add: tool_web_def plain_documented)
  have token: "mint_token plain_crypto 0 1 ''s'' ''carflow-auth'' =
      mint_token plain_crypto 0 1 (jw_secret (tw_jwt tool_web)) (jw_issuer (tw_jwt tool_web))"
    by (simp add: tool_web_def plain_jwt_def)
  have valid: "list_all (\<lambda>raw. parse_packet tool_web raw \<noteq> None) raws" for raws
    by (induction raws) (simp_all add: parse_packet_def validated_def tool_web_def packet_valid_def)
  have enough: "length (turns (0 + 2) [tick_at 0, tick_at 1, tick_at 2]) \<le> length [(0 :: int, Map.empty :: string \<rightharpoonup> string \<times> int option), (1, Map.empty)]"
    by (simp only: sample_turns) simp
  from simulator_counts_published [OF doc _ _ token _ sample_turns(2) enough valid,
      where rate_hz = 1 and L = still_lib and R = map_redis and vid = "''v''" and base = "''ws://x''" and topic = "[]"]
  show ?thesis by (auto simp: sample_turns(1) [simplified] numeral_2_eq_2)
qed

section \<open>The load test\<close>

text \<open>
  The load test ends with its time and accounts for every exchange as sent or failed, but it
  never reports a connection as died early once it was open: if all vehicles could connect, the
  list of dead connections is empty, even if every exchange of every vehicle failed; a lost
  connection shows up only as as many errors as there were turns left.
\<close>

theorem lost_connections_not_reported:
  assumes "rate_hz \<noteq> 0"
    and "\<forall>(vid, now, lat, lng, ticks, srv) \<in> set fleet.
      fst (connect (ingest_uri ws_url vid token) srv) = Inr () \<and> reaches (now + duration) ticks"
  shows "\<exists>sent errors. load_main L connect exchange ws_url token rate_hz duration fleet = Some (sent, errors, []) \<and>
    sent + errors = sum_list (map (\<lambda>(vid, now, lat, lng, ticks, srv). length (turns (now + duration) ticks)) fleet)"
proof -
  let ?run = "\<lambda>(vid, now, lat0, lng0, ticks, srv).
      map_option (\<lambda>(r, _). (vid, r)) (stream_vehicle L connect exchange ws_url token vid rate_hz now duration lat0 lng0 ticks srv)"
  have "\<exists>results. those (map ?run fleet) = Some results \<and> (\<forall>(vid, r) \<in> set results. vr_fatal r = None) \<and>
      sum_list (map (\<lambda>(_, r). vr_sent r) results) + sum_list (map (\<lambda>(_, r). vr_errors r) results) =
      sum_list (map (\<lambda>(vid, now, lat, lng, ticks, srv). length (turns (now + duration) ticks)) fleet)"
    using assms(2)
  proof (induction fleet)
    case (Cons x fleet)
    obtain vid now lat lng ticks srv where x: "x = (vid, now, lat, lng, ticks, srv)" by (cases x) auto
    obtain srv1 where c: "connect (ingest_uri ws_url vid token) srv = (Inr (), srv1)" "reaches (now + duration) ticks"
      using Cons.prems by (cases "connect (ingest_uri ws_url vid token) srv") (auto simp: x)
    obtain r srv2 where r: "load_loop L exchange rate_hz (now + duration) ticks lat lng 0 0 srv1 = Some (r, srv2)"
      "vr_fatal r = None" "vr_sent r + vr_errors r = length (turns (now + duration) ticks)"
      using load_loop_report [OF assms(1) c(2), of L exchange lat lng 0 0 srv1] by auto
    from Cons.IH Cons.prems obtain results where "those (map ?run fleet) = Some results" "\<forall>(vid, r) \<in> set results. vr_fatal r = None"
      "sum_list (map (\<lambda>(_, r). vr_sent r) results) + sum_list (map (\<lambda>(_, r). vr_errors r) results) =
       sum_list (map (\<lambda>(vid, now, lat, lng, ticks, srv). length (turns (now + duration) ticks)) fleet)" by auto
    then show ?case
      using r c(1) by (intro exI [of _ "(vid, r) # results"]) (auto simp: x stream_vehicle_def)
  qed simp
  then obtain results where res: "those (map ?run fleet) = Some results" "\<forall>(vid, r) \<in> set results. vr_fatal r = None"
      "sum_list (map (\<lambda>(_, r). vr_sent r) results) + sum_list (map (\<lambda>(_, r). vr_errors r) results) =
      sum_list (map (\<lambda>(vid, now, lat, lng, ticks, srv). length (turns (now + duration) ticks)) fleet)" by blast
  from res(2) have "filter (\<lambda>(_, r). vr_fatal r \<noteq> None \<and> vr_fatal r \<noteq> Some '''') results = []"
    by (auto simp: filter_empty_conv)
  with res show ?thesis unfolding load_main_def load_summary_def by simp
qed

theorem lost_connections_not_reported_witness:
  "\<exists>sent errors. load_main still_lib (\<lambda>uri srv. (Inr (), srv)) (\<lambda>raw srv. (Inl (ConnectionFailed ''gone''), srv)) ''ws://x'' ''t'' 1 2
      [(''v'', 0, Finite 40, Finite 0, [tick_at 0, tick_at 1, tick_at 2], ())] = Some (sent, errors, []) \<and> sent + errors = 2"
  using lost_connections_not_reported [of 1 "[(''v'', 0, Finite 40, Finite 0, [tick_at 0, tick_at 1, tick_at 2], ())]"
      "\<lambda>uri srv. (Inr (), srv)" "''ws://x''" "''t''" 2 still_lib "\<lambda>raw srv. (Inl (ConnectionFailed ''gone''), srv)"]
  by (simp add: sample_turns [simplified] numeral_2_eq_2)

end
