(* ===== verification/Load_Clients.thy ===== *)
theory Load_Clients
  imports Auth
begin

text \<open>
  The HTTP clients of the load test: the seed script (\<^verbatim>\<open>deploy/loadtest/seed_vehicles.py\<close>), the token of
  the telemetry load (\<^verbatim>\<open>get_any_token\<close> of \<^verbatim>\<open>telemetry_load.py\<close>) and the Locust users
  (\<^verbatim>\<open>deploy/loadtest/locustfile.py\<close>).  A client acts on a server state of unknown type through \<open>send\<close>,
  which stands for httpx, the network and the gateway; random choices, fresh identifiers and the
  clock are arguments.  An action returns \<open>None\<close> if it never ends, otherwise an exception or a
  result and the state of the server.
\<close>

datatype client_exn =
    HTTPStatusError int
  | RequestError string
  | ClientPy py_exn

record http_answer =
  an_status_code :: int
  an_retry_after :: "string option"
  an_json :: "json option"

type_synonym 'srv send = "string \<Rightarrow> string \<Rightarrow> json option \<Rightarrow> (string \<times> string) list \<Rightarrow> 'srv \<Rightarrow> (client_exn + http_answer) \<times> 'srv"
type_synonym ('a, 'srv) act = "'srv \<Rightarrow> ((client_exn + 'a) \<times> 'srv) option"

definition bindA :: "('a, 'srv) act \<Rightarrow> ('a \<Rightarrow> ('b, 'srv) act) \<Rightarrow> ('b, 'srv) act" where
  "bindA m f srv = (case m srv of
      None \<Rightarrow> None
    | Some (Inl x, srv') \<Rightarrow> Some (Inl x, srv')
    | Some (Inr a, srv') \<Rightarrow> f a srv')"

definition liftA :: "client_exn + 'a \<Rightarrow> ('a, 'srv) act" where
  "liftA r srv = Some (r, srv)"

fun mapA :: "('a \<Rightarrow> ('b, 'srv) act) \<Rightarrow> 'a list \<Rightarrow> ('b list, 'srv) act" where
  "mapA f [] = liftA (Inr [])"
| "mapA f (x # xs) = bindA (f x) (\<lambda>y. bindA (mapA f xs) (\<lambda>ys. liftA (Inr (y # ys))))"

text \<open>\<^verbatim>\<open>response.raise_for_status()\<close> (httpx: anything but 2xx is an error), \<^verbatim>\<open>response.json()[key]\<close>.\<close>

definition raise_for_status :: "http_answer \<Rightarrow> client_exn + unit" where
  "raise_for_status r = (if 200 \<le> an_status_code r \<and> an_status_code r < 300 then Inr () else Inl (HTTPStatusError (an_status_code r)))"

definition answer_item :: "http_answer \<Rightarrow> string \<Rightarrow> client_exn + json" where
  "answer_item r key =
     (case an_json r of
        None \<Rightarrow> Inl (ClientPy ValueError)
      | Some (JObj d) \<Rightarrow> (case dict_get d key of None \<Rightarrow> Inl (ClientPy (KeyError key)) | Some v \<Rightarrow> Inr v)
      | Some _ \<Rightarrow> Inl (ClientPy TypeError))"

section \<open>Seeding\<close>

definition PASSWORD :: string where
  "PASSWORD = ''supersecret123''"

definition ADMIN_EMAIL :: string where
  "ADMIN_EMAIL = ''loadtest-admin@example.com''"

definition ADMIN_PASSWORD :: string where
  "ADMIN_PASSWORD = ''adminpassword123''"

definition idempotency_headers :: "string \<Rightarrow> string \<Rightarrow> (string \<times> string) list" where
  "idempotency_headers token key = [(''Authorization'', ''Bearer '' @ token), (''Idempotency-Key'', key)]"

text \<open>
  The retry loop: \<open>request\<close> is the call \<^verbatim>\<open>client.post(url, **kwargs)\<close>, the same for all attempts, \<open>float\<close> reads
  the header, \<open>elapse\<close> is what happens to the server while the client sleeps.
\<close>

partial_function (option) post_with_retry ::
  "(string \<Rightarrow> rat option) \<Rightarrow> (rat \<Rightarrow> 'srv \<Rightarrow> 'srv) \<Rightarrow> ('srv \<Rightarrow> (client_exn + http_answer) \<times> 'srv) \<Rightarrow> 'srv
     \<Rightarrow> ((client_exn + http_answer) \<times> 'srv) option"
where
  "post_with_retry float elapse request srv =
     (case request srv of
        (Inl x, srv') \<Rightarrow> Some (Inl x, srv')
      | (Inr response, srv') \<Rightarrow>
          if an_status_code response \<noteq> 429 then Some (Inr response, srv')
          else (case (case an_retry_after response of None \<Rightarrow> Some 2 | Some text \<Rightarrow> float text) of
                  None \<Rightarrow> Some (Inl (ClientPy ValueError), srv')
                | Some wait \<Rightarrow> post_with_retry float elapse request (elapse wait srv')))"

declare post_with_retry.simps [simp del]

record 'srv http_client =
  hc_send :: "'srv send"
  hc_float :: "string \<Rightarrow> rat option"
  hc_elapse :: "rat \<Rightarrow> 'srv \<Rightarrow> 'srv"

definition post_retrying :: "'srv http_client \<Rightarrow> string \<Rightarrow> json option \<Rightarrow> (string \<times> string) list \<Rightarrow> (http_answer, 'srv) act" where
  "post_retrying c url body headers = post_with_retry (hc_float c) (hc_elapse c) (hc_send c ''POST'' url body headers)"

text \<open>\<^verbatim>\<open>role.capitalize()\<close> for letters \<^verbatim>\<open>a-z\<close>, \<^verbatim>\<open>A-Z\<close>.\<close>

definition char_upper :: "char \<Rightarrow> char" where
  "char_upper c = (let n = of_char c :: nat in if 97 \<le> n \<and> n \<le> 122 then char_of (n - 32) else c)"

fun capitalize :: "string \<Rightarrow> string" where
  "capitalize [] = []"
| "capitalize (c # cs) = char_upper c # map char_lower cs"

definition register_body :: "string \<Rightarrow> string \<Rightarrow> string \<Rightarrow> string \<Rightarrow> json" where
  "register_body name email password role = JObj
     [(''name'', JStr name), (''email'', JStr email), (''password'', JStr password), (''role'', JStr role)]"

definition login_body :: "string \<Rightarrow> string \<Rightarrow> json" where
  "login_body email password = JObj [(''email'', JStr email), (''password'', JStr password)]"

record account =
  ac_email :: string
  ac_password :: string
  ac_token :: json

text \<open>\<open>hex\<close> is \<^verbatim>\<open>uuid.uuid4().hex[:10]\<close>, \<open>key\<close> the idempotency key; the answer to the registration is not read.\<close>

definition register_and_login :: "'srv http_client \<Rightarrow> string \<Rightarrow> string \<Rightarrow> string \<Rightarrow> string \<Rightarrow> (account, 'srv) act" where
  "register_and_login c kong_url role hex key =
     (let email = ''loadtest-'' @ role @ ''-'' @ hex @ ''@example.com''
      in bindA (post_retrying c (kong_url @ ''/auth/register'') (Some (register_body (capitalize role) email PASSWORD role))
                 [(''Idempotency-Key'', key)]) (\<lambda>_.
         bindA (post_retrying c (kong_url @ ''/auth/login'') (Some (login_body email PASSWORD)) []) (\<lambda>response.
         bindA (liftA (raise_for_status response)) (\<lambda>_.
         bindA (liftA (answer_item response ''access_token'')) (\<lambda>token.
         liftA (Inr \<lparr>ac_email = email, ac_password = PASSWORD, ac_token = token\<rparr>))))))"

text \<open>
  The administrator is written into the auth service's table directly (\<open>users\<close>, \<open>put_users\<close> read and
  replace it in the server's state), because no registration makes one.
\<close>

definition insert_admin :: "crypto \<Rightarrow> nat \<Rightarrow> uuid \<Rightarrow> user list \<Rightarrow> user list" where
  "insert_admin cr salt user_id users =
     (if find_row us_email ADMIN_EMAIL users \<noteq> None then users
      else users @ [\<lparr>us_id = user_id, us_email = ADMIN_EMAIL, us_name = ''Loadtest Admin'',
                     us_password_hash = cr_hash cr salt ADMIN_PASSWORD, us_role = ''admin''\<rparr>])"

definition ensure_admin ::
  "'srv http_client \<Rightarrow> ('srv \<Rightarrow> user list) \<Rightarrow> (user list \<Rightarrow> 'srv \<Rightarrow> 'srv) \<Rightarrow> crypto \<Rightarrow> nat \<Rightarrow> uuid \<Rightarrow> string \<Rightarrow> (json, 'srv) act"
where
  "ensure_admin c users put_users cr salt user_id kong_url =
     bindA (\<lambda>srv. Some (Inr (), put_users (insert_admin cr salt user_id (users srv)) srv)) (\<lambda>_.
     bindA (post_retrying c (kong_url @ ''/auth/login'') (Some (login_body ADMIN_EMAIL ADMIN_PASSWORD)) []) (\<lambda>response.
     bindA (liftA (raise_for_status response)) (\<lambda>_.
     liftA (answer_item response ''access_token''))))"

text \<open>What \<^verbatim>\<open>random\<close> draws for a vehicle, and the two fresh idempotency keys.\<close>

record vehicle_draw =
  vd_make :: string
  vd_model :: string
  vd_year :: int
  vd_daily_price_cents :: int
  vd_daily_mileage_limit :: int
  vd_latitude :: pyfloat
  vd_longitude :: pyfloat
  vd_create_key :: string
  vd_approve_key :: string

definition vehicle_body :: "vehicle_draw \<Rightarrow> json" where
  "vehicle_body d = JObj
     [(''make'', JStr (vd_make d)), (''model'', JStr (vd_model d)), (''year'', JInt (vd_year d)),
      (''daily_price_cents'', JInt (vd_daily_price_cents d)), (''daily_mileage_limit'', JInt (vd_daily_mileage_limit d)),
      (''booking_mode'', JStr ''instant''), (''latitude'', JFloat (vd_latitude d)), (''longitude'', JFloat (vd_longitude d))]"

text \<open>
  \<open>show\<close> is the text an f-string makes of a JSON value (a token or an identifier).  The answer to the
  creation is read whatever its status is, the answer to the approval is not looked at.
\<close>

definition create_and_approve_vehicle ::
  "'srv http_client \<Rightarrow> (json \<Rightarrow> string) \<Rightarrow> string \<Rightarrow> json \<Rightarrow> json \<Rightarrow> vehicle_draw \<Rightarrow> (json, 'srv) act"
where
  "create_and_approve_vehicle c show kong_url host_token admin_token d =
     bindA (post_retrying c (kong_url @ ''/listing/vehicles'') (Some (vehicle_body d))
              (idempotency_headers (show host_token) (vd_create_key d))) (\<lambda>response.
     bindA (liftA (answer_item response ''id'')) (\<lambda>created_id.
     bindA (post_retrying c (kong_url @ ''/listing/vehicles/'' @ show created_id @ ''/approve'') None
              (idempotency_headers (show admin_token) (vd_approve_key d))) (\<lambda>_.
     liftA (Inr created_id))))"

text \<open>
  The whole run: per host the draws of its account and of its vehicles, per renter those of its
  account.  The result is what is written to \<^verbatim>\<open>seed_data.json\<close>.
\<close>

definition seed_host ::
  "'srv http_client \<Rightarrow> (json \<Rightarrow> string) \<Rightarrow> string \<Rightarrow> json \<Rightarrow> (string \<times> string) \<times> vehicle_draw list \<Rightarrow> (json list, 'srv) act"
where
  "seed_host c show kong_url admin_token h =
     (case h of ((hex, key), draws) \<Rightarrow>
        bindA (register_and_login c kong_url ''host'' hex key) (\<lambda>host.
        mapA (create_and_approve_vehicle c show kong_url (ac_token host) admin_token) draws))"

definition seed_main ::
  "'srv http_client \<Rightarrow> ('srv \<Rightarrow> user list) \<Rightarrow> (user list \<Rightarrow> 'srv \<Rightarrow> 'srv) \<Rightarrow> crypto \<Rightarrow> nat \<Rightarrow> uuid \<Rightarrow> (json \<Rightarrow> string) \<Rightarrow> string
     \<Rightarrow> ((string \<times> string) \<times> vehicle_draw list) list \<Rightarrow> (string \<times> string) list \<Rightarrow> (json list \<times> (string \<times> string) list, 'srv) act"
where
  "seed_main c users put_users cr salt user_id show kong_url hosts renters =
     bindA (ensure_admin c users put_users cr salt user_id kong_url) (\<lambda>admin_token.
     bindA (mapA (seed_host c show kong_url admin_token) hosts) (\<lambda>vehicle_ids.
     bindA (mapA (\<lambda>(hex, key). register_and_login c kong_url ''renter'' hex key) renters) (\<lambda>accounts.
     liftA (Inr (concat vehicle_ids, map (\<lambda>r. (ac_email r, ac_password r)) accounts)))))"

text \<open>The token of the telemetry load: as above, but a refusal by the gateway is final.\<close>

definition get_any_token :: "'srv http_client \<Rightarrow> string \<Rightarrow> string \<Rightarrow> string \<Rightarrow> (json, 'srv) act" where
  "get_any_token c kong_url hex key =
     (let email = ''loadtest-telemetry-'' @ hex @ ''@example.com'';
          post = (\<lambda>url body headers srv. Some (hc_send c ''POST'' url body headers srv))
      in bindA (post (kong_url @ ''/auth/register'') (Some (register_body ''Telemetry Loadgen'' email PASSWORD ''host''))
                 [(''Idempotency-Key'', key)]) (\<lambda>_.
         bindA (post (kong_url @ ''/auth/login'') (Some (login_body email PASSWORD)) []) (\<lambda>response.
         bindA (liftA (raise_for_status response)) (\<lambda>_.
         liftA (answer_item response ''access_token'')))))"

section \<open>The Locust users\<close>

text \<open>Locust's client does not raise for a failed request; it answers with status 0.\<close>

record booking_user =
  bu_token :: json
  bu_last_booking_id :: "json option"

type_synonym 'srv locust_send = "string \<Rightarrow> string \<Rightarrow> json option \<Rightarrow> (string \<times> string) list \<Rightarrow> 'srv \<Rightarrow> http_answer \<times> 'srv"

definition search_vehicles_task :: "'srv locust_send \<Rightarrow> string \<Rightarrow> 'srv \<Rightarrow> http_answer \<times> 'srv" where
  "search_vehicles_task send choice srv = send ''GET'' (''/search/vehicles?sort='' @ choice) None [] srv"

definition on_start :: "'srv locust_send \<Rightarrow> string \<times> string \<Rightarrow> 'srv \<Rightarrow> (client_exn + booking_user) \<times> 'srv" where
  "on_start send renter srv =
     (let (response, srv') = send ''POST'' ''/auth/login'' (Some (login_body (fst renter) (snd renter))) [] srv
      in (bindE (answer_item response ''access_token'') (\<lambda>token. Inr \<lparr>bu_token = token, bu_last_booking_id = None\<rparr>), srv'))"

definition auth_headers :: "(json \<Rightarrow> string) \<Rightarrow> booking_user \<Rightarrow> string \<Rightarrow> (string \<times> string) list" where
  "auth_headers show u key = idempotency_headers (show (bu_token u)) key"

text \<open>\<open>days_ahead\<close> and \<open>length\<close> are the two \<^verbatim>\<open>randint\<close>s; \<open>date_str\<close> is \<^verbatim>\<open>str\<close> of a date.\<close>

definition booking_body :: "(int \<Rightarrow> string) \<Rightarrow> string \<Rightarrow> int \<Rightarrow> int \<Rightarrow> int \<Rightarrow> json" where
  "booking_body date_str vehicle_id today days_ahead days =
     (let start = today + days_ahead; end_date = start + days
      in JObj [(''vehicle_id'', JStr vehicle_id), (''start_date'', JStr (date_str start)), (''end_date'', JStr (date_str end_date))])"

definition create_booking_task ::
  "'srv locust_send \<Rightarrow> (json \<Rightarrow> string) \<Rightarrow> (int \<Rightarrow> string) \<Rightarrow> string \<Rightarrow> int \<Rightarrow> int \<Rightarrow> int \<Rightarrow> string \<Rightarrow> booking_user \<Rightarrow> 'srv
     \<Rightarrow> (client_exn + booking_user) \<times> 'srv"
where
  "create_booking_task send show date_str vehicle_id today days_ahead days key u srv =
     (let (response, srv') = send ''POST'' ''/booking/bookings'' (Some (booking_body date_str vehicle_id today days_ahead days))
                               (auth_headers show u key) srv
      in (if an_status_code response = 201
          then bindE (answer_item response ''id'') (\<lambda>i. Inr (u\<lparr>bu_last_booking_id := Some i\<rparr>))
          else Inr u, srv'))"

definition get_own_booking_task ::
  "'srv locust_send \<Rightarrow> (json \<Rightarrow> string) \<Rightarrow> string \<Rightarrow> booking_user \<Rightarrow> 'srv \<Rightarrow> http_answer option \<times> 'srv"
where
  "get_own_booking_task send show key u srv =
     (case bu_last_booking_id u of
        None \<Rightarrow> (None, srv)
      | Some booking_id \<Rightarrow>
          (let (response, srv') = send ''GET'' (''/booking/bookings/'' @ show booking_id) None (auth_headers show u key) srv
           in (Some response, srv')))"

end
