(* ===== verification/Load_Properties.thy ===== *)
theory Load_Properties
  imports Load_Clients Auth_Properties Booking_Route_Properties
begin

text \<open>
  Properties of the load test's HTTP clients: when the retry loop ends, that a seeded account works
  at the auth service, and that a Locust user can read the bookings it made.
\<close>

section \<open>Retrying\<close>

text \<open>How long to wait after a refusal; \<open>None\<close> if the answer is no refusal or its header is no number.\<close>

definition refusal :: "(string \<Rightarrow> rat option) \<Rightarrow> client_exn + http_answer \<Rightarrow> rat option" where
  "refusal float r =
     (case r of
        Inl _ \<Rightarrow> None
      | Inr response \<Rightarrow> if an_status_code response \<noteq> 429 then None
          else (case an_retry_after response of None \<Rightarrow> Some 2 | Some text \<Rightarrow> float text))"

text \<open>The server after \<open>n\<close> refusals; \<open>None\<close> if fewer requests are refused.\<close>

fun after_refusals ::
  "(string \<Rightarrow> rat option) \<Rightarrow> (rat \<Rightarrow> 'srv \<Rightarrow> 'srv) \<Rightarrow> ('srv \<Rightarrow> (client_exn + http_answer) \<times> 'srv) \<Rightarrow> nat \<Rightarrow> 'srv \<Rightarrow> 'srv option"
where
  "after_refusals float elapse request 0 srv = Some srv"
| "after_refusals float elapse request (Suc n) srv =
     (case refusal float (fst (request srv)) of
        None \<Rightarrow> None
      | Some wait \<Rightarrow> after_refusals float elapse request n (elapse wait (snd (request srv))))"

text \<open>What the loop makes of an answer that is not a refusal to wait for.\<close>

definition verdict :: "client_exn + http_answer \<Rightarrow> client_exn + http_answer" where
  "verdict r = (case r of Inr response \<Rightarrow> if an_status_code response = 429 then Inl (ClientPy ValueError) else r | Inl _ \<Rightarrow> r)"

lemma post_with_retry_step:
  "post_with_retry float elapse request srv =
     (case refusal float (fst (request srv)) of
        None \<Rightarrow> Some (verdict (fst (request srv)), snd (request srv))
      | Some wait \<Rightarrow> post_with_retry float elapse request (elapse wait (snd (request srv))))"
  by (subst post_with_retry.simps) (auto simp: refusal_def verdict_def split: prod.split sum.split option.split)

lemma post_with_retry_after:
  assumes "after_refusals float elapse request n srv = Some s" "refusal float (fst (request s)) = None"
  shows "post_with_retry float elapse request srv = Some (verdict (fst (request s)), snd (request s))"
  using assms
proof (induction n arbitrary: srv)
  case 0
  then show ?case by (subst post_with_retry_step) simp
next
  case (Suc n)
  then obtain wait where "refusal float (fst (request srv)) = Some wait"
    "after_refusals float elapse request n (elapse wait (snd (request srv))) = Some s"
    by (auto split: option.splits)
  then show ?case using Suc.IH [of "elapse wait (snd (request srv))"] Suc.prems(2) by (subst post_with_retry_step) simp
qed

lemma post_with_retry_ended:
  assumes "post_with_retry float elapse request srv = Some out"
  shows "\<exists>n s. after_refusals float elapse request n srv = Some s \<and> refusal float (fst (request s)) = None"
proof (rule post_with_retry.raw_induct [OF _ assms])
  fix retry float elapse request and srv :: 'a and out
  assume IH: "\<And>float elapse request srv out. retry float elapse request srv = Some out \<Longrightarrow>
      \<exists>n s. after_refusals float elapse request n srv = Some s \<and> refusal float (fst (request s)) = None"
    and body: "(case request srv of
        (Inl x, srv') \<Rightarrow> Some (Inl x, srv')
      | (Inr response, srv') \<Rightarrow>
          if an_status_code response \<noteq> 429 then Some (Inr response, srv')
          else (case (case an_retry_after response of None \<Rightarrow> Some 2 | Some text \<Rightarrow> float text) of
                  None \<Rightarrow> Some (Inl (ClientPy ValueError), srv')
                | Some wait \<Rightarrow> retry float elapse request (elapse wait srv'))) = Some out"
  show "\<exists>n s. after_refusals float elapse request n srv = Some s \<and> refusal float (fst (request s)) = None"
  proof (cases "refusal float (fst (request srv))")
    case None
    then show ?thesis by (intro exI [of _ 0]) simp
  next
    case (Some wait)
    then have "retry float elapse request (elapse wait (snd (request srv))) = Some out"
      using body by (auto simp: refusal_def split: prod.splits sum.splits option.splits if_splits)
    from IH [OF this] obtain n s where "after_refusals float elapse request n (elapse wait (snd (request srv))) = Some s"
      "refusal float (fst (request s)) = None" by blast
    with Some show ?thesis by (intro exI [of _ "Suc n"]) auto
  qed
qed

lemma post_with_retry_never:
  "post_with_retry float elapse request srv = None \<Longrightarrow> after_refusals float elapse request n srv \<noteq> None"
proof (induction n arbitrary: srv)
  case (Suc n)
  then obtain wait where wait: "refusal float (fst (request srv)) = Some wait"
    by (subst (asm) (2) post_with_retry_step) (auto split: option.splits)
  with Suc.prems have "post_with_retry float elapse request (elapse wait (snd (request srv))) = None"
    by (subst (asm) post_with_retry_step) simp
  with wait show ?case using Suc.IH by simp
qed simp

lemma after_refusals_ended:
  assumes "after_refusals float elapse request n srv = Some s" "refusal float (fst (request s)) = None"
  shows "after_refusals float elapse request (Suc n) srv = None"
  using assms(1)
proof (induction n arbitrary: srv)
  case 0
  then show ?case using assms(2) by simp
next
  case (Suc n)
  then obtain wait where wait: "refusal float (fst (request srv)) = Some wait"
    "after_refusals float elapse request n (elapse wait (snd (request srv))) = Some s" by (auto split: option.splits)
  show ?case using Suc.IH [OF wait(2)] wait(1) by (subst after_refusals.simps) simp
qed

text \<open>
  The retry loop of the seed script ends exactly when the gateway stops refusing: it returns the
  first answer that is no refusal, after any number of refusals each followed by the wait it asked for
  (or the exception, if the header of a refusal is no number); it runs forever if and only if every
  attempt is refused: there is no limit to the attempts.
\<close>

theorem retry_ends_with_refusals:
  "(post_with_retry float elapse request srv = Some out \<longleftrightarrow>
      (\<exists>n s. after_refusals float elapse request n srv = Some s \<and> refusal float (fst (request s)) = None \<and>
         out = (verdict (fst (request s)), snd (request s)))) \<and>
   (post_with_retry float elapse request srv = None \<longleftrightarrow> (\<forall>n. after_refusals float elapse request n srv \<noteq> None))"
proof (intro conjI)
  show "post_with_retry float elapse request srv = Some out \<longleftrightarrow>
      (\<exists>n s. after_refusals float elapse request n srv = Some s \<and> refusal float (fst (request s)) = None \<and>
         out = (verdict (fst (request s)), snd (request s)))"
    using post_with_retry_ended [of float elapse request srv] post_with_retry_after [of float elapse request _ srv]
    by (metis option.inject)
  show "post_with_retry float elapse request srv = None \<longleftrightarrow> (\<forall>n. after_refusals float elapse request n srv \<noteq> None)"
    using post_with_retry_never [of float elapse request srv] post_with_retry_ended [of float elapse request srv]
      after_refusals_ended [of float elapse request _ srv]
    by (metis not_Some_eq)
qed

section \<open>Seeded accounts\<close>

text \<open>
  The auth service behind the gateway: what happens to the next requests is a list, each is refused
  (with the text of its \<^verbatim>\<open>Retry-After\<close> header, if any) or handled with a salt and an environment.
  Pydantic's reading of the bodies and the client's JSON printer are parameters.
\<close>

datatype gateway_turn = Refused "string option" | Forwarded nat env

type_synonym auth_srv = "gateway_turn list \<times> auth_db"

record auth_net =
  gw_web :: auth_web
  gw_email_valid :: "string \<Rightarrow> bool"
  gw_parse_register :: "string \<Rightarrow> register_payload option"
  gw_parse_login :: "string \<Rightarrow> (string \<times> string) option"
  gw_dumps :: "json \<Rightarrow> string"
  gw_loads :: "string \<Rightarrow> json option"

fun auth_answer :: "auth_net \<Rightarrow> auth_exn + response \<Rightarrow> http_answer" where
  "auth_answer g (Inr r) = \<lparr>an_status_code = rsp_status_code r, an_retry_after = None, an_json = gw_loads g (rsp_content r)\<rparr>"
| "auth_answer g (Inl (AuthPy (HTTPException code detail))) =
     \<lparr>an_status_code = code, an_retry_after = None, an_json = Some (JObj [(''detail'', JStr detail)])\<rparr>"
| "auth_answer g (Inl _) = \<lparr>an_status_code = 500, an_retry_after = None, an_json = None\<rparr>"

definition login_answer :: "auth_net \<Rightarrow> auth_exn + string \<times> string \<Rightarrow> http_answer" where
  "login_answer g r =
     (case r of
        Inl x \<Rightarrow> auth_answer g (Inl x)
      | Inr (access, refresh) \<Rightarrow>
          \<lparr>an_status_code = 200, an_retry_after = None,
           an_json = Some (JObj [(''access_token'', JStr access), (''refresh_token'', JStr refresh), (''token_type'', JStr ''bearer'')])\<rparr>)"

definition auth_send :: "auth_net \<Rightarrow> string \<Rightarrow> auth_srv send" where
  "auth_send g kong_url verb url body headers srv =
     (let content = (case body of None \<Rightarrow> '''' | Some j \<Rightarrow> gw_dumps g j)
      in case srv of
           ([], db) \<Rightarrow> (Inl (RequestError ''connection refused''), srv)
         | (Refused retry_after # turns, db) \<Rightarrow>
             (Inr \<lparr>an_status_code = 429, an_retry_after = retry_after, an_json = None\<rparr>, (turns, db))
         | (Forwarded salt e # turns, db) \<Rightarrow>
             if url = kong_url @ ''/auth/register''
             then let (r, db') = register_route (gw_web g) (gw_email_valid g) salt e (gw_parse_register g)
                         \<lparr>rq_authorization = map_of headers ''Authorization'', rq_idempotency_key = map_of headers ''Idempotency-Key'', rq_body = content\<rparr> db
                  in (Inr (auth_answer g r), (turns, db'))
             else if url = kong_url @ ''/auth/login''
             then (Inr (case gw_parse_login g content of
                          None \<Rightarrow> auth_answer g (Inl (AuthPy validation_error))
                        | Some (email, password) \<Rightarrow> login_answer g (login_route (gw_web g) (env_now e) email password db)), (turns, db))
             else (Inr \<lparr>an_status_code = 404, an_retry_after = None, an_json = None\<rparr>, (turns, db)))"

text \<open>The schedule says what every attempt meets, so waiting changes nothing more.\<close>

definition auth_client :: "auth_net \<Rightarrow> (string \<Rightarrow> rat option) \<Rightarrow> string \<Rightarrow> auth_srv http_client" where
  "auth_client g float kong_url = \<lparr>hc_send = auth_send g kong_url, hc_float = float, hc_elapse = (\<lambda>wait srv. srv)\<rparr>"

text \<open>Pydantic reads back what the client printed, if the address is valid (it keeps the domain of these addresses).\<close>

definition bodies_documented :: "auth_net \<Rightarrow> bool" where
  "bodies_documented g \<longleftrightarrow>
     (\<forall>name user password role. gw_email_valid g (user @ ''@example.com'') \<longrightarrow>
        gw_parse_register g (gw_dumps g (register_body name (user @ ''@example.com'') password role)) =
          Some \<lparr>rp_email = user @ ''@example.com'', rp_name = name, rp_password = password, rp_role = role\<rparr> \<and>
        gw_parse_login g (gw_dumps g (login_body (user @ ''@example.com'') password)) = Some (user @ ''@example.com'', password))"

definition readable :: "(string \<Rightarrow> rat option) \<Rightarrow> string option \<Rightarrow> bool" where
  "readable float retry_after = (case retry_after of None \<Rightarrow> True | Some header \<Rightarrow> float header \<noteq> None)"

lemma retry_through_refusals:
  "list_all (readable float) refused \<Longrightarrow>
     post_retrying (auth_client g float kong_url) url body headers (map Refused refused @ turns, db) =
     post_retrying (auth_client g float kong_url) url body headers (turns, db)"
proof (induction refused)
  case (Cons x refused)
  then have "refusal float (Inr \<lparr>an_status_code = 429, an_retry_after = x, an_json = None\<rparr>) \<noteq> None"
    by (auto simp: refusal_def readable_def split: option.splits)
  with Cons show ?case
    unfolding post_retrying_def auth_client_def
    by (subst post_with_retry_step) (auto simp: auth_send_def)
qed simp

lemma auth_send_forwarded:
  assumes "an_status_code r \<noteq> 429" "auth_send g kong_url ''POST'' url body headers (turns, db) = (Inr r, srv')"
  shows "post_retrying (auth_client g float kong_url) url body headers (turns, db) = Some (Inr r, srv')"
  using assms unfolding post_retrying_def auth_client_def
  by (subst post_with_retry_step) (simp add: refusal_def verdict_def)

lemma register_fresh:
  assumes "register_valid ev p" "parse body = Some p" "user_by_email (rp_email p) db = None" "env_uuid4 e 0 \<notin> us_id ` set (adb_users db)"
    and "varchar_ok 320 (rp_email p)" "key \<noteq> []" "find_idem '''' key (adb_idem db) = None"
  shows "\<exists>r db'. register_route w ev salt e parse \<lparr>rq_authorization = a, rq_idempotency_key = Some key, rq_body = body\<rparr> db = (Inr r, db') \<and>
    rsp_status_code r = 201 \<and>
    adb_users db' = adb_users db @ [\<lparr>us_id = env_uuid4 e 0, us_email = rp_email p, us_name = rp_name p,
      us_password_hash = hash_password (aw_crypto w) salt (rp_password p), us_role = rp_role p\<rparr>]"
proof -
  have role: "rp_role p \<in> auth_roles" "varchar_ok 16 (rp_role p)" "varchar_ok 120 (rp_name p)"
    using assms(1) by (auto simp: register_valid_def auth_roles_def varchar_ok_def)
  have email: "rp_email p \<notin> us_email ` set (adb_users db)"
    using assms(3) by (auto simp: user_by_email_def find_row_None_iff)
  show ?thesis
    using assms role email
    by (simp add: register_route_def idempotency_guard_dependency_def hash_request_body_def validated_def
        respond_idempotently_def is_replay_def register_build_def register_user_def user_create_def
        user_columns_ok_def guard_store_def Let_def)
qed


lemma login_registered:
  assumes "hasher_documented (aw_crypto w)" "user_by_email email db = Some u"
    and "us_password_hash u = hash_password (aw_crypto w) salt password"
  shows "login_route w now email password db = Inr (issue_token_pair w now u)"
  using assms
  by (simp add: login_route_def authenticate_user_def verify_password_def hash_password_def hasher_documented_def)

lemma issued_token_role:
  assumes "issue_token_pair w t u = (access, refresh)" "jwt_documented (wb_jwt w) (aw_crypto w) now" "t \<le> now"
    and "now < t + aw_access_token_ttl_seconds w"
  shows "\<exists>claims. claims_dependency (wb_jwt w) ''access'' (Some (''Bearer '' @ access)) = Inr claims \<and>
      subject claims = Inr (us_id u) \<and> (\<forall>r. require_role claims [r] = Inr () \<longleftrightarrow> r = us_role u)"
  using create_token_decoded [OF assms(2-4)] assms(1)
  unfolding claims_dependency_Bearer
  by (auto simp: issue_token_pair_def subject_def uuid_item_def require_role_def requireE_def)

text \<open>
  A seeded account works.  However often the gateway refuses the registration and the login (with
  readable headers), the seed script ends with an account: the auth service stores the user with
  the role asked for, the address and password that go to \<^verbatim>\<open>seed_data.json\<close> log in at any time, and
  the returned token passes the token check of every service until it expires, with that role only.
\<close>

theorem seeded_account_works:
  fixes g :: auth_net and role hex :: string
  defines "w \<equiv> gw_web g" and "email \<equiv> ''loadtest-'' @ role @ ''-'' @ hex @ ''@example.com''"
  assumes "bodies_documented g" "hasher_documented (aw_crypto w)"
    and "role \<in> {''host'', ''renter''}" "length hex = 10" "gw_email_valid g email" "user_by_email email db = None"
    and "env_uuid4 e 0 \<notin> us_id ` set (adb_users db)" "key \<noteq> []" "find_idem '''' key (adb_idem db) = None"
    and "list_all (readable float) refused" "list_all (readable float) refused'"
  shows "\<exists>db' u access.
    register_and_login (auth_client g float kong_url) kong_url role hex key
      (map Refused refused @ Forwarded salt e # map Refused refused' @ Forwarded salt' e' # rest, db) =
      Some (Inr \<lparr>ac_email = email, ac_password = PASSWORD, ac_token = JStr access\<rparr>, (rest, db')) \<and>
    adb_users db' = adb_users db @ [u] \<and> us_role u = role \<and> us_email u = email \<and>
    (\<forall>now. login_route w now email PASSWORD db' = Inr (issue_token_pair w now u)) \<and>
    (\<forall>now. jwt_documented (wb_jwt w) (aw_crypto w) now \<and> env_now e' \<le> now \<and> now < env_now e' + aw_access_token_ttl_seconds w \<longrightarrow>
       (\<exists>claims. claims_dependency (wb_jwt w) ''access'' (Some (''Bearer '' @ access)) = Inr claims \<and>
          subject claims = Inr (us_id u) \<and> (\<forall>r. require_role claims [r] = Inr () \<longleftrightarrow> r = role)))"
proof -
  let ?c = "auth_client g float kong_url"
  let ?user = "''loadtest-'' @ role @ ''-'' @ hex"
  let ?p = "\<lparr>rp_email = email, rp_name = capitalize role, rp_password = PASSWORD, rp_role = role\<rparr>"
  let ?body = "register_body (capitalize role) email PASSWORD role"
  have email: "email = ?user @ ''@example.com''" by (simp add: email_def)
  have parse: "gw_parse_register g (gw_dumps g ?body) = Some ?p" "gw_parse_login g (gw_dumps g (login_body email PASSWORD)) = Some (email, PASSWORD)"
    using assms(3,7) unfolding bodies_documented_def email by blast+
  have valid: "register_valid (gw_email_valid g) ?p" "varchar_ok 320 (rp_email ?p)"
    using assms(5-7) by (auto simp: register_valid_def PASSWORD_def varchar_ok_def email_def)
  obtain r db' where reg: "register_route w (gw_email_valid g) salt e (gw_parse_register g)
      \<lparr>rq_authorization = None, rq_idempotency_key = Some key, rq_body = gw_dumps g ?body\<rparr> db = (Inr r, db')"
    "rsp_status_code r = 201"
    "adb_users db' = adb_users db @ [\<lparr>us_id = env_uuid4 e 0, us_email = email, us_name = capitalize role,
      us_password_hash = hash_password (aw_crypto w) salt PASSWORD, us_role = role\<rparr>]"
    using register_fresh [where parse = "gw_parse_register g" and body = "gw_dumps g ?body" and w = w and salt = salt and a = None,
        OF valid(1) parse(1) _ assms(9) valid(2) assms(10,11)] assms(8) by auto
  define u where "u = \<lparr>us_id = env_uuid4 e 0, us_email = email, us_name = capitalize role,
      us_password_hash = hash_password (aw_crypto w) salt PASSWORD, us_role = role\<rparr>"
  have found: "user_by_email email db' = Some u"
    using assms(8) unfolding user_by_email_def reg(3) by (simp add: find_row_append u_def)
  have login: "login_route w now email PASSWORD db' = Inr (issue_token_pair w now u)" for now
    by (rule login_registered [OF assms(4) found, of salt]) (simp add: u_def)
  obtain access refresh where pair: "issue_token_pair w (env_now e') u = (access, refresh)" by fastforce
  let ?turns = "map Refused refused' @ Forwarded salt' e' # rest"
  have one: "post_retrying ?c (kong_url @ ''/auth/register'') (Some ?body) [(''Idempotency-Key'', key)]
      (map Refused refused @ Forwarded salt e # ?turns, db) = Some (Inr (auth_answer g (Inr r)), (?turns, db'))"
    unfolding retry_through_refusals [OF assms(12)]
    by (rule auth_send_forwarded) (use reg(1,2) in \<open>simp_all add: auth_send_def w_def\<close>)
  have two: "post_retrying ?c (kong_url @ ''/auth/login'') (Some (login_body email PASSWORD)) [] (?turns, db') =
      Some (Inr (login_answer g (Inr (access, refresh))), (rest, db'))"
    unfolding retry_through_refusals [OF assms(13)]
    by (rule auth_send_forwarded)
      (use parse(2) login [of "env_now e'"] pair in \<open>simp_all add: auth_send_def login_answer_def w_def\<close>)
  have "register_and_login ?c kong_url role hex key (map Refused refused @ Forwarded salt e # ?turns, db) =
      Some (Inr \<lparr>ac_email = email, ac_password = PASSWORD, ac_token = JStr access\<rparr>, (rest, db'))"
    unfolding register_and_login_def Let_def email_def [symmetric] bindA_def one two option.case prod.case sum.case
    by (simp add: bindA_def liftA_def raise_for_status_def answer_item_def login_answer_def)
  then show ?thesis
    using reg(3) login issued_token_role [OF pair] by (intro exI [of _ db'] exI [of _ u] exI [of _ access]) (simp add: u_def; blast)
qed


text \<open>Libraries and an empty service on which the hypotheses hold; the first registration is refused once.\<close>

definition plain_net :: auth_net where
  "plain_net =
     \<lparr>gw_web = auth_sample, gw_email_valid = (\<lambda>_. True),
      gw_parse_register = (\<lambda>body. case from_nat (length body) of
        JObj [(_, JStr name), (_, JStr email), (_, JStr password), (_, JStr role)] \<Rightarrow>
          Some \<lparr>rp_email = email, rp_name = name, rp_password = password, rp_role = role\<rparr>
      | _ \<Rightarrow> None),
      gw_parse_login = (\<lambda>body. case from_nat (length body) of
        JObj [(_, JStr email), (_, JStr password)] \<Rightarrow> Some (email, password) | _ \<Rightarrow> None),
      gw_dumps = (\<lambda>j. replicate (to_nat j) (CHR ''a'')), gw_loads = (\<lambda>body. None)\<rparr>"

lemma plain_net_documented: "bodies_documented plain_net" "hasher_documented (aw_crypto (gw_web plain_net))"
  by (simp_all add: bodies_documented_def plain_net_def register_body_def login_body_def auth_sample_def plain_documented)

theorem seeded_account_works_witness:
  "\<exists>db' u access. register_and_login (auth_client plain_net (\<lambda>_. None) ''http://kong'') ''http://kong'' ''renter'' ''0123456789'' ''k''
      ([Refused None, Forwarded 0 (sample_env 1), Forwarded 0 (sample_env 2)], empty_auth_db) =
      Some (Inr \<lparr>ac_email = ''loadtest-renter-0123456789@example.com'', ac_password = PASSWORD, ac_token = JStr access\<rparr>, ([], db')) \<and>
    adb_users db' = [u] \<and> us_role u = ''renter''"
  using seeded_account_works [of plain_net "''renter''" "''0123456789''" empty_auth_db "sample_env 1" "''k''" "\<lambda>_. None" "[None]" "[]"
      "''http://kong''" 0 0 "sample_env 2" "[]"] plain_net_documented
  by (auto simp: plain_net_def empty_auth_db_def user_by_email_def find_idem_def readable_def)


text \<open>
  The answer to the approval is not looked at: a vehicle that was created is reported whatever the
  listing service said to its approval.
\<close>

lemma seed_reports_unapproved:
  assumes "post_retrying c (kong_url @ ''/listing/vehicles'') (Some (vehicle_body d)) (idempotency_headers (show host_token) (vd_create_key d)) srv =
      Some (Inr response, srv1)" "answer_item response ''id'' = Inr created_id"
    and "post_retrying c (kong_url @ ''/listing/vehicles/'' @ show created_id @ ''/approve'') None (idempotency_headers (show admin_token) (vd_approve_key d)) srv1 =
      Some (Inr approval, srv2)"
  shows "create_and_approve_vehicle c show kong_url host_token admin_token d srv = Some (Inr created_id, srv2)"
  using assms by (simp add: create_and_approve_vehicle_def bindA_def liftA_def)

section \<open>Locust users\<close>

text \<open>The booking service as the Locust users reach it; \<open>dumps\<close> and \<open>loads\<close> are the client's JSON functions.\<close>

fun booking_answer :: "(string \<Rightarrow> json option) \<Rightarrow> booking_exn + response \<Rightarrow> http_answer" where
  "booking_answer loads (Inr r) = \<lparr>an_status_code = rsp_status_code r, an_retry_after = None, an_json = loads (rsp_content r)\<rparr>"
| "booking_answer loads (Inl (BookingPy (HTTPException code detail))) =
     \<lparr>an_status_code = code, an_retry_after = None, an_json = Some (JObj [(''detail'', JStr detail)])\<rparr>"
| "booking_answer loads (Inl _) = \<lparr>an_status_code = 500, an_retry_after = None, an_json = None\<rparr>"

definition booking_send ::
  "booking_web \<Rightarrow> env \<Rightarrow> (string \<Rightarrow> create_booking_payload option) \<Rightarrow> (json \<Rightarrow> string) \<Rightarrow> (string \<Rightarrow> json option) \<Rightarrow> booking_db locust_send"
where
  "booking_send w e parse dumps loads verb url body headers db =
     (let content = (case body of None \<Rightarrow> '''' | Some j \<Rightarrow> dumps j);
          rq = \<lparr>rq_authorization = map_of headers ''Authorization'', rq_idempotency_key = map_of headers ''Idempotency-Key'', rq_body = content\<rparr>;
          prefix = ''/booking/bookings/''
      in if verb = ''POST'' \<and> url = ''/booking/bookings''
         then let (r, db') = create_booking_route w e parse rq db in (booking_answer loads r, db')
         else if verb = ''GET'' \<and> take (length prefix) url = prefix
         then (case uuid_parse (drop (length prefix) url) of
                 None \<Rightarrow> booking_answer loads (Inl (BookingPy validation_error))
               | Some i \<Rightarrow>
                   (case get_booking_route w (rq_authorization rq) i db of
                      Inl x \<Rightarrow> booking_answer loads (Inl x)
                    | Inr j \<Rightarrow> \<lparr>an_status_code = 200, an_retry_after = None, an_json = Some j\<rparr>), db)
         else (\<lparr>an_status_code = 404, an_retry_after = None, an_json = None\<rparr>, db))"

lemma unstarted_parties:
  "unstarted b' = unstarted b \<Longrightarrow> bk_renter_id b' = bk_renter_id b \<and> bk_host_id b' = bk_host_id b \<and> bk_vehicle_id b' = bk_vehicle_id b \<and>
     bk_start_date b' = bk_start_date b \<and> bk_end_date b' = bk_end_date b"
  by (cases b; cases b') (simp add: unstarted_def)

text \<open>A booking is never removed and keeps its parties, vehicle and dates.\<close>

lemma booking_kept:
  assumes "booking_step\<^sup>*\<^sup>* db db'" "booking_inv db" "get_by_id i db = Some b"
  shows "booking_inv db' \<and> (\<exists>b'. get_by_id i db' = Some b' \<and> unstarted b' = unstarted b)"
  using assms(1)
proof (induction rule: rtranclp_induct)
  case (step y z)
  then obtain b' where b': "get_by_id i y = Some b'" "unstarted b' = unstarted b" by blast
  from step.IH have inv: "booking_inv y" by blast
  have "\<exists>b''. get_by_id i z = Some b'' \<and> unstarted b'' = unstarted b"
    using booking_step_row [OF step.hyps(2) inv b'(1)] b' by metis
  with booking_step_inv [OF step.hyps(2) inv] show ?case by blast
qed (use assms in auto)

text \<open>An error body has no identifier, even if its status were 201.\<close>

lemma booking_answer_id:
  assumes "answer_item (booking_answer loads r) ''id'' = Inr i"
  obtains resp where "r = Inr resp"
proof (cases "(loads, r)" rule: booking_answer.cases)
  case (1 l resp)
  then show ?thesis using that by simp
qed (use assms in \<open>simp_all add: answer_item_def\<close>)

lemma created_found: "created db outs b db' \<Longrightarrow> get_by_id (bk_id b) db' = Some b"
  using find_row_None_iff [of bk_id "bk_id b" "bdb_bookings db"] by (simp add: created_def get_by_id_def find_row_append)

lemma create_route_fresh:
  assumes "create_booking_route w e parse rq db = (Inr r, db')" "rq_idempotency_key rq = Some key"
    and "\<And>c. find_idem c key (bdb_idem db) = None"
  obtains claims renter p b session rows where
    "claims_dependency (wb_jwt w) ''access'' (rq_authorization rq) = Inr claims" "subject claims = Inr renter"
    "validated create_booking_valid parse (rq_body rq) = Some p"
    "booking_step db session" "get_by_id (bk_id b) session = Some b" "db' = session\<lparr>bdb_idem := rows\<rparr>"
    "bk_renter_id b = renter" "bk_vehicle_id b = cb_vehicle_id p" "bk_start_date b = cb_start_date p" "bk_end_date b = cb_end_date p"
    "rsp_content r = wb_dumps w (booking_response (bw_isoformat w) b)"
proof -
  from booking_keys.route_answered [OF assms(1) [unfolded create_booking_route_def]] obtain claims p where
    c: "claims_dependency (wb_jwt w) ''access'' (rq_authorization rq) = Inr claims"
      "validated create_booking_valid parse (rq_body rq) = Some p"
    and req: "booking_keys.request (wb_sha256_hex (web.truncate w)) (env_now e) (rq_idempotency_key rq)
        (consumer_id_resolver (wb_jwt (web.truncate w)) (rq_authorization rq)) (rq_body rq) 201 (create_build w e rq claims p) db = (Inr r, db')"
    by (auto simp: web.defs)
  from req builds_keep_idem(1) obtain out session rows where
    s: "create_build w e rq claims p db = Inr (out, session)" "rsp_content r = out" "db' = session\<lparr>bdb_idem := rows\<rparr>"
    by (rule booking_keys.request_effect) (use assms(2,3) in auto)
  from s(1) obtain renter token b where
    b: "subject claims = Inr renter" "out = wb_dumps w (booking_response (bw_isoformat w) b)"
      "request_booking e (bw_http_get w) (bw_listing_base_url w) renter (cb_vehicle_id p) (cb_start_date p) (cb_end_date p) token db = Inr (b, session)"
    by (auto simp: create_build_def bindE_eq_Inr mapErr_eq_Inr booking_result_Inr)
  from b(3) have "bk_renter_id b = renter \<and> bk_vehicle_id b = cb_vehicle_id p \<and> bk_start_date b = cb_start_date p \<and>
      bk_end_date b = cb_end_date p \<and> get_by_id (bk_id b) session = Some b"
    by (rule request_booking_created) (auto intro: created_found)
  with c b s booking_step.request [OF b(3)] show thesis by (intro that) auto
qed

text \<open>
  A Locust user can read what it booked: after a booking request that was answered with 201 it
  remembers the identifier of a stored booking with itself as the renter and with the vehicle and the
  dates it asked for; whatever the booking service does afterwards, as long as the token is valid
  the request for that booking is answered with 200 and the current state of this booking, never
  with 403 or 404.
\<close>

theorem locust_reads_own_booking:
  assumes "create_booking_task (booking_send w e parse dumps loads) show date_str (uuid_str v) today ahead days key u db = (Inr u', db1)"
    and "bu_last_booking_id u = None" "bu_last_booking_id u' \<noteq> None" "booking_inv db" "\<forall>c. find_idem c key (bdb_idem db) = None"
    and "\<forall>j. loads (wb_dumps w j) = Some j" "\<forall>s. show (JStr s) = s"
    and "parse (dumps (booking_body date_str (uuid_str v) today ahead days)) =
      Some \<lparr>cb_vehicle_id = v, cb_start_date = today + ahead, cb_end_date = today + ahead + days\<rparr>"
    and "booking_step\<^sup>*\<^sup>* db1 db2"
    and "claims_dependency (wb_jwt w') ''access'' (Some (''Bearer '' @ show (bu_token u))) =
      claims_dependency (wb_jwt w) ''access'' (Some (''Bearer '' @ show (bu_token u)))"
  shows "\<exists>b claims. bu_last_booking_id u' = Some (JStr (uuid_str (bk_id b))) \<and> get_by_id (bk_id b) db2 = Some b \<and>
    claims_dependency (wb_jwt w) ''access'' (Some (''Bearer '' @ show (bu_token u))) = Inr claims \<and> subject claims = Inr (bk_renter_id b) \<and>
    bk_vehicle_id b = v \<and> bk_start_date b = today + ahead \<and> bk_end_date b = today + ahead + days \<and>
    get_own_booking_task (booking_send w' e' parse' dumps' loads') show key' u' db2 =
      (Some \<lparr>an_status_code = 200, an_retry_after = None, an_json = Some (booking_response (bw_isoformat w') b)\<rparr>, db2)"
proof -
  let ?auth = "Some (''Bearer '' @ show (bu_token u))"
  let ?rq = "\<lparr>rq_authorization = ?auth, rq_idempotency_key = Some key,
      rq_body = dumps (booking_body date_str (uuid_str v) today ahead days)\<rparr>"
  obtain r where route: "create_booking_route w e parse ?rq db = (r, db1)"
    and u': "(if an_status_code (booking_answer loads r) = 201
        then bindE (answer_item (booking_answer loads r) ''id'') (\<lambda>i. Inr (u\<lparr>bu_last_booking_id := Some i\<rparr>)) else Inr u) = Inr u'"
    using assms(1)
    by (auto simp: create_booking_task_def booking_send_def auth_headers_def idempotency_headers_def Let_def split: prod.splits)
  have "u' \<noteq> u" using assms(2,3) by auto
  with u' obtain i where i: "answer_item (booking_answer loads r) ''id'' = Inr i" "u' = u\<lparr>bu_last_booking_id := Some i\<rparr>"
    by (auto simp: bindE_eq_Inr split: if_splits)
  obtain resp where resp: "r = Inr resp" using i(1) by (rule booking_answer_id)
  from route [unfolded resp] obtain claims renter p b session rows where
    b: "claims_dependency (wb_jwt w) ''access'' ?auth = Inr claims" "subject claims = Inr renter"
      "validated create_booking_valid parse (rq_body ?rq) = Some p"
      "booking_step db session" "get_by_id (bk_id b) session = Some b" "db1 = session\<lparr>bdb_idem := rows\<rparr>"
      "bk_renter_id b = renter" "bk_vehicle_id b = cb_vehicle_id p" "bk_start_date b = cb_start_date p" "bk_end_date b = cb_end_date p"
      "rsp_content resp = wb_dumps w (booking_response (bw_isoformat w) b)"
    by (rule create_route_fresh) (use assms(5) in auto)
  have p: "p = \<lparr>cb_vehicle_id = v, cb_start_date = today + ahead, cb_end_date = today + ahead + days\<rparr>"
    using b(3) assms(8) by (auto simp: validated_def split: if_splits)
  have i': "i = JStr (uuid_str (bk_id b))"
    using i(1) assms(6) by (simp add: resp b(11) answer_item_def booking_response_def)
  have "booking_inv db1" "get_by_id (bk_id b) db1 = Some b"
    using booking_step_inv [OF b(4) assms(4)] b(5,6) by (simp_all add: get_by_id_def)
  from booking_kept [OF assms(9) this] obtain b' where b': "get_by_id (bk_id b) db2 = Some b'" "unstarted b' = unstarted b" by blast
  note same = unstarted_parties [OF b'(2)] get_by_id_SomeD [OF b'(1)]
  have "get_own_booking_task (booking_send w' e' parse' dumps' loads') show key' u' db2 =
      (Some \<lparr>an_status_code = 200, an_retry_after = None, an_json = Some (booking_response (bw_isoformat w') b')\<rparr>, db2)"
    using same b(1,2,7) b'(1) assms(10)
    by (simp add: get_own_booking_task_def i(2) i' assms(7) booking_send_def auth_headers_def idempotency_headers_def
        get_booking_route_def get_booking_for_viewer_def)
  with same b(1,2,7-10) b'(1) i(2) i' p show ?thesis by (intro exI [of _ b'] exI [of _ claims]) simp
qed


text \<open>A renter that books the sample vehicle and reads the booking.\<close>

definition locust_web :: booking_web where
  "locust_web = (sample_web ''renter'' 7 ''request'')\<lparr>wb_dumps := (\<lambda>j. replicate (to_nat j) (CHR ''a''))\<rparr>"

definition locust_loads :: "string \<Rightarrow> json option" where
  "locust_loads s = Some (from_nat (length s))"

definition locust_show :: "json \<Rightarrow> string" where
  "locust_show j = (case j of JStr s \<Rightarrow> s | _ \<Rightarrow> '''')"

definition locust_user :: booking_user where
  "locust_user = \<lparr>bu_token = JStr ''t'', bu_last_booking_id = None\<rparr>"

lemma locust_claims:
  "claims_dependency (wb_jwt (web.truncate locust_web)) ''access'' (Some ''Bearer t'') =
     Inr [(''type'', JStr ''access''), (''role'', JStr ''renter''), (''sub'', JStr (uuid_str 7))]"
  "consumer_id_resolver (wb_jwt (web.truncate locust_web)) (Some ''Bearer t'') = uuid_str 7"
proof -
  have [simp]: "char_lower (CHR ''B'') = CHR ''b''" by code_simp
  show "claims_dependency (wb_jwt (web.truncate locust_web)) ''access'' (Some ''Bearer t'') =
     Inr [(''type'', JStr ''access''), (''role'', JStr ''renter''), (''sub'', JStr (uuid_str 7))]"
    "consumer_id_resolver (wb_jwt (web.truncate locust_web)) (Some ''Bearer t'') = uuid_str 7"
    by (simp_all add: claims_dependency_def consumer_id_resolver_def bearer_token_def after_space_def decode_token_def
        locust_web_def sample_web_def char_lower_def [of "CHR ''e''"] char_lower_def [of "CHR ''a''"] char_lower_def [of "CHR ''r''"]
        char_lower_def [of "CHR '' ''"] web.defs)
qed

lemma locust_booked:
  "\<exists>db1. create_booking_task (booking_send locust_web (sample_env 1) sample_parse (\<lambda>_. ''{}'') locust_loads) locust_show (\<lambda>_. ''d'')
      (uuid_str 9) 0 10 2 ''k1'' locust_user empty_booking_db = (Inr (locust_user\<lparr>bu_last_booking_id := Some (JStr (uuid_str 1))\<rparr>), db1) \<and>
    booking_step db1 db1"
proof -
  let ?rq = "\<lparr>rq_authorization = Some ''Bearer t'', rq_idempotency_key = Some ''k1'', rq_body = ''{}''\<rparr>"
  let ?body = "wb_dumps locust_web (booking_response (bw_isoformat locust_web) (sample_booking 1 ''request'' 10 12))"
  have b: "create_build locust_web (sample_env 1) ?rq
      [(''type'', JStr ''access''), (''role'', JStr ''renter''), (''sub'', JStr (uuid_str 7))]
      \<lparr>cb_vehicle_id = 9, cb_start_date = 10, cb_end_date = 12\<rparr> empty_booking_db = Inr (?body, sample_requested)"
    using sample_requested_run(1)
    by (simp add: create_build_def subject_def uuid_item_def after_space_def booking_result_def locust_web_def sample_web_def)
  have none: "bdb_idem sample_requested = []" "find_idem (uuid_str 7) ''k1'' (bdb_idem empty_booking_db) = None"
    by (simp_all add: sample_requested_def after_def booking_run_simps find_idem_def)
  obtain db1 where "create_booking_route locust_web (sample_env 1) sample_parse ?rq empty_booking_db =
      (Inr \<lparr>rsp_content = ?body, rsp_status_code = 201\<rparr>, db1)"
    using none
    by (simp add: create_booking_route_def idempotent_route_def locust_claims require_role_def idempotency_guard_dependency_def
        respond_idempotently_def is_replay_def validated_def sample_parse_def create_booking_valid_def b [simplified]
        guard_store_def find_idem_def)
  moreover have "locust_loads ?body = Some (booking_response (bw_isoformat locust_web) (sample_booking 1 ''request'' 10 12))"
    by (simp add: locust_loads_def locust_web_def)
  moreover have "booking_step db1 db1" using booking_step.keys [of db1 "bdb_idem db1"] by simp
  ultimately show ?thesis
    by (simp add: create_booking_task_def booking_send_def auth_headers_def idempotency_headers_def locust_show_def locust_user_def
        answer_item_def booking_response_def sample_booking_def)
qed

theorem locust_reads_own_booking_witness:
  "\<exists>db1 answer. get_own_booking_task (booking_send locust_web (sample_env 2) sample_parse (\<lambda>_. ''{}'') locust_loads) locust_show ''k2''
      (locust_user\<lparr>bu_last_booking_id := Some (JStr (uuid_str 1))\<rparr>) db1 = (Some answer, db1) \<and> an_status_code answer = 200"
proof -
  obtain db1 where run: "create_booking_task (booking_send locust_web (sample_env 1) sample_parse (\<lambda>_. ''{}'') locust_loads) locust_show (\<lambda>_. ''d'')
      (uuid_str 9) 0 10 2 ''k1'' locust_user empty_booking_db = (Inr (locust_user\<lparr>bu_last_booking_id := Some (JStr (uuid_str 1))\<rparr>), db1)"
    and step: "booking_step db1 db1" using locust_booked by blast
  have hyps: "\<forall>c. find_idem c ''k1'' (bdb_idem empty_booking_db) = None" "\<forall>j. locust_loads (wb_dumps locust_web j) = Some j"
    "\<forall>s. locust_show (JStr s) = s" "sample_parse ((\<lambda>_. ''{}'') (booking_body (\<lambda>_. ''d'') (uuid_str 9) 0 10 2)) =
      Some \<lparr>cb_vehicle_id = 9, cb_start_date = 0 + 10, cb_end_date = 0 + 10 + 2\<rparr>"
    by (simp_all add: empty_booking_db_def find_idem_def locust_loads_def locust_web_def locust_show_def sample_parse_def)
  have user: "bu_last_booking_id locust_user = None" "bu_last_booking_id (locust_user\<lparr>bu_last_booking_id := Some (JStr (uuid_str 1))\<rparr>) \<noteq> None"
    by (simp_all add: locust_user_def)
  from locust_reads_own_booking [OF run user booking_inv_empty hyps r_into_rtranclp [of booking_step, OF step] refl,
      of "sample_env 2" sample_parse "\<lambda>_. ''{}''" locust_loads "''k2''"]
  show ?thesis by (elim exE conjE) (intro exI conjI, assumption, simp)
qed

end
