(* ===== verification/Migrations.thy ===== *)
theory Migrations
  imports Booking_Store Payment Listing Auth Admin Notification
begin

text \<open>
  The migrations of the six services with a Postgres database (\<^verbatim>\<open>services/*/migrations/versions/\<close>): each
  is a list of Alembic operations, run in one transaction (\<^verbatim>\<open>do_run_migrations\<close> of \<^verbatim>\<open>migrations/env.py\<close>).  The state
  is the schema with the number of rows of every table; an operation fails where Postgres does.  SQL
  checks are terms, so that a row can be tested against the tables that the migrations leave behind;
  \<open>insert_ok\<close> is what Postgres checks of a single inserted row.
\<close>

section \<open>Tables\<close>

datatype sql_type = SqlUUID | SqlInteger | SqlString "nat option" | SqlText | SqlDate | SqlDateTime | SqlFloat | SqlJSONB | SqlBoolean

record sql_column =
  co_name :: string
  co_type :: sql_type
  co_nullable :: bool
  co_server_default :: "string option"
  co_references :: "string option"

text \<open>\<open>CheckIn column words\<close>, \<open>CheckGreater column number\<close>, \<open>CheckGreaterEq column column\<close>, each with its name.\<close>

datatype sql_check = CheckIn string string "string list" | CheckGreater string string int | CheckGreaterEq string string string

record sql_table =
  ta_name :: string
  ta_columns :: "sql_column list"
  ta_primary_key :: "string list"
  ta_unique :: "string list list"
  ta_checks :: "sql_check list"
  ta_exclusions :: "string list"

definition Column :: "string \<Rightarrow> sql_type \<Rightarrow> sql_column" where
  "Column name ty = \<lparr>co_name = name, co_type = ty, co_nullable = False, co_server_default = None, co_references = None\<rparr>"

definition nullable :: "sql_column \<Rightarrow> sql_column" where
  "nullable c = c\<lparr>co_nullable := True\<rparr>"

definition server_default :: "string \<Rightarrow> sql_column \<Rightarrow> sql_column" where
  "server_default d c = c\<lparr>co_server_default := Some d\<rparr>"

definition foreign_key :: "string \<Rightarrow> sql_column \<Rightarrow> sql_column" where
  "foreign_key table c = c\<lparr>co_references := Some table\<rparr>"

definition timestamp :: "string \<Rightarrow> sql_column" where
  "timestamp name = server_default ''now()'' (Column name SqlDateTime)"

definition plain_table :: "string \<Rightarrow> sql_column list \<Rightarrow> string list \<Rightarrow> sql_table" where
  "plain_table name columns key =
     \<lparr>ta_name = name, ta_columns = columns, ta_primary_key = key, ta_unique = [], ta_checks = [], ta_exclusions = []\<rparr>"

section \<open>Operations\<close>

datatype migration_op =
    CreateExtension string
  | CreateTable sql_table
  | BulkInsert string nat
  | AddExclusion string string
  | AddColumn string sql_column
  | DropColumn string string
  | DropTable string

datatype migration_exn =
    DuplicateTable string
  | UndefinedTable string
  | DependentObjects string
  | DuplicateColumn string
  | UndefinedColumn string
  | NotNullViolation string
  | UndefinedObject string

record pg_schema =
  sc_extensions :: "string set"
  sc_tables :: "(sql_table \<times> nat) list"

definition table_names :: "pg_schema \<Rightarrow> string list" where
  "table_names s = map (\<lambda>x. ta_name (fst x)) (sc_tables s)"

definition column_names :: "sql_table \<Rightarrow> string list" where
  "column_names t = map co_name (ta_columns t)"

definition table_references :: "sql_table \<Rightarrow> string list" where
  "table_references t = List.map_filter co_references (ta_columns t)"

definition change_table :: "string \<Rightarrow> (sql_table \<times> nat \<Rightarrow> sql_table \<times> nat) \<Rightarrow> pg_schema \<Rightarrow> pg_schema" where
  "change_table name f s = s\<lparr>sc_tables := map (\<lambda>x. if ta_name (fst x) = name then f x else x) (sc_tables s)\<rparr>"

definition find_table :: "string \<Rightarrow> pg_schema \<Rightarrow> (sql_table \<times> nat) option" where
  "find_table name s = find_row (\<lambda>x. ta_name (fst x)) name (sc_tables s)"

fun run_op :: "migration_op \<Rightarrow> pg_schema \<Rightarrow> migration_exn + pg_schema" where
  "run_op (CreateExtension e) s = Inr (s\<lparr>sc_extensions := insert e (sc_extensions s)\<rparr>)"
| "run_op (CreateTable t) s =
     (if find_table (ta_name t) s \<noteq> None then Inl (DuplicateTable (ta_name t))
      else if \<not> list_all (\<lambda>r. find_table r s \<noteq> None) (table_references t)
      then Inl (UndefinedTable (ta_name t))
      else Inr (s\<lparr>sc_tables := sc_tables s @ [(t, 0)]\<rparr>))"
| "run_op (BulkInsert name k) s =
     (if find_table name s = None then Inl (UndefinedTable name)
      else Inr (change_table name (\<lambda>(t, n). (t, n + k)) s))"
| "run_op (AddExclusion name c) s =
     (if find_table name s = None then Inl (UndefinedTable name)
      else if ''btree_gist'' \<notin> sc_extensions s then Inl (UndefinedObject ''gist'')
      else Inr (change_table name (\<lambda>(t, n). (t\<lparr>ta_exclusions := ta_exclusions t @ [c]\<rparr>, n)) s))"
| "run_op (AddColumn name c) s =
     (case find_table name s of
        None \<Rightarrow> Inl (UndefinedTable name)
      | Some (t, n) \<Rightarrow>
          if co_name c \<in> set (column_names t) then Inl (DuplicateColumn (co_name c))
          else if \<not> co_nullable c \<and> co_server_default c = None \<and> 0 < n then Inl (NotNullViolation (co_name c))
          else Inr (change_table name (\<lambda>(t, n). (t\<lparr>ta_columns := ta_columns t @ [c]\<rparr>, n)) s))"
| "run_op (DropColumn name c) s =
     (case find_table name s of
        None \<Rightarrow> Inl (UndefinedTable name)
      | Some (t, n) \<Rightarrow>
          if c \<notin> set (column_names t) then Inl (UndefinedColumn c)
          else Inr (change_table name (\<lambda>(t, n). (t\<lparr>ta_columns := filter (\<lambda>d. co_name d \<noteq> c) (ta_columns t)\<rparr>, n)) s))"
| "run_op (DropTable name) s =
     (if find_table name s = None then Inl (UndefinedTable name)
      else if list_ex (\<lambda>x. ta_name (fst x) \<noteq> name \<and> name \<in> set (table_references (fst x))) (sc_tables s)
      then Inl (DependentObjects name)
      else Inr (s\<lparr>sc_tables := filter (\<lambda>x. ta_name (fst x) \<noteq> name) (sc_tables s)\<rparr>))"

fun run_ops :: "migration_op list \<Rightarrow> pg_schema \<Rightarrow> migration_exn + pg_schema" where
  "run_ops [] s = Inr s"
| "run_ops (x # xs) s = bindE (run_op x s) (run_ops xs)"

text \<open>One transaction: an error leaves the schema as it was.\<close>

definition do_run_migrations :: "migration_op list \<Rightarrow> pg_schema \<Rightarrow> migration_exn option \<times> pg_schema" where
  "do_run_migrations ops s = (case run_ops ops s of Inl x \<Rightarrow> (Some x, s) | Inr s' \<Rightarrow> (None, s'))"

section \<open>The tables every service has\<close>

definition idempotency_keys_table :: sql_table where
  "idempotency_keys_table = plain_table ''idempotency_keys''
     [server_default '''' (Column ''consumer_id'' SqlText), Column ''key'' SqlText, Column ''request_hash'' SqlText,
      Column ''response_body'' SqlText, Column ''status_code'' SqlInteger, timestamp ''created_at''] [''consumer_id'', ''key'']"

definition outbox_table :: sql_table where
  "outbox_table = plain_table ''outbox''
     [Column ''id'' SqlUUID, Column ''aggregatetype'' (SqlString (Some 255)), Column ''aggregateid'' (SqlString (Some 255)),
      Column ''type'' (SqlString (Some 255)), Column ''payload'' SqlJSONB, timestamp ''created_at''] [''id'']"

definition inbox_table :: sql_table where
  "inbox_table = plain_table ''inbox'' [Column ''event_id'' SqlText, timestamp ''processed_at''] [''event_id'']"

section \<open>Booking\<close>

definition bookings_table :: sql_table where
  "bookings_table = (plain_table ''bookings''
     [Column ''id'' SqlUUID, Column ''vehicle_id'' SqlUUID, Column ''host_id'' SqlUUID, Column ''renter_id'' SqlUUID,
      Column ''start_date'' SqlDate, Column ''end_date'' SqlDate, Column ''daily_price_cents'' SqlInteger,
      Column ''daily_mileage_limit'' SqlInteger, Column ''booking_mode'' (SqlString (Some 16)),
      server_default ''requested'' (Column ''status'' (SqlString (Some 16))), server_default ''1'' (Column ''version'' SqlInteger),
      nullable (Column ''start_odometer'' SqlInteger), nullable (Column ''end_odometer'' SqlInteger),
      nullable (Column ''start_fuel_percent'' SqlInteger), nullable (Column ''end_fuel_percent'' SqlInteger),
      nullable (Column ''start_photo_url'' (SqlString (Some 512))), nullable (Column ''end_photo_url'' (SqlString (Some 512))),
      server_default ''0'' (Column ''overage_cents'' SqlInteger), timestamp ''created_at'', timestamp ''updated_at''] [''id''])
     \<lparr>ta_checks := [CheckIn ''ck_bookings_status'' ''status''
        [''requested'', ''confirmed'', ''active'', ''completed'', ''cancelled'', ''rejected'']]\<rparr>"

definition booking_events_table :: sql_table where
  "booking_events_table = (plain_table ''booking_events''
     [Column ''id'' SqlUUID, Column ''booking_id'' SqlUUID, Column ''version'' SqlInteger, Column ''event_type'' (SqlString (Some 64)),
      Column ''payload'' SqlJSONB, timestamp ''created_at''] [''id''])
     \<lparr>ta_unique := [[''booking_id'', ''version'']]\<rparr>"

definition booking_upgrade :: "migration_op list" where
  "booking_upgrade =
     [CreateExtension ''btree_gist'', CreateTable bookings_table, AddExclusion ''bookings'' ''ex_bookings_no_overlap'',
      CreateTable booking_events_table, CreateTable outbox_table, CreateTable inbox_table, CreateTable idempotency_keys_table]"

definition booking_downgrade :: "migration_op list" where
  "booking_downgrade =
     [DropTable ''idempotency_keys'', DropTable ''inbox'', DropTable ''outbox'', DropTable ''booking_events'', DropTable ''bookings'']"

section \<open>Listing\<close>

definition vehicles_table :: sql_table where
  "vehicles_table = (plain_table ''vehicles''
     [Column ''id'' SqlUUID, Column ''host_id'' SqlUUID, Column ''make'' (SqlString (Some 80)), Column ''model'' (SqlString (Some 80)),
      Column ''year'' SqlInteger, Column ''daily_price_cents'' SqlInteger, Column ''daily_mileage_limit'' SqlInteger,
      server_default ''instant'' (Column ''booking_mode'' (SqlString (Some 16))),
      server_default ''pending'' (Column ''approval_status'' (SqlString (Some 16))),
      timestamp ''created_at'', timestamp ''updated_at''] [''id''])
     \<lparr>ta_checks := [CheckIn ''ck_vehicles_booking_mode'' ''booking_mode'' [''instant'', ''request''],
        CheckIn ''ck_vehicles_approval_status'' ''approval_status'' [''pending'', ''approved'', ''rejected'']]\<rparr>"

definition availability_blocks_table :: sql_table where
  "availability_blocks_table = (plain_table ''availability_blocks''
     [Column ''id'' SqlUUID, foreign_key ''vehicles'' (Column ''vehicle_id'' SqlUUID), Column ''start_date'' SqlDate,
      Column ''end_date'' SqlDate, timestamp ''created_at''] [''id''])
     \<lparr>ta_checks := [CheckGreaterEq ''ck_availability_blocks_date_order'' ''end_date'' ''start_date'']\<rparr>"

definition listing_upgrade :: "migration_op list" where
  "listing_upgrade =
     [CreateExtension ''btree_gist'', CreateTable vehicles_table, CreateTable availability_blocks_table,
      AddExclusion ''availability_blocks'' ''ex_availability_blocks_overlap'', CreateTable outbox_table, CreateTable idempotency_keys_table]"

definition listing_downgrade :: "migration_op list" where
  "listing_downgrade =
     [DropTable ''idempotency_keys'', DropTable ''outbox'', DropTable ''availability_blocks'', DropTable ''vehicles'']"

definition location_upgrade :: "migration_op list" where
  "location_upgrade = [AddColumn ''vehicles'' (Column ''latitude'' SqlFloat), AddColumn ''vehicles'' (Column ''longitude'' SqlFloat)]"

definition location_downgrade :: "migration_op list" where
  "location_downgrade = [DropColumn ''vehicles'' ''longitude'', DropColumn ''vehicles'' ''latitude'']"

section \<open>Payment\<close>

definition payments_table :: sql_table where
  "payments_table = (plain_table ''payments''
     [Column ''id'' SqlUUID, Column ''booking_id'' SqlUUID, Column ''renter_id'' SqlUUID, Column ''hold_amount_cents'' SqlInteger,
      server_default ''0'' (Column ''overage_cents'' SqlInteger), Column ''status'' (SqlString (Some 24)),
      nullable (Column ''stripe_payment_intent_id'' (SqlString (Some 255))),
      nullable (Column ''stripe_overage_intent_id'' (SqlString (Some 255))), timestamp ''created_at'', timestamp ''updated_at''] [''id''])
     \<lparr>ta_unique := [[''booking_id'']],
      ta_checks := [CheckIn ''ck_payments_status'' ''status'' [''authorized'', ''authorization_failed'', ''captured'', ''capture_failed'']]\<rparr>"

definition ledger_entries_table :: sql_table where
  "ledger_entries_table = (plain_table ''ledger_entries''
     [Column ''id'' SqlUUID, foreign_key ''payments'' (Column ''payment_id'' SqlUUID), Column ''booking_id'' SqlUUID,
      Column ''account'' (SqlString (Some 64)), Column ''direction'' (SqlString (Some 6)), Column ''amount_cents'' SqlInteger,
      Column ''reason'' (SqlString (Some 32)), timestamp ''created_at''] [''id''])
     \<lparr>ta_checks := [CheckIn ''ck_ledger_entries_direction'' ''direction'' [''debit'', ''credit''],
        CheckGreater ''ck_ledger_entries_amount_positive'' ''amount_cents'' 0]\<rparr>"

definition payment_upgrade :: "migration_op list" where
  "payment_upgrade = [CreateTable payments_table, CreateTable ledger_entries_table, CreateTable outbox_table, CreateTable inbox_table]"

definition payment_downgrade :: "migration_op list" where
  "payment_downgrade = [DropTable ''inbox'', DropTable ''outbox'', DropTable ''ledger_entries'', DropTable ''payments'']"

section \<open>Auth\<close>

definition roles_table :: sql_table where
  "roles_table = plain_table ''roles'' [Column ''code'' (SqlString (Some 16))] [''code'']"

definition users_table :: sql_table where
  "users_table = (plain_table ''users''
     [Column ''id'' SqlUUID, Column ''email'' (SqlString (Some 320)), Column ''name'' (SqlString (Some 120)),
      Column ''password_hash'' (SqlString None),
      server_default ''renter'' (foreign_key ''roles'' (Column ''role'' (SqlString (Some 16)))), timestamp ''created_at''] [''id''])
     \<lparr>ta_unique := [[''email'']]\<rparr>"

definition auth_upgrade :: "migration_op list" where
  "auth_upgrade =
     [CreateTable roles_table, BulkInsert ''roles'' 3, CreateTable users_table, CreateTable idempotency_keys_table]"

definition auth_downgrade :: "migration_op list" where
  "auth_downgrade = [DropTable ''idempotency_keys'', DropTable ''users'', DropTable ''roles'']"

section \<open>Admin and notification\<close>

definition admin_actions_table :: sql_table where
  "admin_actions_table = plain_table ''admin_actions''
     [Column ''id'' SqlUUID, Column ''admin_id'' SqlUUID, Column ''action_type'' (SqlString (Some 64)),
      Column ''target_type'' (SqlString (Some 32)), Column ''target_id'' (SqlString (Some 64)),
      server_default ''{}'' (Column ''payload'' SqlJSONB), timestamp ''created_at''] [''id'']"

definition admin_upgrade :: "migration_op list" where
  "admin_upgrade = [CreateTable admin_actions_table, CreateTable idempotency_keys_table]"

definition admin_downgrade :: "migration_op list" where
  "admin_downgrade = [DropTable ''idempotency_keys'', DropTable ''admin_actions'']"

definition notification_preferences_table :: sql_table where
  "notification_preferences_table = plain_table ''notification_preferences''
     [Column ''user_id'' SqlUUID, server_default ''true'' (Column ''email_enabled'' SqlBoolean),
      server_default ''true'' (Column ''sms_enabled'' SqlBoolean)] [''user_id'']"

definition notification_upgrade :: "migration_op list" where
  "notification_upgrade = [CreateTable notification_preferences_table, CreateTable inbox_table]"

definition notification_downgrade :: "migration_op list" where
  "notification_downgrade = [DropTable ''inbox'', DropTable ''notification_preferences'']"

end
