(* ===== verification/Migration_Properties.thy ===== *)
theory Migration_Properties
  imports Migrations
begin

text \<open>
  Properties of the migrations: they can be taken back, the second listing migration needs an empty
  table, and the constraints that the models of the services check are the ones the migrations
  declare.
\<close>

section \<open>Rows and constraints\<close>







text \<open>The tables that migrations leave in an empty database.\<close>

definition empty_schema :: pg_schema where
  "empty_schema = \<lparr>sc_extensions = {}, sc_tables = []\<rparr>"




section \<open>What the models insert\<close>









section \<open>Running the migrations\<close>

lemmas column_defs = Column_def nullable_def server_default_def foreign_key_def timestamp_def plain_table_def

lemmas table_defs = bookings_table_def booking_events_table_def outbox_table_def inbox_table_def idempotency_keys_table_def
  vehicles_table_def availability_blocks_table_def payments_table_def ledger_entries_table_def roles_table_def users_table_def
  admin_actions_table_def notification_preferences_table_def

lemmas migration_defs = booking_upgrade_def booking_downgrade_def listing_upgrade_def listing_downgrade_def location_upgrade_def
  location_downgrade_def payment_upgrade_def payment_downgrade_def auth_upgrade_def auth_downgrade_def admin_upgrade_def
  admin_downgrade_def notification_upgrade_def notification_downgrade_def

lemma table_names_simps [simp]:
  "ta_name bookings_table = ''bookings''" "ta_name booking_events_table = ''booking_events''" "ta_name outbox_table = ''outbox''"
  "ta_name inbox_table = ''inbox''" "ta_name idempotency_keys_table = ''idempotency_keys''" "ta_name vehicles_table = ''vehicles''"
  "ta_name availability_blocks_table = ''availability_blocks''" "ta_name payments_table = ''payments''"
  "ta_name ledger_entries_table = ''ledger_entries''" "ta_name roles_table = ''roles''" "ta_name users_table = ''users''"
  "ta_name admin_actions_table = ''admin_actions''" "ta_name notification_preferences_table = ''notification_preferences''"
  by (simp_all add: table_defs column_defs)

lemma table_references_simps [simp]:
  "table_references bookings_table = []" "table_references booking_events_table = []" "table_references outbox_table = []"
  "table_references inbox_table = []" "table_references idempotency_keys_table = []" "table_references vehicles_table = []"
  "table_references availability_blocks_table = [''vehicles'']" "table_references payments_table = []"
  "table_references ledger_entries_table = [''payments'']" "table_references roles_table = []" "table_references users_table = [''roles'']"
  "table_references admin_actions_table = []" "table_references notification_preferences_table = []"
  by (simp_all add: table_references_def table_defs column_defs List.map_filter_simps)

lemma table_references_update [simp]:
  "table_references (t\<lparr>ta_exclusions := xs\<rparr>) = table_references t"
  "table_references (t\<lparr>ta_columns := cs\<rparr>) = List.map_filter co_references cs"
  by (simp_all add: table_references_def)

lemma column_names_update [simp]:
  "column_names (t\<lparr>ta_columns := cs\<rparr>) = map co_name cs"
  by (simp add: column_names_def)

lemma vehicles_columns [simp]:
  "map co_name (ta_columns vehicles_table) =
     [''id'', ''host_id'', ''make'', ''model'', ''year'', ''daily_price_cents'', ''daily_mileage_limit'', ''booking_mode'',
      ''approval_status'', ''created_at'', ''updated_at'']"
  "List.map_filter co_references (ta_columns vehicles_table) = []"
  by (simp_all add: table_defs column_defs List.map_filter_simps)

lemma vehicles_column_set [simp]:
  "co_name ` set (ta_columns vehicles_table) =
     {''id'', ''host_id'', ''make'', ''model'', ''year'', ''daily_price_cents'', ''daily_mileage_limit'', ''booking_mode'',
      ''approval_status'', ''created_at'', ''updated_at''}"
  using arg_cong [OF vehicles_columns(1), of set] by (simp only: list.set_map list.set)

lemma Column_simps [simp]:
  "co_name (Column n ty) = n" "co_nullable (Column n ty) = False" "co_server_default (Column n ty) = None" "co_references (Column n ty) = None"
  by (simp_all add: Column_def)

lemma find_table_simps [simp]:
  "find_table name \<lparr>sc_extensions = es, sc_tables = []\<rparr> = None"
  "find_table name \<lparr>sc_extensions = es, sc_tables = x # xs\<rparr> =
     (if ta_name (fst x) = name then Some x else find_table name \<lparr>sc_extensions = es, sc_tables = xs\<rparr>)"
  by (simp_all add: find_table_def)

lemma change_table_simps [simp]:
  "change_table name f \<lparr>sc_extensions = es, sc_tables = xs\<rparr> =
     \<lparr>sc_extensions = es, sc_tables = map (\<lambda>x. if ta_name (fst x) = name then f x else x) xs\<rparr>"
  by (simp add: change_table_def)


section \<open>Constraints\<close>



section \<open>Reversibility\<close>

text \<open>Row counts play no part in dropping tables and columns.\<close>

definition same_tables :: "pg_schema \<Rightarrow> pg_schema \<Rightarrow> bool" where
  "same_tables s s' \<longleftrightarrow> map fst (sc_tables s) = map fst (sc_tables s')"

fun is_drop :: "migration_op \<Rightarrow> bool" where
  "is_drop (DropTable name) = True"
| "is_drop (DropColumn name c) = True"
| "is_drop _ = False"

text \<open>Every foreign key refers to a table of the schema.\<close>

definition schema_wf :: "pg_schema \<Rightarrow> bool" where
  "schema_wf s \<longleftrightarrow> list_all (\<lambda>x. list_all (\<lambda>r. r \<in> set (table_names s)) (table_references (fst x))) (sc_tables s)"

fun created_tables :: "migration_op list \<Rightarrow> string list" where
  "created_tables (CreateTable t # ops) = ta_name t # created_tables ops"
| "created_tables (x # ops) = created_tables ops"
| "created_tables [] = []"

definition service_migrations :: "(migration_op list \<times> migration_op list) list" where
  "service_migrations =
     [(booking_upgrade, booking_downgrade), (listing_upgrade @ location_upgrade, location_downgrade @ listing_downgrade),
      (payment_upgrade, payment_downgrade), (auth_upgrade, auth_downgrade), (admin_upgrade, admin_downgrade),
      (notification_upgrade, notification_downgrade)]"

lemma find_table_same:
  "map fst xs = map fst ys \<Longrightarrow>
     map_option fst (find_table name \<lparr>sc_extensions = es, sc_tables = xs\<rparr>) = map_option fst (find_table name \<lparr>sc_extensions = es', sc_tables = ys\<rparr>)"
  by (induction xs ys rule: list_induct2') (auto split: if_splits)

lemma map_change_same:
  fixes xs ys :: "(sql_table \<times> nat) list" and g :: "sql_table \<Rightarrow> sql_table"
  assumes "map fst xs = map fst ys"
  shows "map fst (map (\<lambda>x. if ta_name (fst x) = name then (\<lambda>(t, n). (g t, n)) x else x) xs) =
    map fst (map (\<lambda>x. if ta_name (fst x) = name then (\<lambda>(t, n). (g t, n)) x else x) ys)"
proof -
  have "map fst (map (\<lambda>x. if ta_name (fst x) = name then (\<lambda>(t, n). (g t, n)) x else x) zs) =
      map (\<lambda>t. if ta_name t = name then g t else t) (map fst zs)" for zs :: "(sql_table \<times> nat) list"
    by (induction zs) auto
  then show ?thesis using assms by (simp only:)
qed

lemma run_drop_same:
  assumes "is_drop x" "same_tables s s'"
  shows "rel_sum (=) same_tables (run_op x s) (run_op x s')"
proof -
  obtain es xs es' ys where s: "s = \<lparr>sc_extensions = es, sc_tables = xs\<rparr>" "s' = \<lparr>sc_extensions = es', sc_tables = ys\<rparr>"
    by (cases s; cases s')
  have eq: "map fst xs = map fst ys" using assms(2) by (simp add: same_tables_def s)
  note found = find_table_same [OF eq, of _ es es']
  show ?thesis
  proof (cases x)
    case (DropTable name)
    have "list_ex (\<lambda>x. ta_name (fst x) \<noteq> name \<and> name \<in> set (table_references (fst x))) zs =
        list_ex (\<lambda>t. ta_name t \<noteq> name \<and> name \<in> set (table_references t)) (map fst zs)" for zs :: "(sql_table \<times> nat) list"
      by (induction zs) auto
    moreover have "map fst (filter (\<lambda>x. ta_name (fst x) \<noteq> name) zs) = filter (\<lambda>t. ta_name t \<noteq> name) (map fst zs)"
      for zs :: "(sql_table \<times> nat) list" by (induction zs) auto
    moreover have "find_table name s = None \<longleftrightarrow> find_table name s' = None"
      using found [of name] unfolding s by (metis option.map_disc_iff)
    ultimately show ?thesis
      using eq unfolding DropTable s same_tables_def by simp
  next
    case (DropColumn name c)
    from found [of name] consider
      (none) "find_table name s = None" "find_table name s' = None"
      | (some) t n n' where "find_table name s = Some (t, n)" "find_table name s' = Some (t, n')"
      unfolding s [symmetric]
      by (cases "find_table name s"; cases "find_table name s'") (auto simp: prod_eq_iff)
    then show ?thesis
    proof cases
      case some
      then show ?thesis
        using map_change_same [OF eq, of name "\<lambda>t. t\<lparr>ta_columns := filter (\<lambda>d. co_name d \<noteq> c) (ta_columns t)\<rparr>"]
        unfolding DropColumn same_tables_def by (simp add: s)
    qed (simp add: DropColumn)
  qed (use assms(1) in auto)
qed

lemma run_drops_same:
  "list_all is_drop ops \<Longrightarrow> same_tables s s' \<Longrightarrow> rel_sum (=) same_tables (run_ops ops s) (run_ops ops s')"
proof (induction ops arbitrary: s s')
  case (Cons x ops)
  then have "rel_sum (=) same_tables (run_op x s) (run_op x s')" by (intro run_drop_same) auto
  then show ?case using Cons by (cases rule: rel_sum.cases) auto
qed auto


text \<open>Tables that are older than the migration are in nobody's way.\<close>

definition absent :: "(sql_table \<times> nat) list \<Rightarrow> string \<Rightarrow> bool" where
  "absent xs name \<longleftrightarrow> list_all (\<lambda>x. ta_name (fst x) \<noteq> name \<and> name \<notin> set (table_references (fst x))) xs"

lemma absent_simps [simp]:
  assumes "absent xs name"
  shows "find_table name \<lparr>sc_extensions = es, sc_tables = xs @ ys\<rparr> = find_table name \<lparr>sc_extensions = es, sc_tables = ys\<rparr>"
    "map (\<lambda>x. if ta_name (fst x) = name then f x else x) xs = xs"
    "filter (\<lambda>x. ta_name (fst x) \<noteq> name) xs = xs"
    "\<not> list_ex (\<lambda>x. ta_name (fst x) \<noteq> name \<and> name \<in> set (table_references (fst x))) xs"
  using assms by (induction xs) (auto simp: absent_def)

lemma absent_simps0 [simp]: "absent xs name \<Longrightarrow> find_table name \<lparr>sc_extensions = es, sc_tables = xs\<rparr> = None"
  using absent_simps(1) [of xs name es "[]"] by simp

lemma schema_wf_absent:
  assumes "schema_wf s" "name \<notin> set (table_names s)"
  shows "absent (sc_tables s) name"
  using assms by (auto simp: absent_def schema_wf_def table_names_def list_all_iff)

text \<open>Up and down again, for every service.\<close>

definition reverses :: "migration_op list \<Rightarrow> migration_op list \<Rightarrow> string set \<Rightarrow> (sql_table \<times> nat) list \<Rightarrow> bool" where
  "reverses up down es xs \<longleftrightarrow>
     (\<exists>es' new. run_ops up \<lparr>sc_extensions = es, sc_tables = xs\<rparr> = Inr \<lparr>sc_extensions = es', sc_tables = new\<rparr> \<and>
        run_ops down \<lparr>sc_extensions = es', sc_tables = new\<rparr> = Inr \<lparr>sc_extensions = es', sc_tables = xs\<rparr>)"

lemma reversesI:
  assumes "bindE (run_ops up \<lparr>sc_extensions = es, sc_tables = xs\<rparr>) (run_ops down) = Inr \<lparr>sc_extensions = es', sc_tables = xs\<rparr>"
    and "\<And>s. run_ops up \<lparr>sc_extensions = es, sc_tables = xs\<rparr> = Inr s \<Longrightarrow> sc_extensions s = es'"
  shows "reverses up down es xs"
proof -
  from assms(1) obtain s where s: "run_ops up \<lparr>sc_extensions = es, sc_tables = xs\<rparr> = Inr s" "run_ops down s = Inr \<lparr>sc_extensions = es', sc_tables = xs\<rparr>"
    by (auto simp: bindE_eq_Inr)
  with assms(2) [OF s(1)] show ?thesis unfolding reverses_def by (cases s) auto
qed

lemma booking_reverses: "list_all (absent xs) (created_tables booking_upgrade) \<Longrightarrow> reverses booking_upgrade booking_downgrade es xs"
  by (rule reversesI) (auto simp: migration_defs)

lemma payment_reverses: "list_all (absent xs) (created_tables payment_upgrade) \<Longrightarrow> reverses payment_upgrade payment_downgrade es xs"
  by (rule reversesI) (auto simp: migration_defs)

lemma auth_reverses: "list_all (absent xs) (created_tables auth_upgrade) \<Longrightarrow> reverses auth_upgrade auth_downgrade es xs"
  by (rule reversesI) (auto simp: migration_defs)

lemma admin_reverses: "list_all (absent xs) (created_tables admin_upgrade) \<Longrightarrow> reverses admin_upgrade admin_downgrade es xs"
  by (rule reversesI) (auto simp: migration_defs)

lemma notification_reverses:
  "list_all (absent xs) (created_tables notification_upgrade) \<Longrightarrow> reverses notification_upgrade notification_downgrade es xs"
  by (rule reversesI) (auto simp: migration_defs)


lemma vehicles_without [simp]:
  "filter (\<lambda>d. co_name d \<noteq> ''longitude'') (ta_columns vehicles_table) = ta_columns vehicles_table"
  "filter (\<lambda>d. co_name d \<noteq> ''latitude'') (ta_columns vehicles_table) = ta_columns vehicles_table"
proof -
  have "co_name c \<noteq> ''longitude'' \<and> co_name c \<noteq> ''latitude''" if "c \<in> set (ta_columns vehicles_table)" for c
    using imageI [OF that, of co_name] unfolding vehicles_column_set by auto
  then show "filter (\<lambda>d. co_name d \<noteq> ''longitude'') (ta_columns vehicles_table) = ta_columns vehicles_table"
    "filter (\<lambda>d. co_name d \<noteq> ''latitude'') (ta_columns vehicles_table) = ta_columns vehicles_table"
    unfolding filter_id_conv by blast+
qed

lemma listing_reverses:
  "list_all (absent xs) (created_tables (listing_upgrade @ location_upgrade)) \<Longrightarrow>
     reverses (listing_upgrade @ location_upgrade) (location_downgrade @ listing_downgrade) es xs"
  by (rule reversesI) (auto simp: migration_defs column_names_def)

lemmas service_reverses =
  booking_reverses listing_reverses payment_reverses auth_reverses admin_reverses notification_reverses

text \<open>
  The migrations of every service can be taken back: in a database that has none of the service's
  tables, whatever else it holds, the upgrades run without an error, and after any number of rows
  was written the downgrades run without an error and leave exactly the tables there were before:
  in particular they drop referring tables before the tables they refer to.
\<close>

theorem migrations_reversible:
  assumes "(up, down) \<in> set service_migrations" "schema_wf s" "list_all (\<lambda>name. name \<notin> set (table_names s)) (created_tables up)"
  shows "\<exists>s1. run_ops up s = Inr s1 \<and>
    (\<forall>s1'. same_tables s1 s1' \<longrightarrow> (\<exists>s2. run_ops down s1' = Inr s2 \<and> same_tables s s2))"
proof -
  obtain es xs where s: "s = \<lparr>sc_extensions = es, sc_tables = xs\<rparr>" by (cases s)
  have "list_all (absent xs) (created_tables up)"
    using schema_wf_absent [OF assms(2)] assms(3) by (simp add: list_all_iff s)
  then have "reverses up down es xs"
    using assms(1) service_reverses [of xs es] unfolding service_migrations_def by auto
  then obtain es' new where run: "run_ops up s = Inr \<lparr>sc_extensions = es', sc_tables = new\<rparr>"
    "run_ops down \<lparr>sc_extensions = es', sc_tables = new\<rparr> = Inr \<lparr>sc_extensions = es', sc_tables = xs\<rparr>"
    unfolding reverses_def s by blast
  have drops: "list_all is_drop down" using assms(1) by (auto simp: service_migrations_def migration_defs)
  have "\<exists>s2. run_ops down s1' = Inr s2 \<and> same_tables s s2"
    if "same_tables \<lparr>sc_extensions = es', sc_tables = new\<rparr> s1'" for s1'
    using run_drops_same [OF drops that] unfolding run(2) by (cases "run_ops down s1'") (auto simp: same_tables_def s)
  with run(1) show ?thesis by blast
qed

theorem migrations_reversible_witness:
  "\<exists>s1 s2. run_ops auth_upgrade empty_schema = Inr s1 \<and> run_ops auth_downgrade s1 = Inr s2 \<and> sc_tables s2 = []"
proof -
  have "\<exists>s1. run_ops auth_upgrade empty_schema = Inr s1 \<and>
      (\<forall>s1'. same_tables s1 s1' \<longrightarrow> (\<exists>s2. run_ops auth_downgrade s1' = Inr s2 \<and> same_tables empty_schema s2))"
    by (rule migrations_reversible)
      (simp_all add: service_migrations_def schema_wf_def empty_schema_def table_names_def list_all_iff)
  moreover have "same_tables s1 s1" "same_tables empty_schema s2 \<Longrightarrow> sc_tables s2 = []" for s1 s2
    by (simp_all add: same_tables_def empty_schema_def)
  ultimately show ?thesis by blast
qed

section \<open>The location migration\<close>

text \<open>
  The second listing migration adds two columns without a default.  As its comment presumes, it needs
  an empty table: it succeeds if and only if no vehicle is stored, and otherwise it is rolled back
  with an error and leaves the schema unchanged.
\<close>

lemma find_change_table:
  assumes "find_table name s = Some (t, n)" "\<And>t n. ta_name (fst (f (t, n))) = ta_name t"
  shows "find_table name (change_table name f s) = Some (f (t, n))"
proof -
  have "find_row (\<lambda>x. ta_name (fst x)) name xs = Some (t, n) \<Longrightarrow>
      find_row (\<lambda>x. ta_name (fst x)) name (map (\<lambda>x. if ta_name (fst x) = name then f x else x) xs) = Some (f (t, n))" for xs
    using assms(2) by (induction xs) (auto split: if_splits)
  then show ?thesis using assms(1) by (simp add: find_table_def change_table_def)
qed

theorem location_migration_needs_empty_table:
  assumes "find_table ''vehicles'' s = Some (vehicles_table, n)"
  shows "\<exists>s'. do_run_migrations location_upgrade s =
    (if n = 0 then (None, s') else (Some (NotNullViolation ''latitude''), s))"
  using assms find_change_table [OF assms, of "\<lambda>(t, n). (t\<lparr>ta_columns := ta_columns t @ [Column ''latitude'' SqlFloat]\<rparr>, n)"]
  by (auto simp: do_run_migrations_def location_upgrade_def column_names_def)

end
