(* ===== verification/Saga_Progress.thy ===== *)
theory Saga_Progress
  imports Saga_Properties
begin

text \<open>
  Progress of the saga: from every reachable state in which a booking is confirmed, there is a way to
  its completion.  The first part shows that the rows of every reachable state fit their columns, the
  second that each operation on the way succeeds when its preconditions hold and the identifiers it
  draws are new.
\<close>

section \<open>Rows fit their columns\<close>

definition bookings_fit :: "booking_db \<Rightarrow> bool" where
  "bookings_fit db \<longleftrightarrow> (\<forall>b \<in> set (bdb_bookings db). booking_columns_ok b)"






lemma bookings_fit_keys [simp]:
  "bookings_fit (db\<lparr>bdb_idem := rows\<rparr>) = bookings_fit db" "bookings_fit (db\<lparr>bdb_inbox := ib\<rparr>) = bookings_fit db"
  by (simp_all add: bookings_fit_def)















section \<open>Operations that succeed\<close>







section \<open>The four steps\<close>






section \<open>New identifiers\<close>



definition drawing :: "(nat \<Rightarrow> uuid) \<Rightarrow> nat \<Rightarrow> env" where
  "drawing g k = \<lparr>env_uuid4 = \<lambda>n. g (k + n), env_now = 0, env_trace = []\<rparr>"

lemma env_uuid4_drawing [simp]: "env_uuid4 (drawing g k) n = g (k + n)"
  by (simp add: drawing_def)

section \<open>The way to completion\<close>



lemma system_reachable_steps: "system_step\<^sup>*\<^sup>* s s' \<Longrightarrow> system_reachable s \<Longrightarrow> system_reachable s'"
  by (induction rule: rtranclp_induct) (auto intro: system_reachable.step)







section \<open>Failed captures\<close>

lemma system_step_payment_keeps:
  assumes "system_step s s'" "system_inv s"
  shows "payment_keeps (sys_payment s) (sys_payment s')"
  using assms(1)
proof cases
  case (api db')
  then show ?thesis
    by (simp add: payment_keeps_def)
next
  case (webhook ce secret payload sig r db')
  with payment_step_keeps [OF payment_step.webhook [OF webhook(2)] system_invD(2) [OF assms(2)]] show ?thesis
    by simp
next
  case (deliver_command row eid ty d w db')
  with payment_step_keeps [OF payment_step.command [OF deliver_command(4)] system_invD(2) [OF assms(2)]] show ?thesis
    by simp
next
  case (deliver_event row eid ty d e db')
  then show ?thesis
    by (simp add: payment_keeps_def)
qed

lemma failed_capture_stays:
  assumes "system_step\<^sup>*\<^sup>* s s'" "system_reachable s" "get_by_booking_id i (sys_payment s) = Some p" "pm_status p = ''capture_failed''"
  shows "\<exists>p'. get_by_booking_id i (sys_payment s') = Some p' \<and> pm_status p' = ''capture_failed''"
  using assms
proof (induction rule: rtranclp_induct)
  case (step s1 s2)
  then obtain p1 where p1: "get_by_booking_id i (sys_payment s1) = Some p1" "pm_status p1 = ''capture_failed''"
    by blast
  have "system_inv s1"
    by (rule system_reachable_inv [OF system_reachable_steps [OF step(1) step.prems(1)]])
  from payment_keepsD [OF system_step_payment_keeps [OF step(2) this] p1(1)] p1(2) show ?case
    by auto
qed blast

text \<open>C18: A failed capture is never made good: once Stripe has refused the capture for a booking, the booking is active
  in every later state, whatever requests, returns and messages follow; it is never completed, and
  nothing is ever charged for it.\<close>

theorem failed_capture_never_completes:
  assumes "system_reachable s" "get_by_booking_id i (sys_payment s) = Some p" "pm_status p = ''capture_failed''"
    and "system_step\<^sup>*\<^sup>* s s'"
  shows "\<exists>b p'. get_by_id i (sys_booking s') = Some b \<and> bk_status b = ''active'' \<and>
    get_by_booking_id i (sys_payment s') = Some p' \<and> ledger_of (pm_id p') (sys_payment s') = []"
proof -
  obtain p' where p': "get_by_booking_id i (sys_payment s') = Some p'" "pm_status p' = ''capture_failed''"
    using failed_capture_stays [OF assms(4,1-3)] by blast
  note inv = system_invD [OF system_reachable_inv [OF system_reachable_steps [OF assms(4,1)]]]
  from inv(5) p'(1) obtain b where b: "get_by_id i (sys_booking s') = Some b" "payment_matches (sys_payment s') p' b"
    by blast
  then have "bk_status b \<in> {''active'', ''completed''}"
    using p'(2) by (simp add: payment_matches_def)
  moreover have "bk_status b \<noteq> ''completed''"
  proof
    assume "bk_status b = ''completed''"
    moreover have "booking_backed (sys_payment s') b" "bk_id b = i"
      using inv(6) b(1) get_by_id_SomeD [OF b(1)] by simp_all
    ultimately obtain q where "get_by_booking_id i (sys_payment s') = Some q" "pm_status q = ''captured''"
      unfolding booking_backed_def by blast
    with p' show False
      by simp
  qed
  moreover have "payment_row_ok (sys_payment s') p'"
    using inv(2) get_by_booking_id_SomeD [OF p'(1)] by (simp add: payment_inv_def)
  ultimately show ?thesis
    using b(1) p' by (auto simp: payment_row_ok_def)
qed

definition pay_refused :: payment_db where
  "pay_refused = pay_result (payment_process (stripe_no, pay_env 71) (uuid_str 32) ''capture_payment_requested''
     (capture_data row_returned) pay1)"

lemma pay_refused_eq:
  "payment_process (stripe_no, pay_env 71) (uuid_str 32) ''capture_payment_requested'' (capture_data row_returned) pay1 = Inr pay_refused"
  "pdb_payments pay_refused = [sample_payment\<lparr>pm_booking_id := 1, pm_status := ''capture_failed''\<rparr>]"
  by (simp_all add: pay_refused_def payment_run_simps stripe_no_def pay1_eq sample_payment_def capture_data_def
      sample_booking_def booking_days_def)

theorem failed_capture_never_completes_witness:
  "\<exists>b. get_by_id 1 run5 = Some b \<and> bk_status b = ''active'' \<and> ledger_of (pm_id sample_payment) pay_refused = []"
proof -
  have "system_reachable (saga_state run4 pay1)"
    by (rule saga_api [OF saga_api [OF saga_run_reachable(1) booking_request.handover [OF run3_eq(1)]]
          booking_request.return [OF run4_eq(1)]])
  then have reach: "system_reachable (saga_state run4 pay_refused)"
    by (rule saga_command [OF _ run4_eq(6) _ pay_refused_eq(1)]) simp
  have step: "system_step (saga_state run4 pay_refused) (saga_state run5 pay_refused)"
    using system_step.api [of "saga_state run4 pay_refused", OF booking_request.return] run5_eq(1) by simp
  from failed_capture_never_completes [OF reach, of 1 "sample_payment\<lparr>pm_booking_id := 1, pm_status := ''capture_failed''\<rparr>",
      OF _ _ r_into_rtranclp [of system_step, OF step]]
  show ?thesis
    by (auto simp: get_by_booking_id_def pay_refused_eq(2))
qed

end
