(* ===== verification/Response_Types.thy ===== *)
theory Response_Types
  imports Booking_Route_Properties Listing_Routes Auth Admin Payment
begin

text \<open>
  The response models of the services (\<^verbatim>\<open>services/*/schemas.py\<close>) as schemas of JSON values, and the typing of
  what the endpoints answer.  A response of an idempotent endpoint is either freshly built or comes
  back from the key table, so that the table has to hold typed responses only;
  \<open>route_bodies\<close> shows this once for all services, for any property of responses.
\<close>

section \<open>Schemas\<close>

datatype schema =
    SStr
  | SInt
  | SFloat
  | SDict
  | SOptional schema
  | SList schema
  | SModel "(string \<times> schema) list"

fun conforms :: "schema \<Rightarrow> json \<Rightarrow> bool" and conforms_all :: "schema \<Rightarrow> json list \<Rightarrow> bool"
  and conforms_fields :: "(string \<times> schema) list \<Rightarrow> dict \<Rightarrow> bool" where
  "conforms SStr j = (case j of JStr _ \<Rightarrow> True | _ \<Rightarrow> False)"
| "conforms SInt j = (case j of JInt _ \<Rightarrow> True | _ \<Rightarrow> False)"
| "conforms SFloat j = (case j of JFloat _ \<Rightarrow> True | _ \<Rightarrow> False)"
| "conforms SDict j = (case j of JObj _ \<Rightarrow> True | _ \<Rightarrow> False)"
| "conforms (SOptional s) j = (j = JNull \<or> conforms s j)"
| "conforms (SList s) j = (case j of JArr js \<Rightarrow> conforms_all s js | _ \<Rightarrow> False)"
| "conforms (SModel fs) j = (case j of JObj d \<Rightarrow> conforms_fields fs d | _ \<Rightarrow> False)"
| "conforms_all s [] = True"
| "conforms_all s (j # js) = (conforms s j \<and> conforms_all s js)"
| "conforms_fields [] d = (d = [])"
| "conforms_fields ((name, s) # fs) d =
     (case d of (key, j) # d' \<Rightarrow> key = name \<and> conforms s j \<and> conforms_fields fs d' | [] \<Rightarrow> False)"

text \<open>Dates and times are strings in JSON.\<close>

definition UserResponse :: schema where
  "UserResponse = SModel [(''id'', SStr), (''email'', SStr), (''name'', SStr), (''role'', SStr)]"

definition BookingResponse :: schema where
  "BookingResponse = SModel
     [(''id'', SStr), (''vehicle_id'', SStr), (''host_id'', SStr), (''renter_id'', SStr), (''start_date'', SStr), (''end_date'', SStr),
      (''daily_price_cents'', SInt), (''daily_mileage_limit'', SInt), (''booking_mode'', SStr), (''status'', SStr),
      (''start_odometer'', SOptional SInt), (''end_odometer'', SOptional SInt), (''start_fuel_percent'', SOptional SInt),
      (''end_fuel_percent'', SOptional SInt), (''start_photo_url'', SOptional SStr), (''end_photo_url'', SOptional SStr),
      (''overage_cents'', SInt)]"

definition ListBookingsResponse :: schema where
  "ListBookingsResponse = SModel [(''items'', SList BookingResponse), (''next_offset'', SOptional SInt)]"

definition VehicleResponse :: schema where
  "VehicleResponse = SModel
     [(''id'', SStr), (''host_id'', SStr), (''make'', SStr), (''model'', SStr), (''year'', SInt), (''daily_price_cents'', SInt),
      (''daily_mileage_limit'', SInt), (''booking_mode'', SStr), (''approval_status'', SStr), (''latitude'', SFloat),
      (''longitude'', SFloat)]"

definition ListVehiclesResponse :: schema where
  "ListVehiclesResponse = SModel [(''items'', SList VehicleResponse), (''next_offset'', SOptional SInt)]"

definition AvailabilityBlockResponse :: schema where
  "AvailabilityBlockResponse = SModel [(''id'', SStr), (''vehicle_id'', SStr), (''start_date'', SStr), (''end_date'', SStr)]"

definition PaymentResponse :: schema where
  "PaymentResponse = SModel
     [(''booking_id'', SStr), (''renter_id'', SStr), (''status'', SStr), (''hold_amount_cents'', SInt), (''overage_cents'', SInt),
      (''stripe_payment_intent_id'', SOptional SStr)]"

definition AdminActionResponse :: schema where
  "AdminActionResponse = SModel
     [(''id'', SStr), (''admin_id'', SStr), (''action_type'', SStr), (''target_type'', SStr), (''target_id'', SStr),
      (''payload'', SDict), (''created_at'', SStr)]"

definition ListAdminActionsResponse :: schema where
  "ListAdminActionsResponse = SModel [(''items'', SList AdminActionResponse)]"

section \<open>The values of the models\<close>

lemma conforms_all_iff: "conforms_all s js \<longleftrightarrow> (\<forall>j \<in> set js. conforms s j)"
  by (induction js) auto

lemma booking_response_typed: "conforms BookingResponse (booking_response fmt b)"
  by (simp add: BookingResponse_def booking_response_def json_int_opt_def json_str_opt_def split: option.split)

lemma vehicle_response_typed: "conforms VehicleResponse (vehicle_response v)"
  by (simp add: VehicleResponse_def vehicle_response_def)

lemma block_response_typed: "conforms AvailabilityBlockResponse (block_response fmt a)"
  by (simp add: AvailabilityBlockResponse_def block_response_def)

lemma user_response_typed: "conforms UserResponse (user_response u)"
  by (simp add: UserResponse_def user_response_def)

lemma payment_response_typed: "conforms PaymentResponse (JObj (payment_response p))"
  by (simp add: PaymentResponse_def payment_response_def split: option.split)

lemma action_response_typed: "conforms AdminActionResponse (action_response fmt a)"
  by (simp add: AdminActionResponse_def action_response_def)

text \<open>The read-only endpoints.\<close>

lemma reads_typed:
  "get_booking_route w auth i db = Inr j \<Longrightarrow> conforms BookingResponse j"
  "list_bookings_route w auth limit offset db = Inr j \<Longrightarrow> conforms ListBookingsResponse j"
  "me_route aw auth adb = Inr j \<Longrightarrow> conforms UserResponse j"
  "get_payment st auth i pdb = Inr d \<Longrightarrow> conforms PaymentResponse (JObj d)"
  "list_actions_route xw fmt auth limit offset xdb = Inr j \<Longrightarrow> conforms ListAdminActionsResponse j"
  "get_vehicle_route lw auth i ldb = Inr j \<Longrightarrow> conforms VehicleResponse j"
  "list_vehicles_route lw auth wanted limit offset ldb = Inr j \<Longrightarrow> conforms ListVehiclesResponse j"
  by (auto simp: get_booking_route_def list_bookings_route_def me_route_def get_payment_def list_actions_route_def
      get_vehicle_route_def list_vehicles_route_def ListBookingsResponse_def ListAdminActionsResponse_def
      ListVehiclesResponse_def bindE_eq_Inr conforms_all_iff booking_response_typed vehicle_response_typed
      user_response_typed payment_response_typed action_response_typed split: option.splits if_splits)

section \<open>Responses through the key table\<close>

definition bodies :: "(string \<Rightarrow> int \<Rightarrow> bool) \<Rightarrow> idem_row list \<Rightarrow> bool" where
  "bodies P rows \<longleftrightarrow> (\<forall>row \<in> set rows. P (ir_response_body row) (ir_status_code row))"

lemma bodies_find: "bodies P rows \<Longrightarrow> find_idem c k rows = Some row \<Longrightarrow> P (ir_response_body row) (ir_status_code row)"
  by (auto simp: bodies_def find_idem_def dest: find_row_SomeD)

lemma bodies_purge: "bodies P rows \<Longrightarrow> bodies P (snd (purge_expired_idempotency_keys now older rows))"
  by (simp add: bodies_def purge_expired_idempotency_keys_def Let_def)

lemma bodies_cleanup: "bodies P rows \<Longrightarrow> bodies P (run_idempotency_cleanup_loop older wakes rows)"
  by (induction wakes arbitrary: rows) (auto intro: bodies_purge)

context idempotent_routes
begin

lemma route_bodies:
  assumes "route w now rq role status payload build db = (res, db')" "\<And>claims p. keeps_idem (build claims p)"
    and "\<forall>claims p db body db'. build claims p db = Inr (body, db') \<longrightarrow> P body status" "bodies P (get_idem db)"
  shows "bodies P (get_idem db')" "res = Inr r \<Longrightarrow> P (rsp_content r) (rsp_status_code r)"
proof -
  have "bodies P (get_idem db') \<and> (\<forall>r. res = Inr r \<longrightarrow> P (rsp_content r) (rsp_status_code r))"
  proof (cases res)
    case (Inl e)
    with route_error [OF assms(1) [unfolded Inl]] assms(4) show ?thesis
      by simp
  next
    case (Inr r)
    from route_answered [OF assms(1) [unfolded Inr]] obtain claims p where
      "request (wb_sha256_hex w) now (rq_idempotency_key rq) (consumer_id_resolver (wb_jwt w) (rq_authorization rq))
        (rq_body rq) status (build claims p) db = (Inr r, db')"
      by blast
    from this assms(2) [of claims p] show ?thesis
    proof (cases rule: request_effect)
      case (replay key row)
      with Inr bodies_find [OF assms(4) replay(3)] assms(4) show ?thesis
        by simp
    next
      case (fresh key row out session)
      from assms(3) fresh(4) have "P out status"
        by blast
      with fresh(5,6,9,10) assms(4) show ?thesis
        by (auto simp: Inr bodies_def idem_get_put)
    qed
  qed
  then show "bodies P (get_idem db')" "res = Inr r \<Longrightarrow> P (rsp_content r) (rsp_status_code r)"
    by blast+
qed

end

section \<open>The booking service\<close>

text \<open>The answers of a booking service since its start, with the events it consumed and the clean-up in between.\<close>

inductive booking_calls :: "booking_web \<Rightarrow> (booking_exn + response) list \<Rightarrow> booking_db \<Rightarrow> bool" for w where
  start: "booking_calls w [] empty_booking_db"
| create: "booking_calls w rs db \<Longrightarrow> create_booking_route w e parse rq db = (r, db') \<Longrightarrow> booking_calls w (rs @ [r]) db'"
| accept: "booking_calls w rs db \<Longrightarrow> accept_route w e i rq db = (r, db') \<Longrightarrow> booking_calls w (rs @ [r]) db'"
| reject: "booking_calls w rs db \<Longrightarrow> reject_route w e i rq db = (r, db') \<Longrightarrow> booking_calls w (rs @ [r]) db'"
| handover: "booking_calls w rs db \<Longrightarrow> handover_route w e i parse' rq db = (r, db') \<Longrightarrow> booking_calls w (rs @ [r]) db'"
| return: "booking_calls w rs db \<Longrightarrow> return_car_route w e i parse' rq db = (r, db') \<Longrightarrow> booking_calls w (rs @ [r]) db'"
| event: "booking_calls w rs db \<Longrightarrow> booking_process e eid ty d db = Inr db' \<Longrightarrow> booking_calls w rs db'"
| cleanup: "booking_calls w rs db \<Longrightarrow>
    booking_calls w rs (db\<lparr>bdb_idem := run_idempotency_cleanup_loop older wakes (bdb_idem db)\<rparr>)"

definition booking_answer :: "booking_web \<Rightarrow> string \<Rightarrow> int \<Rightarrow> bool" where
  "booking_answer w body status \<longleftrightarrow> (\<exists>j. body = wb_dumps w j \<and> conforms BookingResponse j) \<and> status \<in> {200, 201}"

lemma builds_answer:
  "\<forall>claims p db body db'. create_build w e rq claims p db = Inr (body, db') \<longrightarrow> booking_answer w body 201"
  "\<forall>claims u db body db'. accept_build w e i claims u db = Inr (body, db') \<longrightarrow> booking_answer w body 200"
  "\<forall>claims u db body db'. reject_build w e i claims u db = Inr (body, db') \<longrightarrow> booking_answer w body 200"
  "\<forall>claims q db body db'. handover_build w e i claims q db = Inr (body, db') \<longrightarrow> booking_answer w body 200"
  "\<forall>claims q db body db'. return_build w e i claims q db = Inr (body, db') \<longrightarrow> booking_answer w body 200"
  by (auto simp: create_build_def accept_build_def reject_build_def handover_build_def return_build_def
      bindE_eq_Inr booking_result_Inr booking_answer_def intro: booking_response_typed)

lemma booking_process_idem:
  assumes "booking_process e eid ty d db = Inr db'"
  shows "bdb_idem db' = bdb_idem db"
proof (cases "eid \<in> bdb_inbox db \<or> payment_event_handlers e ty = None")
  case True
  then show ?thesis
    using assms by (auto simp: booking_process_def postgres_inbox_processor_def claim_event_def split: if_splits)
next
  case False
  then obtain h where "payment_event_handlers e ty = Some h" "h (db\<lparr>bdb_inbox := insert eid (bdb_inbox db)\<rparr>) d = Inr db'"
    using assms by (auto simp: booking_process_def booking_inbox.process_first)
  then show ?thesis
    by (cases rule: payment_event_cases)
      (auto simp: service_defs domain_defs some_booking emit_domain_event_eq bindE_eq_Inr save_booking_Inr
        dest!: append_events_Inr booking_outbox_event_Inr)
qed

lemma booking_route_answer:
  assumes "booking_route w now rq role status payload build db = (res, db')" "\<And>claims p. booking_keys.keeps_idem (build claims p)"
    and "\<forall>claims p db body db'. build claims p db = Inr (body, db') \<longrightarrow> booking_answer w body status"
    and "bodies (booking_answer w) (bdb_idem db)"
  shows "bodies (booking_answer w) (bdb_idem db') \<and> (\<forall>r. res = Inr r \<longrightarrow> booking_answer w (rsp_content r) (rsp_status_code r))"
  using booking_keys.route_bodies [OF assms] by blast

lemma booking_calls_typed:
  "booking_calls w rs db \<Longrightarrow> bodies (booking_answer w) (bdb_idem db) \<and>
     (\<forall>r. Inr r \<in> set rs \<longrightarrow> booking_answer w (rsp_content r) (rsp_status_code r))"
proof (induction rule: booking_calls.induct)
  case start
  then show ?case
    by (simp add: empty_booking_db_def bodies_def)
next
  case (create rs db e parse rq r db')
  then have "bodies (booking_answer w) (bdb_idem db)"
    by simp
  from booking_route_answer [OF create(2) [unfolded create_booking_route_def] builds_keep_idem(1) builds_answer(1) this] create.IH
  show ?case
    by auto
next
  case (accept rs db e i rq r db')
  then have "bodies (booking_answer w) (bdb_idem db)"
    by simp
  from booking_route_answer [OF accept(2) [unfolded accept_route_def] builds_keep_idem(2) builds_answer(2) this] accept.IH
  show ?case
    by auto
next
  case (reject rs db e i rq r db')
  then have "bodies (booking_answer w) (bdb_idem db)"
    by simp
  from booking_route_answer [OF reject(2) [unfolded reject_route_def] builds_keep_idem(3) builds_answer(3) this] reject.IH
  show ?case
    by auto
next
  case (handover rs db e i parse' rq r db')
  then have "bodies (booking_answer w) (bdb_idem db)"
    by simp
  from booking_route_answer [OF handover(2) [unfolded handover_route_def] builds_keep_idem(4) builds_answer(4) this] handover.IH
  show ?case
    by auto
next
  case (return rs db e i parse' rq r db')
  then have "bodies (booking_answer w) (bdb_idem db)"
    by simp
  from booking_route_answer [OF return(2) [unfolded return_car_route_def] builds_keep_idem(5) builds_answer(5) this] return.IH
  show ?case
    by auto
next
  case (event rs db e eid ty d db')
  with booking_process_idem [OF event(2)] show ?case
    by simp
next
  case (cleanup rs db older wakes)
  then show ?case
    by (simp add: bodies_cleanup)
qed

text \<open>C21: Every answer of the booking service is well typed: whatever requests it received since its start, on any
  endpoint and with any keys, every request that was answered got the text of a JSON value of the
  response model, with status 200 or 201, also where the answer was replayed from the key table.
  The two reading endpoints answer with values of their models.\<close>

theorem booking_responses_typed:
  assumes "booking_calls w rs db"
  shows "(\<forall>r. Inr r \<in> set rs \<longrightarrow>
      (\<exists>j. rsp_content r = wb_dumps w j \<and> conforms BookingResponse j) \<and> rsp_status_code r \<in> {200, 201}) \<and>
    (\<forall>auth i j. get_booking_route w auth i db = Inr j \<longrightarrow> conforms BookingResponse j) \<and>
    (\<forall>auth limit offset j. list_bookings_route w auth limit offset db = Inr j \<longrightarrow> conforms ListBookingsResponse j)"
  using booking_calls_typed [OF assms] reads_typed(1,2) unfolding booking_answer_def by blast

theorem booking_responses_typed_witness:
  "\<exists>j. wb_dumps (sample_web ''renter'' 7 ''request'') j = ''{}'' \<and> conforms BookingResponse j"
proof -
  obtain db' where "create_booking_route (sample_web ''renter'' 7 ''request'') (sample_env 1) sample_parse sample_rq
      empty_booking_db = (Inr \<lparr>rsp_content = ''{}'', rsp_status_code = 201\<rparr>, db')"
    using sample_create_run by blast
  from booking_calls.create [OF booking_calls.start this] have
    "booking_calls (sample_web ''renter'' 7 ''request'') [Inr \<lparr>rsp_content = ''{}'', rsp_status_code = 201\<rparr>] db'"
    by simp
  from booking_responses_typed [OF this] show ?thesis
    by auto
qed

end
