(* ===== verification/Packet_Counter.thy ===== *)
theory Packet_Counter
  imports Telemetry Service_Apps
begin

text \<open>
  The packet counter of the telemetry service (\<^verbatim>\<open>services/telemetry/metrics.py\<close>) and the ingest socket of
  \<^verbatim>\<open>services/telemetry/app.py\<close> with the ways in which a connection ends: the client goes away while the service
  waits for a text or answers one, or Kafka does not take the record.  \<open>Telemetry.ingest_loop\<close> describes the
  socket while nothing fails.
\<close>

section \<open>The counter\<close>

record prometheus_counter =
  pc_name :: string
  pc_labels :: "string list"
  pc_values :: "string list \<Rightarrow> nat"

definition TELEMETRY_PACKETS_INGESTED :: prometheus_counter where
  "TELEMETRY_PACKETS_INGESTED =
     \<lparr>pc_name = ''telemetry_packets_ingested_total'', pc_labels = [''service''], pc_values = \<lambda>_. 0\<rparr>"

definition counter_inc :: "string list \<Rightarrow> prometheus_counter \<Rightarrow> prometheus_counter" where
  "counter_inc labels c = c\<lparr>pc_values := (pc_values c)(labels := Suc (pc_values c labels))\<rparr>"

section \<open>The socket\<close>

text \<open>
  What comes of waiting for a text: the text, with the time and the state of Redis that it meets,
  whether Kafka takes the record and whether the client still gets the answer; no further entry means
  that the client is gone.
\<close>

record 'rd socket_text =
  st_now :: int
  st_redis :: 'rd
  st_raw :: string
  st_published :: bool
  st_answered :: bool

datatype socket_end = Disconnected | ProducerFailed

fun ingest_socket ::
  "telemetry_web \<Rightarrow> 'rd redis \<Rightarrow> string \<Rightarrow> string \<Rightarrow> 'rd socket_text list \<Rightarrow> (string \<times> string) list \<times> prometheus_counter
     \<Rightarrow> socket_end \<times> (string \<times> string) list \<times> prometheus_counter" where
  "ingest_socket w R service vehicle_id [] st = (Disconnected, st)"
| "ingest_socket w R service vehicle_id (t # ts) (topic, counter) =
     (case parse_packet w (st_raw t) of
        None \<Rightarrow>
          if \<not> st_answered t then (Disconnected, topic, counter)
          else ingest_socket w R service vehicle_id ts (topic, counter)
      | Some packet \<Rightarrow>
          let active = kill_switch_is_active R (st_now t) vehicle_id (st_redis t);
              packet = apply_kill_switch packet active
          in if \<not> st_published t then (ProducerFailed, topic, counter)
             else let topic = publish_packet w vehicle_id packet topic; counter = counter_inc [service] counter
                  in if \<not> st_answered t then (Disconnected, topic, counter)
                     else ingest_socket w R service vehicle_id ts (topic, counter))"

text \<open>The connections of a process, one after the other.\<close>

fun ingest_connections ::
  "telemetry_web \<Rightarrow> 'rd redis \<Rightarrow> string \<Rightarrow> (string \<times> 'rd socket_text list) list \<Rightarrow> (string \<times> string) list \<times> prometheus_counter
     \<Rightarrow> (string \<times> string) list \<times> prometheus_counter" where
  "ingest_connections w R service [] st = st"
| "ingest_connections w R service ((vehicle_id, ts) # cs) st =
     ingest_connections w R service cs (snd (ingest_socket w R service vehicle_id ts st))"

section \<open>Lemmas\<close>

definition packet_count :: "string \<Rightarrow> (string \<times> string) list \<times> prometheus_counter \<Rightarrow> int" where
  "packet_count service st = int (pc_values (snd st) [service]) - int (length (fst st))"

lemma ingest_socket_count: "packet_count service (snd (ingest_socket w R service vehicle_id ts st)) = packet_count service st"
  by (induction w R service vehicle_id ts st rule: ingest_socket.induct)
    (auto simp: packet_count_def publish_packet_def counter_inc_def Let_def split: option.splits)

text \<open>
  The counter of a process is the number of records it has published since its start, however its
  connections ended, also where the client never got the answer.
\<close>

lemma packets_counted:
  "pc_values (snd (ingest_connections w R service cs ([], TELEMETRY_PACKETS_INGESTED))) [service] =
     length (fst (ingest_connections w R service cs ([], TELEMETRY_PACKETS_INGESTED)))"
proof -
  have "packet_count service (ingest_connections w R service cs st) = packet_count service st" for st
    by (induction w R service cs st rule: ingest_connections.induct) (simp_all add: ingest_socket_count)
  from this [of "([], TELEMETRY_PACKETS_INGESTED)"] show ?thesis
    by (simp add: packet_count_def TELEMETRY_PACKETS_INGESTED_def)
qed

text \<open>While nothing fails the socket is the loop of \<open>Telemetry\<close>.\<close>

lemma ingest_socket_loop:
  assumes "list_all (\<lambda>t. st_published t \<and> st_answered t) ts"
  shows "fst (snd (ingest_socket w R service vehicle_id ts (topic, counter))) =
    snd (ingest_loop w R vehicle_id (map (\<lambda>t. (st_now t, st_redis t, st_raw t)) ts) topic)"
  using assms
  by (induction ts arbitrary: topic counter) (auto simp: Let_def split: option.splits prod.splits)

end
