(* ===== verification/Sessions.thy ===== *)
theory Sessions
  imports Idempotency
begin

text \<open>
  Database sessions (\<^verbatim>\<open>shared/db.py\<close>) and the code that runs in them, statement by statement.  A session
  begins a transaction with its first statement, shows its own writes to itself only, publishes them
  with \<^verbatim>\<open>commit()\<close> and drops them when it is rolled back or closed, which \<^verbatim>\<open>async with\<close> does on every way
  out.  A program is what a request or a consumer does between opening and closing its session; the
  rest of the development describes such a program by its whole transaction.

  \<open>session_step\<close> runs a program one statement at a time, with commits of other sessions in between as long
  as it has written nothing (later ones are serialised by the locks its writes hold); a crash is an end
  at any point.  \<open>atomic_step\<close> is the specification, in which a program runs from any point to its end at
  once.  \<open>session_simulation\<close> shows that the former adds nothing to the latter, for every program that does
  nothing after its commit.
\<close>

section \<open>Engines, factories and sessions\<close>

record engine =
  en_url :: string
  en_pool_pre_ping :: bool

definition create_engine :: "string \<Rightarrow> engine" where
  "create_engine database_url = \<lparr>en_url = database_url, en_pool_pre_ping = True\<rparr>"

record session_factory =
  sf_engine :: engine
  sf_expire_on_commit :: bool

definition create_session_factory :: "engine \<Rightarrow> session_factory" where
  "create_session_factory e = \<lparr>sf_engine = e, sf_expire_on_commit = False\<rparr>"

text \<open>
  \<open>Select\<close> reads, \<open>Execute\<close> may write; both go on with what depends on the database as the session sees
  it.  \<open>Finish\<close> leaves the block, with a value or an exception.
\<close>

datatype ('db, 'e, 'a) session_prog =
    Finish "'e + 'a"
  | Select "'db \<Rightarrow> ('db, 'e, 'a) session_prog"
  | Execute "'db \<Rightarrow> 'db \<times> ('db, 'e, 'a) session_prog"
  | Commit "('db, 'e, 'a) session_prog"
  | Rollback "('db, 'e, 'a) session_prog"

text \<open>The committed database, what the session has written over it, and what is left to do.\<close>

record ('db, 'e, 'a) session =
  ss_committed :: 'db
  ss_written :: "'db option"
  ss_prog :: "('db, 'e, 'a) session_prog"

definition session_view :: "('db, 'e, 'a) session \<Rightarrow> 'db" where
  "session_view s = (case ss_written s of None \<Rightarrow> ss_committed s | Some db \<Rightarrow> db)"

text \<open>A session alone, from any of its points to the close of the block.\<close>

primrec run_prog :: "('db, 'e, 'a) session_prog \<Rightarrow> 'db \<Rightarrow> 'db option \<Rightarrow> ('e + 'a) \<times> 'db" where
  "run_prog (Finish r) db w = (r, db)"
| "run_prog (Select f) db w = run_prog (f (case w of None \<Rightarrow> db | Some db' \<Rightarrow> db')) db w"
| "run_prog (Execute f) db w =
     (let x = map_prod id run_prog (f (case w of None \<Rightarrow> db | Some db' \<Rightarrow> db')) in snd x db (Some (fst x)))"
| "run_prog (Commit p) db w = run_prog p (case w of None \<Rightarrow> db | Some db' \<Rightarrow> db') None"
| "run_prog (Rollback p) db w = run_prog p db None"

text \<open>
  \<^verbatim>\<open>session_dependency\<close>: a new session on the database of the engine's URL for one request, closed after
  it.  The databases are a map from URLs.
\<close>

definition session_dependency ::
  "session_factory \<Rightarrow> 'e \<Rightarrow> ('db, 'e, 'a) session_prog \<Rightarrow> (string \<Rightarrow> 'db option) \<Rightarrow> ('e + 'a) \<times> (string \<Rightarrow> 'db option)" where
  "session_dependency factory connection_error p cluster =
     (let url = en_url (sf_engine factory)
      in case cluster url of
           None \<Rightarrow> (Inl connection_error, cluster)
         | Some db \<Rightarrow> map_prod id (\<lambda>db'. cluster(url \<mapsto> db')) (run_prog p db None))"

section \<open>The code that uses sessions\<close>

text \<open>\<^verbatim>\<open>process\<close> of \<^verbatim>\<open>postgres_inbox_processor\<close>.\<close>

definition process_session ::
  "('db \<Rightarrow> inbox) \<Rightarrow> (inbox \<Rightarrow> 'db \<Rightarrow> 'db) \<Rightarrow> (string \<Rightarrow> ('db \<Rightarrow> dict \<Rightarrow> 'e + 'db) option)
     \<Rightarrow> string \<Rightarrow> string \<Rightarrow> dict \<Rightarrow> ('db, 'e, unit) session_prog" where
  "process_session get_inbox put_inbox handlers event_id event_type data =
     Execute (\<lambda>db.
       let (claimed, ib) = claim_event event_id (get_inbox db)
       in (put_inbox ib db,
           if claimed
           then (case handlers event_type of
                   Some handler \<Rightarrow>
                     Execute (\<lambda>db. case handler db data of
                         Inl e \<Rightarrow> (db, Finish (Inl e))
                       | Inr db' \<Rightarrow> (db', Commit (Finish (Inr ()))))
                 | None \<Rightarrow> Commit (Finish (Inr ())))
           else Commit (Finish (Inr ()))))"

text \<open>\<^verbatim>\<open>IdempotencyGuard.store\<close> and the answer of \<^verbatim>\<open>respond_idempotently\<close> after it.\<close>

definition store_session ::
  "('db \<Rightarrow> idem_row list) \<Rightarrow> (idem_row list \<Rightarrow> 'db \<Rightarrow> 'db) \<Rightarrow> (py_exn \<Rightarrow> 'e) \<Rightarrow> int \<Rightarrow> idempotency_guard
     \<Rightarrow> int \<Rightarrow> string \<Rightarrow> ('db, 'e, response) session_prog" where
  "store_session get_idem put_idem raise now g status_code response_json =
     (let new = \<lparr>ir_consumer_id = ig_consumer_id g, ir_key = ig_key g, ir_request_hash = ig_request_hash g,
                 ir_response_body = response_json, ir_status_code = status_code, ir_created_at = now\<rparr>;
          answer = Inr \<lparr>rsp_content = response_json, rsp_status_code = status_code\<rparr>
      in Execute (\<lambda>db.
           if find_idem (ig_consumer_id g) (ig_key g) (get_idem db) = None
           then (put_idem (get_idem db @ [new]) db, Commit (Finish answer))
           else (db, Select (\<lambda>db.
             case find_idem (ig_consumer_id g) (ig_key g) (get_idem db) of
               None \<Rightarrow> Finish (Inl (raise NoResultFound))
             | Some row \<Rightarrow>
                 if ir_request_hash row \<noteq> ig_request_hash g then Finish (Inl (raise reuse_error))
                 else Commit (Finish (Inr \<lparr>rsp_content = ir_response_body row, rsp_status_code = ir_status_code row\<rparr>))))))"

text \<open>
  \<^verbatim>\<open>build_response_json\<close> is given by its effect on the session.  Where an endpoint catches a failed
  statement, it rolls back before it raises.
\<close>

definition respond_session ::
  "('db \<Rightarrow> idem_row list) \<Rightarrow> (idem_row list \<Rightarrow> 'db \<Rightarrow> 'db) \<Rightarrow> (py_exn \<Rightarrow> 'e) \<Rightarrow> ('e \<Rightarrow> bool) \<Rightarrow> int \<Rightarrow> idempotency_guard
     \<Rightarrow> int \<Rightarrow> ('db \<Rightarrow> 'e + (string \<times> 'db)) \<Rightarrow> ('db, 'e, response) session_prog" where
  "respond_session get_idem put_idem raise rolls_back now g status_code build_response_json =
     (if is_replay g then Finish (mapErr raise (replay_response g))
      else Execute (\<lambda>db. case build_response_json db of
          Inl e \<Rightarrow> (db, if rolls_back e then Rollback (Finish (Inl e)) else Finish (Inl e))
        | Inr (response_json, db') \<Rightarrow> (db', store_session get_idem put_idem raise now g status_code response_json)))"

text \<open>A request: the guard reads the table in the session that the endpoint goes on to use.\<close>

definition request_session ::
  "('db \<Rightarrow> idem_row list) \<Rightarrow> (idem_row list \<Rightarrow> 'db \<Rightarrow> 'db) \<Rightarrow> (py_exn \<Rightarrow> 'e) \<Rightarrow> ('e \<Rightarrow> bool) \<Rightarrow> (string \<Rightarrow> string) \<Rightarrow> int
     \<Rightarrow> string option \<Rightarrow> string \<Rightarrow> string \<Rightarrow> int \<Rightarrow> ('db \<Rightarrow> 'e + (string \<times> 'db)) \<Rightarrow> ('db, 'e, response) session_prog" where
  "request_session get_idem put_idem raise rolls_back sha256_hex now header consumer_id body status_code build =
     Select (\<lambda>db. case idempotency_guard_dependency sha256_hex header consumer_id body (get_idem db) of
         Inl e \<Rightarrow> Finish (Inl (raise e))
       | Inr g \<Rightarrow> respond_session get_idem put_idem raise rolls_back now g status_code build)"

text \<open>\<^verbatim>\<open>purge_expired_idempotency_keys\<close> in the session that the clean-up loop opens.\<close>

definition purge_session ::
  "('db \<Rightarrow> idem_row list) \<Rightarrow> (idem_row list \<Rightarrow> 'db \<Rightarrow> 'db) \<Rightarrow> int \<Rightarrow> int \<Rightarrow> ('db, 'e, int) session_prog" where
  "purge_session get_idem put_idem now older_than =
     Execute (\<lambda>db.
       let (count, rows) = purge_expired_idempotency_keys now older_than (get_idem db)
       in (put_idem rows db, Commit (Finish (Inr count))))"

section \<open>Statement by statement\<close>

inductive session_step ::
  "('db \<Rightarrow> 'db \<Rightarrow> bool) \<Rightarrow> ('db, 'e, 'a) session \<Rightarrow> ('db, 'e, 'a) session \<Rightarrow> bool" for others where
  other: "others db db' \<Longrightarrow> session_step others \<lparr>ss_committed = db, ss_written = None, ss_prog = p\<rparr>
      \<lparr>ss_committed = db', ss_written = None, ss_prog = p\<rparr>"
| select: "ss_prog s = Select f \<Longrightarrow> session_step others s (s\<lparr>ss_prog := f (session_view s)\<rparr>)"
| execute: "ss_prog s = Execute f \<Longrightarrow> f (session_view s) = (db, p) \<Longrightarrow>
    session_step others s (s\<lparr>ss_written := Some db, ss_prog := p\<rparr>)"
| commit: "ss_prog s = Commit p \<Longrightarrow>
    session_step others s \<lparr>ss_committed = session_view s, ss_written = None, ss_prog = p\<rparr>"
| rollback: "ss_prog s = Rollback p \<Longrightarrow> session_step others s (s\<lparr>ss_written := None, ss_prog := p\<rparr>)"
| close: "ss_prog s = Finish r \<Longrightarrow> session_step others s (s\<lparr>ss_written := None\<rparr>)"

text \<open>The specification: what is left of a program happens at once, unless it only reads.\<close>

inductive atomic_step ::
  "('db \<Rightarrow> 'db \<Rightarrow> bool) \<Rightarrow> 'db \<times> ('db, 'e, 'a) session_prog \<Rightarrow> 'db \<times> ('db, 'e, 'a) session_prog \<Rightarrow> bool" for others where
  other: "others db db' \<Longrightarrow> atomic_step others (db, p) (db', p)"
| read: "atomic_step others (db, Select f) (db, f db)"
| transaction: "run_prog p db None = (r, db') \<Longrightarrow> atomic_step others (db, p) (db', Finish r)"

primrec is_finish :: "('db, 'e, 'a) session_prog \<Rightarrow> bool" where
  "is_finish (Finish r) = True"
| "is_finish (Select f) = False"
| "is_finish (Execute f) = False"
| "is_finish (Commit p) = False"
| "is_finish (Rollback p) = False"

primrec one_transaction :: "('db, 'e, 'a) session_prog \<Rightarrow> bool" where
  "one_transaction (Finish r) = True"
| "one_transaction (Select f) = (\<forall>db. one_transaction (f db))"
| "one_transaction (Execute f) = (\<forall>db. snd (map_prod id one_transaction (f db)))"
| "one_transaction (Commit p) = is_finish p"
| "one_transaction (Rollback p) = is_finish p"

section \<open>Simulation\<close>

lemma run_prog_execute [simp]:
  "run_prog (Execute f) db w =
     (case f (case w of None \<Rightarrow> db | Some db' \<Rightarrow> db') of (db', p) \<Rightarrow> run_prog p db (Some db'))"
  by (simp add: Let_def split: prod.split)

declare run_prog.simps(3) [simp del]

lemma one_transaction_execute [simp]:
  "one_transaction (Execute f) \<longleftrightarrow> (\<forall>db db' p. f db = (db', p) \<longrightarrow> one_transaction p)"
  by (auto simp: map_prod_def split: prod.splits)

declare one_transaction.simps(3) [simp del]

lemma is_finish_iff: "is_finish p \<longleftrightarrow> (\<exists>r. p = Finish r)"
  by (cases p) auto

definition open_session :: "('db, 'e, 'a) session_prog \<Rightarrow> 'db \<Rightarrow> ('db, 'e, 'a) session" where
  "open_session p db = \<lparr>ss_committed = db, ss_written = None, ss_prog = p\<rparr>"

text \<open>
  The relation of the simulation: with nothing written the program is where the specification is;
  otherwise the specification still has before it a transaction with the same outcome.
\<close>

definition session_rel :: "('db, 'e, 'a) session \<Rightarrow> 'db \<times> ('db, 'e, 'a) session_prog \<Rightarrow> bool" where
  "session_rel s a \<longleftrightarrow> one_transaction (ss_prog s) \<and> fst a = ss_committed s \<and>
     (if ss_written s = None then snd a = ss_prog s
      else run_prog (snd a) (ss_committed s) None = run_prog (ss_prog s) (ss_committed s) (ss_written s))"

lemma session_rel_finish:
  assumes "session_rel s a" "run_prog (ss_prog s) (ss_committed s) (ss_written s) = (r, db)"
  shows "atomic_step others a (db, Finish r)"
  using assms by (cases a) (auto simp: session_rel_def intro!: atomic_step.transaction split: if_splits)

lemma session_step_simulated:
  assumes "session_step others s s'" "session_rel s a"
  shows "\<exists>a'. (atomic_step others)\<^sup>*\<^sup>* a a' \<and> session_rel s' a'"
  using assms
proof (cases rule: session_step.cases)
  case (other db db' p)
  with assms(2) have "a = (db, p)"
    by (cases a) (auto simp: session_rel_def)
  with other assms(2) show ?thesis
    by (intro exI [of _ "(db', p)"]) (auto simp: session_rel_def intro!: r_into_rtranclp atomic_step.other)
next
  case (select f)
  show ?thesis
  proof (cases "ss_written s")
    case None
    with select assms(2) have "a = (ss_committed s, Select f)" "session_view s = ss_committed s"
      by (cases a, auto simp: session_rel_def session_view_def)
    moreover have "session_rel s' (ss_committed s, f (ss_committed s))"
      using select None assms(2) by (simp add: session_rel_def session_view_def)
    ultimately show ?thesis
      by (metis atomic_step.read r_into_rtranclp)
  next
    case (Some w)
    with select assms(2) have "session_rel s' a"
      by (simp add: session_rel_def session_view_def)
    then show ?thesis
      by blast
  qed
next
  case (execute f db p)
  with assms(2) have "session_rel s' a"
    by (auto simp: session_rel_def session_view_def split: if_splits option.splits)
  then show ?thesis
    by blast
next
  case (commit p)
  with assms(2) obtain r where r: "p = Finish r"
    by (auto simp: session_rel_def is_finish_iff)
  with commit have "run_prog (ss_prog s) (ss_committed s) (ss_written s) = (r, session_view s)"
    by (simp add: session_view_def)
  from session_rel_finish [OF assms(2) this] have "atomic_step others a (session_view s, Finish r)" .
  moreover have "session_rel s' (session_view s, Finish r)"
    using commit r by (simp add: session_rel_def)
  ultimately show ?thesis
    by blast
next
  case (rollback p)
  with assms(2) obtain r where r: "p = Finish r"
    by (auto simp: session_rel_def is_finish_iff)
  with rollback have "run_prog (ss_prog s) (ss_committed s) (ss_written s) = (r, ss_committed s)"
    by simp
  from session_rel_finish [OF assms(2) this] have "atomic_step others a (ss_committed s, Finish r)" .
  moreover have "session_rel s' (ss_committed s, Finish r)"
    using rollback r by (simp add: session_rel_def)
  ultimately show ?thesis
    by blast
next
  case (close r)
  then have "run_prog (ss_prog s) (ss_committed s) (ss_written s) = (r, ss_committed s)"
    by simp
  from session_rel_finish [OF assms(2) this] have "atomic_step others a (ss_committed s, Finish r)" .
  moreover have "session_rel s' (ss_committed s, Finish r)"
    using close by (simp add: session_rel_def)
  ultimately show ?thesis
    by blast
qed

lemma session_simulation:
  assumes "(session_step others)\<^sup>*\<^sup>* (open_session p db) s" "one_transaction p"
  shows "\<exists>q. (atomic_step others)\<^sup>*\<^sup>* (db, p) (ss_committed s, q) \<and> session_rel s (ss_committed s, q)"
  using assms
proof (induction rule: rtranclp_induct)
  case base
  then show ?case
    by (intro exI [of _ p]) (simp add: session_rel_def open_session_def)
next
  case (step s s')
  then obtain q where q: "(atomic_step others)\<^sup>*\<^sup>* (db, p) (ss_committed s, q)" "session_rel s (ss_committed s, q)"
    by blast
  from session_step_simulated [OF step(2) q(2)] obtain a' where
    "(atomic_step others)\<^sup>*\<^sup>* (ss_committed s, q) a'" "session_rel s' a'"
    by blast
  with q(1) show ?case
    by (cases a') (auto simp: session_rel_def intro: rtranclp_trans)
qed

text \<open>What the specification allows a program that writes with its first statement.\<close>

lemma atomic_finish:
  assumes "(atomic_step others)\<^sup>*\<^sup>* (db, Finish r) (db', q)"
  shows "q = Finish r \<and> others\<^sup>*\<^sup>* db db'"
proof -
  have "snd b = Finish r \<and> others\<^sup>*\<^sup>* db (fst b)" if "(atomic_step others)\<^sup>*\<^sup>* (db, Finish r) b" for b
    using that by (induction rule: rtranclp_induct) (auto elim!: atomic_step.cases)
  from this [OF assms] show ?thesis
    by simp
qed

lemma atomic_runs:
  assumes "(atomic_step others)\<^sup>*\<^sup>* (db, p) (db', q)" "\<And>f. p \<noteq> Select f"
  shows "(q = p \<and> others\<^sup>*\<^sup>* db db') \<or>
    (\<exists>db1 r db2. others\<^sup>*\<^sup>* db db1 \<and> run_prog p db1 None = (r, db2) \<and> q = Finish r \<and> others\<^sup>*\<^sup>* db2 db')"
proof -
  have "(snd b = p \<and> others\<^sup>*\<^sup>* db (fst b)) \<or>
    (\<exists>db1 r db2. others\<^sup>*\<^sup>* db db1 \<and> run_prog p db1 None = (r, db2) \<and> snd b = Finish r \<and> others\<^sup>*\<^sup>* db2 (fst b))"
    if "(atomic_step others)\<^sup>*\<^sup>* (db, p) b" for b
    using that
  proof (induction rule: rtranclp_induct)
    case (step b c)
    from step.IH show ?case
    proof
      assume b: "snd b = p \<and> others\<^sup>*\<^sup>* db (fst b)"
      from step(2) show ?thesis
      proof cases
        case (transaction p' d r d')
        with b show ?thesis
          by (intro disjI2 exI [of _ d] exI [of _ r] exI [of _ d']) auto
      qed (use b assms(2) in auto)
    next
      assume "\<exists>db1 r db2. others\<^sup>*\<^sup>* db db1 \<and> run_prog p db1 None = (r, db2) \<and> snd b = Finish r \<and> others\<^sup>*\<^sup>* db2 (fst b)"
      then obtain d1 r d2 where b: "others\<^sup>*\<^sup>* db d1" "run_prog p d1 None = (r, d2)" "snd b = Finish r" "others\<^sup>*\<^sup>* d2 (fst b)"
        by blast
      have "(atomic_step others)\<^sup>*\<^sup>* (fst b, Finish r) (fst c, snd c)"
        using step(2) b(3) by (cases b) auto
      from atomic_finish [OF this] b show ?thesis
        by (metis rtranclp_trans)
    qed
  qed simp
  from this [OF assms(1)] show ?thesis
    by simp
qed

text \<open>And one that reads once before it.\<close>

lemma atomic_reads:
  assumes "(atomic_step others)\<^sup>*\<^sup>* (db, Select f) (db', q)" "\<And>db g. f db \<noteq> Select g"
  shows "(q = Select f \<and> others\<^sup>*\<^sup>* db db') \<or>
    (\<exists>db0. others\<^sup>*\<^sup>* db db0 \<and> q = f db0 \<and> others\<^sup>*\<^sup>* db0 db') \<or>
    (\<exists>db0 db1 r db2. others\<^sup>*\<^sup>* db db0 \<and> others\<^sup>*\<^sup>* db0 db1 \<and> run_prog (f db0) db1 None = (r, db2) \<and> q = Finish r \<and>
       others\<^sup>*\<^sup>* db2 db')" (is "?P db")
proof -
  have "snd a = Select f \<longrightarrow> ?P (fst a)" if "(atomic_step others)\<^sup>*\<^sup>* a (db', q)" for a
    using that
  proof (induction rule: converse_rtranclp_induct)
    case (step a b)
    show ?case
    proof
      assume a: "snd a = Select f"
      from step(1) show "?P (fst a)"
      proof cases
        case (other d d' p)
        with a step.IH have "?P d'" "others d d'" "fst a = d"
          by auto
        then show ?thesis
          by (metis converse_rtranclp_into_rtranclp)
      next
        case (read d g)
        with a step(2) have "(atomic_step others)\<^sup>*\<^sup>* (d, f d) (db', q)" "fst a = d"
          by auto
        with atomic_runs [OF this(1) assms(2)] show ?thesis
          by blast
      next
        case (transaction p d r d')
        with a have "run_prog (f d) d None = (r, d')" "fst a = d"
          by auto
        moreover from transaction step(2) have "q = Finish r \<and> others\<^sup>*\<^sup>* d' db'"
          using atomic_finish [of others d' r db' q] by simp
        ultimately show ?thesis
          by blast
      qed
    qed
  qed simp
  from this [OF assms(1)] show ?thesis
    by simp
qed

section \<open>Outcomes\<close>

text \<open>
  At any point of a session the committed database is what others made of it, with or without the
  whole transaction; a session that has ended has done the transaction with the result it ended with.
\<close>

lemma session_rel_closed:
  assumes "session_rel s (ss_committed s, q)" "ss_prog s = Finish r"
  shows "run_prog q (ss_committed s) None = (r, ss_committed s)"
  using assms by (auto simp: session_rel_def split: if_splits)

lemma session_outcome:
  assumes "(session_step others)\<^sup>*\<^sup>* (open_session p db) s" "one_transaction p" "\<And>f. p \<noteq> Select f"
  defines "done \<equiv> \<lambda>r. \<exists>db1 db2. others\<^sup>*\<^sup>* db db1 \<and> run_prog p db1 None = (r, db2) \<and> others\<^sup>*\<^sup>* db2 (ss_committed s)"
  shows "others\<^sup>*\<^sup>* db (ss_committed s) \<or> (\<exists>r. done r)" "ss_prog s = Finish r \<Longrightarrow> done r"
proof -
  obtain q where q: "(atomic_step others)\<^sup>*\<^sup>* (db, p) (ss_committed s, q)" "session_rel s (ss_committed s, q)"
    using session_simulation [OF assms(1,2)] by blast
  note cases = atomic_runs [OF q(1) assms(3)]
  from cases show "others\<^sup>*\<^sup>* db (ss_committed s) \<or> (\<exists>r. done r)"
    unfolding done_def by blast
  assume "ss_prog s = Finish r"
  from session_rel_closed [OF q(2) this] cases show "done r"
    unfolding done_def by (metis prod.inject rtranclp.rtrancl_refl run_prog.simps(1))
qed

lemma session_outcome_read:
  assumes "(session_step others)\<^sup>*\<^sup>* (open_session (Select f) db) s" "one_transaction (Select f)" "\<And>db g. f db \<noteq> Select g"
  defines "done \<equiv> \<lambda>r. \<exists>db0 db1 db2. others\<^sup>*\<^sup>* db db0 \<and> others\<^sup>*\<^sup>* db0 db1 \<and> run_prog (f db0) db1 None = (r, db2) \<and>
    others\<^sup>*\<^sup>* db2 (ss_committed s)"
  shows "others\<^sup>*\<^sup>* db (ss_committed s) \<or> (\<exists>r. done r)" "ss_prog s = Finish r \<Longrightarrow> done r"
proof -
  obtain q where q: "(atomic_step others)\<^sup>*\<^sup>* (db, Select f) (ss_committed s, q)" "session_rel s (ss_committed s, q)"
    using session_simulation [OF assms(1,2)] by blast
  note cases = atomic_reads [OF q(1) assms(3)]
  from cases show "others\<^sup>*\<^sup>* db (ss_committed s) \<or> (\<exists>r. done r)"
    unfolding done_def by (meson rtranclp_trans)
  assume "ss_prog s = Finish r"
  from session_rel_closed [OF q(2) this] have run: "run_prog q (ss_committed s) None = (r, ss_committed s)" .
  from cases show "done r"
  proof (elim disjE exE conjE)
    assume "q = Select f" "others\<^sup>*\<^sup>* db (ss_committed s)"
    with run show ?thesis
      unfolding done_def by (auto intro: exI [of _ "ss_committed s"])
  next
    fix db0 assume "others\<^sup>*\<^sup>* db db0" "q = f db0" "others\<^sup>*\<^sup>* db0 (ss_committed s)"
    with run show ?thesis
      unfolding done_def by blast
  next
    fix db0 db1 r' db2
    assume "others\<^sup>*\<^sup>* db db0" "others\<^sup>*\<^sup>* db0 db1" "run_prog (f db0) db1 None = (r', db2)" "q = Finish r'"
      "others\<^sup>*\<^sup>* db2 (ss_committed s)"
    with run show ?thesis
      unfolding done_def by (metis prod.inject run_prog.simps(1))
  qed
qed

lemma session_view_record [simp]:
  "session_view \<lparr>ss_committed = db, ss_written = w, ss_prog = p\<rparr> = (case w of None \<Rightarrow> db | Some db' \<Rightarrow> db')"
  by (cases w) (simp_all add: session_view_def)

text \<open>Left alone, a session ends, with the outcome that \<open>run_prog\<close> gives.\<close>

lemma run_prog_steps:
  "(session_step others)\<^sup>*\<^sup>* \<lparr>ss_committed = db, ss_written = w, ss_prog = p\<rparr>
     \<lparr>ss_committed = snd (run_prog p db w), ss_written = None, ss_prog = Finish (fst (run_prog p db w))\<rparr>"
proof (induction p arbitrary: db w)
  case (Finish r)
  show ?case
    using session_step.close [of "\<lparr>ss_committed = db, ss_written = w, ss_prog = Finish r\<rparr>" r others] by auto
next
  case (Select f)
  have "session_step others \<lparr>ss_committed = db, ss_written = w, ss_prog = Select f\<rparr>
      \<lparr>ss_committed = db, ss_written = w, ss_prog = f (case w of None \<Rightarrow> db | Some db' \<Rightarrow> db')\<rparr>"
    using session_step.select [of "\<lparr>ss_committed = db, ss_written = w, ss_prog = Select f\<rparr>" f others]
    by simp
  from converse_rtranclp_into_rtranclp [where r = "session_step others", OF this Select [OF rangeI]]
  show ?case
    by simp
next
  case (Execute f)
  obtain db' q where q: "f (case w of None \<Rightarrow> db | Some db' \<Rightarrow> db') = (db', q)"
    by fastforce
  then have "q \<in> Basic_BNFs.snds (f (case w of None \<Rightarrow> db | Some db' \<Rightarrow> db'))"
    by (simp add: snds.simps)
  note IH = Execute [OF rangeI this]
  have "session_step others \<lparr>ss_committed = db, ss_written = w, ss_prog = Execute f\<rparr>
      \<lparr>ss_committed = db, ss_written = Some db', ss_prog = q\<rparr>"
    using session_step.execute [of "\<lparr>ss_committed = db, ss_written = w, ss_prog = Execute f\<rparr>" f db' q others] q
    by simp
  from converse_rtranclp_into_rtranclp [where r = "session_step others", OF this IH] q show ?case
    by simp
next
  case (Commit p)
  have "session_step others \<lparr>ss_committed = db, ss_written = w, ss_prog = Commit p\<rparr>
      \<lparr>ss_committed = (case w of None \<Rightarrow> db | Some db' \<Rightarrow> db'), ss_written = None, ss_prog = p\<rparr>"
    using session_step.commit [of "\<lparr>ss_committed = db, ss_written = w, ss_prog = Commit p\<rparr>" p others]
    by simp
  from converse_rtranclp_into_rtranclp [where r = "session_step others", OF this Commit] show ?case
    by simp
next
  case (Rollback p)
  have "session_step others \<lparr>ss_committed = db, ss_written = w, ss_prog = Rollback p\<rparr>
      \<lparr>ss_committed = db, ss_written = None, ss_prog = p\<rparr>"
    using session_step.rollback [of "\<lparr>ss_committed = db, ss_written = w, ss_prog = Rollback p\<rparr>" p others] by simp
  from converse_rtranclp_into_rtranclp [where r = "session_step others", OF this Rollback] show ?case
    by simp
qed

section \<open>The programs\<close>

lemma process_session_one: "one_transaction (process_session get_inbox put_inbox handlers event_id event_type data)"
  by (auto simp: process_session_def Let_def split: prod.splits option.splits sum.splits)

lemma process_session_run:
  "run_prog (process_session get_inbox put_inbox handlers event_id event_type data) db None =
     (case postgres_inbox_processor get_inbox put_inbox handlers event_id event_type data db of
        Inl e \<Rightarrow> (Inl e, db) | Inr db' \<Rightarrow> (Inr (), db'))"
  by (auto simp: process_session_def postgres_inbox_processor_def Let_def split: prod.splits option.splits sum.splits)

lemma store_session_one: "one_transaction (store_session get_idem put_idem raise now g status json)"
  by (auto simp: store_session_def Let_def split: option.splits)

lemma respond_session_one: "one_transaction (respond_session get_idem put_idem raise rolls now g status build)"
  by (auto simp: respond_session_def store_session_one split: sum.splits prod.splits)

lemma store_session_run:
  assumes "\<not> is_replay g"
  shows "run_prog (store_session get_idem put_idem raise now g status json) db (Some session) =
     (case guard_store now g json status (get_idem session) of
        Inl e \<Rightarrow> (Inl (raise e), db)
      | Inr (g', rows) \<Rightarrow>
          (if is_replay g' then mapErr raise (replay_response g') else Inr \<lparr>rsp_content = json, rsp_status_code = status\<rparr>,
           if is_replay g' then session else put_idem rows session))"
  using assms
  by (auto simp: store_session_def guard_store_def Let_def is_replay_def replay_response_def split: option.splits)

text \<open>What a service's table promises to a session: reading it and writing it back changes nothing.\<close>

locale session_store =
  fixes get_idem :: "'db \<Rightarrow> idem_row list" and put_idem :: "idem_row list \<Rightarrow> 'db \<Rightarrow> 'db"
  assumes idem_put_get: "put_idem (get_idem db) db = db"
begin

lemma respond_session_run:
  "run_prog (respond_session get_idem put_idem raise rolls now g status build) db None =
     respond_idempotently get_idem put_idem raise now g status build db"
proof (cases "is_replay g")
  case False
  have "put_idem rows session = session"
    if "guard_store now g json status (get_idem session) = Inr (g', rows)" "is_replay g'" for json session g' rows
    using that False by (auto simp: guard_store_def idem_put_get split: option.splits if_splits)
  with False show ?thesis
    by (auto simp: respond_session_def respond_idempotently_def store_session_run idem_put_get split: sum.splits prod.splits)
qed (simp add: respond_session_def respond_idempotently_def)

lemma request_session_run:
  "run_prog (request_session get_idem put_idem raise rolls sha now header consumer body status build) db None =
     idempotent_request get_idem put_idem raise sha now header consumer body status build db"
  by (auto simp: request_session_def idempotent_request_def respond_session_run split: sum.splits)

end

text \<open>
  The outcome of a request in terms of the transactions of \<open>Idempotency\<close>: the guard reads at \<open>db0\<close>; if it
  lets the request through, the rest is one transaction on \<open>db1\<close>.
\<close>

definition request_outcome ::
  "('db \<Rightarrow> 'db \<Rightarrow> bool) \<Rightarrow> ('db \<Rightarrow> idem_row list) \<Rightarrow> (idem_row list \<Rightarrow> 'db \<Rightarrow> 'db) \<Rightarrow> (py_exn \<Rightarrow> 'e) \<Rightarrow> (string \<Rightarrow> string) \<Rightarrow> int
     \<Rightarrow> string option \<Rightarrow> string \<Rightarrow> string \<Rightarrow> int \<Rightarrow> ('db \<Rightarrow> 'e + (string \<times> 'db)) \<Rightarrow> 'db \<Rightarrow> 'e + response \<Rightarrow> 'db \<Rightarrow> bool" where
  "request_outcome others get_idem put_idem raise sha256_hex now header consumer_id body status_code build db r db' \<longleftrightarrow>
     (\<exists>db0. others\<^sup>*\<^sup>* db db0 \<and>
        (case idempotency_guard_dependency sha256_hex header consumer_id body (get_idem db0) of
           Inl e \<Rightarrow> r = Inl (raise e) \<and> others\<^sup>*\<^sup>* db0 db'
         | Inr g \<Rightarrow> (\<exists>db1 db2. others\<^sup>*\<^sup>* db0 db1 \<and>
             respond_idempotently get_idem put_idem raise now g status_code build db1 = (r, db2) \<and> others\<^sup>*\<^sup>* db2 db')))"

context session_store
begin

lemma request_session_outcome:
  assumes "(session_step others)\<^sup>*\<^sup>*
      (open_session (request_session get_idem put_idem raise rolls sha now header consumer body status build) db) s"
  shows "others\<^sup>*\<^sup>* db (ss_committed s) \<or>
      (\<exists>r. request_outcome others get_idem put_idem raise sha now header consumer body status build db r (ss_committed s))"
    "ss_prog s = Finish r \<Longrightarrow>
      request_outcome others get_idem put_idem raise sha now header consumer body status build db r (ss_committed s)"
proof -
  let ?guard = "\<lambda>db. idempotency_guard_dependency sha header consumer body (get_idem db)"
  let ?f = "\<lambda>db. case ?guard db of Inl e \<Rightarrow> Finish (Inl (raise e))
    | Inr g \<Rightarrow> respond_session get_idem put_idem raise rolls now g status build"
  have one: "one_transaction (Select ?f)" and no_read: "\<And>db g. ?f db \<noteq> Select g"
    by (auto simp: respond_session_one split: sum.splits) (simp add: respond_session_def split: if_splits)
  have outcome: "request_outcome others get_idem put_idem raise sha now header consumer body status build db r c"
    if o: "others\<^sup>*\<^sup>* db db0" "others\<^sup>*\<^sup>* db0 db1" "run_prog (?f db0) db1 None = (r, db2)" "others\<^sup>*\<^sup>* db2 c" for r db0 db1 db2 c
  proof (cases "?guard db0")
    case (Inl e)
    with o have "r = Inl (raise e)" "others\<^sup>*\<^sup>* db0 c"
      by auto
    with o(1) Inl show ?thesis
      unfolding request_outcome_def by (intro exI [of _ db0]) simp
  next
    case (Inr g)
    with o have "respond_idempotently get_idem put_idem raise now g status build db1 = (r, db2)"
      by (simp add: respond_session_run)
    with o Inr show ?thesis
      unfolding request_outcome_def by (intro exI [of _ db0]) auto
  qed
  note steps = assms [unfolded request_session_def]
  show "others\<^sup>*\<^sup>* db (ss_committed s) \<or>
      (\<exists>r. request_outcome others get_idem put_idem raise sha now header consumer body status build db r (ss_committed s))"
    using session_outcome_read(1) [OF steps one no_read] outcome by meson
  show "ss_prog s = Finish r \<Longrightarrow>
      request_outcome others get_idem put_idem raise sha now header consumer body status build db r (ss_committed s)"
    using session_outcome_read(2) [OF steps one no_read] outcome by meson
qed

end

end
