(* ===== verification/Session_Properties.thy ===== *)
theory Session_Properties
  imports Sessions Booking_Route_Properties Listing_Routes Auth Admin
begin

text \<open>
  Properties of what the services do in their database sessions: a request and a Kafka record are one
  transaction each, wherever other sessions commit in between and wherever the process dies.
\<close>

section \<open>The tables of the services\<close>


interpretation listing_sessions: session_store ldb_idem "\<lambda>rows db. db\<lparr>ldb_idem := rows\<rparr>"
  by unfold_locales simp

interpretation auth_sessions: session_store adb_idem "\<lambda>rows db. db\<lparr>adb_idem := rows\<rparr>"
  by unfold_locales simp

interpretation admin_sessions: session_store xdb_idem "\<lambda>rows db. db\<lparr>xdb_idem := rows\<rparr>"
  by unfold_locales simp

section \<open>Requests\<close>





text \<open>A session reaches the database of its engine's URL and no other.\<close>

lemma session_dependency_isolated:
  assumes "session_dependency (create_session_factory (create_engine database_url)) connection_error p cluster = (r, cluster')"
  shows "url \<noteq> database_url \<Longrightarrow> cluster' url = cluster url"
    and "cluster database_url = Some db \<Longrightarrow> cluster' database_url = Some (snd (run_prog p db None)) \<and> r = fst (run_prog p db None)"
  using assms
  by (auto simp: session_dependency_def create_session_factory_def create_engine_def Let_def map_prod_def
      split: option.splits prod.splits)

section \<open>Kafka records\<close>

text \<open>C12: A record that a consumer processes, run statement by statement in its session, is one transaction: at every
  point, and so after a crash at any point, the claim of the event and the effect of its handler are
  both committed or both absent.  A session that has ended normally has committed both, one that
  raised has committed neither.\<close>

theorem consumer_session_atomic:
  assumes "(session_step others)\<^sup>*\<^sup>*
      (open_session (process_session get_inbox put_inbox handlers event_id event_type data) db) s"
  shows "(others\<^sup>*\<^sup>* db (ss_committed s) \<or>
      (\<exists>db1 db2. others\<^sup>*\<^sup>* db db1 \<and> postgres_inbox_processor get_inbox put_inbox handlers event_id event_type data db1 = Inr db2 \<and>
         others\<^sup>*\<^sup>* db2 (ss_committed s))) \<and>
    (ss_prog s = Finish (Inr ()) \<longrightarrow>
      (\<exists>db1 db2. others\<^sup>*\<^sup>* db db1 \<and> postgres_inbox_processor get_inbox put_inbox handlers event_id event_type data db1 = Inr db2 \<and>
         others\<^sup>*\<^sup>* db2 (ss_committed s))) \<and>
    (\<forall>e. ss_prog s = Finish (Inl e) \<longrightarrow>
      (\<exists>db1. others\<^sup>*\<^sup>* db db1 \<and> postgres_inbox_processor get_inbox put_inbox handlers event_id event_type data db1 = Inl e \<and>
         others\<^sup>*\<^sup>* db1 (ss_committed s)))"
proof -
  let ?p = "process_session get_inbox put_inbox handlers event_id event_type data"
  let ?t = "postgres_inbox_processor get_inbox put_inbox handlers event_id event_type data"
  have no_read: "\<And>f. ?p \<noteq> Select f"
    by (simp add: process_session_def)
  have run: "run_prog ?p d None = (r, d') \<longleftrightarrow>
      (\<exists>e. r = Inl e \<and> ?t d = Inl e \<and> d' = d) \<or> (r = Inr () \<and> ?t d = Inr d')" for r d d'
    by (auto simp: process_session_run split: sum.splits)
  note outcome = session_outcome [OF assms process_session_one no_read]
  from outcome(1) have "others\<^sup>*\<^sup>* db (ss_committed s) \<or>
      (\<exists>db1 db2. others\<^sup>*\<^sup>* db db1 \<and> ?t db1 = Inr db2 \<and> others\<^sup>*\<^sup>* db2 (ss_committed s))"
    unfolding run by (meson rtranclp_trans)
  moreover have "\<exists>db1 db2. others\<^sup>*\<^sup>* db db1 \<and> ?t db1 = Inr db2 \<and> others\<^sup>*\<^sup>* db2 (ss_committed s)" if "ss_prog s = Finish (Inr ())"
    using outcome(2) [OF that] unfolding run by auto
  moreover have "\<exists>db1. others\<^sup>*\<^sup>* db db1 \<and> ?t db1 = Inl e \<and> others\<^sup>*\<^sup>* db1 (ss_committed s)" if "ss_prog s = Finish (Inl e)" for e
    using outcome(2) [OF that] unfolding run by auto
  ultimately show ?thesis
    by blast
qed

theorem consumer_session_atomic_witness:
  "\<exists>db1 db2. (\<lambda>_ _. False)\<^sup>*\<^sup>* sample_two db1 \<and>
    postgres_inbox_processor bdb_inbox (\<lambda>ib db. db\<lparr>bdb_inbox := ib\<rparr>) (payment_event_handlers (sample_env 31)) ''e1''
      ''payment_authorized'' sample_event db1 = Inr db2 \<and> (\<lambda>_ _. False)\<^sup>*\<^sup>* db2 sample_paid"
proof -
  let ?p = "process_session bdb_inbox (\<lambda>ib db. db\<lparr>bdb_inbox := ib\<rparr>) (payment_event_handlers (sample_env 31)) ''e1''
      ''payment_authorized'' sample_event"
  have "run_prog ?p sample_two None = (Inr (), sample_paid)"
    using sample_paid_run(1) by (simp add: process_session_run booking_process_def)
  then have "(session_step (\<lambda>_ _. False))\<^sup>*\<^sup>* (open_session ?p sample_two)
      \<lparr>ss_committed = sample_paid, ss_written = None, ss_prog = Finish (Inr ())\<rparr>"
    using run_prog_steps [of "\<lambda>_ _. False" sample_two None ?p] by (simp add: open_session_def)
  from consumer_session_atomic [OF this] show ?thesis
    by simp
qed

end
