(* ===== verification/Migration_Env.thy ===== *)
theory Migration_Env
  imports Migration_Properties Service_Apps "HOL-Library.AList"
begin

text \<open>
  The migration runners (\<^verbatim>\<open>services/*/migrations/env.py\<close>): the database URL of the settings is written into the
  Alembic configuration and read back, and the revisions that the database lacks are run in one
  transaction.  The configuration is a section of \<^verbatim>\<open>configparser\<close>, which takes \<^verbatim>\<open>%\<close> for the start of an
  interpolation.  Which revisions Alembic runs is the parameter \<open>plan\<close>; \<open>upgrades_to_head\<close> is its documented
  behaviour for \<^verbatim>\<open>alembic upgrade head\<close>, the command of every \<^verbatim>\<open>Dockerfile\<close>.  The databases are a map from URLs.
\<close>

section \<open>Configuration values\<close>

datatype env_exn =
    InvalidInterpolation
  | InterpolationSyntaxError
  | InterpolationMissingOption string
  | InterpolationDepth
  | DatabaseUnreachable string
  | MigrationFailed migration_exn

abbreviation percent :: char where
  "percent \<equiv> CHR ''%''"

text \<open>A match of \<^verbatim>\<open>%\([^)]+\)s\<close> at the start, with the name and what follows.\<close>

definition match_key :: "string \<Rightarrow> (string \<times> string) option" where
  "match_key s =
     (case s of
        a # b # t \<Rightarrow>
          if a = percent \<and> b = CHR ''('' then
            let name = takeWhile (\<lambda>c. c \<noteq> CHR '')'') t
            in case dropWhile (\<lambda>c. c \<noteq> CHR '')'') t of
                 _ # d # r \<Rightarrow> if name \<noteq> [] \<and> d = CHR ''s'' then Some (name, r) else None
               | _ \<Rightarrow> None
          else None
      | _ \<Rightarrow> None)"

lemma match_key_shorter: "match_key s = Some (name, r) \<Longrightarrow> length r < length s"
proof -
  assume "match_key s = Some (name, r)"
  then obtain a b t d where s: "s = a # b # t" and r: "dropWhile (\<lambda>c. c \<noteq> CHR '')'') t = a # d # r \<or> (\<exists>c. dropWhile (\<lambda>c. c \<noteq> CHR '')'') t = c # d # r)"
    by (auto simp: match_key_def Let_def split: list.splits if_splits)
  then have "length (dropWhile (\<lambda>c. c \<noteq> CHR '')'') t) = Suc (Suc (length r))"
    by auto
  with length_dropWhile_le [of "\<lambda>c. c \<noteq> CHR '')''" t] s show "length r < length s"
    by simp
qed

text \<open>\<^verbatim>\<open>value.replace("%%", "")\<close> and the removal of well-formed references, as \<^verbatim>\<open>ConfigParser.set\<close> does.\<close>

fun drop_pairs :: "string \<Rightarrow> string" where
  "drop_pairs (a # b # s) = (if a = percent \<and> b = percent then drop_pairs s else a # drop_pairs (b # s))"
| "drop_pairs s = s"

function drop_keys :: "string \<Rightarrow> string" where
  "drop_keys [] = []"
| "drop_keys (c # s) = (case match_key (c # s) of Some (_, r) \<Rightarrow> drop_keys r | None \<Rightarrow> c # drop_keys s)"
  by pat_completeness auto
termination by (relation "measure length") (auto dest: match_key_shorter)

definition set_main_option :: "string \<Rightarrow> string \<Rightarrow> (string \<times> string) list \<Rightarrow> env_exn + (string \<times> string) list" where
  "set_main_option name v section =
     (if percent \<in> set (drop_keys (drop_pairs v)) then Inl InvalidInterpolation else Inr (AList.update name v section))"

text \<open>Reading a value replaces \<^verbatim>\<open>%%\<close> by \<^verbatim>\<open>%\<close> and references by their values, to a depth of ten.\<close>

function interpolate :: "nat \<Rightarrow> (string \<times> string) list \<Rightarrow> string \<Rightarrow> env_exn + string" where
  "interpolate d section [] = Inr []"
| "interpolate d section (c # s) =
     (if c \<noteq> percent then bindE (interpolate d section s) (\<lambda>x. Inr (c # x))
      else case s of
          [] \<Rightarrow> Inl InterpolationSyntaxError
        | e # t \<Rightarrow>
            if e = percent then bindE (interpolate d section t) (\<lambda>x. Inr (percent # x))
            else if e = CHR ''('' then
              (case match_key (c # s) of
                 None \<Rightarrow> Inl InterpolationSyntaxError
               | Some (name, r) \<Rightarrow>
                   (case map_of section (map char_lower name) of
                      None \<Rightarrow> Inl (InterpolationMissingOption name)
                    | Some v \<Rightarrow>
                        bindE (if percent \<in> set v
                               then (case d of 0 \<Rightarrow> Inl InterpolationDepth | Suc d' \<Rightarrow> interpolate d' section v)
                               else Inr v)
                          (\<lambda>x. bindE (interpolate d section r) (\<lambda>y. Inr (x @ y)))))
            else Inl InterpolationSyntaxError)"
  by pat_completeness auto
termination
  by (relation "measures [fst, \<lambda>(_, _, s). length s]") (auto dest!: match_key_shorter)

definition get_main_option :: "string \<Rightarrow> (string \<times> string) list \<Rightarrow> env_exn + string" where
  "get_main_option name section =
     (case map_of section name of None \<Rightarrow> Inl (InterpolationMissingOption name) | Some v \<Rightarrow> interpolate 9 section v)"

text \<open>\<^verbatim>\<open>config.get_section\<close> reads every option of the section.\<close>

fun read_options :: "(string \<times> string) list \<Rightarrow> (string \<times> string) list \<Rightarrow> env_exn + (string \<times> string) list" where
  "read_options section [] = Inr []"
| "read_options section ((name, v) # xs) =
     bindE (interpolate 9 section v) (\<lambda>x. bindE (read_options section xs) (\<lambda>ys. Inr ((name, x) # ys)))"

definition get_section :: "(string \<times> string) list \<Rightarrow> env_exn + (string \<times> string) list" where
  "get_section section = read_options section section"

text \<open>\<open>here\<close> is the directory of the configuration file, an option that Alembic provides.\<close>

definition alembic_ini :: "string \<Rightarrow> (string \<times> string) list" where
  "alembic_ini here = [(''here'', here), (''script_location'', ''migrations'')]"

section \<open>Databases and revisions\<close>

record revision =
  rv_id :: string
  rv_upgrade :: "migration_op list"

record pg_database =
  db_schema :: pg_schema
  db_version :: "string option"

type_synonym pg_cluster = "string \<Rightarrow> pg_database option"
type_synonym upgrade_plan = "revision list \<Rightarrow> string option \<Rightarrow> revision list"

definition upgrades_to_head :: "upgrade_plan \<Rightarrow> bool" where
  "upgrades_to_head plan \<longleftrightarrow>
     (\<forall>rs. distinct (map rv_id rs) \<longrightarrow>
        plan rs None = rs \<and> (\<forall>i < length rs. plan rs (Some (rv_id (rs ! i))) = drop (Suc i) rs))"

text \<open>\<^verbatim>\<open>context.run_migrations()\<close>: the version is written in the transaction of the operations.\<close>

definition run_migrations :: "upgrade_plan \<Rightarrow> revision list \<Rightarrow> pg_database \<Rightarrow> migration_exn option \<times> pg_database" where
  "run_migrations plan revisions db =
     (let rs = plan revisions (db_version db)
      in case do_run_migrations (concat (map rv_upgrade rs)) (db_schema db) of
           (Some x, _) \<Rightarrow> (Some x, db)
         | (None, s) \<Rightarrow> (None, \<lparr>db_schema = s, db_version = (if rs = [] then db_version db else Some (rv_id (last rs)))\<rparr>))"

datatype env_result = SqlScript "migration_op list" | Migrated

text \<open>Offline mode prints the statements of every revision and connects to nothing.\<close>

definition run_migrations_offline ::
  "upgrade_plan \<Rightarrow> revision list \<Rightarrow> (string \<times> string) list \<Rightarrow> env_exn + env_result" where
  "run_migrations_offline plan revisions config =
     bindE (get_main_option ''sqlalchemy.url'' config) (\<lambda>url. Inr (SqlScript (concat (map rv_upgrade (plan revisions None)))))"

definition run_migrations_online ::
  "upgrade_plan \<Rightarrow> revision list \<Rightarrow> (string \<times> string) list \<Rightarrow> pg_cluster \<Rightarrow> (env_exn + env_result) \<times> pg_cluster" where
  "run_migrations_online plan revisions config cluster =
     (case bindE (get_section config)
             (\<lambda>section. case map_of section ''sqlalchemy.url'' of
                None \<Rightarrow> Inl (InterpolationMissingOption ''sqlalchemy.url'')
              | Some url \<Rightarrow> Inr url) of
        Inl x \<Rightarrow> (Inl x, cluster)
      | Inr url \<Rightarrow>
          (case cluster url of
             None \<Rightarrow> (Inl (DatabaseUnreachable url), cluster)
           | Some db \<Rightarrow>
               (case run_migrations plan revisions db of
                  (Some x, db') \<Rightarrow> (Inl (MigrationFailed x), cluster(url \<mapsto> db'))
                | (None, db') \<Rightarrow> (Inr Migrated, cluster(url \<mapsto> db')))))"

section \<open>The six environments\<close>

record migration_env =
  me_database_url :: string
  me_revisions :: "revision list"

text \<open>The module body of \<^verbatim>\<open>env.py\<close>.\<close>

definition env_main ::
  "upgrade_plan \<Rightarrow> string \<Rightarrow> bool \<Rightarrow> migration_env \<Rightarrow> pg_cluster \<Rightarrow> (env_exn + env_result) \<times> pg_cluster" where
  "env_main plan here offline e cluster =
     (case set_main_option ''sqlalchemy.url'' (me_database_url e) (alembic_ini here) of
        Inl x \<Rightarrow> (Inl x, cluster)
      | Inr config \<Rightarrow>
          if offline then (run_migrations_offline plan (me_revisions e) config, cluster)
          else run_migrations_online plan (me_revisions e) config cluster)"

definition booking_env :: "booking_settings \<Rightarrow> migration_env" where
  "booking_env settings =
     \<lparr>me_database_url = ds_database_url settings, me_revisions = [\<lparr>rv_id = ''0001'', rv_upgrade = booking_upgrade\<rparr>]\<rparr>"

definition listing_env :: "jwt_service_settings \<Rightarrow> migration_env" where
  "listing_env settings =
     \<lparr>me_database_url = ds_database_url settings,
      me_revisions = [\<lparr>rv_id = ''0001'', rv_upgrade = listing_upgrade\<rparr>, \<lparr>rv_id = ''0002'', rv_upgrade = location_upgrade\<rparr>]\<rparr>"

definition payment_env :: "payment_settings \<Rightarrow> migration_env" where
  "payment_env settings =
     \<lparr>me_database_url = ds_database_url settings, me_revisions = [\<lparr>rv_id = ''0001'', rv_upgrade = payment_upgrade\<rparr>]\<rparr>"

definition auth_env :: "auth_settings \<Rightarrow> migration_env" where
  "auth_env settings =
     \<lparr>me_database_url = ds_database_url settings, me_revisions = [\<lparr>rv_id = ''0001'', rv_upgrade = auth_upgrade\<rparr>]\<rparr>"

definition admin_env :: "admin_settings \<Rightarrow> migration_env" where
  "admin_env settings =
     \<lparr>me_database_url = ds_database_url settings, me_revisions = [\<lparr>rv_id = ''0001'', rv_upgrade = admin_upgrade\<rparr>]\<rparr>"

definition notification_env :: "notification_settings \<Rightarrow> migration_env" where
  "notification_env settings =
     \<lparr>me_database_url = ds_database_url settings, me_revisions = [\<lparr>rv_id = ''0001'', rv_upgrade = notification_upgrade\<rparr>]\<rparr>"

text \<open>The modules, each with the settings and revisions of its service.\<close>

definition booking_migrations ::
  "upgrade_plan \<Rightarrow> string \<Rightarrow> bool \<Rightarrow> booking_settings \<Rightarrow> pg_cluster \<Rightarrow> (env_exn + env_result) \<times> pg_cluster" where
  "booking_migrations plan here offline settings cluster = env_main plan here offline (booking_env settings) cluster"

definition listing_migrations ::
  "upgrade_plan \<Rightarrow> string \<Rightarrow> bool \<Rightarrow> jwt_service_settings \<Rightarrow> pg_cluster \<Rightarrow> (env_exn + env_result) \<times> pg_cluster" where
  "listing_migrations plan here offline settings cluster = env_main plan here offline (listing_env settings) cluster"

definition payment_migrations ::
  "upgrade_plan \<Rightarrow> string \<Rightarrow> bool \<Rightarrow> payment_settings \<Rightarrow> pg_cluster \<Rightarrow> (env_exn + env_result) \<times> pg_cluster" where
  "payment_migrations plan here offline settings cluster = env_main plan here offline (payment_env settings) cluster"

definition auth_migrations ::
  "upgrade_plan \<Rightarrow> string \<Rightarrow> bool \<Rightarrow> auth_settings \<Rightarrow> pg_cluster \<Rightarrow> (env_exn + env_result) \<times> pg_cluster" where
  "auth_migrations plan here offline settings cluster = env_main plan here offline (auth_env settings) cluster"

definition admin_migrations ::
  "upgrade_plan \<Rightarrow> string \<Rightarrow> bool \<Rightarrow> admin_settings \<Rightarrow> pg_cluster \<Rightarrow> (env_exn + env_result) \<times> pg_cluster" where
  "admin_migrations plan here offline settings cluster = env_main plan here offline (admin_env settings) cluster"

definition notification_migrations ::
  "upgrade_plan \<Rightarrow> string \<Rightarrow> bool \<Rightarrow> notification_settings \<Rightarrow> pg_cluster \<Rightarrow> (env_exn + env_result) \<times> pg_cluster" where
  "notification_migrations plan here offline settings cluster = env_main plan here offline (notification_env settings) cluster"

end
