(* ===== verification/Migration_Env_Properties.thy ===== *)
theory Migration_Env_Properties
  imports Migration_Env
begin

text \<open>
  Properties of the migration runners: starting the services in any order, any number of times,
  brings every database to its head revision, and a database URL with a percent-encoded character
  cannot be migrated.
\<close>

section \<open>URLs and configuration values\<close>

definition url_hex :: "char \<Rightarrow> bool" where
  "url_hex c \<longleftrightarrow> c \<in> set ''0123456789abcdefABCDEF''"

lemma url_hex_simps [simp]: "\<not> url_hex percent" "\<not> url_hex (CHR ''('')"
  by (simp_all add: url_hex_def)

fun percent_encoded :: "string \<Rightarrow> bool" where
  "percent_encoded [] = True"
| "percent_encoded (c # s) \<longleftrightarrow>
     (c = percent \<longrightarrow> (case s of [] \<Rightarrow> False | d # _ \<Rightarrow> url_hex d)) \<and> percent_encoded s"

lemma no_percent_encoded: "percent \<notin> set s \<Longrightarrow> percent_encoded s"
  by (induction s) auto

lemma percent_encoded_match:
  assumes "percent_encoded s"
  shows "match_key s = None"
proof (cases "\<exists>t. s = percent # CHR ''('' # t")
  case True
  with assms show ?thesis
    by auto
next
  case False
  then show ?thesis
    by (simp add: match_key_def split: list.split)
qed

lemma percent_encoded_keys: "percent_encoded s \<Longrightarrow> drop_keys s = s"
proof (induction s)
  case (Cons c s)
  with percent_encoded_match [OF Cons.prems] show ?case
    by simp
qed simp

lemma percent_encoded_pairs: "percent_encoded s \<Longrightarrow> drop_pairs s = s"
proof (induction s rule: drop_pairs.induct)
  case (1 a b s)
  then have no_pair: "\<not> (a = percent \<and> b = percent)" and rest: "percent_encoded (b # s)"
    by auto
  from 1(2) [OF this] no_pair show ?case
    by (simp only: drop_pairs.simps if_False)
qed simp_all

lemma interpolate_plain: "percent \<notin> set s \<Longrightarrow> interpolate d section s = Inr s"
  by (induction s) auto

lemma set_url:
  "percent_encoded url \<Longrightarrow>
   set_main_option ''sqlalchemy.url'' url (alembic_ini here) =
     (if percent \<in> set url then Inl InvalidInterpolation
      else Inr [(''here'', here), (''script_location'', ''migrations''), (''sqlalchemy.url'', url)])"
  by (simp add: set_main_option_def percent_encoded_keys percent_encoded_pairs alembic_ini_def)

lemma env_main_online:
  assumes "percent \<notin> set here" "percent \<notin> set (me_database_url e)" "cluster (me_database_url e) = Some db"
    "run_migrations plan (me_revisions e) db = (None, db')"
  shows "env_main plan here False e cluster = (Inr Migrated, cluster(me_database_url e \<mapsto> db'))"
  using assms
  by (simp add: env_main_def set_url [OF no_percent_encoded] run_migrations_online_def get_section_def interpolate_plain)

text \<open>The runner touches the database of its URL only.\<close>

lemma env_main_elsewhere:
  assumes "percent_encoded (me_database_url e)" "percent \<notin> set here" "url \<noteq> me_database_url e"
  shows "snd (env_main plan here offline e cluster) url = cluster url"
  using assms
  by (auto simp: env_main_def set_url run_migrations_online_def get_section_def interpolate_plain split: option.splits prod.splits)

section \<open>Starting the services\<close>

definition default_envs :: "migration_env list" where
  "default_envs =
     [auth_env AuthSettings, listing_env ListingSettings, booking_env BookingSettings, payment_env PaymentSettings,
      admin_env AdminSettings, notification_env NotificationSettings]"

text \<open>Every container runs the migrations of its service before the server; \<open>es\<close> are the starts in their order.\<close>

fun start_all ::
  "upgrade_plan \<Rightarrow> string \<Rightarrow> migration_env list \<Rightarrow> pg_cluster \<Rightarrow> (env_exn + env_result) list \<times> pg_cluster" where
  "start_all plan here [] cluster = ([], cluster)"
| "start_all plan here (e # es) cluster =
     (let (r, cluster') = env_main plan here False e cluster; (rs, cluster'') = start_all plan here es cluster'
      in (r # rs, cluster''))"

definition fresh_database :: pg_database where
  "fresh_database = \<lparr>db_schema = empty_schema, db_version = None\<rparr>"

text \<open>The database of a service after all of its revisions.\<close>

definition head_database :: "migration_env \<Rightarrow> pg_database" where
  "head_database e =
     \<lparr>db_schema = snd (do_run_migrations (concat (map rv_upgrade (me_revisions e))) empty_schema),
      db_version = Some (rv_id (last (me_revisions e)))\<rparr>"

lemmas env_defs = auth_env_def listing_env_def booking_env_def payment_env_def admin_env_def notification_env_def

lemmas default_settings = AuthSettings_def ListingSettings_def BookingSettings_def PaymentSettings_def AdminSettings_def
  NotificationSettings_def

lemma default_envs_revisions:
  "e \<in> set default_envs \<Longrightarrow> distinct (map rv_id (me_revisions e)) \<and> me_revisions e \<noteq> []"
  by (auto simp: default_envs_def env_defs)

lemma default_envs_url: "e \<in> set default_envs \<Longrightarrow> percent \<notin> set (me_database_url e)"
  by (auto simp: default_envs_def env_defs default_settings)

lemma default_urls_distinct: "distinct (map me_database_url default_envs)"
  by (simp add: default_envs_def env_defs default_settings)

lemma default_url_inj:
  "e \<in> set default_envs \<Longrightarrow> e' \<in> set default_envs \<Longrightarrow> me_database_url e = me_database_url e' \<longleftrightarrow> e = e'"
  using default_urls_distinct by (auto simp: distinct_map inj_on_def)

lemma default_envs_run:
  assumes "e \<in> set default_envs"
  shows "fst (do_run_migrations (concat (map rv_upgrade (me_revisions e))) empty_schema) = None"
proof -
  have "list_all (\<lambda>e. fst (do_run_migrations (concat (map rv_upgrade (me_revisions e))) empty_schema) = None) default_envs"
    by (simp add: default_envs_def env_defs do_run_migrations_def migration_defs table_defs column_defs empty_schema_def
        find_table_def table_references_def find_row_def change_table_def List.map_filter_simps column_names_def)
  with assms show ?thesis
    by (simp add: list_all_iff)
qed

lemma run_migrations_head:
  assumes "upgrades_to_head plan" "e \<in> set default_envs" "db = fresh_database \<or> db = head_database e"
  shows "run_migrations plan (me_revisions e) db = (None, head_database e)"
proof -
  let ?rs = "me_revisions e"
  have rs: "distinct (map rv_id ?rs)" "?rs \<noteq> []"
    using default_envs_revisions [OF assms(2)] by auto
  from rs have l: "last ?rs = ?rs ! (length ?rs - 1)" "length ?rs - 1 < length ?rs"
    by (simp_all add: last_conv_nth)
  with assms(1) rs have plan: "plan ?rs None = ?rs" "plan ?rs (Some (rv_id (last ?rs))) = []"
    unfolding upgrades_to_head_def by auto
  show ?thesis
  proof (cases "db = fresh_database")
    case True
    with plan default_envs_run [OF assms(2)] rs show ?thesis
      by (cases "do_run_migrations (concat (map rv_upgrade ?rs)) empty_schema")
        (simp add: run_migrations_def fresh_database_def head_database_def)
  next
    case False
    with assms(3) plan show ?thesis
      by (simp add: run_migrations_def head_database_def do_run_migrations_def)
  qed
qed

lemma start_all_head:
  assumes "upgrades_to_head plan" "percent \<notin> set here" "set es \<subseteq> set default_envs"
    "\<forall>e \<in> set default_envs. cluster (me_database_url e) \<in> {Some fresh_database, Some (head_database e)}"
  shows "start_all plan here es cluster =
    (replicate (length es) (Inr Migrated),
     \<lambda>url. case find_row me_database_url url es of None \<Rightarrow> cluster url | Some e \<Rightarrow> Some (head_database e))"
  using assms(3,4)
proof (induction es arbitrary: cluster)
  case (Cons e es)
  let ?c = "cluster(me_database_url e \<mapsto> head_database e)"
  from Cons.prems obtain db where db: "cluster (me_database_url e) = Some db" "db = fresh_database \<or> db = head_database e"
    and e: "e \<in> set default_envs"
    by auto
  have main: "env_main plan here False e cluster = (Inr Migrated, ?c)"
    by (rule env_main_online [where cluster = cluster,
          OF assms(2) default_envs_url [OF e] db(1) run_migrations_head [OF assms(1) e db(2)]])
  have "\<forall>e' \<in> set default_envs. ?c (me_database_url e') \<in> {Some fresh_database, Some (head_database e')}"
    using Cons.prems(2) default_url_inj [OF _ e] by auto
  with Cons have "start_all plan here es ?c =
    (replicate (length es) (Inr Migrated),
     \<lambda>url. case find_row me_database_url url es of None \<Rightarrow> ?c url | Some e \<Rightarrow> Some (head_database e))"
    by simp
  moreover have "find_row me_database_url (me_database_url e) es = Some e' \<Longrightarrow> e' = e" for e'
    using Cons.prems(1) default_url_inj [OF _ e] by (auto simp: find_row_def find_Some_iff subset_iff)
  ultimately show ?case
    by (auto simp: main find_row_def fun_eq_iff split: option.splits)
qed (simp add: find_row_def)

section \<open>Properties\<close>

text \<open>C37: With the default settings, when the databases are new, the services can be started in any order and any
  number of times: every start migrates successfully, the database of every service that was started
  ends at the last of its revisions, with the tables of all of them, and no start touches the database
  of another service.\<close>

theorem restarts_migrate_once:
  assumes "upgrades_to_head plan" "percent \<notin> set here" "set es \<subseteq> set default_envs"
    "\<forall>e \<in> set default_envs. cluster (me_database_url e) = Some fresh_database"
  shows "list_all (\<lambda>r. r = Inr Migrated) (fst (start_all plan here es cluster)) \<and>
    (\<forall>e \<in> set es. snd (start_all plan here es cluster) (me_database_url e) = Some (head_database e)) \<and>
    (\<forall>url. url \<notin> me_database_url ` set es \<longrightarrow> snd (start_all plan here es cluster) url = cluster url)"
proof -
  have start: "start_all plan here es cluster =
    (replicate (length es) (Inr Migrated),
     \<lambda>url. case find_row me_database_url url es of None \<Rightarrow> cluster url | Some e \<Rightarrow> Some (head_database e))"
    using assms by (intro start_all_head) auto
  have "find_row me_database_url (me_database_url e) es = Some e" if "e \<in> set es" for e
  proof (cases "find_row me_database_url (me_database_url e) es")
    case None
    with that show ?thesis
      by (auto simp: find_row_def find_None_iff)
  next
    case (Some e')
    with that assms(3) default_url_inj [of e' e] show ?thesis
      by (auto simp: find_row_def find_Some_iff subset_iff)
  qed
  moreover have "find_row me_database_url url es = None" if "url \<notin> me_database_url ` set es" for url
    using that by (auto simp: find_row_def find_None_iff)
  ultimately show ?thesis
    by (simp add: start list_all_iff)
qed

text \<open>The revisions after the current one, as Alembic orders a chain.\<close>

definition chain_plan :: upgrade_plan where
  "chain_plan rs v = (case v of None \<Rightarrow> rs | Some i \<Rightarrow> tl (dropWhile (\<lambda>r. rv_id r \<noteq> i) rs))"

lemma dropWhile_nth:
  "distinct (map f xs) \<Longrightarrow> i < length xs \<Longrightarrow> dropWhile (\<lambda>x. f x \<noteq> f (xs ! i)) xs = drop i xs"
proof (induction xs arbitrary: i)
  case (Cons x xs)
  show ?case
  proof (cases i)
    case (Suc j)
    with Cons.prems have "f x \<noteq> f (xs ! j)"
      by auto
    with Cons Suc show ?thesis
      by simp
  qed simp
qed simp

lemma chain_plan_upgrades: "upgrades_to_head chain_plan"
  by (simp add: upgrades_to_head_def chain_plan_def dropWhile_nth tl_drop drop_Suc)

definition new_cluster :: pg_cluster where
  "new_cluster url = (if url \<in> me_database_url ` set default_envs then Some fresh_database else None)"

theorem restarts_migrate_once_witness:
  "list_all (\<lambda>r. r = Inr Migrated)
    (fst (start_all chain_plan ''/app/services''
      [listing_env ListingSettings, booking_env BookingSettings, listing_env ListingSettings] new_cluster))"
  using restarts_migrate_once [OF chain_plan_upgrades, of "''/app/services''"
      "[listing_env ListingSettings, booking_env BookingSettings, listing_env ListingSettings]" new_cluster]
  by (simp add: default_envs_def new_cluster_def)

text \<open>C38: A database URL in which a character is percent-encoded, as a password with a special character has to be,
  cannot be migrated: writing it to the Alembic configuration fails, in both modes and before any
  database is reached.  Any URL without a percent sign is read back from the configuration as it is.\<close>

theorem encoded_url_never_migrates:
  assumes "percent_encoded (me_database_url e)"
  shows "bindE (set_main_option ''sqlalchemy.url'' (me_database_url e) (alembic_ini here)) (get_main_option ''sqlalchemy.url'') =
      (if percent \<in> set (me_database_url e) then Inl InvalidInterpolation else Inr (me_database_url e)) \<and>
    (percent \<in> set (me_database_url e) \<longrightarrow> env_main plan here offline e cluster = (Inl InvalidInterpolation, cluster))"
  using assms by (simp add: set_url get_main_option_def interpolate_plain env_main_def)

definition encoded_password_env :: migration_env where
  "encoded_password_env = booking_env (BookingSettings\<lparr>ds_database_url := ''postgresql+asyncpg://carflow:p%40ss@db:5432/booking''\<rparr>)"

theorem encoded_url_never_migrates_witness:
  "env_main chain_plan ''/app'' False encoded_password_env new_cluster = (Inl InvalidInterpolation, new_cluster)"
  using encoded_url_never_migrates [of encoded_password_env "''/app''" chain_plan False new_cluster]
  by (simp add: encoded_password_env_def booking_env_def BookingSettings_def url_hex_def)

end
