(* ===== verification/Wiring.thy ===== *)
theory Wiring
  imports Session_Properties Migration_Env_Properties
begin

text \<open>
  What each \<^verbatim>\<open>create_app\<close> makes of its settings before the application runs: the session factory on its
  database, the token settings, the caller's identity that scopes idempotency keys, and the addresses
  of the services it calls.  The sessions of a service are on the database that its migrations
  prepare and, with the default settings, on no other service's.
\<close>

section \<open>Wirings\<close>

text \<open>\<open>wi_consumer_id\<close> is the second argument of \<^verbatim>\<open>idempotency_guard_dependency\<close>, where the service has a guard.\<close>

record wiring =
  wi_factory :: session_factory
  wi_jwt :: "jwt_settings option"
  wi_consumer_id :: "(string option \<Rightarrow> string) option"
  wi_upstreams :: "(string \<times> string) list"

type_synonym jwt_decoder = "string \<Rightarrow> string \<Rightarrow> string list \<Rightarrow> string \<Rightarrow> dict option"

definition session_factory_of :: "'a database_settings_scheme \<Rightarrow> session_factory" where
  "session_factory_of settings = create_session_factory (create_engine (ds_database_url settings))"

definition jwt_of :: "jwt_decoder \<Rightarrow> 'a jwt_service_settings_scheme \<Rightarrow> jwt_settings" where
  "jwt_of decode settings = \<lparr>jw_decode = decode, jw_secret = js_jwt_secret settings, jw_issuer = js_jwt_issuer settings\<rparr>"

text \<open>The registration of the auth service has no caller yet.\<close>

definition auth_wiring :: "jwt_decoder \<Rightarrow> auth_settings \<Rightarrow> wiring" where
  "auth_wiring decode settings =
     \<lparr>wi_factory = session_factory_of settings, wi_jwt = Some (jwt_of decode settings),
      wi_consumer_id = Some (\<lambda>_. ''''), wi_upstreams = []\<rparr>"

definition listing_wiring :: "jwt_decoder \<Rightarrow> jwt_service_settings \<Rightarrow> wiring" where
  "listing_wiring decode settings =
     \<lparr>wi_factory = session_factory_of settings, wi_jwt = Some (jwt_of decode settings),
      wi_consumer_id = Some (consumer_id_resolver (jwt_of decode settings)), wi_upstreams = []\<rparr>"

definition booking_wiring :: "jwt_decoder \<Rightarrow> booking_settings \<Rightarrow> wiring" where
  "booking_wiring decode settings =
     \<lparr>wi_factory = session_factory_of settings, wi_jwt = Some (jwt_of decode settings),
      wi_consumer_id = Some (consumer_id_resolver (jwt_of decode settings)),
      wi_upstreams = [(''ListingClient'', bs_listing_base_url settings)]\<rparr>"

definition payment_wiring :: "jwt_decoder \<Rightarrow> payment_settings \<Rightarrow> wiring" where
  "payment_wiring decode settings =
     \<lparr>wi_factory = session_factory_of settings, wi_jwt = Some (jwt_of decode settings), wi_consumer_id = None, wi_upstreams = []\<rparr>"

definition admin_wiring :: "jwt_decoder \<Rightarrow> admin_settings \<Rightarrow> wiring" where
  "admin_wiring decode settings =
     \<lparr>wi_factory = session_factory_of settings, wi_jwt = Some (jwt_of decode settings),
      wi_consumer_id = Some (consumer_id_resolver (jwt_of decode settings)),
      wi_upstreams = [(''ListingClient'', xs_listing_base_url settings), (''BookingClient'', xs_booking_base_url settings)]\<rparr>"

definition notification_wiring :: "notification_settings \<Rightarrow> wiring" where
  "notification_wiring settings =
     \<lparr>wi_factory = session_factory_of settings, wi_jwt = None, wi_consumer_id = None, wi_upstreams = []\<rparr>"

definition default_wirings :: "jwt_decoder \<Rightarrow> wiring list" where
  "default_wirings decode =
     [auth_wiring decode AuthSettings, listing_wiring decode ListingSettings, booking_wiring decode BookingSettings,
      payment_wiring decode PaymentSettings, admin_wiring decode AdminSettings, notification_wiring NotificationSettings]"

section \<open>Databases\<close>

definition database_of :: "wiring \<Rightarrow> string" where
  "database_of w = en_url (sf_engine (wi_factory w))"

lemmas wiring_defs = auth_wiring_def listing_wiring_def booking_wiring_def payment_wiring_def admin_wiring_def
  notification_wiring_def session_factory_of_def create_session_factory_def create_engine_def

text \<open>For all settings, the migrations of a service run on the database of its sessions.\<close>

lemma migrated_database_used:
  "me_database_url (auth_env a) = database_of (auth_wiring decode a)"
  "me_database_url (listing_env l) = database_of (listing_wiring decode l)"
  "me_database_url (booking_env b) = database_of (booking_wiring decode b)"
  "me_database_url (payment_env p) = database_of (payment_wiring decode p)"
  "me_database_url (admin_env x) = database_of (admin_wiring decode x)"
  "me_database_url (notification_env n) = database_of (notification_wiring n)"
  by (simp_all add: database_of_def wiring_defs env_defs)

lemma default_databases: "map database_of (default_wirings decode) = map me_database_url default_envs"
  by (simp add: default_wirings_def default_envs_def migrated_database_used(1-5) [where decode = decode] migrated_database_used(6))

lemmas migrations_defs = auth_migrations_def listing_migrations_def booking_migrations_def payment_migrations_def
  admin_migrations_def notification_migrations_def

text \<open>
  Unless its URL holds a \<^verbatim>\<open>%\<close> that is not a percent-encoding, the migrations of a service change no database but
  the one of its sessions.
\<close>

lemma migrations_stay_home:
  assumes "percent \<notin> set here"
  shows "percent_encoded (ds_database_url a) \<Longrightarrow> url \<noteq> database_of (auth_wiring decode a) \<Longrightarrow>
      snd (auth_migrations plan here offline a cluster) url = cluster url"
    "percent_encoded (ds_database_url l) \<Longrightarrow> url \<noteq> database_of (listing_wiring decode l) \<Longrightarrow>
      snd (listing_migrations plan here offline l cluster) url = cluster url"
    "percent_encoded (ds_database_url b) \<Longrightarrow> url \<noteq> database_of (booking_wiring decode b) \<Longrightarrow>
      snd (booking_migrations plan here offline b cluster) url = cluster url"
    "percent_encoded (ds_database_url p) \<Longrightarrow> url \<noteq> database_of (payment_wiring decode p) \<Longrightarrow>
      snd (payment_migrations plan here offline p cluster) url = cluster url"
    "percent_encoded (ds_database_url x) \<Longrightarrow> url \<noteq> database_of (admin_wiring decode x) \<Longrightarrow>
      snd (admin_migrations plan here offline x cluster) url = cluster url"
    "percent_encoded (ds_database_url n) \<Longrightarrow> url \<noteq> database_of (notification_wiring n) \<Longrightarrow>
      snd (notification_migrations plan here offline n cluster) url = cluster url"
  by (simp_all add: migrations_defs env_main_elsewhere [OF _ assms] database_of_def wiring_defs env_defs)

text \<open>With the default settings no session of a service reaches the database of another one.\<close>

lemma databases_private:
  assumes "i < length (default_wirings decode)" "j < length (default_wirings decode)" "i \<noteq> j"
    and "session_dependency (wi_factory (default_wirings decode ! i)) connection_error p cluster = (r, cluster')"
  shows "cluster' (database_of (default_wirings decode ! j)) = cluster (database_of (default_wirings decode ! j))"
proof -
  have "distinct (map database_of (default_wirings decode))"
    using default_urls_distinct by (simp add: default_databases)
  with assms(1-3) have "database_of (default_wirings decode ! j) \<noteq> database_of (default_wirings decode ! i)"
    by (simp add: distinct_conv_nth)
  then show ?thesis
    using assms(4)
    by (auto simp: session_dependency_def database_of_def Let_def map_prod_def split: option.splits prod.splits)
qed

text \<open>With the default settings every service that checks tokens checks them the same way.\<close>

lemma default_tokens_shared:
  "w \<in> set (default_wirings decode) \<Longrightarrow> wi_jwt w = Some st \<Longrightarrow> st = jwt_of decode AuthSettings"
  by (auto simp: default_wirings_def wiring_defs jwt_of_def default_settings)

end
